(* ===== verification/Prelude.thy ===== *)
theory Prelude
  imports Main "HOL-Library.Word" "HOL-Library.Sublist"
begin

text \<open>
  The part of the library every component shares: the names of Go's integer types, error
  results, the functions of Go's packages \<open>strings\<close>, \<open>strconv\<close> and \<open>encoding/binary\<close> the
  sources call, and the lemmas and fact collections the component theories rely on.
\<close>

unbundle bit_operations_syntax

section \<open>Types\<close>

text \<open>Go integers keep their width; a Go string is its list of bytes (\<open>len\<close> is \<open>length\<close>).\<close>

type_synonym byte = "8 word"
type_synonym i16 = "16 word"
type_synonym i32 = "32 word"
type_synonym i64 = "64 word"
type_synonym u16 = "16 word"
type_synonym u32 = "32 word"
type_synonym u64 = "64 word"

text \<open>
  Error results: \<open>Msg\<close> is an error made by \<open>errors.New\<close> or \<open>fmt.Errorf\<close>, \<open>NotExist\<close> and
  \<open>Exist\<close> are the classes \<open>errors.Is\<close> tests, \<open>OsErr\<close> any other error of a library call, and
  \<open>Panic\<close> a run-time panic of the Go program.
\<close>

datatype gerr = Msg string | NotExist | Exist | OsErr string | Panic string

type_synonym 'a result = "gerr + 'a"

definition is_ok :: "'a result \<Rightarrow> bool" where
  "is_ok r \<longleftrightarrow> (case r of Inl _ \<Rightarrow> False | Inr _ \<Rightarrow> True)"

lemma is_ok_simps [simp]: "is_ok (Inr x)" "\<not> is_ok (Inl e)"
  by (simp_all add: is_ok_def)

lemma is_ok_iff: "is_ok r \<longleftrightarrow> (\<exists>x. r = Inr x)"
  by (cases r) auto

text \<open>The text of an error, and an error wrapped in a new one. A panic is no value the code can
  wrap or retry: it passes through.\<close>

fun error_text :: "gerr \<Rightarrow> string" where
  "error_text (Msg s) = s"
| "error_text NotExist = ''file does not exist''"
| "error_text Exist = ''file already exists''"
| "error_text (OsErr s) = s"
| "error_text (Panic s) = s"

fun is_panic :: "gerr \<Rightarrow> bool" where
  "is_panic (Panic s) = True"
| "is_panic e = False"

definition wrap :: "string \<Rightarrow> gerr \<Rightarrow> gerr" where
  "wrap pre e = (if is_panic e then e else Msg (pre @ error_text e))"

text \<open>Running one step after another, as \<open>if err != nil return\<close> does.\<close>

definition rbind :: "'a result \<Rightarrow> ('a \<Rightarrow> 'b result) \<Rightarrow> 'b result" where
  "rbind r f = (case r of Inl e \<Rightarrow> Inl e | Inr x \<Rightarrow> f x)"

definition need :: "string \<Rightarrow> 'a option \<Rightarrow> 'a result" where
  "need msg x = (case x of None \<Rightarrow> Inl (Msg msg) | Some y \<Rightarrow> Inr y)"

lemma rbind_simps [simp]: "rbind (Inl e) f = Inl e" "rbind (Inr x) f = f x"
  by (simp_all add: rbind_def)

lemma rbind_Inr_iff: "rbind r f = Inr y \<longleftrightarrow> (\<exists>x. r = Inr x \<and> f x = Inr y)"
  by (cases r) simp_all

text \<open>The same for a step that changes a state and may fail.\<close>

definition then_do :: "gerr option \<times> 'w \<Rightarrow> ('w \<Rightarrow> gerr option \<times> 'v) \<Rightarrow> ('w \<Rightarrow> 'v) \<Rightarrow> gerr option \<times> 'v" where
  "then_do r f stop = (case r of (Some e, w) \<Rightarrow> (Some e, stop w) | (None, w) \<Rightarrow> f w)"

lemma then_do_simps [simp]:
  "then_do (Some e, w) f stop = (Some e, stop w)" "then_do (None, w) f stop = f w"
  by (simp_all add: then_do_def)

lemma need_simps [simp]: "need msg None = Inl (Msg msg)" "need msg (Some x) = Inr x"
  by (simp_all add: need_def)

section \<open>Fact collections\<close>

named_theorems inv_simps \<open>operations of the inventory\<close>
named_theorems path_simps \<open>file names and paths\<close>

section \<open>Package strings\<close>

definition has_prefix :: "string \<Rightarrow> string \<Rightarrow> bool" where
  "has_prefix s p \<longleftrightarrow> take (length p) s = p"

definition trim_prefix :: "string \<Rightarrow> string \<Rightarrow> string" where
  "trim_prefix s p = (if has_prefix s p then drop (length p) s else s)"

fun contains_str :: "string \<Rightarrow> string \<Rightarrow> bool" where
  "contains_str [] p \<longleftrightarrow> p = []"
| "contains_str (c # s) p \<longleftrightarrow> has_prefix (c # s) p \<or> contains_str s p"

text \<open>\<open>strings.Split\<close> on a one-byte separator.\<close>

fun split_on :: "char \<Rightarrow> string \<Rightarrow> string list" where
  "split_on c [] = [[]]"
| "split_on c (x # xs) =
     (if x = c then [] # split_on c xs
      else (case split_on c xs of [] \<Rightarrow> [[x]] | y # ys \<Rightarrow> (x # y) # ys))"

text \<open>\<open>strings.SplitN\<close> with a limit \<open>n > 0\<close>: at most \<open>n\<close> pieces, the last one unsplit.\<close>

fun split_n :: "nat \<Rightarrow> char \<Rightarrow> string \<Rightarrow> string list" where
  "split_n 0 c s = []"
| "split_n (Suc 0) c s = [s]"
| "split_n (Suc (Suc n)) c s =
     (case dropWhile (\<lambda>x. x \<noteq> c) s of
        [] \<Rightarrow> [s]
      | _ # rest \<Rightarrow> takeWhile (\<lambda>x. x \<noteq> c) s # split_n (Suc n) c rest)"

lemma has_prefix_append [simp]: "has_prefix (p @ s) p"
  by (simp add: has_prefix_def)

lemma has_prefix_iff: "has_prefix s p \<longleftrightarrow> (\<exists>r. s = p @ r)"
  unfolding has_prefix_def by (metis append_eq_conv_conj append_take_drop_id)

lemma has_prefix_Nil [simp]: "has_prefix s []"
  by (simp add: has_prefix_def)

lemma trim_prefix_append [simp]: "trim_prefix (p @ s) p = s"
  by (simp add: trim_prefix_def)

lemma append_eq_Cons_split:
  "(\<exists>u v. c # s = u @ p @ v) \<longleftrightarrow> (\<exists>v. c # s = p @ v) \<or> (\<exists>u v. s = u @ p @ v)"
proof
  assume "\<exists>u v. c # s = u @ p @ v"
  then obtain u v where "c # s = u @ p @ v" by blast
  then show "(\<exists>v. c # s = p @ v) \<or> (\<exists>u v. s = u @ p @ v)"
    by (cases u) auto
next
  assume "(\<exists>v. c # s = p @ v) \<or> (\<exists>u v. s = u @ p @ v)"
  then show "\<exists>u v. c # s = u @ p @ v"
    by (metis append_Cons append_Nil)
qed

lemma contains_str_iff: "contains_str s p \<longleftrightarrow> (\<exists>u v. s = u @ p @ v)"
proof (induction s)
  case Nil
  then show ?case by auto
next
  case (Cons c s)
  show ?case
    by (simp only: contains_str.simps Cons.IH append_eq_Cons_split has_prefix_iff)
qed

lemma contains_str_Nil [simp]: "contains_str s []"
  by (cases s) simp_all

lemma split_on_nonempty [simp]: "split_on c s \<noteq> []"
  by (induction s) (auto split: list.splits)

lemma split_on_free: "seg \<in> set (split_on c s) \<Longrightarrow> c \<notin> set seg"
  by (induction s arbitrary: seg) (auto split: if_splits list.splits)

lemma split_on_id: "c \<notin> set s \<Longrightarrow> split_on c s = [s]"
  by (induction s) auto

lemma split_on_append:
  "c \<notin> set s \<Longrightarrow> split_on c (s @ c # t) = s # split_on c t"
  by (induction s) (auto split: list.splits)

lemma split_n_piece:
  assumes "c \<notin> set s"
  shows "split_n (Suc (Suc n)) c (s @ c # t) = s # split_n (Suc n) c t"
proof -
  from assms have "\<forall>x\<in>set s. x \<noteq> c" by auto
  then show ?thesis by (simp add: dropWhile_append2 takeWhile_append2)
qed

section \<open>Package strconv\<close>

text \<open>Decimal digits, as \<open>strconv.Itoa\<close> and the verb \<open>%d\<close> print them.\<close>

definition digit_char :: "nat \<Rightarrow> char" where
  "digit_char d = char_of (48 + d)"

fun nat_dec :: "nat \<Rightarrow> string" where
  "nat_dec n = (if n < 10 then [digit_char n] else nat_dec (n div 10) @ [digit_char (n mod 10)])"

declare nat_dec.simps [simp del]

definition int_dec :: "int \<Rightarrow> string" where
  "int_dec i = (if i < 0 then CHR ''-'' # nat_dec (nat (- i)) else nat_dec (nat i))"

text \<open>Reading decimal digits back.\<close>

definition is_digit :: "char \<Rightarrow> bool" where
  "is_digit c \<longleftrightarrow> 48 \<le> (of_char c :: nat) \<and> (of_char c :: nat) \<le> 57"

definition digit_num :: "char \<Rightarrow> nat" where
  "digit_num c = of_char c - 48"

definition dec_nat :: "string \<Rightarrow> nat" where
  "dec_nat s = foldl (\<lambda>n c. 10 * n + digit_num c) 0 s"

lemma digit_char_props:
  assumes "d < 10"
  shows "is_digit (digit_char d)" "digit_num (digit_char d) = d"
  using assms by (simp_all add: digit_char_def is_digit_def digit_num_def)

lemma nat_dec_digits: "\<forall>c\<in>set (nat_dec n). is_digit c"
proof (induction n rule: nat_dec.induct)
  case (1 n)
  show ?case
  proof (cases "n < 10")
    case True
    then show ?thesis by (subst nat_dec.simps) (simp add: digit_char_props)
  next
    case False
    with 1 show ?thesis by (subst nat_dec.simps) (simp add: digit_char_props)
  qed
qed

lemma nat_dec_nonempty [simp]: "nat_dec n \<noteq> []"
  by (subst nat_dec.simps) simp

lemma dec_nat_nat_dec [simp]: "dec_nat (nat_dec n) = n"
proof (induction n rule: nat_dec.induct)
  case (1 n)
  show ?case
  proof (cases "n < 10")
    case True
    then show ?thesis by (subst nat_dec.simps) (simp add: dec_nat_def digit_char_props)
  next
    case False
    then have "dec_nat (nat_dec n) = 10 * dec_nat (nat_dec (n div 10)) + n mod 10"
      by (subst nat_dec.simps) (simp add: dec_nat_def digit_char_props)
    with 1 False show ?thesis by simp
  qed
qed

lemma nat_dec_inj: "nat_dec m = nat_dec n \<Longrightarrow> m = n"
  by (metis dec_nat_nat_dec)

lemma is_digit_neq:
  assumes "is_digit c"
  shows "c \<noteq> CHR ''_''" "c \<noteq> CHR 0x0A" "c \<noteq> CHR ''/''"
  using assms by (auto simp: is_digit_def)

section \<open>Bytes and package encoding/binary\<close>

definition byte_of_char :: "char \<Rightarrow> byte" where
  "byte_of_char c = word_of_nat (of_char c)"

definition char_of_byte :: "byte \<Rightarrow> char" where
  "char_of_byte b = char_of (unat b)"

definition bytes_of :: "string \<Rightarrow> byte list" where
  "bytes_of s = map byte_of_char s"

definition string_of :: "byte list \<Rightarrow> string" where
  "string_of bs = map char_of_byte bs"

lemma of_char_less: "(of_char c :: nat) < 256"
proof -
  have "(of_char c :: nat) = of_char (char_of (of_char c :: nat))" by simp
  also have "\<dots> = of_char c mod 256" by (simp only: of_char_of)
  finally show ?thesis by (metis mod_less_divisor zero_less_numeral)
qed

lemma char_of_byte_of_char [simp]: "char_of_byte (byte_of_char c) = c"
  by (simp add: char_of_byte_def byte_of_char_def unat_of_nat of_char_less)

lemma byte_of_char_of_byte [simp]: "byte_of_char (char_of_byte b) = b"
proof -
  have "unat b < 2 ^ LENGTH(8)" by (rule unsigned_less)
  then have "unat b mod 256 = unat b" by simp
  then show ?thesis by (simp add: char_of_byte_def byte_of_char_def)
qed

lemma string_of_bytes_of [simp]: "string_of (bytes_of s) = s"
  by (simp add: string_of_def bytes_of_def comp_def)

lemma bytes_of_string_of [simp]: "bytes_of (string_of bs) = bs"
  by (simp add: string_of_def bytes_of_def comp_def)

lemma length_bytes_of [simp]: "length (bytes_of s) = length s"
  by (simp add: bytes_of_def)

lemma length_string_of [simp]: "length (string_of s) = length s"
  by (simp add: string_of_def)

lemma bytes_of_append [simp]: "bytes_of (s @ t) = bytes_of s @ bytes_of t"
  by (simp add: bytes_of_def)

datatype byte_order = LittleEndian | BigEndian

fun le_bytes :: "nat \<Rightarrow> 'a::len word \<Rightarrow> byte list" where
  "le_bytes 0 w = []"
| "le_bytes (Suc n) w = ucast w # le_bytes n (drop_bit 8 w)"

fun from_le :: "byte list \<Rightarrow> 'a::len word" where
  "from_le [] = 0"
| "from_le (b # bs) = ucast b OR push_bit 8 (from_le bs)"

text \<open>\<open>order.PutUint16\<close> and its kin store \<open>n\<close> bytes; \<open>order.Uint16\<close> and its kin read them.\<close>

fun put_uint :: "byte_order \<Rightarrow> nat \<Rightarrow> 'a::len word \<Rightarrow> byte list" where
  "put_uint LittleEndian n w = le_bytes n w"
| "put_uint BigEndian n w = rev (le_bytes n w)"

fun get_uint :: "byte_order \<Rightarrow> byte list \<Rightarrow> 'a::len word" where
  "get_uint LittleEndian bs = from_le bs"
| "get_uint BigEndian bs = from_le (rev bs)"

lemma length_le_bytes [simp]: "length (le_bytes n w) = n"
  by (induction n arbitrary: w) simp_all

lemma length_put_uint [simp]: "length (put_uint ord n w) = n"
  by (cases ord) simp_all

lemma from_le_le_bytes: "from_le (le_bytes n w) = take_bit (8 * n) w"
proof (induction n arbitrary: w)
  case 0
  then show ?case by simp
next
  case (Suc n)
  show ?case
    by (simp add: Suc, rule bit_word_eqI) (auto simp: bit_simps)
qed

lemma get_put_uint:
  fixes w :: "'a::len word"
  assumes "LENGTH('a) \<le> 8 * n"
  shows "get_uint ord (put_uint ord n w) = w"
  using assms by (cases ord) (simp_all add: from_le_le_bytes take_bit_word_eq_self)

lemma get_put_uint_sizes [simp]:
  "get_uint ord (put_uint ord 2 (w16 :: 16 word)) = w16"
  "get_uint ord (put_uint ord 4 (w32 :: 32 word)) = w32"
  "get_uint ord (put_uint ord 8 (w64 :: 64 word)) = w64"
  by (rule get_put_uint, simp)+

section \<open>Lists\<close>

text \<open>Writing a run of bytes at the front of a buffer keeps its length and its tail.\<close>

definition put_at_front :: "'a list \<Rightarrow> 'a list \<Rightarrow> 'a list" where
  "put_at_front xs buf = xs @ drop (length xs) buf"

lemma length_put_at_front [simp]:
  "length xs \<le> length buf \<Longrightarrow> length (put_at_front xs buf) = length buf"
  by (simp add: put_at_front_def)

lemma put_at_front_Nil [simp]: "put_at_front [] buf = buf"
  by (simp add: put_at_front_def)

lemma put_at_front_append:
  "length xs \<le> length buf \<Longrightarrow>
   take (length xs) (put_at_front xs buf) @ put_at_front ys (drop (length xs) (put_at_front xs buf))
     = put_at_front (xs @ ys) buf"
  by (simp add: put_at_front_def add.commute)

section \<open>State machines\<close>

text \<open>
  A component whose operations act on one state, as the code's handlers do under the
  component's lock: what every operation keeps, every sequence of operations keeps.
\<close>

locale invariant_system =
  fixes perform :: "'o \<Rightarrow> 's \<Rightarrow> 's" and inv :: "'s \<Rightarrow> bool"
  assumes perform_inv: "inv s \<Longrightarrow> inv (perform op s)"
begin

lemma run_inv: "inv s \<Longrightarrow> inv (fold perform ops s)"
  by (induction ops arbitrary: s) (simp_all add: perform_inv)

end

text \<open>A measure of the state that no operation lowers.\<close>

locale monotone_system = invariant_system perform inv
  for perform :: "'o \<Rightarrow> 's \<Rightarrow> 's" and inv :: "'s \<Rightarrow> bool" +
  fixes at_most :: "'s \<Rightarrow> 's \<Rightarrow> bool"
  assumes at_most_refl: "at_most s s"
    and at_most_trans: "at_most s t \<Longrightarrow> at_most t u \<Longrightarrow> at_most s u"
    and perform_grows: "inv s \<Longrightarrow> at_most s (perform op s)"
begin

lemma run_grows: "inv s \<Longrightarrow> at_most s (fold perform ops s)"
proof (induction ops arbitrary: s)
  case Nil
  then show ?case by (simp add: at_most_refl)
next
  case (Cons op ops)
  from Cons.IH[OF perform_inv[OF Cons.prems]] perform_grows[OF Cons.prems]
  show ?case by (auto intro: at_most_trans)
qed

end

end
