(* ===== verification/Model.thy ===== *)
theory Model
  imports Prelude
begin

text \<open>
  Package \<open>openapi\<close> (\<open>pkg/model\<close>) and package \<open>constants\<close>: the enumerations with their
  \<open>String\<close> and \<open>Parse\<close> methods (\<open>virtx_model.go\<close>) and the structs the other packages pass
  around. A Go enumeration is an \<open>int16\<close> with named constants: the constants are
  abbreviations for words, so a value that none of them names is representable, and the
  method \<open>IsValid\<close> is the test the code makes.
\<close>

section \<open>Constants\<close>

abbreviation (input) KiB :: nat where "KiB \<equiv> 1024"
abbreviation (input) MiB :: nat where "MiB \<equiv> 1048576"

definition VMS_DIR :: string where "VMS_DIR = ''/vms/''"
definition REG_DIR :: string where "REG_DIR = ''/vms/xml/''"
definition DS_DIR :: string where "DS_DIR = ''/vms/ds/''"
definition CI_DIR :: string where "CI_DIR = ''/vms/ds/ci/''"
definition LOCK_DIR :: string where "LOCK_DIR = ''/vms/lock/''"
definition LOCK_SPACE :: string where "LOCK_SPACE = ''__VIRTX__DISKS__''"
definition DEV_DIR :: string where "DEV_DIR = ''/dev/''"

abbreviation (input) HTTP_MAX_BODY_LEN :: int where "HTTP_MAX_BODY_LEN \<equiv> 1048576"
abbreviation (input) VM_NAME_MAX :: nat where "VM_NAME_MAX \<equiv> 32"
abbreviation (input) DISKS_MAX :: nat where "DISKS_MAX \<equiv> 20"
abbreviation (input) NETS_MAX :: nat where "NETS_MAX \<equiv> 8"
abbreviation (input) MAC_LEN :: nat where "MAC_LEN \<equiv> 17"
abbreviation (input) VLAN_MAX :: int where "VLAN_MAX \<equiv> 4094"

section \<open>Enumerations\<close>

type_synonym DiskDevice = i16
type_synonym DiskBus = i16
type_synonym DiskManMode = i16
type_synonym DiskProvMode = i16
type_synonym NetType = i16
type_synonym NetModel = i16
type_synonym FirmwareType = i16
type_synonym Cstate = i16
type_synonym Vmrunstate = i16
type_synonym MigrationState = i16
type_synonym MigrationType = i16
type_synonym Operation = i16
type_synonym OperationState = i16

abbreviation (input) DEVICE_DISK :: DiskDevice where "DEVICE_DISK \<equiv> 0"
abbreviation (input) DEVICE_CDROM :: DiskDevice where "DEVICE_CDROM \<equiv> 1"
abbreviation (input) DEVICE_LUN :: DiskDevice where "DEVICE_LUN \<equiv> 2"

abbreviation (input) BUS_VIRTIO_BLK :: DiskBus where "BUS_VIRTIO_BLK \<equiv> 0"
abbreviation (input) BUS_VIRTIO_SCSI :: DiskBus where "BUS_VIRTIO_SCSI \<equiv> 1"
abbreviation (input) BUS_SATA :: DiskBus where "BUS_SATA \<equiv> 2"
abbreviation (input) BUS_SCSI :: DiskBus where "BUS_SCSI \<equiv> 3"

abbreviation (input) DISK_MAN_UNMANAGED :: DiskManMode where "DISK_MAN_UNMANAGED \<equiv> 0"
abbreviation (input) DISK_MAN_MANAGED :: DiskManMode where "DISK_MAN_MANAGED \<equiv> 1"

abbreviation (input) DISK_PROV_NONE :: DiskProvMode where "DISK_PROV_NONE \<equiv> 0"
abbreviation (input) DISK_PROV_THIN :: DiskProvMode where "DISK_PROV_THIN \<equiv> 1"
abbreviation (input) DISK_PROV_THICK :: DiskProvMode where "DISK_PROV_THICK \<equiv> 2"

abbreviation (input) NET_LIBVIRT :: NetType where "NET_LIBVIRT \<equiv> 0"
abbreviation (input) NET_BRIDGE :: NetType where "NET_BRIDGE \<equiv> 1"

abbreviation (input) NET_MODEL_VIRTIO :: NetModel where "NET_MODEL_VIRTIO \<equiv> 0"
abbreviation (input) NET_MODEL_E1000E :: NetModel where "NET_MODEL_E1000E \<equiv> 1"
abbreviation (input) NET_MODEL_E1000 :: NetModel where "NET_MODEL_E1000 \<equiv> 2"

abbreviation (input) FIRMWARE_BIOS :: FirmwareType where "FIRMWARE_BIOS \<equiv> 0"
abbreviation (input) FIRMWARE_UEFI :: FirmwareType where "FIRMWARE_UEFI \<equiv> 1"

abbreviation (input) CSTATE_INVALID :: Cstate where "CSTATE_INVALID \<equiv> 0"
abbreviation (input) CSTATE_ACTIVE :: Cstate where "CSTATE_ACTIVE \<equiv> 1"
abbreviation (input) CSTATE_LEFT :: Cstate where "CSTATE_LEFT \<equiv> 2"
abbreviation (input) CSTATE_FAILED :: Cstate where "CSTATE_FAILED \<equiv> 3"

abbreviation (input) RUNSTATE_NONE :: Vmrunstate where "RUNSTATE_NONE \<equiv> 0"
abbreviation (input) RUNSTATE_DELETED :: Vmrunstate where "RUNSTATE_DELETED \<equiv> 1"
abbreviation (input) RUNSTATE_POWEROFF :: Vmrunstate where "RUNSTATE_POWEROFF \<equiv> 2"
abbreviation (input) RUNSTATE_STARTUP :: Vmrunstate where "RUNSTATE_STARTUP \<equiv> 3"
abbreviation (input) RUNSTATE_RUNNING :: Vmrunstate where "RUNSTATE_RUNNING \<equiv> 4"
abbreviation (input) RUNSTATE_PAUSED :: Vmrunstate where "RUNSTATE_PAUSED \<equiv> 5"
abbreviation (input) RUNSTATE_MIGRATING :: Vmrunstate where "RUNSTATE_MIGRATING \<equiv> 6"
abbreviation (input) RUNSTATE_TERMINATING :: Vmrunstate where "RUNSTATE_TERMINATING \<equiv> 7"
abbreviation (input) RUNSTATE_PMSUSPENDED :: Vmrunstate where "RUNSTATE_PMSUSPENDED \<equiv> 8"
abbreviation (input) RUNSTATE_CRASHED :: Vmrunstate where "RUNSTATE_CRASHED \<equiv> 9"

abbreviation (input) MIGRATION_NONE :: MigrationState where "MIGRATION_NONE \<equiv> 0"
abbreviation (input) MIGRATION_SETUP :: MigrationState where "MIGRATION_SETUP \<equiv> 1"
abbreviation (input) MIGRATION_CANCELLING :: MigrationState where "MIGRATION_CANCELLING \<equiv> 2"
abbreviation (input) MIGRATION_CANCELLED :: MigrationState where "MIGRATION_CANCELLED \<equiv> 3"
abbreviation (input) MIGRATION_ACTIVE :: MigrationState where "MIGRATION_ACTIVE \<equiv> 4"
abbreviation (input) MIGRATION_PRESWITCH :: MigrationState where "MIGRATION_PRESWITCH \<equiv> 5"
abbreviation (input) MIGRATION_DEVICE :: MigrationState where "MIGRATION_DEVICE \<equiv> 6"
abbreviation (input) MIGRATION_WAIT_UNPLUG :: MigrationState where "MIGRATION_WAIT_UNPLUG \<equiv> 7"
abbreviation (input) MIGRATION_COMPLETED :: MigrationState where "MIGRATION_COMPLETED \<equiv> 8"
abbreviation (input) MIGRATION_FAILED :: MigrationState where "MIGRATION_FAILED \<equiv> 9"

abbreviation (input) MIGRATION_COLD :: MigrationType where "MIGRATION_COLD \<equiv> 0"
abbreviation (input) MIGRATION_LIVE :: MigrationType where "MIGRATION_LIVE \<equiv> 1"

abbreviation (input) OPERATION_STARTED :: OperationState where "OPERATION_STARTED \<equiv> 1"
abbreviation (input) OPERATION_FAILED :: OperationState where "OPERATION_FAILED \<equiv> 2"
abbreviation (input) OPERATION_COMPLETED :: OperationState where "OPERATION_COMPLETED \<equiv> 3"

abbreviation (input) OpVmBoot :: Operation where "OpVmBoot \<equiv> 3"
abbreviation (input) OpVmMigrate :: Operation where "OpVmMigrate \<equiv> 8"
abbreviation (input) OpVmPause :: Operation where "OpVmPause \<equiv> 11"
abbreviation (input) OpVmResume :: Operation where "OpVmResume \<equiv> 13"
abbreviation (input) OpVmShutdown :: Operation where "OpVmShutdown \<equiv> 15"

text \<open>The generated method \<open>IsValid\<close>: a linear search in the table of allowed values.\<close>

definition AllowedDiskDevice :: "DiskDevice list" where
  "AllowedDiskDevice = [0, 1, 2]"
definition AllowedDiskBus :: "DiskBus list" where
  "AllowedDiskBus = [0, 1, 2, 3]"
definition AllowedDiskManMode :: "DiskManMode list" where
  "AllowedDiskManMode = [0, 1]"
definition AllowedDiskProvMode :: "DiskProvMode list" where
  "AllowedDiskProvMode = [0, 1, 2]"
definition AllowedNetModel :: "NetModel list" where
  "AllowedNetModel = [0, 1, 2]"
definition AllowedFirmwareType :: "FirmwareType list" where
  "AllowedFirmwareType = [0, 1]"
definition AllowedMigrationState :: "MigrationState list" where
  "AllowedMigrationState = [0, 1, 2, 3, 4, 5, 6, 7, 8, 9]"

fun enum_listed :: "i16 list \<Rightarrow> i16 \<Rightarrow> bool" where
  "enum_listed [] v \<longleftrightarrow> False"
| "enum_listed (existing # rest) v \<longleftrightarrow> (if existing = v then True else enum_listed rest v)"

lemma enum_listed_iff: "enum_listed xs v \<longleftrightarrow> v \<in> set xs"
  by (induction xs) auto

definition DiskDevice_IsValid :: "DiskDevice \<Rightarrow> bool" where
  "DiskDevice_IsValid v \<longleftrightarrow> enum_listed AllowedDiskDevice v"
definition DiskBus_IsValid :: "DiskBus \<Rightarrow> bool" where
  "DiskBus_IsValid v \<longleftrightarrow> enum_listed AllowedDiskBus v"
definition DiskManMode_IsValid :: "DiskManMode \<Rightarrow> bool" where
  "DiskManMode_IsValid v \<longleftrightarrow> enum_listed AllowedDiskManMode v"
definition DiskProvMode_IsValid :: "DiskProvMode \<Rightarrow> bool" where
  "DiskProvMode_IsValid v \<longleftrightarrow> enum_listed AllowedDiskProvMode v"
definition NetModel_IsValid :: "NetModel \<Rightarrow> bool" where
  "NetModel_IsValid v \<longleftrightarrow> enum_listed AllowedNetModel v"

lemma IsValid_iffs:
  "DiskDevice_IsValid v \<longleftrightarrow> v = DEVICE_DISK \<or> v = DEVICE_CDROM \<or> v = DEVICE_LUN"
  "DiskBus_IsValid b \<longleftrightarrow> b = BUS_VIRTIO_BLK \<or> b = BUS_VIRTIO_SCSI \<or> b = BUS_SATA \<or> b = BUS_SCSI"
  "DiskManMode_IsValid m \<longleftrightarrow> m = DISK_MAN_UNMANAGED \<or> m = DISK_MAN_MANAGED"
  "DiskProvMode_IsValid p \<longleftrightarrow> p = DISK_PROV_NONE \<or> p = DISK_PROV_THIN \<or> p = DISK_PROV_THICK"
  "NetModel_IsValid n \<longleftrightarrow> n = NET_MODEL_VIRTIO \<or> n = NET_MODEL_E1000E \<or> n = NET_MODEL_E1000"
  by (auto simp: DiskDevice_IsValid_def DiskBus_IsValid_def DiskManMode_IsValid_def
      DiskProvMode_IsValid_def NetModel_IsValid_def enum_listed_iff AllowedDiskDevice_def
      AllowedDiskBus_def AllowedDiskManMode_def AllowedDiskProvMode_def AllowedNetModel_def)

subsection \<open>String and Parse\<close>

definition DiskDevice_String :: "DiskDevice \<Rightarrow> string" where
  "DiskDevice_String device =
     (if device = DEVICE_DISK then ''disk''
      else if device = DEVICE_CDROM then ''cdrom''
      else if device = DEVICE_LUN then ''lun''
      else '''')"

definition DiskDevice_Parse :: "string \<Rightarrow> DiskDevice result" where
  "DiskDevice_Parse s =
     (if s = ''cdrom'' then Inr DEVICE_CDROM
      else if s = ''disk'' then Inr DEVICE_DISK
      else if s = ''lun'' then Inr DEVICE_LUN
      else Inl (Msg ''could not parse disk device''))"

definition NetType_String :: "NetType \<Rightarrow> string" where
  "NetType_String nettype =
     (if nettype = NET_BRIDGE then ''bridge''
      else if nettype = NET_LIBVIRT then ''network''
      else '''')"

definition NetModel_String :: "NetModel \<Rightarrow> string" where
  "NetModel_String netmodel =
     (if netmodel = NET_MODEL_VIRTIO then ''virtio''
      else if netmodel = NET_MODEL_E1000E then ''e1000e''
      else if netmodel = NET_MODEL_E1000 then ''e1000''
      else '''')"

definition NetModel_Parse :: "string \<Rightarrow> NetModel result" where
  "NetModel_Parse s =
     (if s = ''virtio'' then Inr NET_MODEL_VIRTIO
      else if s = ''e1000e'' then Inr NET_MODEL_E1000E
      else if s = ''e1000'' then Inr NET_MODEL_E1000
      else Inl (Msg ''could not parse net model''))"

definition FirmwareType_String :: "FirmwareType \<Rightarrow> string" where
  "FirmwareType_String firmware =
     (if firmware = FIRMWARE_BIOS then ''bios''
      else if firmware = FIRMWARE_UEFI then ''efi''
      else '''')"

definition FirmwareType_Parse :: "string \<Rightarrow> FirmwareType result" where
  "FirmwareType_Parse s =
     (if s = ''bios'' then Inr FIRMWARE_BIOS
      else if s = ''efi'' then Inr FIRMWARE_UEFI
      else Inl (Msg ''could not parse firmware type''))"

definition FirmwareType_Machine :: "FirmwareType \<Rightarrow> string" where
  "FirmwareType_Machine firmware =
     (if firmware = FIRMWARE_BIOS then ''pc''
      else if firmware = FIRMWARE_UEFI then ''q35''
      else '''')"

definition DiskBus_Parse :: "string \<Rightarrow> string \<Rightarrow> DiskBus result" where
  "DiskBus_Parse ctrl_type ctrl_model =
     (if ctrl_type = ''virtio'' then Inr BUS_VIRTIO_BLK
      else if ctrl_type = ''sata'' then Inr BUS_SATA
      else if ctrl_type = ''scsi'' then
        (if ctrl_model = ''virtio-scsi'' then Inr BUS_VIRTIO_SCSI else Inr BUS_SCSI)
      else Inl (Msg ''could not parse disk bus''))"

definition DiskBus_String :: "DiskBus \<Rightarrow> string" where
  "DiskBus_String bus =
     (if bus = BUS_VIRTIO_BLK then ''virtio''
      else if bus = BUS_SATA then ''sata''
      else if bus = BUS_VIRTIO_SCSI then ''virtio-scsi''
      else if bus = BUS_SCSI then ''scsi''
      else '''')"

definition DiskManMode_String :: "DiskManMode \<Rightarrow> string" where
  "DiskManMode_String mode =
     (if mode = DISK_MAN_UNMANAGED then ''U''
      else if mode = DISK_MAN_MANAGED then ''M''
      else '''')"

definition DiskManMode_Parse :: "char \<Rightarrow> DiskManMode result" where
  "DiskManMode_Parse c =
     (if c = CHR ''U'' then Inr DISK_MAN_UNMANAGED
      else if c = CHR ''M'' then Inr DISK_MAN_MANAGED
      else Inl (Msg ''could not parse disk management mode''))"

definition DiskProvMode_String :: "DiskProvMode \<Rightarrow> string" where
  "DiskProvMode_String mode =
     (if mode = DISK_PROV_NONE then ''U''
      else if mode = DISK_PROV_THIN then ''t''
      else if mode = DISK_PROV_THICK then ''T''
      else '''')"

definition DiskProvMode_Parse :: "char \<Rightarrow> DiskProvMode result" where
  "DiskProvMode_Parse c =
     (if c = CHR ''U'' then Inr DISK_PROV_NONE
      else if c = CHR ''t'' then Inr DISK_PROV_THIN
      else if c = CHR ''T'' then Inr DISK_PROV_THICK
      else Inl (Msg ''could not parse disk provisioning mode''))"

definition Cstate_String :: "Cstate \<Rightarrow> string" where
  "Cstate_String cstate =
     (if cstate = CSTATE_INVALID then ''invalid''
      else if cstate = CSTATE_ACTIVE then ''active''
      else if cstate = CSTATE_LEFT then ''left''
      else if cstate = CSTATE_FAILED then ''failed''
      else '''')"

definition Vmrunstate_String :: "Vmrunstate \<Rightarrow> string" where
  "Vmrunstate_String state =
     (if state = RUNSTATE_NONE then ''none''
      else if state = RUNSTATE_DELETED then ''deleted''
      else if state = RUNSTATE_POWEROFF then ''poweroff''
      else if state = RUNSTATE_STARTUP then ''startup''
      else if state = RUNSTATE_RUNNING then ''running''
      else if state = RUNSTATE_PAUSED then ''paused''
      else if state = RUNSTATE_MIGRATING then ''migrating''
      else if state = RUNSTATE_TERMINATING then ''terminating''
      else if state = RUNSTATE_PMSUSPENDED then ''pmsuspended''
      else if state = RUNSTATE_CRASHED then ''crashed''
      else '''')"

definition MigrationState_Parse :: "string \<Rightarrow> MigrationState result" where
  "MigrationState_Parse s =
     (if s = ''none'' then Inr MIGRATION_NONE
      else if s = ''setup'' then Inr MIGRATION_SETUP
      else if s = ''cancelling'' then Inr MIGRATION_CANCELLING
      else if s = ''cancelled'' then Inr MIGRATION_CANCELLED
      else if s = ''active'' then Inr MIGRATION_ACTIVE
      else if s = ''completed'' then Inr MIGRATION_COMPLETED
      else if s = ''failed'' then Inr MIGRATION_FAILED
      else if s = ''pre-switchover'' then Inr MIGRATION_PRESWITCH
      else if s = ''device'' then Inr MIGRATION_DEVICE
      else if s = ''wait-unplug'' then Inr MIGRATION_WAIT_UNPLUG
      else Inl (Msg ''unknown migration state''))"

definition MigrationState_String :: "MigrationState \<Rightarrow> string" where
  "MigrationState_String state =
     (if state = MIGRATION_NONE then ''none''
      else if state = MIGRATION_SETUP then ''setup''
      else if state = MIGRATION_CANCELLING then ''cancelling''
      else if state = MIGRATION_CANCELLED then ''cancelled''
      else if state = MIGRATION_ACTIVE then ''active''
      else if state = MIGRATION_COMPLETED then ''completed''
      else if state = MIGRATION_FAILED then ''failed''
      else if state = MIGRATION_PRESWITCH then ''pre-switchover''
      else if state = MIGRATION_DEVICE then ''device''
      else if state = MIGRATION_WAIT_UNPLUG then ''wait-unplug''
      else '''')"

definition OperationState_String :: "OperationState \<Rightarrow> string" where
  "OperationState_String state =
     (if state = OPERATION_STARTED then ''started''
      else if state = OPERATION_FAILED then ''failed''
      else if state = OPERATION_COMPLETED then ''completed''
      else '''')"

definition OperationState_Parse :: "string \<Rightarrow> OperationState result" where
  "OperationState_Parse s =
     (if s = ''started'' then Inr OPERATION_STARTED
      else if s = ''failed'' then Inr OPERATION_FAILED
      else if s = ''completed'' then Inr OPERATION_COMPLETED
      else Inl (Msg ''unknown operation state''))"

definition OperationToString :: "(Operation \<times> string) list" where
  "OperationToString =
     [(1, ''HostGet''), (2, ''HostList''), (3, ''VmBoot''), (4, ''VmCreate''),
      (5, ''VmDelete''), (6, ''VmGet''), (7, ''VmList''), (8, ''VmMigrate''),
      (9, ''VmMigrateAbort''), (10, ''VmMigrateGet''), (11, ''VmPause''),
      (12, ''VmRegister''), (13, ''VmResume''), (14, ''VmRunstateGet''),
      (15, ''VmShutdown''), (16, ''VmUpdate'')]"

definition OperationFromString :: "(string \<times> Operation) list" where
  "OperationFromString =
     [(''HostGet'', 1), (''HostList'', 2), (''VmBoot'', 3), (''VmCreate'', 4),
      (''VmDelete'', 5), (''VmGet'', 6), (''VmList'', 7), (''VmMigrate'', 8),
      (''VmMigrateAbort'', 9), (''VmMigrateGet'', 10), (''VmPause'', 11),
      (''VmRegister'', 12), (''VmResume'', 13), (''VmRunstateGet'', 14),
      (''VmShutdown'', 15), (''VmUpdate'', 16)]"

definition Operation_String :: "Operation \<Rightarrow> string" where
  "Operation_String op = (case map_of OperationToString op of None \<Rightarrow> '''' | Some s \<Rightarrow> s)"

definition Operation_Parse :: "string \<Rightarrow> Operation result" where
  "Operation_Parse s =
     (case map_of OperationFromString s of
        None \<Rightarrow> Inl (Msg ''unknown operation'')
      | Some op \<Rightarrow> Inr op)"

subsection \<open>The contract of a printer and a parser\<close>

text \<open>
  What the clients of a pair \<open>String\<close>/\<open>Parse\<close> rely on: a valid value is read back. Where
  the parser accepts nothing but what the printer writes, the two are inverse bijections.
\<close>

locale enum_codec =
  fixes shown :: "i16 \<Rightarrow> 'k"
    and parse :: "'k \<Rightarrow> gerr + i16"
    and allowed :: "i16 list"
  assumes parse_shown: "v \<in> set allowed \<Longrightarrow> parse (shown v) = Inr v"
begin

lemma shown_inj: "v \<in> set allowed \<Longrightarrow> w \<in> set allowed \<Longrightarrow> shown v = shown w \<Longrightarrow> v = w"
  using parse_shown by (metis sum.inject(2))

lemma shown_inj_on: "inj_on shown (set allowed)"
  by (auto intro: inj_onI shown_inj)

end

locale enum_codec_exact = enum_codec +
  assumes parse_exact: "parse s = Inr v \<Longrightarrow> v \<in> set allowed \<and> shown v = s"
begin

lemma parse_iff: "parse s = Inr v \<longleftrightarrow> v \<in> set allowed \<and> s = shown v"
  using parse_shown parse_exact by blast

lemma parse_fails: "s \<notin> shown ` set allowed \<Longrightarrow> \<exists>e. parse s = Inl e"
  using parse_exact by (cases "parse s") auto

end

interpretation device_codec: enum_codec_exact DiskDevice_String DiskDevice_Parse AllowedDiskDevice
  by unfold_locales
    (auto simp: DiskDevice_String_def DiskDevice_Parse_def AllowedDiskDevice_def split: if_splits)

interpretation netmodel_codec: enum_codec_exact NetModel_String NetModel_Parse AllowedNetModel
  by unfold_locales
    (auto simp: NetModel_String_def NetModel_Parse_def AllowedNetModel_def split: if_splits)

interpretation firmware_codec: enum_codec_exact FirmwareType_String FirmwareType_Parse AllowedFirmwareType
  by unfold_locales
    (auto simp: FirmwareType_String_def FirmwareType_Parse_def AllowedFirmwareType_def split: if_splits)

interpretation man_codec: enum_codec_exact "\<lambda>m. hd (DiskManMode_String m)" DiskManMode_Parse AllowedDiskManMode
  by unfold_locales
    (auto simp: DiskManMode_String_def DiskManMode_Parse_def AllowedDiskManMode_def split: if_splits)

interpretation prov_codec: enum_codec_exact "\<lambda>p. hd (DiskProvMode_String p)" DiskProvMode_Parse AllowedDiskProvMode
  by unfold_locales
    (auto simp: DiskProvMode_String_def DiskProvMode_Parse_def AllowedDiskProvMode_def split: if_splits)

interpretation migration_codec: enum_codec_exact MigrationState_String MigrationState_Parse AllowedMigrationState
  by unfold_locales
    (auto simp: MigrationState_String_def MigrationState_Parse_def AllowedMigrationState_def split: if_splits)

interpretation opstate_codec: enum_codec_exact OperationState_String OperationState_Parse "[1, 2, 3]"
  by unfold_locales
    (auto simp: OperationState_String_def OperationState_Parse_def split: if_splits)

lemma Operation_tables:
  "list_all (\<lambda>v. Operation_Parse (Operation_String v) = Inr v) (map fst OperationToString)"
  "list_all (\<lambda>(s, v). v \<in> set (map fst OperationToString) \<and> Operation_String v = s) OperationFromString"
  by code_simp+

interpretation operation_codec: enum_codec_exact Operation_String Operation_Parse "map fst OperationToString"
proof
  fix v assume "v \<in> set (map fst OperationToString)"
  with Operation_tables(1) show "Operation_Parse (Operation_String v) = Inr v"
    unfolding list_all_iff by blast
next
  fix s v assume "Operation_Parse s = Inr v"
  then have "(s, v) \<in> set OperationFromString"
    by (auto simp: Operation_Parse_def split: option.splits dest: map_of_SomeD)
  with Operation_tables(2) show "v \<in> set (map fst OperationToString) \<and> Operation_String v = s"
    unfolding list_all_iff by blast
qed

text \<open>C6: for devices, network models, firmware types, migration states, operation states and
  operations the parser accepts exactly the strings the printer writes for the allowed values,
  and returns the value printed.\<close>

theorem enums_parse_iff:
  "(DiskDevice_Parse s = Inr v \<longleftrightarrow> v \<in> set AllowedDiskDevice \<and> s = DiskDevice_String v) \<and>
   (NetModel_Parse s = Inr v \<longleftrightarrow> v \<in> set AllowedNetModel \<and> s = NetModel_String v) \<and>
   (FirmwareType_Parse s = Inr v \<longleftrightarrow> v \<in> set AllowedFirmwareType \<and> s = FirmwareType_String v) \<and>
   (MigrationState_Parse s = Inr v \<longleftrightarrow> v \<in> set AllowedMigrationState \<and> s = MigrationState_String v) \<and>
   (OperationState_Parse s = Inr v \<longleftrightarrow> v \<in> {1, 2, 3} \<and> s = OperationState_String v) \<and>
   (Operation_Parse s = Inr v \<longleftrightarrow> v \<in> set (map fst OperationToString) \<and> s = Operation_String v)"
  using device_codec.parse_iff netmodel_codec.parse_iff firmware_codec.parse_iff
    migration_codec.parse_iff opstate_codec.parse_iff operation_codec.parse_iff
  by auto

subsection \<open>Custom fields\<close>

definition custom_isalnum :: "string \<Rightarrow> bool" where
  "custom_isalnum s \<longleftrightarrow>
     list_all (\<lambda>c. let n = (of_char c :: nat) in
        65 \<le> n \<and> n \<le> 90 \<or> 97 \<le> n \<and> n \<le> 122 \<or> 48 \<le> n \<and> n \<le> 57 \<or> c = CHR ''_'') s"

record CustomField =
  cf_name :: string
  cf_value :: string

definition CustomField_IsAlnum :: "CustomField \<Rightarrow> bool" where
  "CustomField_IsAlnum custom \<longleftrightarrow>
     custom_isalnum (cf_name custom) \<and> custom_isalnum (cf_value custom)"

section \<open>Structs\<close>

record Disk =
  disk_path :: string
  disk_device :: DiskDevice
  disk_bus :: DiskBus
  disk_man :: DiskManMode
  disk_prov :: DiskProvMode
  disk_size :: i32

record Net =
  net_name :: string
  net_nettype :: NetType
  net_model :: NetModel
  net_mac :: string

record Cpuarch =
  ca_arch :: string
  ca_vendor :: string

record Cpudef =
  cd_model :: string
  cd_nodes :: i16
  cd_sockets :: i16
  cd_cores :: i16
  cd_threads :: i16

record VmdefMemory =
  mem_total :: i32
  mem_hp :: bool

record Numa =
  numa_placement :: bool

record Vmdef =
  vm_name :: string
  vm_cpudef :: Cpudef
  vm_memory :: VmdefMemory
  vm_numa :: Numa
  vm_osdisk :: Disk
  vm_disks :: "Disk list"
  vm_nets :: "Net list"
  vm_vlanid :: i16
  vm_firmware :: FirmwareType
  vm_genid :: string
  vm_custom :: "CustomField list"

record HostListFields =
  hf_name :: string
  hf_cpuarch :: Cpuarch
  hf_cpudef :: Cpudef
  hf_cstate :: Cstate
  hf_memoryavailable :: i32
  hf_hpavailable :: i32
  hf_osid :: string
  hf_osv :: string
  hf_ts :: i64

record VmListFields =
  vf_name :: string
  vf_host :: string
  vf_runstate :: Vmrunstate
  vf_vlanid :: i16
  vf_custom :: CustomField
  vf_ts :: i64

record HostListItem =
  hi_uuid :: string
  hi_fields :: HostListFields

record VmListItem =
  vi_uuid :: string
  vi_fields :: VmListFields

end
