(* ===== verification/Sbinary.thy ===== *)
theory Sbinary
  imports Prelude
begin

text \<open>
  Package \<open>sbinary\<close>: the reflective binary encoder and decoder that carries inventory data
  between hosts. A Go value seen through \<open>reflect.Value\<close> is a \<open>gval\<close>; the destination of a
  decode is the \<open>gval\<close> found behind the pointer, which gives the kinds to decode. Slices
  carry the zero value of their element type, which \<open>reflect.MakeSlice\<close> fills in; struct
  fields carry whether they are exported. The model returns Go's pair of a count and an
  error together with the buffer (encoding) or the destination (decoding), also on errors.
\<close>

section \<open>Values\<close>

datatype basic =
    BBool bool
  | BUint8 "8 word" | BInt8 "8 word"
  | BUint16 "16 word" | BInt16 "16 word"
  | BUint32 "32 word" | BInt32 "32 word"
  | BUint64 "64 word" | BInt64 "64 word"

datatype gval =
    VBasic basic
  | VString string
  | VBytes "byte list"
  | VByteArray "byte list"
  | VSlice gval "gval list"
  | VArray "gval list"
  | VStruct "(bool \<times> gval) list"
  | VPtr "gval option"
  | VOther string

fun is_ptr :: "gval \<Rightarrow> bool" where
  "is_ptr (VPtr p) \<longleftrightarrow> True"
| "is_ptr _ \<longleftrightarrow> False"

type_synonym enc_out = "byte list \<times> nat \<times> gerr option"
type_synonym 'a dec_out = "'a \<times> nat \<times> gerr option"

section \<open>Encoding\<close>

definition encode_num :: "byte_order \<Rightarrow> nat \<Rightarrow> 'a::len word \<Rightarrow> string \<Rightarrow> byte list \<Rightarrow> enc_out" where
  "encode_num ord n w msg buf =
     (if length buf < n then (buf, 0, Some (Msg msg))
      else (put_at_front (put_uint ord n w) buf, n, None))"

definition encode_byte :: "byte \<Rightarrow> string \<Rightarrow> byte list \<Rightarrow> enc_out" where
  "encode_byte b msg buf =
     (if length buf < 1 then (buf, 0, Some (Msg msg)) else (put_at_front [b] buf, 1, None))"

definition encode_bytes :: "byte_order \<Rightarrow> byte list \<Rightarrow> byte list \<Rightarrow> enc_out" where
  "encode_bytes ord data buf =
     (let n = length data in
      if length buf < 2 + n
      then (buf, 0, Some (Msg ''Bytes: buffer too small for length indicator''))
      else (let buf1 = put_at_front (put_uint ord 2 (word_of_nat n :: u16)) buf in
            (take 2 buf1 @ put_at_front data (drop 2 buf1), 2 + n, None)))"

fun encode_basic :: "byte_order \<Rightarrow> basic \<Rightarrow> byte list \<Rightarrow> enc_out" where
  "encode_basic ord (BUint8 w) buf = encode_byte w ''Uint8: buffer too small'' buf"
| "encode_basic ord (BInt8 w) buf =
     encode_byte (ucast (scast w :: i64)) ''Int8: buffer too small'' buf"
| "encode_basic ord (BBool b) buf =
     encode_byte (if b then 1 else 0) ''Bool: buffer too small'' buf"
| "encode_basic ord (BUint16 w) buf =
     encode_num ord 2 (ucast (ucast w :: u64) :: u16) ''Uint16: buffer too small'' buf"
| "encode_basic ord (BInt16 w) buf =
     encode_num ord 2 (ucast (scast w :: i64) :: u16) ''Int16: buffer too small'' buf"
| "encode_basic ord (BUint32 w) buf =
     encode_num ord 4 (ucast (ucast w :: u64) :: u32) ''Uint32: buffer too small'' buf"
| "encode_basic ord (BInt32 w) buf =
     encode_num ord 4 (ucast (scast w :: i64) :: u32) ''Int32: buffer too small'' buf"
| "encode_basic ord (BUint64 w) buf = encode_num ord 8 w ''Uint64: buffer too small'' buf"
| "encode_basic ord (BInt64 w) buf = encode_num ord 8 w ''Int64: buffer too small'' buf"

text \<open>
  The flag \<open>ad\<close> says whether the value is addressable: everything below a pointer or in a
  slice is, the fields of a struct passed as such are not. \<open>Value.Bytes\<close> panics on a byte
  array that is not addressable.
\<close>

fun encode_value :: "bool \<Rightarrow> byte_order \<Rightarrow> gval \<Rightarrow> byte list \<Rightarrow> enc_out"
  and encode_struct :: "bool \<Rightarrow> byte_order \<Rightarrow> (bool \<times> gval) list \<Rightarrow> nat \<Rightarrow> byte list \<Rightarrow> enc_out"
  and encode_elems :: "bool \<Rightarrow> byte_order \<Rightarrow> gval list \<Rightarrow> nat \<Rightarrow> byte list \<Rightarrow> enc_out"
where
  "encode_value ad ord (VPtr None) buf =
     (buf, 0, Some (Msg ''Pointer: nil pointers are not supported''))"
| "encode_value ad ord (VPtr (Some v)) buf =
     (if is_ptr v then (buf, 0, Some (Msg ''Pointer: Ptr to Ptr is not supported''))
      else encode_value True ord v buf)"
| "encode_value ad ord (VStruct fs) buf = encode_struct ad ord fs 0 buf"
| "encode_value ad ord (VString s) buf = encode_bytes ord (bytes_of s) buf"
| "encode_value ad ord (VBytes bs) buf = encode_bytes ord bs buf"
| "encode_value ad ord (VByteArray bs) buf =
     (if ad then encode_bytes ord bs buf
      else (buf, 0, Some (Panic ''reflect.Value.Bytes of unaddressable byte array'')))"
| "encode_value ad ord (VSlice z xs) buf =
     (if length buf < 2 then (buf, 0, Some (Msg ''Array: buffer too small for length indicator''))
      else encode_elems True ord xs 2
             (put_at_front (put_uint ord 2 (word_of_nat (length xs) :: u16)) buf))"
| "encode_value ad ord (VArray xs) buf =
     (if length buf < 2 then (buf, 0, Some (Msg ''Array: buffer too small for length indicator''))
      else encode_elems ad ord xs 2
             (put_at_front (put_uint ord 2 (word_of_nat (length xs) :: u16)) buf))"
| "encode_value ad ord (VBasic b) buf = encode_basic ord b buf"
| "encode_value ad ord (VOther k) buf = (buf, 0, Some (Msg (''unsupported type: '' @ k)))"
| "encode_struct ad ord [] off buf = (buf, off, None)"
| "encode_struct ad ord ((exported, f) # fs) off buf =
     (if \<not> exported then encode_struct ad ord fs off buf
      else (case encode_value ad ord f (drop off buf) of
              (sub, n, None) \<Rightarrow> encode_struct ad ord fs (off + n) (take off buf @ sub)
            | (sub, n, Some e) \<Rightarrow> (take off buf @ sub, off, Some e)))"
| "encode_elems ad ord [] off buf = (buf, off, None)"
| "encode_elems ad ord (x # xs) off buf =
     (case encode_value ad ord x (drop off buf) of
        (sub, n, None) \<Rightarrow> encode_elems ad ord xs (off + n) (take off buf @ sub)
      | (sub, n, Some e) \<Rightarrow> (take off buf @ sub, off, Some e))"

definition Encode :: "byte list \<Rightarrow> byte_order \<Rightarrow> gval \<Rightarrow> enc_out" where
  "Encode buf ord data =
     (if data = VPtr None then (buf, 0, Some (Msg ''Encode: must pass non-Nil data to encode''))
      else encode_value False ord data buf)"

section \<open>Decoding\<close>

definition decode_bytes :: "byte_order \<Rightarrow> gval \<Rightarrow> byte list \<Rightarrow> gval dec_out" where
  "decode_bytes ord v buf =
     (if length buf < 2
      then (v, 0, Some (Msg ''Bytes: buffer too small for length indicator''))
      else (let n = unat (get_uint ord (take 2 buf) :: u16) in
            if length (drop 2 buf) < n
            then (v, 2, Some (Msg ''Bytes: buffer too small for byte data''))
            else ((case v of
                     VString _ \<Rightarrow> VString (string_of (take n (drop 2 buf)))
                   | VBytes _ \<Rightarrow> VBytes (take n (drop 2 buf))
                   | _ \<Rightarrow> v), 2 + n, None)))"

definition decode_num ::
  "byte_order \<Rightarrow> nat \<Rightarrow> ('a::len word \<Rightarrow> basic) \<Rightarrow> basic \<Rightarrow> string \<Rightarrow> byte list \<Rightarrow> basic dec_out" where
  "decode_num ord n store v msg buf =
     (if length buf < n then (v, 0, Some (Msg msg))
      else (store (get_uint ord (take n buf)), n, None))"

definition decode_byte :: "(byte \<Rightarrow> basic) \<Rightarrow> basic \<Rightarrow> string \<Rightarrow> byte list \<Rightarrow> basic dec_out" where
  "decode_byte store v msg buf =
     (if length buf < 1 then (v, 0, Some (Msg msg)) else (store (hd buf), 1, None))"

definition decode_bool :: "basic \<Rightarrow> byte list \<Rightarrow> basic dec_out" where
  "decode_bool v buf =
     (if length buf < 1 then (v, 0, Some (Msg ''Bool: buffer too small''))
      else if hd buf = 1 then (BBool True, 1, None)
      else if hd buf = 0 then (BBool False, 1, None)
      else (v, 0, Some (Msg ''Bool: illegal byte encoding'')))"

fun decode_basic :: "byte_order \<Rightarrow> basic \<Rightarrow> byte list \<Rightarrow> basic dec_out" where
  "decode_basic ord (BUint8 w) buf =
     decode_byte (\<lambda>b. BUint8 (ucast (ucast b :: u64))) (BUint8 w) ''Uint8: buffer too small'' buf"
| "decode_basic ord (BInt8 w) buf =
     decode_byte (\<lambda>b. BInt8 (ucast (ucast b :: i64))) (BInt8 w) ''Int8: buffer too small'' buf"
| "decode_basic ord (BBool b) buf = decode_bool (BBool b) buf"
| "decode_basic ord (BUint16 w) buf =
     decode_num ord 2 (\<lambda>x. BUint16 (ucast (ucast (x :: u16) :: u64))) (BUint16 w)
       ''Uint16: buffer too small'' buf"
| "decode_basic ord (BInt16 w) buf =
     decode_num ord 2 (\<lambda>x. BInt16 (ucast (ucast (x :: u16) :: i64))) (BInt16 w)
       ''Int16: buffer too small'' buf"
| "decode_basic ord (BUint32 w) buf =
     decode_num ord 4 (\<lambda>x. BUint32 (ucast (ucast (x :: u32) :: u64))) (BUint32 w)
       ''Uint32: buffer too small'' buf"
| "decode_basic ord (BInt32 w) buf =
     decode_num ord 4 (\<lambda>x. BInt32 (ucast (ucast (x :: u32) :: i64))) (BInt32 w)
       ''Int32: buffer too small'' buf"
| "decode_basic ord (BUint64 w) buf =
     decode_num ord 8 BUint64 (BUint64 w) ''Uint64: buffer too small'' buf"
| "decode_basic ord (BInt64 w) buf =
     decode_num ord 8 BInt64 (BInt64 w) ''Int64: buffer too small'' buf"

text \<open>
  \<open>decode_kind\<close> is the switch on the kind, after the pointer is followed. The fields and
  elements are reached through \<open>Addr\<close>, which is a pointer that is never nil, so the loops
  apply it directly. An element or field that is itself a pointer is a pointer to a pointer.
\<close>

fun decode_slice :: "(byte list \<Rightarrow> gval dec_out) \<Rightarrow> gval \<Rightarrow> nat \<Rightarrow> nat \<Rightarrow> byte list \<Rightarrow> gval list dec_out" where
  "decode_slice dec z 0 off buf = ([], off, None)"
| "decode_slice dec z (Suc k) off buf =
     (case dec (drop off buf) of
        (x', n, Some e) \<Rightarrow> (x' # replicate k z, off, Some e)
      | (x', n, None) \<Rightarrow>
          (case decode_slice dec z k (off + n) buf of (xs', m, e) \<Rightarrow> (x' # xs', m, e)))"

function (sequential) decode_kind :: "byte_order \<Rightarrow> gval \<Rightarrow> byte list \<Rightarrow> gval dec_out"
  and decode_struct :: "byte_order \<Rightarrow> (bool \<times> gval) list \<Rightarrow> nat \<Rightarrow> byte list \<Rightarrow> (bool \<times> gval) list dec_out"
  and decode_array :: "byte_order \<Rightarrow> nat \<Rightarrow> gval list \<Rightarrow> nat \<Rightarrow> byte list \<Rightarrow> gval list dec_out"
where
  "decode_kind ord (VPtr p) buf =
     (VPtr p, 0, Some (Msg ''Pointer: Ptr to Ptr is not supported''))"
| "decode_kind ord (VStruct fs) buf =
     (case decode_struct ord fs 0 buf of (fs', n, e) \<Rightarrow> (VStruct fs', n, e))"
| "decode_kind ord (VString s) buf = decode_bytes ord (VString s) buf"
| "decode_kind ord (VBytes bs) buf = decode_bytes ord (VBytes bs) buf"
| "decode_kind ord (VByteArray bs) buf = decode_bytes ord (VByteArray bs) buf"
| "decode_kind ord (VSlice z xs) buf =
     (if length buf < 2
      then (VSlice z xs, 0, Some (Msg ''Array: buffer too small for length indicator''))
      else (case decode_slice (\<lambda>b. decode_kind ord z b) z (unat (get_uint ord (take 2 buf) :: u16)) 2 buf of
              (ys, n, e) \<Rightarrow> (VSlice z ys, n, e)))"
| "decode_kind ord (VArray xs) buf =
     (if length buf < 2
      then (VArray xs, 0, Some (Msg ''Array: buffer too small for length indicator''))
      else (let n = unat (get_uint ord (take 2 buf) :: u16) in
            if n > length xs
            then (VArray xs, 2, Some (Msg ''Array: array too small to hold data''))
            else (case decode_array ord n xs 2 buf of (ys, m, e) \<Rightarrow> (VArray ys, m, e))))"
| "decode_kind ord (VBasic b) buf =
     (case decode_basic ord b buf of (b', n, e) \<Rightarrow> (VBasic b', n, e))"
| "decode_kind ord (VOther k) buf = (VOther k, 0, Some (Msg (''unsupported type: '' @ k)))"
| "decode_struct ord [] off buf = ([], off, None)"
| "decode_struct ord ((exported, f) # fs) off buf =
     (if \<not> exported
      then (case decode_struct ord fs off buf of (fs', m, e) \<Rightarrow> ((exported, f) # fs', m, e))
      else (case decode_kind ord f (drop off buf) of
              (f', n, Some e) \<Rightarrow> ((exported, f') # fs, off, Some e)
            | (f', n, None) \<Rightarrow>
                (case decode_struct ord fs (off + n) buf of
                   (fs', m, e) \<Rightarrow> ((exported, f') # fs', m, e))))"
| "decode_array ord 0 xs off buf = (xs, off, None)"
| "decode_array ord (Suc k) [] off buf =
     ([], off, Some (Panic ''reflect: array index out of range''))"
| "decode_array ord (Suc k) (x # xs) off buf =
     (case decode_kind ord x (drop off buf) of
        (x', n, Some e) \<Rightarrow> (x' # xs, off, Some e)
      | (x', n, None) \<Rightarrow>
          (case decode_array ord k xs (off + n) buf of (xs', m, e) \<Rightarrow> (x' # xs', m, e)))"
  by pat_completeness auto
termination
  by (relation "measure (\<lambda>x. case x of
        Inl (ord, v, buf) \<Rightarrow> size v
      | Inr (Inl (ord, fs, off, buf)) \<Rightarrow> size_list (size_prod (\<lambda>_. 0) size) fs
      | Inr (Inr (ord, k, xs, off, buf)) \<Rightarrow> size_list size xs)") auto

fun decode_value :: "byte_order \<Rightarrow> gval \<Rightarrow> byte list \<Rightarrow> gval dec_out" where
  "decode_value ord (VPtr None) buf =
     (VPtr None, 0, Some (Msg ''Pointer: nil pointer encountered''))"
| "decode_value ord (VPtr (Some v)) buf =
     (case decode_kind ord v buf of (v', n, e) \<Rightarrow> (VPtr (Some v'), n, e))"
| "decode_value ord v buf = decode_kind ord v buf"

definition Decode :: "byte list \<Rightarrow> byte_order \<Rightarrow> gval \<Rightarrow> gval dec_out" where
  "Decode buf ord data =
     (if \<not> is_ptr data \<or> data = VPtr None
      then (data, 0, Some (Msg ''Decode: must pass a non-nil pointer''))
      else decode_value ord data buf)"

end
