(* ===== verification/Sbinary_Props.thy ===== *)
theory Sbinary_Props
  imports Sbinary
begin

text \<open>
  Correctness of package \<open>sbinary\<close>: a reference encoding \<open>enc\<close> without buffers or offsets,
  the equivalence of the in-place encoder with it, the round trip, the locality of decoding,
  and the values the wire form cannot carry.
\<close>

section \<open>The reference encoding\<close>

fun enc_basic :: "byte_order \<Rightarrow> basic \<Rightarrow> byte list" where
  "enc_basic ord (BBool b) = [if b then 1 else 0]"
| "enc_basic ord (BUint8 w) = [w]"
| "enc_basic ord (BInt8 w) = [w]"
| "enc_basic ord (BUint16 w) = put_uint ord 2 w"
| "enc_basic ord (BInt16 w) = put_uint ord 2 w"
| "enc_basic ord (BUint32 w) = put_uint ord 4 w"
| "enc_basic ord (BInt32 w) = put_uint ord 4 w"
| "enc_basic ord (BUint64 w) = put_uint ord 8 w"
| "enc_basic ord (BInt64 w) = put_uint ord 8 w"

definition enc_len :: "byte_order \<Rightarrow> nat \<Rightarrow> byte list" where
  "enc_len ord n = put_uint ord 2 (word_of_nat n :: u16)"

fun enc :: "byte_order \<Rightarrow> gval \<Rightarrow> byte list"
  and enc_fields :: "byte_order \<Rightarrow> (bool \<times> gval) list \<Rightarrow> byte list"
  and enc_elems :: "byte_order \<Rightarrow> gval list \<Rightarrow> byte list"
where
  "enc ord (VBasic b) = enc_basic ord b"
| "enc ord (VString s) = enc_len ord (length s) @ bytes_of s"
| "enc ord (VBytes bs) = enc_len ord (length bs) @ bs"
| "enc ord (VByteArray bs) = enc_len ord (length bs) @ bs"
| "enc ord (VSlice z xs) = enc_len ord (length xs) @ enc_elems ord xs"
| "enc ord (VArray xs) = enc_len ord (length xs) @ enc_elems ord xs"
| "enc ord (VStruct fs) = enc_fields ord fs"
| "enc ord (VPtr None) = []"
| "enc ord (VPtr (Some v)) = enc ord v"
| "enc ord (VOther k) = []"
| "enc_fields ord [] = []"
| "enc_fields ord ((exported, f) # fs) = (if exported then enc ord f else []) @ enc_fields ord fs"
| "enc_elems ord [] = []"
| "enc_elems ord (x # xs) = enc ord x @ enc_elems ord xs"

text \<open>The values the encoder supports.\<close>

fun encodable :: "bool \<Rightarrow> gval \<Rightarrow> bool"
  and encodable_fields :: "bool \<Rightarrow> (bool \<times> gval) list \<Rightarrow> bool"
  and encodable_elems :: "bool \<Rightarrow> gval list \<Rightarrow> bool"
where
  "encodable ad (VBasic b) \<longleftrightarrow> True"
| "encodable ad (VString s) \<longleftrightarrow> True"
| "encodable ad (VBytes bs) \<longleftrightarrow> True"
| "encodable ad (VByteArray bs) \<longleftrightarrow> ad"
| "encodable ad (VSlice z xs) \<longleftrightarrow> encodable_elems True xs"
| "encodable ad (VArray xs) \<longleftrightarrow> encodable_elems ad xs"
| "encodable ad (VStruct fs) \<longleftrightarrow> encodable_fields ad fs"
| "encodable ad (VPtr None) \<longleftrightarrow> False"
| "encodable ad (VPtr (Some v)) \<longleftrightarrow> \<not> is_ptr v \<and> encodable True v"
| "encodable ad (VOther k) \<longleftrightarrow> False"
| "encodable_fields ad [] \<longleftrightarrow> True"
| "encodable_fields ad ((exported, f) # fs) \<longleftrightarrow>
     (exported \<longrightarrow> encodable ad f) \<and> encodable_fields ad fs"
| "encodable_elems ad [] \<longleftrightarrow> True"
| "encodable_elems ad (x # xs) \<longleftrightarrow> encodable ad x \<and> encodable_elems ad xs"

lemma length_enc_len [simp]: "length (enc_len ord n) = 2"
  by (simp add: enc_len_def)

lemma signed_shrink [simp]:
  "ucast (scast (w8 :: 8 word) :: i64) = w8"
  "ucast (scast (w16 :: 16 word) :: i64) = w16"
  "ucast (scast (w32 :: 32 word) :: i64) = w32"
  by (rule bit_word_eqI, simp add: bit_simps)+

lemma unsigned_shrink [simp]:
  "ucast (ucast (w8 :: 8 word) :: i64) = w8"
  "ucast (ucast (w16 :: 16 word) :: i64) = w16"
  "ucast (ucast (w32 :: 32 word) :: i64) = w32"
  by (rule bit_word_eqI, simp add: bit_simps)+

section \<open>Encoding writes the reference encoding or fails\<close>

text \<open>The outcome of an encoder that writes \<open>bs\<close> at offset \<open>off\<close> when they fit.\<close>

definition writes_at :: "byte list \<Rightarrow> nat \<Rightarrow> byte list \<Rightarrow> enc_out \<Rightarrow> bool" where
  "writes_at bs off buf out \<longleftrightarrow>
     (if off + length bs \<le> length buf
      then out = (take off buf @ put_at_front bs (drop off buf), off + length bs, None)
      else (\<exists>buf' n e. out = (buf', n, Some e)))"

lemma writes_at_0:
  "writes_at bs 0 buf out \<longleftrightarrow>
     (if length bs \<le> length buf then out = (put_at_front bs buf, length bs, None)
      else (\<exists>buf' n e. out = (buf', n, Some e)))"
  by (simp add: writes_at_def)

lemma encode_basic_writes: "writes_at (enc_basic ord b) 0 buf (encode_basic ord b buf)"
  by (cases b) (simp_all add: writes_at_0 encode_num_def encode_byte_def Suc_le_eq)

lemma encode_bytes_writes:
  "writes_at (enc_len ord (length data) @ data) 0 buf (encode_bytes ord data buf)"
proof (cases "2 + length data \<le> length buf")
  case True
  then have "take 2 (put_at_front (enc_len ord (length data)) buf) @
      put_at_front data (drop 2 (put_at_front (enc_len ord (length data)) buf))
    = put_at_front (enc_len ord (length data) @ data) buf"
    using put_at_front_append [of "enc_len ord (length data)" buf data] by simp
  with True show ?thesis
    by (simp add: writes_at_0 encode_bytes_def enc_len_def Let_def)
next
  case False
  then show ?thesis by (simp add: writes_at_0 encode_bytes_def)
qed

text \<open>Running an encoder on the rest of the buffer and then a second one at the offset reached.\<close>

lemma writes_at_seq:
  assumes first: "writes_at bs 0 (drop off buf) (sub, n, err)"
    and off: "off \<le> length buf"
    and second: "err = None \<Longrightarrow> writes_at cs (off + n) (take off buf @ sub) out2"
    and out: "out = (case err of None \<Rightarrow> out2 | Some e \<Rightarrow> (take off buf @ sub, off, Some e))"
  shows "writes_at (bs @ cs) off buf out"
proof (cases "off + length bs \<le> length buf")
  case True
  with first off have sub: "sub = put_at_front bs (drop off buf)" "n = length bs" "err = None"
    by (auto simp: writes_at_0 split: if_splits)
  let ?b = "take off buf @ sub"
  have len: "length ?b = length buf" using True off by (simp add: sub)
  have tk: "take (off + n) ?b = take off buf @ bs" using off by (simp add: sub put_at_front_def)
  have dr: "drop (off + n) ?b = drop (off + n) buf"
    using off by (simp add: sub put_at_front_def add.commute)
  have out': "writes_at cs (off + n) ?b out" using second out sub(3) by simp
  then show ?thesis
    using True off len tk dr sub(2) by (auto simp: writes_at_def put_at_front_def ac_simps)
next
  case False
  with first off obtain e where "err = Some e" by (auto simp: writes_at_0 split: if_splits)
  with out False show ?thesis by (simp add: writes_at_def)
qed

lemma writes_at_Nil: "off \<le> length buf \<Longrightarrow> writes_at [] off buf (buf, off, None)"
  by (simp add: writes_at_def)

lemma writes_at_advance:
  "writes_at bs 0 (drop off buf) (sub, n, None) \<Longrightarrow> off \<le> length buf \<Longrightarrow>
   off + n \<le> length (take off buf @ sub)"
  by (auto simp: writes_at_0 split: if_splits)

lemma enc_len_writes:
  "2 \<le> length buf \<Longrightarrow> writes_at (enc_len ord n) 0 buf (put_at_front (enc_len ord n) buf, 2, None)"
  by (simp add: writes_at_0)

lemma counted_writes:
  assumes "2 \<le> length buf \<Longrightarrow> writes_at bs 2 (put_at_front (enc_len ord n) buf) out"
  shows "writes_at (enc_len ord n @ bs) 0 buf
           (if length buf < 2 then (buf, 0, Some (Msg msg)) else out)"
proof (cases "2 \<le> length buf")
  case True
  then have "writes_at (enc_len ord n @ bs) 0 buf out"
    using assms by (intro writes_at_seq [where err = None, OF _ _ _ ]) (auto simp: enc_len_writes)
  with True show ?thesis by simp
next
  case False
  then show ?thesis by (simp add: writes_at_0)
qed

lemma encode_writes:
  "encodable ad v \<Longrightarrow> writes_at (enc ord v) 0 buf (encode_value ad ord v buf)"
  "encodable_fields ad fs \<Longrightarrow> off \<le> length buf \<Longrightarrow>
     writes_at (enc_fields ord fs) off buf (encode_struct ad ord fs off buf)"
  "encodable_elems ad xs \<Longrightarrow> off \<le> length buf \<Longrightarrow>
     writes_at (enc_elems ord xs) off buf (encode_elems ad ord xs off buf)"
proof (induction ad ord v buf and ad ord fs off buf and ad ord xs off buf
    rule: encode_value_encode_struct_encode_elems.induct)
  case (7 ad ord z xs buf)
  then show ?case
    by (simp only: enc.simps encode_value.simps enc_len_def [symmetric])
      (rule counted_writes, simp)
next
  case (8 ad ord xs buf)
  then show ?case
    by (simp only: enc.simps encode_value.simps enc_len_def [symmetric])
      (rule counted_writes, simp)
next
  case (12 ad ord exported f fs off buf)
  show ?case
  proof (cases exported)
    case True
    obtain sub n err where r: "encode_value ad ord f (drop off buf) = (sub, n, err)"
      by (metis prod_cases3)
    have "writes_at (enc ord f @ enc_fields ord fs) off buf
        (encode_struct ad ord ((exported, f) # fs) off buf)"
    proof (rule writes_at_seq)
      show first: "writes_at (enc ord f) 0 (drop off buf) (sub, n, err)"
        using 12 True r by simp
      show "off \<le> length buf" by (rule 12)
      show "writes_at (enc_fields ord fs) (off + n) (take off buf @ sub)
          (encode_struct ad ord fs (off + n) (take off buf @ sub))" if "err = None"
        using 12 True r that writes_at_advance first by simp
      show "encode_struct ad ord ((exported, f) # fs) off buf = (case err of
          None \<Rightarrow> encode_struct ad ord fs (off + n) (take off buf @ sub)
        | Some e \<Rightarrow> (take off buf @ sub, off, Some e))"
        using True r by (simp split: option.splits)
    qed
    with True show ?thesis by simp
  next
    case False
    with 12 show ?thesis by simp
  qed
next
  case (14 ad ord x xs off buf)
  obtain sub n err where r: "encode_value ad ord x (drop off buf) = (sub, n, err)"
    by (metis prod_cases3)
  have "writes_at (enc ord x @ enc_elems ord xs) off buf
      (encode_elems ad ord (x # xs) off buf)"
  proof (rule writes_at_seq)
    show first: "writes_at (enc ord x) 0 (drop off buf) (sub, n, err)"
      using 14 r by simp
    show "off \<le> length buf" by (rule 14)
    show "writes_at (enc_elems ord xs) (off + n) (take off buf @ sub)
        (encode_elems ad ord xs (off + n) (take off buf @ sub))" if "err = None"
      using 14 r that writes_at_advance first by simp
    show "encode_elems ad ord (x # xs) off buf = (case err of
        None \<Rightarrow> encode_elems ad ord xs (off + n) (take off buf @ sub)
      | Some e \<Rightarrow> (take off buf @ sub, off, Some e))"
      using r by (simp split: option.splits)
  qed
  then show ?case by simp
next
  case (4 ad ord s buf)
  then show ?case using encode_bytes_writes [of ord "bytes_of s" buf] by simp
qed (simp_all add: encode_basic_writes encode_bytes_writes writes_at_Nil)

text \<open>Values outside \<open>encodable\<close> are refused, whatever the buffer.\<close>

definition fails :: "enc_out \<Rightarrow> bool" where
  "fails out \<longleftrightarrow> snd (snd out) \<noteq> None"

lemma encode_refuses:
  "\<not> encodable ad v \<Longrightarrow> fails (encode_value ad ord v buf)"
  "\<not> encodable_fields ad fs \<Longrightarrow> fails (encode_struct ad ord fs off buf)"
  "\<not> encodable_elems ad xs \<Longrightarrow> fails (encode_elems ad ord xs off buf)"
  by (induction ad ord v buf and ad ord fs off buf and ad ord xs off buf
      rule: encode_value_encode_struct_encode_elems.induct)
    (auto simp: fails_def split: option.splits prod.splits if_splits)

text \<open>No encoder changes the length of the buffer or passes its end, also when it fails.\<close>

definition within :: "nat \<Rightarrow> byte list \<Rightarrow> enc_out \<Rightarrow> bool" where
  "within off buf out \<longleftrightarrow> length (fst out) = length buf \<and> fst (snd out) \<le> length buf"

lemma encode_basic_within: "within 0 buf (encode_basic ord b buf)"
  by (cases b) (auto simp: within_def encode_num_def encode_byte_def Suc_le_eq)

lemma encode_bytes_within: "within 0 buf (encode_bytes ord data buf)"
  by (auto simp: within_def encode_bytes_def Let_def)

lemma encode_within:
  "within 0 buf (encode_value ad ord v buf)"
  "off \<le> length buf \<Longrightarrow> within off buf (encode_struct ad ord fs off buf)"
  "off \<le> length buf \<Longrightarrow> within off buf (encode_elems ad ord xs off buf)"
proof (induction ad ord v buf and ad ord fs off buf and ad ord xs off buf
    rule: encode_value_encode_struct_encode_elems.induct)
  case (12 ad ord exported f fs off buf)
  then show ?case
    by (cases exported; cases "encode_value ad ord f (drop off buf)")
      (auto simp: within_def split: option.splits)
next
  case (14 ad ord x xs off buf)
  then show ?case
    by (cases "encode_value ad ord x (drop off buf)")
      (auto simp: within_def split: option.splits)
qed (auto simp: within_def encode_basic_within [unfolded within_def]
    encode_bytes_within [unfolded within_def])

theorem encode_value_ok_iff:
  "encode_value ad ord v buf = (buf', n, None) \<longleftrightarrow>
     encodable ad v \<and> length (enc ord v) \<le> length buf \<and>
     buf' = put_at_front (enc ord v) buf \<and> n = length (enc ord v)"
proof (cases "encodable ad v")
  case True
  then show ?thesis
    using encode_writes(1) [of ad v ord buf] by (auto simp: writes_at_0 split: if_splits)
next
  case False
  then show ?thesis
    using encode_refuses(1) [of ad v ord buf] by (auto simp: fails_def)
qed

section \<open>Decoding reads the reference encoding back\<close>

fun same_kind :: "basic \<Rightarrow> basic \<Rightarrow> bool" where
  "same_kind (BBool _) b \<longleftrightarrow> (case b of BBool _ \<Rightarrow> True | _ \<Rightarrow> False)"
| "same_kind (BUint8 _) b \<longleftrightarrow> (case b of BUint8 _ \<Rightarrow> True | _ \<Rightarrow> False)"
| "same_kind (BInt8 _) b \<longleftrightarrow> (case b of BInt8 _ \<Rightarrow> True | _ \<Rightarrow> False)"
| "same_kind (BUint16 _) b \<longleftrightarrow> (case b of BUint16 _ \<Rightarrow> True | _ \<Rightarrow> False)"
| "same_kind (BInt16 _) b \<longleftrightarrow> (case b of BInt16 _ \<Rightarrow> True | _ \<Rightarrow> False)"
| "same_kind (BUint32 _) b \<longleftrightarrow> (case b of BUint32 _ \<Rightarrow> True | _ \<Rightarrow> False)"
| "same_kind (BInt32 _) b \<longleftrightarrow> (case b of BInt32 _ \<Rightarrow> True | _ \<Rightarrow> False)"
| "same_kind (BUint64 _) b \<longleftrightarrow> (case b of BUint64 _ \<Rightarrow> True | _ \<Rightarrow> False)"
| "same_kind (BInt64 _) b \<longleftrightarrow> (case b of BInt64 _ \<Rightarrow> True | _ \<Rightarrow> False)"

text \<open>
  \<open>carried t v\<close>: \<open>t\<close> is a destination of the Go type of \<open>v\<close>, and \<open>v\<close> is made of what the
  wire form carries: no pointers, no byte arrays, counts that fit the 16-bit indicator. The
  fields that are not exported are those of the destination.
\<close>

fun carried :: "gval \<Rightarrow> gval \<Rightarrow> bool"
  and carried_fields :: "(bool \<times> gval) list \<Rightarrow> (bool \<times> gval) list \<Rightarrow> bool"
  and carried_elems :: "gval list \<Rightarrow> gval list \<Rightarrow> bool"
where
  "carried (VBasic a) v \<longleftrightarrow> (case v of VBasic b \<Rightarrow> same_kind a b | _ \<Rightarrow> False)"
| "carried (VString _) v \<longleftrightarrow> (case v of VString s \<Rightarrow> length s < 65536 | _ \<Rightarrow> False)"
| "carried (VBytes _) v \<longleftrightarrow> (case v of VBytes bs \<Rightarrow> length bs < 65536 | _ \<Rightarrow> False)"
| "carried (VByteArray _) v \<longleftrightarrow> False"
| "carried (VSlice z _) v \<longleftrightarrow>
     (case v of VSlice z' xs \<Rightarrow> z' = z \<and> length xs < 65536 \<and> list_all (\<lambda>x. carried z x) xs
      | _ \<Rightarrow> False)"
| "carried (VArray ts) v \<longleftrightarrow>
     (case v of VArray xs \<Rightarrow> length xs < 65536 \<and> carried_elems ts xs | _ \<Rightarrow> False)"
| "carried (VStruct fs) v \<longleftrightarrow> (case v of VStruct gs \<Rightarrow> carried_fields fs gs | _ \<Rightarrow> False)"
| "carried (VPtr _) v \<longleftrightarrow> False"
| "carried (VOther _) v \<longleftrightarrow> False"
| "carried_fields [] gs \<longleftrightarrow> gs = []"
| "carried_fields ((exported, f) # fs) gs \<longleftrightarrow>
     (case gs of [] \<Rightarrow> False
      | (exported', g) # gs' \<Rightarrow> exported' = exported \<and>
          (if exported then carried f g else g = f) \<and> carried_fields fs gs')"
| "carried_elems [] xs \<longleftrightarrow> xs = []"
| "carried_elems (t # ts) xs \<longleftrightarrow>
     (case xs of [] \<Rightarrow> False | x # xs' \<Rightarrow> carried t x \<and> carried_elems ts xs')"

lemma decode_basic_enc:
  "same_kind a b \<Longrightarrow>
   decode_basic ord a (enc_basic ord b @ rest) = (b, length (enc_basic ord b), None)"
  by (cases a; cases b)
    (simp_all add: decode_byte_def decode_bool_def decode_num_def)

lemma length_indicator:
  "n < 65536 \<Longrightarrow> unat (get_uint ord (take 2 (enc_len ord n @ rest)) :: u16) = n"
  by (simp add: enc_len_def unat_of_nat)

lemma drop_enc_len [simp]: "drop 2 (enc_len ord n @ rest) = rest"
  by simp

lemma decode_bytes_enc:
  "length bs < 65536 \<Longrightarrow>
   decode_bytes ord v (enc_len ord (length bs) @ bs @ rest) =
     ((case v of VString _ \<Rightarrow> VString (string_of bs) | VBytes _ \<Rightarrow> VBytes bs | _ \<Rightarrow> v),
      2 + length bs, None)"
  using length_indicator [of "length bs" ord "bs @ rest"]
  by (simp only: decode_bytes_def Let_def drop_enc_len) (simp split: gval.splits)

lemma decode_slice_enc:
  assumes dec: "\<And>x rest. x \<in> set xs \<Longrightarrow> dec (enc ord x @ rest) = (x, length (enc ord x), None)"
    and "drop off buf = enc_elems ord xs @ rest"
  shows "decode_slice dec z (length xs) off buf = (xs, off + length (enc_elems ord xs), None)"
  using assms
proof (induction xs arbitrary: off)
  case Nil
  then show ?case by simp
next
  case (Cons x xs)
  have "dec (drop off buf) = (x, length (enc ord x), None)"
    using Cons.prems by simp
  moreover have "drop (off + length (enc ord x)) buf = enc_elems ord xs @ rest"
    using Cons.prems(2) by (metis add.commute append.assoc append_eq_conv_conj drop_drop enc_elems.simps(2))
  ultimately show ?case
    using Cons.IH [of "off + length (enc ord x)"] Cons.prems(1) by (simp add: ac_simps)
qed

lemma drop_step:
  "drop off buf = bs @ cs \<Longrightarrow> drop (off + length bs) buf = cs"
  by (metis add.commute append_eq_conv_conj drop_drop)

lemma decode_enc:
  "carried t v \<Longrightarrow> decode_kind ord t (enc ord v @ rest) = (v, length (enc ord v), None)"
  "carried_fields fs gs \<Longrightarrow> drop off buf = enc_fields ord gs @ rest \<Longrightarrow>
     decode_struct ord fs off buf = (gs, off + length (enc_fields ord gs), None)"
  "carried_elems ts xs \<Longrightarrow> drop off buf = enc_elems ord xs @ rest \<Longrightarrow> 
     decode_array ord (length xs) ts off buf = (xs, off + length (enc_elems ord xs), None)"
proof (induction t v and fs gs and ts xs arbitrary: rest and off buf rest and off buf rest
    rule: carried_carried_fields_carried_elems.induct)
  case (1 a v)
  then show ?case by (auto simp: decode_basic_enc split: gval.splits)
next
  case (2 s v)
  then obtain u where "v = VString u" "length u < 65536" by (auto split: gval.splits)
  then show ?case using decode_bytes_enc [of "bytes_of u" ord "VString s" rest] by simp
next
  case (3 bs v)
  then obtain cs where "v = VBytes cs" "length cs < 65536" by (auto split: gval.splits)
  then show ?case using decode_bytes_enc [of cs ord "VBytes bs" rest] by simp
next
  case (5 z ys v)
  then obtain xs where v: "v = VSlice z xs" "length xs < 65536" "list_all (\<lambda>x. carried z x) xs"
    by (auto split: gval.splits)
  let ?buf = "enc_len ord (length xs) @ enc_elems ord xs @ rest"
  have "decode_slice (decode_kind ord z) z (length xs) 2 ?buf
      = (xs, 2 + length (enc_elems ord xs), None)"
    by (rule decode_slice_enc [where rest = rest]) (use 5 v in \<open>auto simp: list_all_iff\<close>)
  moreover have "unat (get_uint ord (take 2 ?buf) :: u16) = length xs"
    using v by (intro length_indicator)
  ultimately show ?case by (simp add: v)
next
  case (6 ts v)
  then obtain xs where v: "v = VArray xs" "length xs < 65536" "carried_elems ts xs"
    by (auto split: gval.splits)
  let ?buf = "enc_len ord (length xs) @ enc_elems ord xs @ rest"
  have "decode_array ord (length xs) ts 2 ?buf = (xs, 2 + length (enc_elems ord xs), None)"
    by (rule "6.IH") (use v in simp_all)
  moreover have "unat (get_uint ord (take 2 ?buf) :: u16) = length xs"
    using v by (intro length_indicator)
  moreover have "length ts = length xs"
    using v(3) by (induction ts arbitrary: xs) (auto split: list.splits)
  ultimately show ?case by (simp add: v)
next
  case (7 fs v)
  then obtain gs where "v = VStruct gs" "carried_fields fs gs" by (auto split: gval.splits)
  with 7(1) [of gs 0 "enc_fields ord gs @ rest" rest] show ?case by simp
next
  case (11 exported f fs gs)
  from "11.prems"(1) obtain g gs' where gs: "gs = (exported, g) # gs'"
    and g: "if exported then carried f g else g = f" and rest: "carried_fields fs gs'"
    by (auto split: list.splits)
  show ?case
  proof (cases exported)
    case True
    with "11.prems"(2) gs have d: "drop off buf = enc ord g @ enc_fields ord gs' @ rest" by simp
    then have "drop (off + length (enc ord g)) buf = enc_fields ord gs' @ rest" by (rule drop_step)
    with 11 True gs g rest d show ?thesis by (simp add: ac_simps)
  next
    case False
    with 11 gs g rest show ?thesis by simp
  qed
next
  case (13 t ts xs)
  from "13.prems"(1) obtain x xs' where xs: "xs = x # xs'" and x: "carried t x"
    and rest: "carried_elems ts xs'"
    by (auto split: list.splits)
  from "13.prems"(2) xs have d: "drop off buf = enc ord x @ enc_elems ord xs' @ rest" by simp
  then have "drop (off + length (enc ord x)) buf = enc_elems ord xs' @ rest" by (rule drop_step)
  with 13 xs x rest d show ?case by (simp add: ac_simps)
qed simp_all

section \<open>Decoding is local\<close>

text \<open>A successful decode has read \<open>n\<close> bytes of the buffer, and what follows them is irrelevant.\<close>

lemma take_append_le: "n \<le> length xs \<Longrightarrow> take n (xs @ ys) = take n xs"
  by simp

lemma decode_basic_local:
  "decode_basic ord b buf = (b', n, None) \<Longrightarrow>
   n \<le> length buf \<and> decode_basic ord b (buf @ rest) = (b', n, None)"
  by (cases b)
    (auto simp: decode_byte_def decode_bool_def decode_num_def Suc_le_eq split: if_splits)

lemma decode_bytes_local:
  "decode_bytes ord v buf = (v', n, None) \<Longrightarrow>
   n \<le> length buf \<and> decode_bytes ord v (buf @ rest) = (v', n, None)"
  by (auto simp: decode_bytes_def Let_def split: if_splits gval.splits)

lemma decode_slice_local:
  assumes dec: "\<And>b x n. dec b = (x, n, None) \<Longrightarrow>
      n \<le> length b \<and> dec (b @ rest) = (x, n, None)"
  shows "decode_slice dec z k off buf = (xs, m, None) \<Longrightarrow> off \<le> length buf \<Longrightarrow>
    off \<le> m \<and> m \<le> length buf \<and> decode_slice dec z k off (buf @ rest) = (xs, m, None)"
proof (induction k arbitrary: off xs m)
  case 0
  then show ?case by simp
next
  case (Suc k)
  obtain x n err where d: "dec (drop off buf) = (x, n, err)" by (metis prod_cases3)
  with Suc.prems have err: "err = None" by (auto split: option.splits prod.splits)
  have loc: "n \<le> length (drop off buf)" "dec (drop off buf @ rest) = (x, n, None)"
    using dec [OF d [unfolded err]] by simp_all
  obtain ys m' e where r: "decode_slice dec z k (off + n) buf = (ys, m', e)" by (metis prod_cases3)
  with Suc.prems d err have "e = None" "xs = x # ys" "m = m'" by simp_all
  moreover have "off + n \<le> length buf" using loc(1) Suc.prems(2) by simp
  ultimately show ?case using Suc.IH [of "off + n" ys m'] r Suc.prems(2) loc by simp
qed

lemma decode_local:
  "decode_kind ord t buf = (v, n, None) \<Longrightarrow>
     n \<le> length buf \<and> decode_kind ord t (buf @ rest) = (v, n, None)"
  "decode_struct ord fs off buf = (gs, m, None) \<Longrightarrow> off \<le> length buf \<Longrightarrow>
     off \<le> m \<and> m \<le> length buf \<and> decode_struct ord fs off (buf @ rest) = (gs, m, None)"
  "decode_array ord k ts off buf = (xs, m, None) \<Longrightarrow> off \<le> length buf \<Longrightarrow>
     off \<le> m \<and> m \<le> length buf \<and> decode_array ord k ts off (buf @ rest) = (xs, m, None)"
proof (induction ord t buf and ord fs off buf and ord k ts off buf
    arbitrary: v n and gs m and xs m rule: decode_kind_decode_struct_decode_array.induct)
  case (2 ord fs buf)
  then show ?case by (auto split: prod.splits)
next
  case (6 ord z ys buf)
  let ?k = "unat (get_uint ord (take 2 buf) :: u16)"
  from "6.prems" obtain xs where two: "2 \<le> length buf" and v: "v = VSlice z xs"
    and d: "decode_slice (decode_kind ord z) z ?k 2 buf = (xs, n, None)"
    by (auto split: if_splits prod.splits)
  have "2 \<le> n \<and> n \<le> length buf \<and>
      decode_slice (decode_kind ord z) z ?k 2 (buf @ rest) = (xs, n, None)"
    by (rule decode_slice_local [OF _ d two]) (use "6.IH" two in auto)
  with two v show ?case by simp
next
  case (7 ord ys buf)
  let ?k = "unat (get_uint ord (take 2 buf) :: u16)"
  from "7.prems" obtain xs where two: "2 \<le> length buf" and v: "v = VArray xs"
    and k: "\<not> length ys < ?k" and d: "decode_array ord ?k ys 2 buf = (xs, n, None)"
    by (auto simp: Let_def split: if_splits prod.splits)
  have "n \<le> length buf \<and> decode_array ord ?k ys 2 (buf @ rest) = (xs, n, None)"
    using "7.IH" [OF _ refl k d two] two by simp
  with two v k show ?case by (simp add: Let_def)
next
  case (11 ord exported f fs off buf)
  show ?case
  proof (cases exported)
    case True
    obtain f' n' err where d: "decode_kind ord f (drop off buf) = (f', n', err)" by (metis prod_cases3)
    with "11.prems" True have err: "err = None" by (auto split: option.splits)
    obtain hs m' e where r: "decode_struct ord fs (off + n') buf = (hs, m', e)" by (metis prod_cases3)
    with "11.prems" True d err have "e = None" "gs = (exported, f') # hs" "m = m'" by simp_all
    moreover have "n' \<le> length (drop off buf) \<and>
        decode_kind ord f (drop off buf @ rest) = (f', n', None)"
      using "11.IH"(2) True d err by simp
    moreover from this "11.prems"(2) have "off + n' \<le> length buf"
      by (simp add: le_diff_conv2 add.commute)
    ultimately show ?thesis using "11.IH"(3) [of f' "(n', None)" n' None hs m'] "11.prems"(2) True d err r by simp
  next
    case False
    with 11 show ?thesis by (auto split: prod.splits)
  qed
next
  case (14 ord k x ts off buf)
  obtain x' n' err where d: "decode_kind ord x (drop off buf) = (x', n', err)" by (metis prod_cases3)
  with "14.prems" have err: "err = None" by (auto split: option.splits)
  obtain ys m' e where r: "decode_array ord k ts (off + n') buf = (ys, m', e)" by (metis prod_cases3)
  with "14.prems" d err have "e = None" "xs = x' # ys" "m = m'" by simp_all
  moreover have "n' \<le> length (drop off buf) \<and>
      decode_kind ord x (drop off buf @ rest) = (x', n', None)"
    using "14.IH"(1) d err by simp
  moreover from this "14.prems"(2) have "off + n' \<le> length buf"
    by (simp add: le_diff_conv2 add.commute)
  ultimately show ?case using "14.IH"(2) [of x' "(n', None)" n' None ys m'] "14.prems"(2) d err r by simp
next
  case (8 ord b buf)
  then obtain b' where "decode_basic ord b buf = (b', n, None)" "v = VBasic b'"
    by (auto split: prod.splits)
  with decode_basic_local [of ord b buf b' n rest] show ?case by simp
qed (auto dest: decode_bytes_local split: prod.splits)

section \<open>Properties of Encode and Decode\<close>

text \<open>C3: \<open>Encode\<close> succeeds exactly on supported values whose reference encoding fits the
  buffer. It then writes that encoding at the front of the buffer, leaves the rest of the
  buffer alone, and returns the number of bytes written.\<close>

theorem Encode_ok_iff:
  "Encode buf ord data = (buf', n, None) \<longleftrightarrow>
     encodable False data \<and> length (enc ord data) \<le> length buf \<and>
     buf' = put_at_front (enc ord data) buf \<and> n = length (enc ord data)"
  by (auto simp: Encode_def encode_value_ok_iff)

text \<open>Whatever the value and the outcome, \<open>Encode\<close> never grows or shrinks the buffer, and
  the offset it returns, on success and on error, is inside the buffer: no slice expression of
  the encoder is ever out of range.\<close>

theorem Encode_in_bounds:
  "length (fst (Encode buf ord data)) = length buf \<and> fst (snd (Encode buf ord data)) \<le> length buf"
  using encode_within(1) [of buf False ord data] by (simp add: Encode_def within_def)

lemma encoded_prefix:
  assumes "encode_value False ord (VPtr (Some v)) buf = (buf', n, None)"
  shows "take n buf' = enc ord v" "n = length (enc ord v)"
  using assms unfolding encode_value_ok_iff by (auto simp: put_at_front_def)

lemma Encode_at: "Encode buf ord (VPtr (Some v)) = encode_value False ord (VPtr (Some v)) buf"
  by (simp add: Encode_def)

lemma Decode_at: "Decode buf ord (VPtr (Some t)) =
    (case decode_kind ord t buf of (v, n, e) \<Rightarrow> (VPtr (Some v), n, e))"
  by (simp add: Decode_def)

text \<open>C4: what \<open>Encode\<close> wrote, \<open>Decode\<close> reads back into any destination of the same type,
  consuming the same number of bytes, in both byte orders and whatever follows in the payload.\<close>

theorem Decode_Encode:
  assumes "Encode buf ord (VPtr (Some v)) = (buf', n, None)"
    and "carried t v"
  shows "Decode (take n buf' @ rest) ord (VPtr (Some t)) = (VPtr (Some v), n, None)"
  using encoded_prefix [OF assms(1) [unfolded Encode_at]] decode_enc(1) [OF assms(2)]
  by (simp add: Decode_at)

lemma truncated_refused:
  assumes t: "carried t v" and k: "k < length (enc ord v)"
  shows "snd (snd (Decode (take k (enc ord v)) ord (VPtr (Some t)))) \<noteq> None"
proof
  assume ok: "snd (snd (Decode (take k (enc ord v)) ord (VPtr (Some t)))) = None"
  obtain w m where d: "decode_kind ord t (take k (enc ord v)) = (w, m, None)"
    using ok by (auto simp: Decode_at split: prod.splits)
  have "m \<le> k" "decode_kind ord t (enc ord v) = (w, m, None)"
    using decode_local(1) [OF d, of "drop k (enc ord v)"] by auto
  with decode_enc(1) [OF t, of ord "[]"] k show False by simp
qed

text \<open>C5: a message cut short is refused: no proper prefix of an encoding decodes.\<close>

theorem Decode_truncated:
  assumes enc: "Encode buf ord (VPtr (Some v)) = (buf', n, None)"
    and t: "carried t v" and k: "k < n"
  shows "snd (snd (Decode (take k buf') ord (VPtr (Some t)))) \<noteq> None"
proof -
  have n: "take n buf' = enc ord v" "n = length (enc ord v)"
    by (rule encoded_prefix [OF enc [unfolded Encode_at]])+
  with k have "take k buf' = take k (enc ord v)" by (metis less_imp_le min.absorb1 take_take)
  with truncated_refused [OF t, of k ord] k n show ?thesis by simp
qed

text \<open>The 16-bit length indicator is not checked: a string of any length that fits the
  buffer is encoded without an error, and what comes back is its first \<open>len mod 65536\<close> bytes.\<close>

theorem Decode_Encode_string:
  "Encode (replicate (2 + length s) 0) ord (VPtr (Some (VString s))) =
     (enc ord (VString s), 2 + length s, None) \<and>
   Decode (enc ord (VString s)) ord (VPtr (Some (VString u))) =
     (VPtr (Some (VString (take (length s mod 65536) s))), 2 + length s mod 65536, None)"
proof
  show "Encode (replicate (2 + length s) 0) ord (VPtr (Some (VString s))) =
     (enc ord (VString s), 2 + length s, None)"
    unfolding Encode_at encode_value_ok_iff by (simp add: put_at_front_def)
  let ?m = "length s mod 65536"
  have "word_of_nat (length s) = (word_of_nat ?m :: u16)"
    by (rule word_unat_eq_iff [THEN iffD2]) (simp add: unat_of_nat)
  then have "enc ord (VString s) = enc_len ord ?m @ bytes_of (take ?m s) @ bytes_of (drop ?m s)"
    by (simp add: enc_len_def flip: bytes_of_append)
  moreover have "length (bytes_of (take ?m s)) = ?m" by simp
  ultimately show "Decode (enc ord (VString s)) ord (VPtr (Some (VString u))) =
     (VPtr (Some (VString (take ?m s))), 2 + ?m, None)"
    using decode_bytes_enc [of "bytes_of (take ?m s)" ord "VString u" "bytes_of (drop ?m s)"]
    by (simp add: Decode_at)
qed

text \<open>Byte arrays and pointer fields go one way only. An addressable byte array is encoded,
  but decoding into a byte array reports success, skips the data and leaves the destination
  as it was; a struct with a pointer field is encoded, but decoding into it is an error.\<close>

theorem one_way_values:
  assumes "length bs < 65536"
  shows "encodable True (VByteArray bs) \<and>
     Decode (enc ord (VByteArray bs)) ord (VPtr (Some (VByteArray old)))
       = (VPtr (Some (VByteArray old)), 2 + length bs, None) \<and>
     encodable True (VStruct [(True, VPtr (Some (VBasic b)))]) \<and>
     snd (snd (Decode payload ord (VPtr (Some (VStruct [(True, VPtr p)]))))) \<noteq> None"
  using decode_bytes_enc [OF assms, of ord "VByteArray old" "[]"] by (simp add: Decode_at)

text \<open>A concrete message for the hypotheses above: a struct of a string, an \<open>int16\<close> and a
  slice of strings, encoded into a buffer of 64 bytes.\<close>

definition sample_message :: gval where
  "sample_message = VStruct [(True, VString ''vm''), (True, VBasic (BInt16 4)),
     (True, VSlice (VString '''') [VString ''a'', VString ''bc'']), (False, VBasic (BBool True))]"

definition sample_destination :: gval where
  "sample_destination = VStruct [(True, VString ''''), (True, VBasic (BInt16 0)),
     (True, VSlice (VString '''') []), (False, VBasic (BBool True))]"

lemma sample_encoded:
  "Encode (replicate 64 0) LittleEndian (VPtr (Some sample_message)) =
     (put_at_front (enc LittleEndian sample_message) (replicate 64 0), 15, None)"
  unfolding Encode_at encode_value_ok_iff sample_message_def by simp

lemma sample_carried: "carried sample_destination sample_message"
  by (simp add: sample_destination_def sample_message_def)

theorem Decode_Encode_witness:
  "Decode (take 15 (put_at_front (enc LittleEndian sample_message) (replicate 64 0)) @ [7])
     LittleEndian (VPtr (Some sample_destination)) = (VPtr (Some sample_message), 15, None)"
  by (rule Decode_Encode [OF sample_encoded sample_carried])

theorem Decode_truncated_witness:
  "snd (snd (Decode (take 14 (put_at_front (enc LittleEndian sample_message) (replicate 64 0)))
     LittleEndian (VPtr (Some sample_destination)))) \<noteq> None"
  by (rule Decode_truncated [OF sample_encoded sample_carried]) simp

theorem one_way_values_witness:
  "Decode (enc BigEndian (VByteArray [1, 2, 3])) BigEndian (VPtr (Some (VByteArray [9, 9, 9])))
     = (VPtr (Some (VByteArray [9, 9, 9])), 5, None)"
  using one_way_values [of "[1, 2, 3]" BigEndian "[9, 9, 9]"] by simp

end
