(* ===== verification/Inventory.thy ===== *)
theory Inventory
  imports Model
begin

text \<open>
  Package \<open>inventory\<close> (\<open>inventory.go\<close>): what a host knows of the cluster, as two maps from
  UUIDs to hosts and to virtual machines, and the operations that keep them. Every
  exported function takes the lock for its whole body, so an operation is a function on the
  state. A host's set \<open>Vms\<close> is a Go map used as a set; the struct holding it is copied, the
  set itself is only reached through the inventory here.
\<close>

section \<open>State\<close>

record HostInfo =
  hinfo_uuid :: string
  hinfo_fields :: HostListFields

record Hostdata =
  hd_info :: HostInfo
  hd_vms :: "string set"

record VmEvent =
  ve_uuid :: string
  ve_host :: string
  ve_runstate :: Vmrunstate
  ve_ts :: i64

record VmInfo = VmEvent +
  vmi_name :: string
  vmi_vlanid :: i16
  vmi_custom :: "CustomField list"
  vmi_vcpus :: i16

type_synonym HostsInventory = "string \<rightharpoonup> Hostdata"
type_synonym VmsInventory = "string \<rightharpoonup> VmInfo"

record Inventory =
  hosts :: HostsInventory
  vms :: VmsInventory

definition init_inventory :: Inventory where
  "init_inventory = \<lparr>hosts = Map.empty, vms = Map.empty\<rparr>"

abbreviation hinfo_ts :: "HostInfo \<Rightarrow> i64" where
  "hinfo_ts hi \<equiv> hf_ts (hinfo_fields hi)"

section \<open>Reading\<close>

definition Get_hostdata :: "string \<Rightarrow> Inventory \<Rightarrow> Hostdata result" where
  "Get_hostdata uuid iv = (case hosts iv uuid of
     Some hostdata \<Rightarrow> Inr hostdata
   | None \<Rightarrow> Inl (Msg (''inventory: no such host '' @ uuid)))"

definition Get_hostinfo :: "string \<Rightarrow> Inventory \<Rightarrow> HostInfo result" where
  "Get_hostinfo uuid iv = (case hosts iv uuid of
     Some hostdata \<Rightarrow> Inr (hd_info hostdata)
   | None \<Rightarrow> Inl (Msg (''inventory: no such host '' @ uuid)))"

definition Get_vminfo :: "string \<Rightarrow> Inventory \<Rightarrow> VmInfo result" where
  "Get_vminfo uuid iv = (case vms iv uuid of
     Some vminfo \<Rightarrow> Inr vminfo
   | None \<Rightarrow> Inl (Msg (''inventory: no such vm '' @ uuid)))"

section \<open>Hosts\<close>

definition update_host :: "HostInfo \<Rightarrow> Inventory \<Rightarrow> Inventory" where
  "update_host hostinfo iv = (case hosts iv (hinfo_uuid hostinfo) of
     Some hostdata \<Rightarrow>
       if hinfo_ts hostinfo <s hinfo_ts (hd_info hostdata) then iv
       else iv\<lparr>hosts := (hosts iv)(hinfo_uuid hostinfo \<mapsto> hostdata\<lparr>hd_info := hostinfo\<rparr>)\<rparr>
   | None \<Rightarrow>
       iv\<lparr>hosts := (hosts iv)(hinfo_uuid hostinfo \<mapsto> \<lparr>hd_info = hostinfo, hd_vms = {}\<rparr>)\<rparr>)"

definition set_host_state :: "string \<Rightarrow> Cstate \<Rightarrow> Inventory \<Rightarrow> Inventory \<times> gerr option" where
  "set_host_state uuid newstate iv = (case hosts iv uuid of
     None \<Rightarrow> (iv, Some (Msg (''no such host '' @ uuid)))
   | Some hostdata \<Rightarrow>
       (iv\<lparr>hosts := (hosts iv)(uuid \<mapsto>
          hostdata\<lparr>hd_info := (hd_info hostdata)\<lparr>hinfo_fields :=
            (hinfo_fields (hd_info hostdata))\<lparr>hf_cstate := newstate\<rparr>\<rparr>\<rparr>)\<rparr>, None))"

section \<open>Virtual machines\<close>

definition del_host_vm :: "string \<Rightarrow> string \<Rightarrow> Inventory \<Rightarrow> Inventory" where
  "del_host_vm host uuid iv = (case hosts iv host of
     None \<Rightarrow> iv
   | Some hostdata \<Rightarrow>
       iv\<lparr>hosts := (hosts iv)(host \<mapsto> hostdata\<lparr>hd_vms := hd_vms hostdata - {uuid}\<rparr>)\<rparr>)"

definition add_host_vm :: "string \<Rightarrow> string \<Rightarrow> Inventory \<Rightarrow> Inventory" where
  "add_host_vm host uuid iv = (case hosts iv host of
     None \<Rightarrow> iv
   | Some hostdata \<Rightarrow>
       iv\<lparr>hosts := (hosts iv)(host \<mapsto> hostdata\<lparr>hd_vms := insert uuid (hd_vms hostdata)\<rparr>)\<rparr>)"

definition update_hostdata_vm :: "string \<Rightarrow> string \<Rightarrow> string \<Rightarrow> Inventory \<Rightarrow> Inventory" where
  "update_hostdata_vm uuid old_host new_host iv =
     (let inv1 = (if hosts iv old_host \<noteq> None \<and> old_host \<noteq> new_host
                  then del_host_vm old_host uuid iv else iv) in
      if hosts inv1 new_host \<noteq> None then add_host_vm new_host uuid inv1 else inv1)"

definition delete_hostdata_vm :: "string \<Rightarrow> string \<Rightarrow> string \<Rightarrow> Inventory \<Rightarrow> Inventory" where
  "delete_hostdata_vm uuid old_host new_host iv =
     (let inv1 = (if hosts iv old_host \<noteq> None then del_host_vm old_host uuid iv else iv) in
      if old_host = new_host then inv1
      else if hosts inv1 new_host \<noteq> None then del_host_vm new_host uuid inv1
      else inv1)"

definition update_vm_state ::
  "string \<Rightarrow> Vmrunstate \<Rightarrow> string \<Rightarrow> i64 \<Rightarrow> Inventory \<Rightarrow> Inventory \<times> gerr option" where
  "update_vm_state uuid runstate host ts iv = (case vms iv uuid of
     None \<Rightarrow> (iv, Some (Msg (''no such VM '' @ uuid)))
   | Some vminfo \<Rightarrow>
       if ts <s ve_ts vminfo then (iv, None)
       else if runstate = RUNSTATE_DELETED then
         (let inv1 = delete_hostdata_vm uuid (ve_host vminfo) host iv in
          (inv1\<lparr>vms := (vms inv1)(uuid := None)\<rparr>, None))
       else
         (let inv1 = update_hostdata_vm uuid (ve_host vminfo) host iv in
          (inv1\<lparr>vms := (vms inv1)(uuid \<mapsto> vminfo\<lparr>ve_host := host, ve_runstate := runstate\<rparr>)\<rparr>,
           None)))"

definition Update_vm_state :: "VmEvent \<Rightarrow> Inventory \<Rightarrow> Inventory \<times> gerr option" where
  "Update_vm_state e iv = update_vm_state (ve_uuid e) (ve_runstate e) (ve_host e) (ve_ts e) iv"

text \<open>Where the machine is not in the map, Go's lookup gives the zero \<open>VmInfo\<close>, whose host is
  the empty string.\<close>

definition update_vm :: "VmInfo \<Rightarrow> Inventory \<Rightarrow> Inventory \<times> gerr option" where
  "update_vm vminfo iv =
     (if (case vms iv (ve_uuid vminfo) of
            None \<Rightarrow> False
          | Some old \<Rightarrow> ve_ts vminfo <s ve_ts old)
      then (iv, None)
      else (let old_host = (case vms iv (ve_uuid vminfo) of None \<Rightarrow> '''' | Some old \<Rightarrow> ve_host old);
                inv1 = update_hostdata_vm (ve_uuid vminfo) old_host (ve_host vminfo) iv in
            (inv1\<lparr>vms := (vms inv1)(ve_uuid vminfo \<mapsto> vminfo)\<rparr>, None)))"

section \<open>Operations as steps\<close>

text \<open>The exported operations that change the inventory, as the messages of \<open>serfcomm\<close> cause
  them. An operation that returns an error still defines the next state.\<close>

datatype inventory_op =
    OpHost HostInfo
  | OpHostState string Cstate
  | OpVmEvent VmEvent
  | OpVm VmInfo

fun perform :: "inventory_op \<Rightarrow> Inventory \<Rightarrow> Inventory" where
  "perform (OpHost hi) iv = update_host hi iv"
| "perform (OpHostState uuid st) iv = fst (set_host_state uuid st iv)"
| "perform (OpVmEvent e) iv = fst (Update_vm_state e iv)"
| "perform (OpVm v) iv = fst (update_vm v iv)"

section \<open>The invariant\<close>

text \<open>
  Keys agree with the UUIDs stored under them, and a host lists a machine only when the
  machine's own entry names that host. So no machine is listed by two hosts.
\<close>

definition keyed :: "Inventory \<Rightarrow> bool" where
  "keyed iv \<longleftrightarrow>
     (\<forall>h hd. hosts iv h = Some hd \<longrightarrow> hinfo_uuid (hd_info hd) = h) \<and>
     (\<forall>u v. vms iv u = Some v \<longrightarrow> ve_uuid v = u)"

definition lists :: "Inventory \<Rightarrow> string \<Rightarrow> string \<Rightarrow> bool" where
  "lists iv h u \<longleftrightarrow> (\<exists>hd. hosts iv h = Some hd \<and> u \<in> hd_vms hd)"

definition placed :: "Inventory \<Rightarrow> string \<Rightarrow> string \<Rightarrow> bool" where
  "placed iv h u \<longleftrightarrow> (\<exists>v. vms iv u = Some v \<and> ve_host v = h)"

definition inventory_ok :: "Inventory \<Rightarrow> bool" where
  "inventory_ok iv \<longleftrightarrow> keyed iv \<and> (\<forall>h u. lists iv h u \<longrightarrow> placed iv h u)"

text \<open>Every machine placed on a known host is listed by it.\<close>

definition listing_complete :: "Inventory \<Rightarrow> bool" where
  "listing_complete iv \<longleftrightarrow> (\<forall>h u. placed iv h u \<and> hosts iv h \<noteq> None \<longrightarrow> lists iv h u)"

text \<open>What each helper does to the three views.\<close>

lemma lists_del [inv_simps]:
  "lists (del_host_vm h u iv) h' u' \<longleftrightarrow> lists iv h' u' \<and> \<not> (h' = h \<and> u' = u)"
  by (auto simp: del_host_vm_def lists_def split: option.splits if_splits)

lemma lists_add [inv_simps]:
  "lists (add_host_vm h u iv) h' u' \<longleftrightarrow> lists iv h' u' \<or> (h' = h \<and> u' = u \<and> hosts iv h \<noteq> None)"
  by (auto simp: add_host_vm_def lists_def split: option.splits if_splits)

lemma known_del [inv_simps]: "hosts (del_host_vm h u iv) h' = None \<longleftrightarrow> hosts iv h' = None"
  by (auto simp: del_host_vm_def split: option.splits)

lemma known_add [inv_simps]: "hosts (add_host_vm h u iv) h' = None \<longleftrightarrow> hosts iv h' = None"
  by (auto simp: add_host_vm_def split: option.splits)

lemma known_some [inv_simps]:
  "(\<exists>y. hosts (del_host_vm h u iv) h' = Some y) \<longleftrightarrow> (\<exists>y. hosts iv h' = Some y)"
  "(\<exists>y. hosts (add_host_vm h u iv) h' = Some y) \<longleftrightarrow> (\<exists>y. hosts iv h' = Some y)"
  by (auto simp: del_host_vm_def add_host_vm_def split: option.splits)

lemma known_del_SomeD: "hosts (del_host_vm h u iv) h' = Some y \<Longrightarrow> \<exists>y. hosts iv h' = Some y"
  using known_some(1) by blast

lemma info_del [inv_simps]:
  "map_option hd_info (hosts (del_host_vm h u iv) h') = map_option hd_info (hosts iv h')"
  by (auto simp: del_host_vm_def split: option.splits)

lemma info_add [inv_simps]:
  "map_option hd_info (hosts (add_host_vm h u iv) h') = map_option hd_info (hosts iv h')"
  by (auto simp: add_host_vm_def split: option.splits)

lemma vms_del [inv_simps]: "vms (del_host_vm h u iv) = vms iv"
  by (auto simp: del_host_vm_def split: option.splits)

lemma vms_add [inv_simps]: "vms (add_host_vm h u iv) = vms iv"
  by (auto simp: add_host_vm_def split: option.splits)

lemma update_hostdata_views [inv_simps]:
  "lists (update_hostdata_vm u old new iv) h u' \<longleftrightarrow>
     (lists iv h u' \<and> \<not> (h = old \<and> u' = u \<and> old \<noteq> new)) \<or> (h = new \<and> u' = u \<and> hosts iv new \<noteq> None)"
  "hosts (update_hostdata_vm u old new iv) h = None \<longleftrightarrow> hosts iv h = None"
  "map_option hd_info (hosts (update_hostdata_vm u old new iv) h) = map_option hd_info (hosts iv h)"
  "vms (update_hostdata_vm u old new iv) = vms iv"
  by (auto simp: update_hostdata_vm_def Let_def inv_simps dest!: known_del_SomeD)
     (auto simp: lists_def)

lemma delete_hostdata_views [inv_simps]:
  "lists (delete_hostdata_vm u old new iv) h u' \<longleftrightarrow>
     lists iv h u' \<and> \<not> (u' = u \<and> (h = old \<or> h = new))"
  "hosts (delete_hostdata_vm u old new iv) h = None \<longleftrightarrow> hosts iv h = None"
  "map_option hd_info (hosts (delete_hostdata_vm u old new iv) h) = map_option hd_info (hosts iv h)"
  "vms (delete_hostdata_vm u old new iv) = vms iv"
  by (auto simp: delete_hostdata_vm_def Let_def inv_simps dest!: known_del_SomeD)
     (auto simp: lists_def)

lemma lists_vms_update [inv_simps]:
  "lists (iv\<lparr>vms := m\<rparr>) h u = lists iv h u"
  "placed (iv\<lparr>vms := m\<rparr>) h u \<longleftrightarrow> (\<exists>v. m u = Some v \<and> ve_host v = h)"
  by (simp_all add: lists_def placed_def)

text \<open>Keys are a matter of the stored host infos and machine entries only.\<close>

lemma keyed_iff:
  "keyed iv \<longleftrightarrow>
     (\<forall>h hi. map_option hd_info (hosts iv h) = Some hi \<longrightarrow> hinfo_uuid hi = h) \<and>
     (\<forall>u v. vms iv u = Some v \<longrightarrow> ve_uuid v = u)"
  by (auto simp: keyed_def)

lemma update_host_views:
  "lists (update_host hi iv) h u \<longleftrightarrow> lists iv h u"
  "vms (update_host hi iv) = vms iv"
  "placed (update_host hi iv) h u \<longleftrightarrow> placed iv h u"
  "hosts (update_host hi iv) h = None \<longleftrightarrow> hosts iv h = None \<and> h \<noteq> hinfo_uuid hi"
  by (auto simp: update_host_def lists_def placed_def split: option.splits if_splits)

lemma set_host_state_views:
  "lists (fst (set_host_state uuid st iv)) h u \<longleftrightarrow> lists iv h u"
  "vms (fst (set_host_state uuid st iv)) = vms iv"
  "placed (fst (set_host_state uuid st iv)) h u \<longleftrightarrow> placed iv h u"
  "hosts (fst (set_host_state uuid st iv)) h = None \<longleftrightarrow> hosts iv h = None"
  by (auto simp: set_host_state_def lists_def placed_def split: option.splits if_splits)

lemma update_host_ok: "inventory_ok iv \<Longrightarrow> inventory_ok (update_host hi iv)"
  by (simp add: inventory_ok_def update_host_views)
     (auto simp: keyed_def update_host_def split: option.splits if_splits)

lemma set_host_state_ok: "inventory_ok iv \<Longrightarrow> inventory_ok (fst (set_host_state uuid st iv))"
  by (simp add: inventory_ok_def set_host_state_views)
     (auto simp: keyed_def set_host_state_def split: option.splits if_splits)

definition old_host :: "Inventory \<Rightarrow> string \<Rightarrow> string" where
  "old_host iv u = (case vms iv u of None \<Rightarrow> '''' | Some old \<Rightarrow> ve_host old)"

text \<open>Placing a machine on a host, and removing it, as both operations on machines do.\<close>

definition place_vm :: "string \<Rightarrow> VmInfo \<Rightarrow> Inventory \<Rightarrow> Inventory" where
  "place_vm u v iv =
     (let iv1 = update_hostdata_vm u (old_host iv u) (ve_host v) iv in iv1\<lparr>vms := (vms iv1)(u \<mapsto> v)\<rparr>)"

definition remove_vm :: "string \<Rightarrow> string \<Rightarrow> Inventory \<Rightarrow> Inventory" where
  "remove_vm u h iv =
     (let iv1 = delete_hostdata_vm u (old_host iv u) h iv in iv1\<lparr>vms := (vms iv1)(u := None)\<rparr>)"

lemma update_vm_eq:
  "fst (update_vm v iv) =
     (if \<exists>old. vms iv (ve_uuid v) = Some old \<and> ve_ts v <s ve_ts old then iv
      else place_vm (ve_uuid v) v iv)"
  by (simp add: update_vm_def place_vm_def old_host_def Let_def split: option.split)

lemma update_vm_state_eq:
  "fst (update_vm_state u st h ts iv) =
     (case vms iv u of
        None \<Rightarrow> iv
      | Some v \<Rightarrow> if ts <s ve_ts v then iv
                 else if st = RUNSTATE_DELETED then remove_vm u h iv
                 else place_vm u (v\<lparr>ve_host := h, ve_runstate := st\<rparr>) iv)"
  by (simp add: update_vm_state_def place_vm_def remove_vm_def old_host_def Let_def split: option.split)

lemma place_vm_views [inv_simps]:
  "lists (place_vm u v iv) h u' \<longleftrightarrow>
     (if u' = u then (if h = ve_host v then hosts iv h \<noteq> None \<or> lists iv h u
                      else h \<noteq> old_host iv u \<and> lists iv h u)
      else lists iv h u')"
  "vms (place_vm u v iv) = (vms iv)(u \<mapsto> v)"
  "hosts (place_vm u v iv) h = None \<longleftrightarrow> hosts iv h = None"
  "map_option hd_info (hosts (place_vm u v iv) h) = map_option hd_info (hosts iv h)"
  by (auto simp: place_vm_def Let_def inv_simps)

lemma remove_vm_views [inv_simps]:
  "lists (remove_vm u h0 iv) h u' \<longleftrightarrow> lists iv h u' \<and> \<not> (u' = u \<and> (h = old_host iv u \<or> h = h0))"
  "vms (remove_vm u h0 iv) = (vms iv)(u := None)"
  "hosts (remove_vm u h0 iv) h = None \<longleftrightarrow> hosts iv h = None"
  "map_option hd_info (hosts (remove_vm u h0 iv) h) = map_option hd_info (hosts iv h)"
  by (auto simp: remove_vm_def Let_def inv_simps)

lemma placed_views [inv_simps]:
  "placed (place_vm u v iv) h u' \<longleftrightarrow> (if u' = u then h = ve_host v else placed iv h u')"
  "placed (remove_vm u h0 iv) h u' \<longleftrightarrow> u' \<noteq> u \<and> placed iv h u'"
  by (auto simp: placed_def inv_simps)

lemma keyed_place: "keyed iv \<Longrightarrow> ve_uuid v = u \<Longrightarrow> keyed (place_vm u v iv)"
  by (simp only: keyed_iff place_vm_views fun_upd_apply) (metis option.inject)

lemma keyed_remove: "keyed iv \<Longrightarrow> keyed (remove_vm u h iv)"
  by (simp only: keyed_iff remove_vm_views fun_upd_apply) (metis option.distinct(1))

lemma listed_old_host: "inventory_ok iv \<Longrightarrow> lists iv h u \<Longrightarrow> h = old_host iv u"
  by (force simp: inventory_ok_def placed_def old_host_def)

lemma place_ok: "inventory_ok iv \<Longrightarrow> ve_uuid v = u \<Longrightarrow> inventory_ok (place_vm u v iv)"
  using listed_old_host[of iv _ u]
  by (auto simp: inventory_ok_def keyed_place inv_simps)

lemma remove_ok: "inventory_ok iv \<Longrightarrow> inventory_ok (remove_vm u h iv)"
  using listed_old_host[of iv _ u]
  by (auto simp: inventory_ok_def keyed_remove inv_simps)

lemma update_vm_state_ok:
  assumes "inventory_ok iv"
  shows "inventory_ok (fst (update_vm_state uuid st host ts iv))"
proof (cases "vms iv uuid")
  case None
  with assms show ?thesis by (simp add: update_vm_state_eq)
next
  case (Some v)
  with assms have "ve_uuid v = uuid" by (simp add: inventory_ok_def keyed_def)
  with assms Some show ?thesis by (simp add: update_vm_state_eq place_ok remove_ok)
qed

lemma update_vm_ok: "inventory_ok iv \<Longrightarrow> inventory_ok (fst (update_vm v iv))"
  by (simp add: update_vm_eq place_ok)

lemma perform_ok: "inventory_ok iv \<Longrightarrow> inventory_ok (perform op iv)"
  by (cases op)
    (simp_all add: update_host_ok set_host_state_ok update_vm_state_ok update_vm_ok Update_vm_state_def)

lemma init_ok: "inventory_ok init_inventory"
  by (simp add: inventory_ok_def keyed_def lists_def init_inventory_def)

text \<open>Time stamps of hosts: the stored one never goes back.\<close>

definition host_info :: "Inventory \<Rightarrow> string \<Rightarrow> HostInfo option" where
  "host_info iv h = map_option hd_info (hosts iv h)"

definition hosts_at_most :: "Inventory \<Rightarrow> Inventory \<Rightarrow> bool" where
  "hosts_at_most s t \<longleftrightarrow> (\<forall>h hi. host_info s h = Some hi \<longrightarrow>
     (\<exists>hi'. host_info t h = Some hi' \<and> hinfo_ts hi \<le>s hinfo_ts hi'))"

lemma host_info_place:
  "host_info (place_vm u v iv) = host_info iv" "host_info (remove_vm u h iv) = host_info iv"
  by (rule ext, simp add: host_info_def inv_simps)+

lemma host_info_vm_ops:
  "host_info (fst (update_vm_state uuid st host ts iv)) h = host_info iv h"
  "host_info (fst (update_vm v iv)) h = host_info iv h"
  by (simp_all add: host_info_def update_vm_state_eq update_vm_eq inv_simps split: option.split)

lemma host_info_update_host:
  "host_info (update_host hi iv) =
     (case host_info iv (hinfo_uuid hi) of
        Some old \<Rightarrow> if hinfo_ts hi <s hinfo_ts old then host_info iv
                    else (host_info iv)(hinfo_uuid hi \<mapsto> hi)
      | None \<Rightarrow> (host_info iv)(hinfo_uuid hi \<mapsto> hi))"
  by (rule ext) (auto simp: host_info_def update_host_def split: option.splits)

lemma hosts_at_most_perform: "hosts_at_most s (perform op s)"
proof (cases op)
  case (OpHost hi)
  then show ?thesis
    by (auto simp: hosts_at_most_def host_info_update_host word_sle_eq word_sless_alt split: option.splits)
next
  case (OpHostState uuid st)
  then show ?thesis
    by (auto simp: hosts_at_most_def host_info_def set_host_state_def word_sle_eq split: option.splits)
next
  case (OpVmEvent e)
  then show ?thesis
    by (auto simp: hosts_at_most_def host_info_vm_ops Update_vm_state_def word_sle_eq)
next
  case (OpVm v)
  then show ?thesis by (auto simp: hosts_at_most_def host_info_vm_ops word_sle_eq)
qed

interpretation inventory: monotone_system perform inventory_ok hosts_at_most
proof unfold_locales
  show "hosts_at_most s s" for s by (simp add: hosts_at_most_def word_sle_eq)
  show "hosts_at_most s t \<Longrightarrow> hosts_at_most t u \<Longrightarrow> hosts_at_most s u" for s t u
    unfolding hosts_at_most_def word_sle_eq by (meson order_trans)
qed (simp_all add: perform_ok hosts_at_most_perform)

text \<open>C7: after any sequence of operations on an empty inventory, keys agree with UUIDs and a
  host lists a machine only if the machine's entry names that host; so no machine is listed by
  two hosts, and every listed machine has an entry.\<close>

theorem inventory_consistent:
  "inventory_ok (fold perform ops init_inventory) \<and>
   (\<forall>h1 h2 u. lists (fold perform ops init_inventory) h1 u \<and>
              lists (fold perform ops init_inventory) h2 u \<longrightarrow> h1 = h2)"
proof -
  have ok: "inventory_ok (fold perform ops init_inventory)"
    by (rule inventory.run_inv[OF init_ok])
  then show ?thesis by (metis listed_old_host)
qed

text \<open>The time stamp stored for a host never goes back, and a host once known stays known,
  whatever operations follow.\<close>

theorem host_ts_monotone:
  assumes "host_info (fold perform ops1 init_inventory) h = Some hi"
  shows "\<exists>hi'. host_info (fold perform (ops1 @ ops2) init_inventory) h = Some hi' \<and>
           hinfo_ts hi \<le>s hinfo_ts hi'"
proof -
  have "hosts_at_most (fold perform ops1 init_inventory)
          (fold perform ops2 (fold perform ops1 init_inventory))"
    by (rule inventory.run_grows[OF inventory.run_inv[OF init_ok]])
  with assms show ?thesis by (simp add: hosts_at_most_def)
qed

section \<open>Host updates converge\<close>

text \<open>The messages about hosts among the operations, and whether a message is one with the newest stamp.\<close>

fun host_messages :: "inventory_op list \<Rightarrow> HostInfo list" where
  "host_messages [] = []"
| "host_messages (OpHost hi # ops) = hi # host_messages ops"
| "host_messages (_ # ops) = host_messages ops"

definition newest :: "HostInfo set \<Rightarrow> string \<Rightarrow> HostInfo \<Rightarrow> bool" where
  "newest his h hi \<longleftrightarrow> hi \<in> his \<and> hinfo_uuid hi = h \<and>
     (\<forall>hj\<in>his. hinfo_uuid hj = h \<longrightarrow> hinfo_ts hj \<le>s hinfo_ts hi)"

lemma sless_iff_not_sle: "(x <s y) \<longleftrightarrow> \<not> y \<le>s x" for x y :: "'a::len word"
  by (simp add: word_sless_alt word_sle_eq not_le)

lemma sle_eqI: "x \<le>s y \<Longrightarrow> y \<le>s x \<Longrightarrow> x = y" for x y :: "'a::len word"
  by (rule signed_word_eqI [where ?'a = int]) (simp add: word_sle_eq)

lemma updates_newest:
  "(case host_info (fold update_host his init_inventory) h of
      None \<Rightarrow> (\<forall>hj\<in>set his. hinfo_uuid hj \<noteq> h)
    | Some hi \<Rightarrow> newest (set his) h hi)"
proof (induction his rule: rev_induct)
  case Nil
  then show ?case by (simp add: host_info_def init_inventory_def)
next
  case (snoc x his)
  show ?case
  proof (cases "hinfo_uuid x = h")
    case False
    with snoc show ?thesis
      by (auto simp: host_info_update_host newest_def split: option.splits if_splits)
  next
    case True
    with snoc show ?thesis
      by (auto simp: host_info_update_host newest_def sless_iff_not_sle word_sle_eq
          split: option.splits if_splits)
  qed
qed

text \<open>The other operations do not touch the information about hosts, unless one sets a host's state.\<close>

definition sets_state :: "inventory_op \<Rightarrow> bool" where
  "sets_state op \<longleftrightarrow> (case op of OpHostState h st \<Rightarrow> True | _ \<Rightarrow> False)"

lemma update_host_info_cong: "host_info s = host_info t \<Longrightarrow> host_info (update_host hi s) = host_info (update_host hi t)"
proof -
  assume e: "host_info s = host_info t"
  show ?thesis unfolding host_info_update_host e ..
qed

lemma fold_messages:
  "\<not> list_ex sets_state ops \<Longrightarrow> host_info s = host_info t \<Longrightarrow>
     host_info (fold perform ops s) = host_info (fold update_host (host_messages ops) t)"
proof (induction ops arbitrary: s t)
  case (Cons op ops)
  have rest: "\<not> list_ex sets_state ops" and op: "\<not> sets_state op" using Cons.prems(1) by auto
  have same: "host_info (perform op s) = host_info t" if "host_messages (op # ops) = host_messages ops"
  proof (cases op)
    case (OpHost hi)
    then show ?thesis using that by simp
  qed (use op Cons.prems(2) in \<open>simp_all add: sets_state_def Update_vm_state_def fun_eq_iff host_info_vm_ops\<close>)
  show ?case
  proof (cases "\<exists>hi. op = OpHost hi")
    case True
    then obtain hi where hi: "op = OpHost hi" ..
    from Cons.IH[OF rest update_host_info_cong[OF Cons.prems(2), of hi]] show ?thesis by (simp add: hi)
  next
    case False
    then have m: "host_messages (op # ops) = host_messages ops" by (cases op) auto
    show ?thesis unfolding m fold_Cons comp_apply by (rule Cons.IH[OF rest same[OF m]])
  qed
qed simp

lemma messages_newest:
  assumes "\<not> list_ex sets_state ops"
  shows "case host_info (fold perform ops init_inventory) h of
      None \<Rightarrow> (\<forall>hj\<in>set (host_messages ops). hinfo_uuid hj \<noteq> h)
    | Some hi \<Rightarrow> newest (set (host_messages ops)) h hi"
  using updates_newest[of "host_messages ops" h] fold_messages[OF assms HOL.refl, of init_inventory] by simp

lemma newest_rel:
  assumes "case x of None \<Rightarrow> (\<forall>hj\<in>his. hinfo_uuid hj \<noteq> h) | Some hi \<Rightarrow> newest his h hi"
    and "case y of None \<Rightarrow> (\<forall>hj\<in>his. hinfo_uuid hj \<noteq> h) | Some hi \<Rightarrow> newest his h hi"
  shows "rel_option (\<lambda>hi hj. newest his h hi \<and> newest his h hj \<and> hinfo_ts hi = hinfo_ts hj) x y"
proof -
  have member: "hi \<in> his \<and> hinfo_uuid hi = h" if "newest his h hi" for hi using that unfolding newest_def by blast
  have same: "hinfo_ts hi = hinfo_ts hj" if "newest his h hi" "newest his h hj" for hi hj
    using that unfolding newest_def by (metis sle_eqI)
  show ?thesis
  proof (cases x)
    case None
    have "y = None"
    proof (rule ccontr)
      assume "y \<noteq> None"
      then obtain hj where "newest his h hj" using assms(2) by auto
      from member[OF this] assms(1) None show False by auto
    qed
    with None show ?thesis by simp
  next
    case (Some hi)
    then have hi: "newest his h hi" using assms(1) by simp
    have "y \<noteq> None"
    proof
      assume "y = None"
      with assms(2) member[OF hi] show False by auto
    qed
    then obtain hj where y: "y = Some hj" by blast
    have n: "newest his h hi" "newest his h hj" using assms(2) hi y by simp_all
    show ?thesis unfolding Some y option.rel_inject using n same[OF n] by (intro conjI)
  qed
qed

text \<open>C8: what two nodes hold about a host depends only on which messages about hosts they received, in
  whatever order, however often, and between whatever messages about machines, as long as neither saw a
  host leave or fail. Both know the same hosts, and what each holds about a host is one of the messages
  with the newest time stamp. They hold the same information about a host if no two different messages
  about it carry that stamp. (A message with the stamp of the stored one replaces it, see
  \<open>equal_stamps_diverge\<close>.)\<close>

theorem hosts_converge:
  assumes "\<not> list_ex sets_state ops" "\<not> list_ex sets_state ops'"
    and "set (host_messages ops) = set (host_messages ops')"
  shows "rel_option (\<lambda>hi hi'. newest (set (host_messages ops)) h hi \<and> newest (set (host_messages ops)) h hi' \<and> hinfo_ts hi = hinfo_ts hi')
      (host_info (fold perform ops init_inventory) h) (host_info (fold perform ops' init_inventory) h) \<and>
    ((\<forall>hi hj. newest (set (host_messages ops)) h hi \<and> newest (set (host_messages ops)) h hj \<longrightarrow> hi = hj) \<longrightarrow>
      host_info (fold perform ops init_inventory) h = host_info (fold perform ops' init_inventory) h)"
proof -
  let ?a = "host_info (fold perform ops init_inventory) h" and ?b = "host_info (fold perform ops' init_inventory) h"
  have "rel_option (\<lambda>hi hi'. newest (set (host_messages ops)) h hi \<and> newest (set (host_messages ops)) h hi' \<and> hinfo_ts hi = hinfo_ts hi') ?a ?b"
    using messages_newest[OF assms(1), of h] messages_newest[OF assms(2), of h] unfolding assms(3) by (rule newest_rel)
  note rel = this
  show ?thesis
  proof (intro conjI impI rel)
    assume one: "\<forall>hi hj. newest (set (host_messages ops)) h hi \<and> newest (set (host_messages ops)) h hj \<longrightarrow> hi = hj"
    have "rel_option (=) ?a ?b"
      by (rule option.rel_mono_strong[OF rel]) (elim conjE, rule one[rule_format, OF conjI])
    then show "?a = ?b" by (simp add: option.rel_eq)
  qed
qed

text \<open>Two different messages with one stamp: the order counts.\<close>

theorem equal_stamps_diverge:
  assumes "hinfo_uuid a = hinfo_uuid b" "hinfo_ts a = hinfo_ts b" "a \<noteq> b"
  shows "host_info (fold perform [OpHost a, OpHost b] init_inventory) (hinfo_uuid a) \<noteq>
    host_info (fold perform [OpHost b, OpHost a] init_inventory) (hinfo_uuid a)"
proof -
  have one: "host_info (update_host x init_inventory) = [hinfo_uuid x \<mapsto> x]" for x
    unfolding host_info_update_host by (simp add: host_info_def init_inventory_def fun_eq_iff)
  have "host_info (update_host y (update_host x init_inventory)) (hinfo_uuid y) = Some y"
    if "hinfo_uuid x = hinfo_uuid y" "hinfo_ts x = hinfo_ts y" for x y
    unfolding host_info_update_host[of y] one using that by (simp add: word_sless_alt)
  from this[of a b] this[of b a] assms show ?thesis by simp
qed

section \<open>Operations on machines\<close>

text \<open>An event on a known machine that is not older than its entry takes effect: a deletion
  removes the entry and every listing; any other event stores the state and host, and the
  machine is then listed by the new host, when that is known, and by no other. All other
  machines keep entry and listings. An older event, or one on an unknown machine, changes
  nothing.\<close>

theorem update_vm_state_effect:
  assumes "inventory_ok iv" "iv' = fst (update_vm_state u st h ts iv)"
  shows "(case vms iv u of
            None \<Rightarrow> iv' = iv
          | Some v \<Rightarrow>
              if ts <s ve_ts v then iv' = iv
              else if st = RUNSTATE_DELETED then
                vms iv' = (vms iv)(u := None) \<and> (\<forall>h'. \<not> lists iv' h' u)
              else vms iv' = (vms iv)(u \<mapsto> v\<lparr>ve_host := h, ve_runstate := st\<rparr>) \<and>
                   (\<forall>h'. lists iv' h' u \<longleftrightarrow> h' = h \<and> hosts iv h \<noteq> None)) \<and>
         (\<forall>h' u'. u' \<noteq> u \<longrightarrow> lists iv' h' u' = lists iv h' u') \<and> host_info iv' = host_info iv"
proof -
  have other: "lists iv' h' u' = lists iv h' u'" if "u' \<noteq> u" for h' u'
    using that assms(2) by (simp add: update_vm_state_eq inv_simps split: option.split)
  have known: "lists iv h' u \<Longrightarrow> hosts iv h' \<noteq> None" for h' by (auto simp: lists_def)
  show ?thesis
    using listed_old_host[OF assms(1), of _ u] known
    by (auto simp: other assms(2) update_vm_state_eq inv_simps host_info_place split: option.split)
qed

text \<open>An event does not store its time stamp. So an older event that arrives after a newer
  one still takes effect, and a machine information older than a deletion brings the deleted
  machine back.\<close>

theorem stale_event_accepted:
  assumes "vms iv u = Some v" "ve_ts v \<le>s old" "old <s new"
    and "st1 \<noteq> RUNSTATE_DELETED" "st2 \<noteq> RUNSTATE_DELETED" "ve_uuid w = u" "ve_ts w = old"
  shows "vms (fst (update_vm_state u st2 h2 old (fst (update_vm_state u st1 h1 new iv)))) u
           = Some (v\<lparr>ve_host := h2, ve_runstate := st2\<rparr>) \<and>
         vms (fst (update_vm w (fst (update_vm_state u RUNSTATE_DELETED h1 new iv)))) u = Some w"
proof -
  have "\<not> old <s ve_ts v" "\<not> new <s ve_ts v"
    using assms(2,3) by (simp_all add: word_sle_eq word_sless_alt)
  with assms show ?thesis by (simp add: update_vm_state_eq update_vm_eq inv_simps)
qed

lemma complete_place: "listing_complete iv \<Longrightarrow> listing_complete (place_vm u v iv)"
  unfolding listing_complete_def place_vm_views placed_views by (metis (full_types))

lemma complete_remove:
  assumes "listing_complete iv"
  shows "listing_complete (remove_vm u h iv)"
  using assms unfolding listing_complete_def remove_vm_views placed_views by (metis (full_types))

text \<open>When every machine placed on a known host is listed there, an operation keeps that
  unless it introduces a host on which a machine was already placed.\<close>

theorem listing_complete_step:
  assumes "inventory_ok iv" "listing_complete iv"
  shows "listing_complete (perform op iv) \<longleftrightarrow>
    \<not> (\<exists>hi u. op = OpHost hi \<and> hosts iv (hinfo_uuid hi) = None \<and> placed iv (hinfo_uuid hi) u)"
proof (cases op)
  case (OpHost hi)
  have "\<not> lists iv h u" if "hosts iv h = None" for h u using that by (simp add: lists_def)
  with assms(2) OpHost show ?thesis
    unfolding listing_complete_def by (auto simp: update_host_views) blast
next
  case (OpHostState uuid st)
  with assms(2) show ?thesis by (auto simp: listing_complete_def set_host_state_views)
next
  case (OpVmEvent e)
  with assms show ?thesis
    by (simp add: Update_vm_state_def update_vm_state_eq complete_place complete_remove
        split: option.split)
next
  case (OpVm v)
  with assms(2) show ?thesis by (simp add: update_vm_eq complete_place)
qed

section \<open>Witnesses\<close>

definition sample_host :: "string \<Rightarrow> i64 \<Rightarrow> HostInfo" where
  "sample_host uuid ts = \<lparr>hinfo_uuid = uuid, hinfo_fields =
     \<lparr>hf_name = ''node1'', hf_cpuarch = \<lparr>ca_arch = ''x86_64'', ca_vendor = ''AMD''\<rparr>,
      hf_cpudef = \<lparr>cd_model = ''EPYC'', cd_nodes = 1, cd_sockets = 2, cd_cores = 16, cd_threads = 2\<rparr>,
      hf_cstate = CSTATE_ACTIVE, hf_memoryavailable = 4096, hf_hpavailable = 0,
      hf_osid = ''sles'', hf_osv = ''16'', hf_ts = ts\<rparr>\<rparr>"

definition sample_vm :: "string \<Rightarrow> string \<Rightarrow> i64 \<Rightarrow> VmInfo" where
  "sample_vm uuid host ts =
     \<lparr>ve_uuid = uuid, ve_host = host, ve_runstate = RUNSTATE_RUNNING, ve_ts = ts,
      vmi_name = ''web'', vmi_vlanid = 7, vmi_custom = [\<lparr>cf_name = ''tier'', cf_value = ''a''\<rparr>],
      vmi_vcpus = 4\<rparr>"

definition sample_inventory :: Inventory where
  "sample_inventory =
     fold perform [OpHost (sample_host ''A'' 5), OpVm (sample_vm ''v'' ''A'' 10)] init_inventory"

lemmas sample_defs = sample_host_def sample_vm_def init_inventory_def

lemma sample_ok: "inventory_ok sample_inventory"
  unfolding sample_inventory_def by (rule inventory.run_inv[OF init_ok])

lemma sample_vms: "vms sample_inventory = [''v'' \<mapsto> sample_vm ''v'' ''A'' 10]"
  by (simp add: sample_inventory_def update_vm_eq update_host_views inv_simps) (simp add: sample_defs)

lemma sample_hosts:
  "hosts sample_inventory = [''A'' \<mapsto> \<lparr>hd_info = sample_host ''A'' 5, hd_vms = {''v''}\<rparr>]"
  by (simp add: sample_inventory_def update_vm_def update_host_def update_hostdata_vm_def
      add_host_vm_def Let_def sample_defs)

theorem host_ts_monotone_witness:
  "host_info (fold perform [OpHost (sample_host ''A'' 5)] init_inventory) ''A'' = Some (sample_host ''A'' 5) \<and>
   (\<exists>hi'. host_info (fold perform ([OpHost (sample_host ''A'' 5)] @ [OpHost (sample_host ''A'' 4)])
             init_inventory) ''A'' = Some hi' \<and> hinfo_ts (sample_host ''A'' 5) \<le>s hinfo_ts hi')"
proof -
  have h: "host_info (fold perform [OpHost (sample_host ''A'' 5)] init_inventory) ''A'' =
           Some (sample_host ''A'' 5)"
    by (simp add: host_info_update_host) (simp add: host_info_def sample_defs)
  show ?thesis using h host_ts_monotone[OF h] by blast
qed

theorem hosts_converge_witness:
  "host_info (fold perform [OpHost (sample_host ''A'' 5), OpVm (sample_vm ''v'' ''A'' 10), OpHost (sample_host ''A'' 4)] init_inventory) ''A'' =
   host_info (fold perform [OpHost (sample_host ''A'' 4), OpHost (sample_host ''A'' 5), OpHost (sample_host ''A'' 4)] init_inventory) ''A''"
proof -
  let ?ops = "[OpHost (sample_host ''A'' 5), OpVm (sample_vm ''v'' ''A'' 10), OpHost (sample_host ''A'' 4)]"
  let ?ops' = "[OpHost (sample_host ''A'' 4), OpHost (sample_host ''A'' 5), OpHost (sample_host ''A'' 4)]"
  have "\<not> (5 :: i64) \<le>s 4" by (simp add: word_sle_eq)
  then have "newest (set (host_messages ?ops)) ''A'' hi \<longrightarrow> hi = sample_host ''A'' 5" for hi
    by (auto simp: newest_def sample_host_def)
  then have one: "\<forall>hi hj. newest (set (host_messages ?ops)) ''A'' hi \<and> newest (set (host_messages ?ops)) ''A'' hj \<longrightarrow> hi = hj" by metis
  have "\<not> list_ex sets_state ?ops" "\<not> list_ex sets_state ?ops'" "set (host_messages ?ops) = set (host_messages ?ops')"
    by (auto simp: sets_state_def)
  from hosts_converge[OF this, of "''A''", THEN conjunct2, rule_format, OF one[rule_format]] show ?thesis by blast
qed

theorem equal_stamps_diverge_witness:
  "host_info (fold perform [OpHost (sample_host ''A'' 5), OpHost ((sample_host ''A'' 5)\<lparr>hinfo_fields := (hinfo_fields (sample_host ''A'' 5))\<lparr>hf_name := ''x''\<rparr>\<rparr>)] init_inventory) ''A'' \<noteq>
   host_info (fold perform [OpHost ((sample_host ''A'' 5)\<lparr>hinfo_fields := (hinfo_fields (sample_host ''A'' 5))\<lparr>hf_name := ''x''\<rparr>\<rparr>), OpHost (sample_host ''A'' 5)] init_inventory) ''A''"
  using equal_stamps_diverge[of "sample_host ''A'' 5" "(sample_host ''A'' 5)\<lparr>hinfo_fields := (hinfo_fields (sample_host ''A'' 5))\<lparr>hf_name := ''x''\<rparr>\<rparr>"]
  by (simp add: sample_host_def)

theorem update_vm_state_effect_witness:
  "vms (fst (update_vm_state ''v'' RUNSTATE_PAUSED ''B'' 11 sample_inventory)) ''v'' =
     Some ((sample_vm ''v'' ''A'' 10)\<lparr>ve_host := ''B'', ve_runstate := RUNSTATE_PAUSED\<rparr>)"
  using update_vm_state_effect[OF sample_ok refl, of "''v''" RUNSTATE_PAUSED "''B''" 11]
  unfolding sample_vms by (simp add: sample_vm_def word_sless_alt)

theorem stale_event_accepted_witness:
  "vms (fst (update_vm_state ''v'' RUNSTATE_PAUSED ''A'' 11
         (fst (update_vm_state ''v'' RUNSTATE_RUNNING ''B'' 12 sample_inventory)))) ''v''
     = Some ((sample_vm ''v'' ''A'' 10)\<lparr>ve_host := ''A'', ve_runstate := RUNSTATE_PAUSED\<rparr>)"
proof -
  have v: "vms sample_inventory ''v'' = Some (sample_vm ''v'' ''A'' 10)"
    unfolding sample_vms by simp
  have "ve_ts (sample_vm ''v'' ''A'' 10) \<le>s 11" "(11::i64) <s 12"
    by (simp_all add: sample_vm_def word_sle_eq word_sless_alt)
  from stale_event_accepted[OF v this, of RUNSTATE_RUNNING RUNSTATE_PAUSED "sample_vm ''v'' ''C'' 11" "''A''" "''B''"]
  show ?thesis by (simp add: sample_vm_def)
qed

theorem listing_complete_step_witness:
  "\<not> listing_complete (perform (OpHost (sample_host ''B'' 5))
       (perform (OpVm (sample_vm ''v'' ''B'' 10)) init_inventory))"
proof -
  let ?iv = "fold perform [OpVm (sample_vm ''v'' ''B'' 10)] init_inventory"
  have vs: "vms ?iv = [''v'' \<mapsto> sample_vm ''v'' ''B'' 10]"
    by (simp add: update_vm_eq inv_simps) (simp add: sample_defs)
  have hs: "hosts ?iv = Map.empty"
    by (simp add: update_vm_def update_hostdata_vm_def Let_def sample_defs)
  have "listing_complete ?iv" unfolding listing_complete_def hs by simp
  from listing_complete_step[OF inventory.run_inv[OF init_ok] this, of "OpHost (sample_host ''B'' 5)"]
  show ?thesis unfolding hs placed_def vs by (simp add: sample_host_def sample_vm_def)
qed

theorem inventory_consistent_witness:
  "lists sample_inventory ''A'' ''v'' \<and> \<not> lists sample_inventory ''B'' ''v''"
proof -
  have "lists sample_inventory ''A'' ''v''" by (simp add: lists_def sample_hosts)
  moreover note inventory_consistent[of "[OpHost (sample_host ''A'' 5), OpVm (sample_vm ''v'' ''A'' 10)]"]
  ultimately show ?thesis unfolding sample_inventory_def by blast
qed

end
