(* ===== verification/Search.thy ===== *)
theory Search
  imports Inventory
begin

text \<open>
  \<open>search.go\<close> of package \<open>inventory\<close>: the filtered lists of hosts and machines. Go leaves the
  order in which \<open>range\<close> visits a map unspecified; it is the argument \<open>order\<close> here, a list of
  the map's keys, and the theorems hold for every such order. A filter field left at its zero
  value does not filter.
\<close>

section \<open>Hosts\<close>

definition host_skipped :: "HostListFields \<Rightarrow> HostListFields \<Rightarrow> bool" where
  "host_skipped f hostinfo =
     (if hf_name f \<noteq> '''' \<and> \<not> contains_str (hf_name hostinfo) (hf_name f) then True
      else if ca_arch (hf_cpuarch f) \<noteq> '''' \<and>
              ca_arch (hf_cpuarch hostinfo) \<noteq> ca_arch (hf_cpuarch f) then True
      else if ca_vendor (hf_cpuarch f) \<noteq> '''' \<and>
              ca_vendor (hf_cpuarch hostinfo) \<noteq> ca_vendor (hf_cpuarch f) then True
      else if cd_model (hf_cpudef f) \<noteq> '''' \<and>
              cd_model (hf_cpudef hostinfo) \<noteq> cd_model (hf_cpudef f) then True
      else if 0 <s cd_nodes (hf_cpudef f) \<and>
              cd_nodes (hf_cpudef hostinfo) <s cd_nodes (hf_cpudef f) then True
      else if 0 <s cd_sockets (hf_cpudef f) \<and>
              cd_sockets (hf_cpudef hostinfo) <s cd_sockets (hf_cpudef f) then True
      else if 0 <s cd_cores (hf_cpudef f) \<and>
              cd_cores (hf_cpudef hostinfo) <s cd_cores (hf_cpudef f) then True
      else if 0 <s cd_threads (hf_cpudef f) \<and>
              cd_threads (hf_cpudef hostinfo) <s cd_threads (hf_cpudef f) then True
      else if hf_cstate f \<noteq> CSTATE_INVALID \<and> hf_cstate hostinfo \<noteq> hf_cstate f then True
      else if 0 <s hf_memoryavailable f \<and>
              hf_memoryavailable hostinfo <s hf_memoryavailable f then True
      else if 0 <s hf_hpavailable f \<and> hf_hpavailable hostinfo <s hf_hpavailable f then True
      else if hf_osid f \<noteq> '''' \<and> hf_osid hostinfo \<noteq> hf_osid f then True
      else if hf_osv f \<noteq> '''' \<and> hf_osv hostinfo \<noteq> hf_osv f then True
      else if hf_ts f \<noteq> 0 \<and> hf_ts f <s hf_ts hostinfo then True
      else False)"

fun search_hosts_loop :: "HostListFields \<Rightarrow> Hostdata list \<Rightarrow> HostListItem list" where
  "search_hosts_loop f [] = []"
| "search_hosts_loop f (hostdata # rest) =
     (let hostinfo = hd_info hostdata in
      if host_skipped f (hinfo_fields hostinfo) then search_hosts_loop f rest
      else \<lparr>hi_uuid = hinfo_uuid hostinfo, hi_fields = hinfo_fields hostinfo\<rparr> #
           search_hosts_loop f rest)"

definition Search_hosts :: "HostListFields \<Rightarrow> string list \<Rightarrow> Inventory \<Rightarrow> HostListItem list" where
  "Search_hosts f order iv = search_hosts_loop f (List.map_filter (hosts iv) order)"

section \<open>Machines\<close>

fun custom_found :: "CustomField \<Rightarrow> CustomField list \<Rightarrow> bool" where
  "custom_found c [] = False"
| "custom_found c (x # xs) =
     (if cf_name x = cf_name c \<and> cf_value x = cf_value c then True else custom_found c xs)"

definition vm_skipped :: "VmListFields \<Rightarrow> VmInfo \<Rightarrow> bool" where
  "vm_skipped f vm =
     (if vf_name f \<noteq> '''' \<and> \<not> contains_str (vmi_name vm) (vf_name f) then True
      else if vf_host f \<noteq> '''' \<and> ve_host vm \<noteq> vf_host f then True
      else if 0 <s vf_runstate f \<and> ve_runstate vm \<noteq> vf_runstate f then True
      else if 0 <s vf_vlanid f \<and> vmi_vlanid vm \<noteq> vf_vlanid f then True
      else if cf_name (vf_custom f) \<noteq> '''' \<and> \<not> custom_found (vf_custom f) (vmi_custom vm) then True
      else if vf_ts f \<noteq> 0 \<and> vf_ts f <s ve_ts vm then True
      else False)"

fun search_vms_loop :: "VmListFields \<Rightarrow> VmInfo list \<Rightarrow> VmListItem list" where
  "search_vms_loop f [] = []"
| "search_vms_loop f (vm # rest) =
     (if vm_skipped f vm then search_vms_loop f rest
      else \<lparr>vi_uuid = ve_uuid vm,
            vi_fields = \<lparr>vf_name = vmi_name vm, vf_host = ve_host vm, vf_runstate = ve_runstate vm,
                         vf_vlanid = vmi_vlanid vm, vf_custom = vf_custom f, vf_ts = ve_ts vm\<rparr>\<rparr> #
           search_vms_loop f rest)"

definition Search_vms :: "VmListFields \<Rightarrow> string list \<Rightarrow> Inventory \<Rightarrow> VmListItem list" where
  "Search_vms f order iv = search_vms_loop f (List.map_filter (vms iv) order)"

section \<open>What is searched for\<close>

definition if_given :: "'a::zero \<Rightarrow> bool \<Rightarrow> bool" where
  "if_given x P \<longleftrightarrow> x = 0 \<or> P"

definition at_least :: "'a::len word \<Rightarrow> 'a word \<Rightarrow> bool" where
  "at_least limit x \<longleftrightarrow> limit \<le>s 0 \<or> limit \<le>s x"

definition text_given :: "string \<Rightarrow> bool \<Rightarrow> bool" where
  "text_given s P \<longleftrightarrow> s = '''' \<or> P"

text \<open>The meaning of the two filters: every criterion given holds.\<close>

definition host_wanted :: "HostListFields \<Rightarrow> HostListFields \<Rightarrow> bool" where
  "host_wanted f h \<longleftrightarrow>
     (\<exists>u v. hf_name h = u @ hf_name f @ v) \<and>
     text_given (ca_arch (hf_cpuarch f)) (ca_arch (hf_cpuarch h) = ca_arch (hf_cpuarch f)) \<and>
     text_given (ca_vendor (hf_cpuarch f)) (ca_vendor (hf_cpuarch h) = ca_vendor (hf_cpuarch f)) \<and>
     text_given (cd_model (hf_cpudef f)) (cd_model (hf_cpudef h) = cd_model (hf_cpudef f)) \<and>
     at_least (cd_nodes (hf_cpudef f)) (cd_nodes (hf_cpudef h)) \<and>
     at_least (cd_sockets (hf_cpudef f)) (cd_sockets (hf_cpudef h)) \<and>
     at_least (cd_cores (hf_cpudef f)) (cd_cores (hf_cpudef h)) \<and>
     at_least (cd_threads (hf_cpudef f)) (cd_threads (hf_cpudef h)) \<and>
     if_given (hf_cstate f) (hf_cstate h = hf_cstate f) \<and>
     at_least (hf_memoryavailable f) (hf_memoryavailable h) \<and>
     at_least (hf_hpavailable f) (hf_hpavailable h) \<and>
     text_given (hf_osid f) (hf_osid h = hf_osid f) \<and>
     text_given (hf_osv f) (hf_osv h = hf_osv f) \<and>
     if_given (hf_ts f) (hf_ts h \<le>s hf_ts f)"

definition vm_wanted :: "VmListFields \<Rightarrow> VmInfo \<Rightarrow> bool" where
  "vm_wanted f vm \<longleftrightarrow>
     (\<exists>u v. vmi_name vm = u @ vf_name f @ v) \<and>
     text_given (vf_host f) (ve_host vm = vf_host f) \<and>
     (vf_runstate f \<le>s 0 \<or> ve_runstate vm = vf_runstate f) \<and>
     (vf_vlanid f \<le>s 0 \<or> vmi_vlanid vm = vf_vlanid f) \<and>
     text_given (cf_name (vf_custom f)) (vf_custom f \<in> set (vmi_custom vm)) \<and>
     if_given (vf_ts f) (ve_ts vm \<le>s vf_ts f)"

lemma custom_found_iff: "custom_found c xs \<longleftrightarrow> c \<in> set xs"
  by (induction xs) auto

lemma name_wanted: "n = '''' \<or> contains_str s n \<longleftrightarrow> (\<exists>u v. s = u @ n @ v)"
  unfolding contains_str_iff by (metis append_Nil)

lemma if_True_else: "(if c then True else p) \<longleftrightarrow> c \<or> p"
  by simp

lemmas skip_unless = if_True_else de_Morgan_disj de_Morgan_conj not_not sless_iff_not_sle
  not_False_eq_True simp_thms text_given_def at_least_def if_given_def

lemma host_wanted_iff: "host_wanted f h \<longleftrightarrow> \<not> host_skipped f h"
  by (simp only: host_wanted_def host_skipped_def name_wanted [symmetric] skip_unless)

lemma vm_wanted_iff: "vm_wanted f vm \<longleftrightarrow> \<not> vm_skipped f vm"
  by (simp only: vm_wanted_def vm_skipped_def name_wanted [symmetric] custom_found_iff skip_unless)

definition host_item :: "HostInfo \<Rightarrow> HostListItem" where
  "host_item hi = \<lparr>hi_uuid = hinfo_uuid hi, hi_fields = hinfo_fields hi\<rparr>"

definition vm_item :: "VmListFields \<Rightarrow> VmInfo \<Rightarrow> VmListItem" where
  "vm_item f vm = \<lparr>vi_uuid = ve_uuid vm,
     vi_fields = \<lparr>vf_name = vmi_name vm, vf_host = ve_host vm, vf_runstate = ve_runstate vm,
                  vf_vlanid = vmi_vlanid vm, vf_custom = vf_custom f, vf_ts = ve_ts vm\<rparr>\<rparr>"

lemma search_hosts_loop_eq:
  "search_hosts_loop f hds = map host_item (filter (\<lambda>hi. host_wanted f (hinfo_fields hi)) (map hd_info hds))"
  by (induction hds) (simp_all add: Let_def host_wanted_iff host_item_def)

lemma search_vms_loop_eq: "search_vms_loop f vs = map (vm_item f) (filter (vm_wanted f) vs)"
  by (induction vs) (simp_all add: vm_wanted_iff vm_item_def)

definition visits :: "string list \<Rightarrow> (string \<rightharpoonup> 'a) \<Rightarrow> bool" where
  "visits order m \<longleftrightarrow> distinct order \<and> set order = dom m"

lemma map_filter_keys:
  assumes "\<And>k x. m k = Some x \<Longrightarrow> key x = k"
  shows "map key (List.map_filter m order) = filter (\<lambda>k. m k \<noteq> None) order"
  using assms by (induction order) (auto simp: List.map_filter_simps split: option.split)

lemma set_visited: "visits order m \<Longrightarrow> set (List.map_filter m order) = ran m"
  by (auto simp: visits_def List.map_filter_def ran_def image_iff dom_def) force

text \<open>A host search returns, in whatever order the map is visited, exactly one item for every
  known host that meets every criterion given, with that host's UUID and fields.\<close>

theorem Search_hosts_exact:
  assumes "visits order (hosts iv)" "inventory_ok iv"
  shows "set (Search_hosts f order iv) =
           {host_item hi | h hi. host_info iv h = Some hi \<and> host_wanted f (hinfo_fields hi)} \<and>
         distinct (map hi_uuid (Search_hosts f order iv))"
proof
  show "set (Search_hosts f order iv) =
           {host_item hi | h hi. host_info iv h = Some hi \<and> host_wanted f (hinfo_fields hi)}"
    by (auto simp: Search_hosts_def search_hosts_loop_eq set_visited[OF assms(1)] host_info_def ran_def)
  have "map (\<lambda>hd. hinfo_uuid (hd_info hd)) (List.map_filter (hosts iv) order) =
        filter (\<lambda>k. hosts iv k \<noteq> None) order"
    by (rule map_filter_keys) (use assms(2) in \<open>auto simp: inventory_ok_def keyed_def\<close>)
  then have "distinct (map hinfo_uuid (map hd_info (List.map_filter (hosts iv) order)))"
    using assms(1) by (simp add: comp_def visits_def)
  then have "distinct (map hinfo_uuid (filter (\<lambda>hi. host_wanted f (hinfo_fields hi))
               (map hd_info (List.map_filter (hosts iv) order))))"
    by (rule distinct_map_filter)
  then show "distinct (map hi_uuid (Search_hosts f order iv))"
    unfolding Search_hosts_def search_hosts_loop_eq map_map[of hi_uuid] by (simp add: comp_def host_item_def)
qed

text \<open>C9: a machine search returns, in whatever order the map is visited, exactly one item for
  every machine in the inventory that meets every criterion given.\<close>

theorem Search_vms_exact:
  assumes "visits order (vms iv)" "inventory_ok iv"
  shows "set (Search_vms f order iv) = {vm_item f vm | u vm. vms iv u = Some vm \<and> vm_wanted f vm} \<and>
         distinct (map vi_uuid (Search_vms f order iv))"
proof
  show "set (Search_vms f order iv) = {vm_item f vm | u vm. vms iv u = Some vm \<and> vm_wanted f vm}"
    by (auto simp: Search_vms_def search_vms_loop_eq set_visited[OF assms(1)] ran_def)
  have "map ve_uuid (List.map_filter (vms iv) order) = filter (\<lambda>k. vms iv k \<noteq> None) order"
    by (rule map_filter_keys) (use assms(2) in \<open>auto simp: inventory_ok_def keyed_def\<close>)
  then have "distinct (map ve_uuid (List.map_filter (vms iv) order))"
    using assms(1) by (simp add: visits_def)
  then show "distinct (map vi_uuid (Search_vms f order iv))"
    by (simp add: Search_vms_def search_vms_loop_eq comp_def vm_item_def distinct_map_filter)
qed

section \<open>Witnesses\<close>

definition any_host :: HostListFields where
  "any_host = \<lparr>hf_name = '''', hf_cpuarch = \<lparr>ca_arch = '''', ca_vendor = ''''\<rparr>,
      hf_cpudef = \<lparr>cd_model = '''', cd_nodes = 0, cd_sockets = 0, cd_cores = 0, cd_threads = 0\<rparr>,
      hf_cstate = 0, hf_memoryavailable = 0, hf_hpavailable = 0, hf_osid = '''', hf_osv = '''', hf_ts = 0\<rparr>"

theorem Search_hosts_exact_witness:
  "set (Search_hosts (any_host\<lparr>hf_name := ''ode''\<rparr>) [''A''] sample_inventory) =
     {host_item (sample_host ''A'' 5)}"
proof -
  have v: "visits [''A''] (hosts sample_inventory)" unfolding sample_hosts by (simp add: visits_def)
  have w: "host_wanted (any_host\<lparr>hf_name := ''ode''\<rparr>) (hinfo_fields (sample_host ''A'' 5))"
    by (simp add: host_wanted_iff host_skipped_def any_host_def sample_host_def has_prefix_def)
  show ?thesis
    using Search_hosts_exact[OF v sample_ok, of "any_host\<lparr>hf_name := ''ode''\<rparr>"] w
    unfolding host_info_def sample_hosts by auto
qed

theorem Search_vms_exact_witness:
  "set (Search_vms \<lparr>vf_name = ''w'', vf_host = ''A'', vf_runstate = 0, vf_vlanid = 0,
         vf_custom = \<lparr>cf_name = ''tier'', cf_value = ''b''\<rparr>, vf_ts = 0\<rparr> [''v''] sample_inventory) = {}"
proof -
  have v: "visits [''v''] (vms sample_inventory)" unfolding sample_vms by (simp add: visits_def)
  show ?thesis
    using Search_vms_exact[OF v sample_ok, of "\<lparr>vf_name = ''w'', vf_host = ''A'', vf_runstate = 0,
         vf_vlanid = 0, vf_custom = \<lparr>cf_name = ''tier'', cf_value = ''b''\<rparr>, vf_ts = 0\<rparr>"]
    unfolding sample_vms by (auto simp: vm_wanted_def text_given_def sample_vm_def)
qed

end
