(* ===== verification/Serfcomm.thy ===== *)
theory Serfcomm
  imports Search Sbinary_Props
begin

text \<open>
  Package \<open>serfcomm\<close> (\<open>serfcomm.go\<close>): inventory data sent to the other hosts as user events of
  the gossip protocol, and the events received, applied to the inventory. The RPC client is a
  third-party package: whether a call of \<open>UserEvent\<close> or \<open>UpdateTags\<close> fails is a parameter, and
  the calls made are recorded in the state. A received event is the record of what the code
  reads from the event's map; the type assertions on it, which the client's documentation
  promises to succeed, are not modelled.
\<close>

section \<open>Structs as the encoder sees them\<close>

text \<open>\<open>reflect\<close> lists the fields in declaration order; an embedded struct is a field.\<close>

definition of_VmEvent :: "'a VmEvent_scheme \<Rightarrow> gval" where
  "of_VmEvent e = VStruct [(True, VString (ve_uuid e)), (True, VString (ve_host e)),
     (True, VBasic (BInt16 (ve_runstate e))), (True, VBasic (BInt64 (ve_ts e)))]"

definition of_CustomField :: "CustomField \<Rightarrow> gval" where
  "of_CustomField c = VStruct [(True, VString (cf_name c)), (True, VString (cf_value c))]"

definition zero_CustomField :: CustomField where
  "zero_CustomField = \<lparr>cf_name = '''', cf_value = ''''\<rparr>"

definition of_VmInfo :: "VmInfo \<Rightarrow> gval" where
  "of_VmInfo v = VStruct [(True, of_VmEvent v), (True, VString (vmi_name v)),
     (True, VBasic (BInt16 (vmi_vlanid v))),
     (True, VSlice (of_CustomField zero_CustomField) (map of_CustomField (vmi_custom v))),
     (True, VBasic (BInt16 (vmi_vcpus v)))]"

definition of_HostListFields :: "HostListFields \<Rightarrow> gval" where
  "of_HostListFields f = VStruct [(True, VString (hf_name f)),
     (True, VStruct [(True, VString (ca_arch (hf_cpuarch f))), (True, VString (ca_vendor (hf_cpuarch f)))]),
     (True, VStruct [(True, VString (cd_model (hf_cpudef f))),
        (True, VBasic (BInt16 (cd_nodes (hf_cpudef f)))), (True, VBasic (BInt16 (cd_sockets (hf_cpudef f)))),
        (True, VBasic (BInt16 (cd_cores (hf_cpudef f)))), (True, VBasic (BInt16 (cd_threads (hf_cpudef f))))]),
     (True, VBasic (BInt16 (hf_cstate f))), (True, VBasic (BInt32 (hf_memoryavailable f))),
     (True, VBasic (BInt32 (hf_hpavailable f))), (True, VString (hf_osid f)),
     (True, VString (hf_osv f)), (True, VBasic (BInt64 (hf_ts f)))]"

definition of_HostInfo :: "HostInfo \<Rightarrow> gval" where
  "of_HostInfo h = VStruct [(True, VString (hinfo_uuid h)), (True, of_HostListFields (hinfo_fields h))]"

text \<open>The variables the decoder fills, and reading them afterwards.\<close>

definition zero_VmEvent :: VmEvent where
  "zero_VmEvent = \<lparr>ve_uuid = '''', ve_host = '''', ve_runstate = 0, ve_ts = 0\<rparr>"

definition zero_VmInfo :: VmInfo where
  "zero_VmInfo = \<lparr>ve_uuid = '''', ve_host = '''', ve_runstate = 0, ve_ts = 0, vmi_name = '''',
     vmi_vlanid = 0, vmi_custom = [], vmi_vcpus = 0\<rparr>"

definition zero_HostInfo :: HostInfo where
  "zero_HostInfo = \<lparr>hinfo_uuid = '''', hinfo_fields =
     \<lparr>hf_name = '''', hf_cpuarch = \<lparr>ca_arch = '''', ca_vendor = ''''\<rparr>,
      hf_cpudef = \<lparr>cd_model = '''', cd_nodes = 0, cd_sockets = 0, cd_cores = 0, cd_threads = 0\<rparr>,
      hf_cstate = 0, hf_memoryavailable = 0, hf_hpavailable = 0, hf_osid = '''', hf_osv = '''', hf_ts = 0\<rparr>\<rparr>"

fun fld :: "nat \<Rightarrow> gval \<Rightarrow> gval" where
  "fld i (VStruct fs) = snd (fs ! i)"
| "fld i v = v"

fun str_of :: "gval \<Rightarrow> string" where
  "str_of (VString s) = s"
| "str_of _ = ''''"

fun i16_of :: "gval \<Rightarrow> i16" where
  "i16_of (VBasic (BInt16 w)) = w"
| "i16_of _ = 0"

fun i32_of :: "gval \<Rightarrow> i32" where
  "i32_of (VBasic (BInt32 w)) = w"
| "i32_of _ = 0"

fun i64_of :: "gval \<Rightarrow> i64" where
  "i64_of (VBasic (BInt64 w)) = w"
| "i64_of _ = 0"

fun elems_of :: "gval \<Rightarrow> gval list" where
  "elems_of (VSlice z xs) = xs"
| "elems_of _ = []"

fun pointed :: "gval \<Rightarrow> gval" where
  "pointed (VPtr (Some v)) = v"
| "pointed v = v"

definition to_VmEvent :: "gval \<Rightarrow> VmEvent" where
  "to_VmEvent v = \<lparr>ve_uuid = str_of (fld 0 v), ve_host = str_of (fld 1 v),
     ve_runstate = i16_of (fld 2 v), ve_ts = i64_of (fld 3 v)\<rparr>"

definition to_CustomField :: "gval \<Rightarrow> CustomField" where
  "to_CustomField v = \<lparr>cf_name = str_of (fld 0 v), cf_value = str_of (fld 1 v)\<rparr>"

definition to_VmInfo :: "gval \<Rightarrow> VmInfo" where
  "to_VmInfo v = VmEvent.extend (to_VmEvent (fld 0 v))
     \<lparr>vmi_name = str_of (fld 1 v), vmi_vlanid = i16_of (fld 2 v),
      vmi_custom = map to_CustomField (elems_of (fld 3 v)), vmi_vcpus = i16_of (fld 4 v)\<rparr>"

definition to_HostListFields :: "gval \<Rightarrow> HostListFields" where
  "to_HostListFields v =
     \<lparr>hf_name = str_of (fld 0 v),
      hf_cpuarch = \<lparr>ca_arch = str_of (fld 0 (fld 1 v)), ca_vendor = str_of (fld 1 (fld 1 v))\<rparr>,
      hf_cpudef = \<lparr>cd_model = str_of (fld 0 (fld 2 v)), cd_nodes = i16_of (fld 1 (fld 2 v)),
        cd_sockets = i16_of (fld 2 (fld 2 v)), cd_cores = i16_of (fld 3 (fld 2 v)),
        cd_threads = i16_of (fld 4 (fld 2 v))\<rparr>,
      hf_cstate = i16_of (fld 3 v), hf_memoryavailable = i32_of (fld 4 v),
      hf_hpavailable = i32_of (fld 5 v), hf_osid = str_of (fld 6 v), hf_osv = str_of (fld 7 v),
      hf_ts = i64_of (fld 8 v)\<rparr>"

definition to_HostInfo :: "gval \<Rightarrow> HostInfo" where
  "to_HostInfo v = \<lparr>hinfo_uuid = str_of (fld 0 v), hinfo_fields = to_HostListFields (fld 1 v)\<rparr>"

section \<open>Sending\<close>

abbreviation MAX_MESSAGE_SIZE :: nat where "MAX_MESSAGE_SIZE \<equiv> 1024"

definition LABEL_HOST_INFO :: string where "LABEL_HOST_INFO = ''HI''"
definition LABEL_VM_INFO :: string where "LABEL_VM_INFO = ''VI''"
definition LABEL_VM_EVENT :: string where "LABEL_VM_EVENT = ''VE''"

text \<open>The state behind the lock \<open>serf.m\<close>: whether the client is there, the buffer messages are
  encoded in, and the calls made.\<close>

datatype rpc_call = UserEvent string "byte list" | UpdateTags "(string \<times> string) list"

record Serf =
  serf_up :: bool
  serf_buffer :: "byte list"
  serf_calls :: "rpc_call list"

type_synonym rpc = "rpc_call \<Rightarrow> gerr option"

definition rpc_do :: "rpc \<Rightarrow> rpc_call \<Rightarrow> Serf \<Rightarrow> Serf \<times> gerr option" where
  "rpc_do client c s = (s\<lparr>serf_calls := serf_calls s @ [c]\<rparr>, client c)"

definition send_user_event :: "rpc \<Rightarrow> string \<Rightarrow> byte list \<Rightarrow> Serf \<Rightarrow> Serf \<times> gerr option" where
  "send_user_event client label payload s =
     (if \<not> serf_up s then (s, Some (Msg ''RPC client closed''))
      else rpc_do client (UserEvent label payload) s)"

definition update_tags :: "rpc \<Rightarrow> HostInfo \<Rightarrow> Serf \<Rightarrow> Serf \<times> gerr option" where
  "update_tags client hostinfo s =
     (if \<not> serf_up s then (s, Some (Msg ''RPC client closed''))
      else rpc_do client (UpdateTags [(''uuid'', hinfo_uuid hostinfo)]) s)"

definition send_encoded :: "rpc \<Rightarrow> string \<Rightarrow> gval \<Rightarrow> Serf \<Rightarrow> Serf \<times> gerr option" where
  "send_encoded client label v s =
     (case Encode (serf_buffer s) LittleEndian (VPtr (Some v)) of
        (buf, eventsize, Some e) \<Rightarrow> (s\<lparr>serf_buffer := buf\<rparr>, Some e)
      | (buf, eventsize, None) \<Rightarrow>
          send_user_event client label (take eventsize buf) (s\<lparr>serf_buffer := buf\<rparr>))"

definition send_host_info :: "rpc \<Rightarrow> HostInfo \<Rightarrow> Serf \<Rightarrow> Serf \<times> gerr option" where
  "send_host_info client hi = send_encoded client LABEL_HOST_INFO (of_HostInfo hi)"

definition send_vm_info :: "rpc \<Rightarrow> VmInfo \<Rightarrow> Serf \<Rightarrow> Serf \<times> gerr option" where
  "send_vm_info client vminfo = send_encoded client LABEL_VM_INFO (of_VmInfo vminfo)"

definition send_vm_event :: "rpc \<Rightarrow> VmEvent \<Rightarrow> Serf \<Rightarrow> Serf \<times> gerr option" where
  "send_vm_event client e = send_encoded client LABEL_VM_EVENT (of_VmEvent e)"

text \<open>One turn of the loops over the two channels. Errors are logged only. The list is the
  machines of the system information, in the order \<open>range\<close> visits their map.\<close>

definition send_system_info :: "rpc \<Rightarrow> HostInfo \<Rightarrow> VmInfo list \<Rightarrow> Serf \<Rightarrow> Serf" where
  "send_system_info client host vmlist s =
     (if \<not> serf_up s then s
      else fold (\<lambda>vm s. fst (send_vm_info client vm s)) vmlist
             (if hinfo_uuid host \<noteq> '''' then
                fst (send_host_info client host (fst (update_tags client host s)))
              else s))"

definition send_vm_events :: "rpc \<Rightarrow> VmEvent \<Rightarrow> Serf \<Rightarrow> Serf" where
  "send_vm_events client e s = (if \<not> serf_up s then s else fst (send_vm_event client e s))"

section \<open>Receiving\<close>

record serf_event =
  ev_event :: string
  ev_name :: string
  ev_payload :: "byte list"
  ev_members :: "(string \<rightharpoonup> string) list"

definition handle_user_event :: "string \<Rightarrow> byte list \<Rightarrow> Inventory \<Rightarrow> Inventory" where
  "handle_user_event name payload iv =
     (if name = LABEL_HOST_INFO then
        (case Decode payload LittleEndian (VPtr (Some (of_HostInfo zero_HostInfo))) of
           (v, n, Some e) \<Rightarrow> iv
         | (v, n, None) \<Rightarrow> update_host (to_HostInfo (pointed v)) iv)
      else if name = LABEL_VM_EVENT then
        (case Decode payload LittleEndian (VPtr (Some (of_VmEvent zero_VmEvent))) of
           (v, n, Some e) \<Rightarrow> iv
         | (v, n, None) \<Rightarrow> fst (Update_vm_state (to_VmEvent (pointed v)) iv))
      else if name = LABEL_VM_INFO then
        (case Decode payload LittleEndian (VPtr (Some (of_VmInfo zero_VmInfo))) of
           (v, n, Some e) \<Rightarrow> iv
         | (v, n, None) \<Rightarrow> fst (update_vm (to_VmInfo (pointed v)) iv))
      else iv)"

fun handle_member_change :: "(string \<rightharpoonup> string) list \<Rightarrow> Cstate \<Rightarrow> Inventory \<Rightarrow> Inventory" where
  "handle_member_change [] newstate iv = iv"
| "handle_member_change (tags # ms) newstate iv =
     (case tags ''uuid'' of
        None \<Rightarrow> handle_member_change ms newstate iv
      | Some uuid \<Rightarrow> handle_member_change ms newstate (fst (set_host_state uuid newstate iv)))"

definition recv_serf_event :: "serf_event \<Rightarrow> Inventory \<Rightarrow> Inventory" where
  "recv_serf_event e iv =
     (if ev_event e = ''user'' then handle_user_event (ev_name e) (ev_payload e) iv
      else if ev_event e = ''member-leave'' then handle_member_change (ev_members e) CSTATE_LEFT iv
      else if ev_event e = ''member-reap'' \<or> ev_event e = ''member-failed''
        then handle_member_change (ev_members e) CSTATE_FAILED iv
      else if ev_event e = ''member-join'' then handle_member_change (ev_members e) CSTATE_ACTIVE iv
      else iv)"

section \<open>The wire form of a struct\<close>

text \<open>What sender and receiver need of a type that travels: its wire form can be encoded and read
  back, and a message that fits the buffer has counts that fit their indicators.\<close>

locale wire_codec =
  fixes to_g :: "'a \<Rightarrow> gval" and from_g :: "gval \<Rightarrow> 'a" and zero :: gval
  assumes from_to: "from_g (to_g x) = x"
    and sendable: "encodable False (VPtr (Some (to_g x)))"
    and receivable: "length (enc LittleEndian (to_g x)) \<le> MAX_MESSAGE_SIZE \<Longrightarrow> carried zero (to_g x)"
begin

definition wire_size :: "'a \<Rightarrow> nat" where
  "wire_size x = length (enc LittleEndian (to_g x))"

lemma sent_iff:
  "Encode buf LittleEndian (VPtr (Some (to_g x))) = (buf', n, None) \<longleftrightarrow>
     wire_size x \<le> length buf \<and> buf' = put_at_front (enc LittleEndian (to_g x)) buf \<and> n = wire_size x"
  using sendable[of x] by (auto simp: Encode_at encode_value_ok_iff wire_size_def)

lemma not_sent:
  assumes "length buf < wire_size x"
  obtains buf' n e where "Encode buf LittleEndian (VPtr (Some (to_g x))) = (buf', n, Some e)"
proof -
  obtain buf' n e where o: "Encode buf LittleEndian (VPtr (Some (to_g x))) = (buf', n, e)"
    by (metis prod_cases3)
  with assms sent_iff[of buf x buf' n] obtain e' where "e = Some e'" by (cases e) auto
  with o that show thesis by blast
qed

lemma payload_read_back:
  assumes "wire_size x \<le> MAX_MESSAGE_SIZE"
  shows "Decode (enc LittleEndian (to_g x)) LittleEndian (VPtr (Some zero))
           = (VPtr (Some (to_g x)), wire_size x, None)"
  using decode_enc(1)[OF receivable, of x LittleEndian "[]"] assms
  by (simp add: Decode_at wire_size_def)

lemma cut_refused:
  assumes "wire_size x \<le> MAX_MESSAGE_SIZE" "k < wire_size x"
  obtains v n e where "Decode (take k (enc LittleEndian (to_g x))) LittleEndian (VPtr (Some zero)) = (v, n, Some e)"
proof -
  have "snd (snd (Decode (take k (enc LittleEndian (to_g x))) LittleEndian (VPtr (Some zero)))) \<noteq> None"
    using truncated_refused[OF receivable] assms by (simp add: wire_size_def)
  then show thesis using that by (metis not_None_eq surjective_pairing)
qed

lemma send_encoded_ok:
  assumes "length (serf_buffer s) = MAX_MESSAGE_SIZE" "wire_size x \<le> MAX_MESSAGE_SIZE" "serf_up s"
  shows "send_encoded client label (to_g x) s =
    (s\<lparr>serf_buffer := put_at_front (enc LittleEndian (to_g x)) (serf_buffer s),
       serf_calls := serf_calls s @ [UserEvent label (enc LittleEndian (to_g x))]\<rparr>,
     client (UserEvent label (enc LittleEndian (to_g x))))"
proof -
  have "Encode (serf_buffer s) LittleEndian (VPtr (Some (to_g x))) =
     (put_at_front (enc LittleEndian (to_g x)) (serf_buffer s), wire_size x, None)"
    using assms(1,2) by (simp add: sent_iff)
  with assms(3) show ?thesis
    by (simp add: send_encoded_def send_user_event_def rpc_do_def put_at_front_def wire_size_def)
qed

lemma send_encoded_big:
  assumes "length (serf_buffer s) < wire_size x"
  shows "\<exists>buf e. send_encoded client label (to_g x) s = (s\<lparr>serf_buffer := buf\<rparr>, Some e)"
  by (rule not_sent[OF assms]) (simp add: send_encoded_def, blast)

end

lemma to_of_CustomField: "to_CustomField (of_CustomField c) = c"
  by (simp add: to_CustomField_def of_CustomField_def)

lemma to_of_VmEvent: "to_VmEvent (of_VmEvent e) = VmEvent.truncate e"
  by (simp add: to_VmEvent_def of_VmEvent_def VmEvent.truncate_def)

lemma customs_bounds:
  "length cs \<le> length (enc_elems ord (map of_CustomField cs))"
  "c \<in> set cs \<Longrightarrow> length (cf_name c) \<le> length (enc_elems ord (map of_CustomField cs)) \<and>
     length (cf_value c) \<le> length (enc_elems ord (map of_CustomField cs))"
  by (induction cs) (auto simp: of_CustomField_def)

lemma customs_encodable: "encodable_elems ad (map of_CustomField cs)"
  by (induction cs) (simp_all add: of_CustomField_def)

interpretation event_wire: wire_codec of_VmEvent to_VmEvent "of_VmEvent zero_VmEvent"
proof
  show "to_VmEvent (of_VmEvent e) = e" for e :: VmEvent
    by (simp add: to_of_VmEvent VmEvent.truncate_def)
qed (simp_all add: of_VmEvent_def zero_VmEvent_def)

interpretation vm_wire: wire_codec of_VmInfo to_VmInfo "of_VmInfo zero_VmInfo"
proof
  show "to_VmInfo (of_VmInfo v) = v" for v
    by (simp add: to_VmInfo_def of_VmInfo_def to_of_VmEvent comp_def to_of_CustomField)
       (simp add: VmEvent.truncate_def VmEvent.extend_def)
  show "encodable False (VPtr (Some (of_VmInfo v)))" for v
    by (simp add: of_VmInfo_def of_VmEvent_def customs_encodable)
  show "carried (of_VmInfo zero_VmInfo) (of_VmInfo v)"
    if "length (enc LittleEndian (of_VmInfo v)) \<le> MAX_MESSAGE_SIZE" for v
  proof -
    have small: "length (enc_elems LittleEndian (map of_CustomField (vmi_custom v))) \<le> 1024"
      using that by (simp add: of_VmInfo_def)
    have "list_all (carried (of_CustomField zero_CustomField)) (map of_CustomField (vmi_custom v))"
      using small customs_bounds(2)[of _ "vmi_custom v" LittleEndian]
      by (fastforce simp: list_all_iff of_CustomField_def zero_CustomField_def)
    moreover have "length (vmi_custom v) < 65536"
      using small customs_bounds(1)[of "vmi_custom v" LittleEndian] by linarith
    ultimately show ?thesis
      using that by (simp add: of_VmInfo_def of_VmEvent_def zero_VmInfo_def)
  qed
qed

interpretation host_wire: wire_codec of_HostInfo to_HostInfo "of_HostInfo zero_HostInfo"
  by unfold_locales
     (simp_all add: to_HostInfo_def to_HostListFields_def of_HostInfo_def of_HostListFields_def
       zero_HostInfo_def)

section \<open>From one host to another\<close>

text \<open>The receiver's view of a call that the gossip protocol delivers.\<close>

fun deliver :: "rpc_call \<Rightarrow> Inventory \<Rightarrow> Inventory" where
  "deliver (UserEvent label payload) iv =
     recv_serf_event \<lparr>ev_event = ''user'', ev_name = label, ev_payload = payload, ev_members = []\<rparr> iv"
| "deliver (UpdateTags tags) iv = iv"

lemmas labels = LABEL_HOST_INFO_def LABEL_VM_INFO_def LABEL_VM_EVENT_def

lemma deliver_message:
  "host_wire.wire_size hi \<le> MAX_MESSAGE_SIZE \<Longrightarrow>
     deliver (UserEvent LABEL_HOST_INFO (enc LittleEndian (of_HostInfo hi))) iv = perform (OpHost hi) iv"
  "event_wire.wire_size e \<le> MAX_MESSAGE_SIZE \<Longrightarrow>
     deliver (UserEvent LABEL_VM_EVENT (enc LittleEndian (of_VmEvent e))) iv = perform (OpVmEvent e) iv"
  "vm_wire.wire_size v \<le> MAX_MESSAGE_SIZE \<Longrightarrow>
     deliver (UserEvent LABEL_VM_INFO (enc LittleEndian (of_VmInfo v))) iv = perform (OpVm v) iv"
  by (simp_all add: recv_serf_event_def handle_user_event_def labels host_wire.payload_read_back
      host_wire.from_to event_wire.payload_read_back event_wire.from_to vm_wire.payload_read_back
      vm_wire.from_to)

text \<open>\<open>sends s ops s'\<close>: between \<open>s\<close> and \<open>s'\<close> calls were made whose delivery is the operations.\<close>

definition sends :: "Serf \<Rightarrow> inventory_op list \<Rightarrow> Serf \<Rightarrow> bool" where
  "sends s ops s' \<longleftrightarrow> serf_up s' = serf_up s \<and> length (serf_buffer s') = length (serf_buffer s) \<and>
     (\<exists>calls. serf_calls s' = serf_calls s @ calls \<and> (\<forall>iv. fold deliver calls iv = fold perform ops iv))"

lemma sends_Nil: "sends s [] s" by (simp add: sends_def)

lemma sends_trans: "sends s ops s' \<Longrightarrow> sends s' ops' s'' \<Longrightarrow> sends s (ops @ ops') s''"
  by (auto simp: sends_def)

lemma Encode_length: "length (fst (Encode buf ord data)) = length buf"
  using encode_within(1) [of buf False ord data] by (simp add: Encode_def within_def)

lemma send_encoded_sends:
  assumes "serf_up s" "length (serf_buffer s) = MAX_MESSAGE_SIZE" "encodable False (VPtr (Some v))"
    and op: "\<And>iv. length (enc LittleEndian v) \<le> MAX_MESSAGE_SIZE \<Longrightarrow>
               deliver (UserEvent label (enc LittleEndian v)) iv = perform op iv"
  shows "sends s (if length (enc LittleEndian v) \<le> MAX_MESSAGE_SIZE then [op] else [])
           (fst (send_encoded client label v s))"
proof -
  obtain buf n e where o: "Encode (serf_buffer s) LittleEndian (VPtr (Some v)) = (buf, n, e)"
    by (metis prod_cases3)
  have len: "length buf = MAX_MESSAGE_SIZE"
    using Encode_length[of "serf_buffer s" LittleEndian "VPtr (Some v)"] o assms(2) by simp
  show ?thesis
  proof (cases e)
    case None
    with o have "encode_value False LittleEndian (VPtr (Some v)) (serf_buffer s) = (buf, n, None)"
      by (simp only: Encode_at)
    from this[unfolded encode_value_ok_iff]
    have "length (enc LittleEndian v) \<le> MAX_MESSAGE_SIZE" "take n buf = enc LittleEndian v"
      using assms(2) by (auto simp: put_at_front_def)
    with None o len assms show ?thesis
      by (auto simp: sends_def send_encoded_def send_user_event_def rpc_do_def)
  next
    case (Some e')
    have "\<not> length (enc LittleEndian v) \<le> MAX_MESSAGE_SIZE"
    proof
      assume "length (enc LittleEndian v) \<le> MAX_MESSAGE_SIZE"
      with assms(2,3) have "\<exists>buf n. encode_value False LittleEndian (VPtr (Some v)) (serf_buffer s) = (buf, n, None)"
        unfolding encode_value_ok_iff by simp
      with o Some show False by (simp only: Encode_at) (metis option.distinct(1) prod.inject)
    qed
    with Some o len assms show ?thesis by (auto simp: sends_def send_encoded_def)
  qed
qed

text \<open>What one round of system information amounts to at a receiver: the messages that fit.\<close>

definition info_ops :: "HostInfo \<Rightarrow> VmInfo list \<Rightarrow> inventory_op list" where
  "info_ops host vmlist =
     (if hinfo_uuid host \<noteq> '''' \<and> host_wire.wire_size host \<le> MAX_MESSAGE_SIZE then [OpHost host] else []) @
     map OpVm (filter (\<lambda>v. vm_wire.wire_size v \<le> MAX_MESSAGE_SIZE) vmlist)"

lemma send_vms_sends:
  "serf_up s \<Longrightarrow> length (serf_buffer s) = MAX_MESSAGE_SIZE \<Longrightarrow>
   sends s (map OpVm (filter (\<lambda>v. vm_wire.wire_size v \<le> MAX_MESSAGE_SIZE) vmlist))
     (fold (\<lambda>vm s. fst (send_vm_info client vm s)) vmlist s)"
proof (induction vmlist arbitrary: s)
  case Nil
  then show ?case by (simp add: sends_Nil)
next
  case (Cons v vmlist)
  let ?s = "fst (send_vm_info client v s)"
  have v: "sends s (if vm_wire.wire_size v \<le> MAX_MESSAGE_SIZE then [OpVm v] else []) ?s"
    unfolding send_vm_info_def vm_wire.wire_size_def
    by (rule send_encoded_sends[OF Cons.prems vm_wire.sendable])
       (rule deliver_message(3)[unfolded vm_wire.wire_size_def])
  then have "serf_up ?s" "length (serf_buffer ?s) = MAX_MESSAGE_SIZE"
    using Cons.prems by (simp_all add: sends_def)
  from sends_trans[OF v Cons.IH[OF this]] show ?case by (simp split: if_splits)
qed

lemma send_system_info_sends:
  assumes "serf_up s" "length (serf_buffer s) = MAX_MESSAGE_SIZE"
  shows "sends s (info_ops host vmlist) (send_system_info client host vmlist s)"
proof -
  let ?t = "fst (update_tags client host s)"
  let ?h = "fst (send_host_info client host ?t)"
  have t: "sends s [] ?t" using assms(1) by (simp add: update_tags_def rpc_do_def sends_def)
  then have "serf_up ?t" "length (serf_buffer ?t) = MAX_MESSAGE_SIZE"
    using assms by (simp_all add: sends_def)
  then have "sends ?t (if host_wire.wire_size host \<le> MAX_MESSAGE_SIZE then [OpHost host] else []) ?h"
    unfolding send_host_info_def host_wire.wire_size_def
    by (rule send_encoded_sends[OF _ _ host_wire.sendable])
       (rule deliver_message(1)[unfolded host_wire.wire_size_def])
  from sends_trans[OF t this] have h: "sends s (if host_wire.wire_size host \<le> MAX_MESSAGE_SIZE
      then [OpHost host] else []) ?h" by simp
  then have "serf_up ?h" "length (serf_buffer ?h) = MAX_MESSAGE_SIZE"
    using assms by (simp_all add: sends_def)
  from sends_trans[OF h send_vms_sends[OF this]] send_vms_sends[OF assms]
  show ?thesis using assms(1) by (simp add: send_system_info_def info_ops_def)
qed

lemma send_vm_events_sends:
  assumes "serf_up s" "length (serf_buffer s) = MAX_MESSAGE_SIZE"
  shows "sends s (if event_wire.wire_size e \<le> MAX_MESSAGE_SIZE then [OpVmEvent e] else []) (send_vm_events client e s)"
  using send_encoded_sends[OF assms event_wire.sendable deliver_message(2)[unfolded event_wire.wire_size_def]] assms(1)
  by (simp add: send_vm_events_def send_vm_event_def event_wire.wire_size_def)

text \<open>C10: one round of system information sent by one host and delivered to another changes the
  receiver's inventory exactly as updating the host and each machine directly would, except
  that a message of more than 1024 bytes is not sent.\<close>

theorem system_info_delivered:
  assumes "serf_up s" "length (serf_buffer s) = MAX_MESSAGE_SIZE"
  shows "\<exists>calls. serf_calls (send_system_info client host vmlist s) = serf_calls s @ calls \<and>
           (\<forall>iv. fold deliver calls iv = fold perform (info_ops host vmlist) iv)"
  using send_system_info_sends[OF assms] by (simp add: sends_def)

section \<open>What the network can do to the inventory\<close>

text \<open>The operations an event amounts to, whatever its bytes are.\<close>

fun member_ops :: "(string \<rightharpoonup> string) list \<Rightarrow> Cstate \<Rightarrow> inventory_op list" where
  "member_ops [] newstate = []"
| "member_ops (tags # ms) newstate =
     (case tags ''uuid'' of None \<Rightarrow> [] | Some uuid \<Rightarrow> [OpHostState uuid newstate]) @ member_ops ms newstate"

lemma handle_member_change_ops:
  "handle_member_change ms newstate iv = fold perform (member_ops ms newstate) iv"
  by (induction ms arbitrary: iv) (simp_all split: option.split)

lemma handle_user_event_ops: "\<exists>ops. handle_user_event name payload iv = fold perform ops iv \<and> length ops \<le> 1"
proof -
  have no: "\<exists>ops. iv = fold perform ops iv \<and> length ops \<le> 1" by (rule exI[of _ "[]"]) simp
  have one: "\<exists>ops. perform op iv = fold perform ops iv \<and> length ops \<le> 1" for op
    by (rule exI[of _ "[op]"]) simp
  show ?thesis
    unfolding handle_user_event_def
    using no one[of "OpHost _"] one[of "OpVmEvent _"] one[of "OpVm _"]
    by (auto split: prod.split option.split)
qed

lemma recv_serf_event_ops: "\<exists>ops. recv_serf_event e iv = fold perform ops iv"
proof -
  have no: "\<exists>ops. iv = fold perform ops iv" by (rule exI[of _ "[]"]) simp
  show ?thesis
    unfolding recv_serf_event_def handle_member_change_ops
    using handle_user_event_ops[of "ev_name e" "ev_payload e" iv] no by auto
qed

text \<open>So the two interfaces above the inventory keep its invariants.\<close>

interpretation received: monotone_system recv_serf_event inventory_ok hosts_at_most
proof unfold_locales
  show "inventory_ok (recv_serf_event e iv)" if "inventory_ok iv" for e iv
    using recv_serf_event_ops[of e iv] inventory.run_inv[OF that] by auto
  show "hosts_at_most iv (recv_serf_event e iv)" if "inventory_ok iv" for e iv
    using recv_serf_event_ops[of e iv] inventory.run_grows[OF that] by auto
qed (rule inventory.at_most_refl, rule inventory.at_most_trans)


text \<open>A message cut short on the way changes nothing, whichever of the three kinds it is.\<close>

theorem truncated_message_ignored:
  assumes "host_wire.wire_size hi \<le> MAX_MESSAGE_SIZE" "i < host_wire.wire_size hi"
    and "event_wire.wire_size e \<le> MAX_MESSAGE_SIZE" "j < event_wire.wire_size e"
    and "vm_wire.wire_size v \<le> MAX_MESSAGE_SIZE" "k < vm_wire.wire_size v"
  shows "handle_user_event LABEL_HOST_INFO (take i (enc LittleEndian (of_HostInfo hi))) iv = iv \<and>
         handle_user_event LABEL_VM_EVENT (take j (enc LittleEndian (of_VmEvent e))) iv = iv \<and>
         handle_user_event LABEL_VM_INFO (take k (enc LittleEndian (of_VmInfo v))) iv = iv"
proof -
  note host = truncated_refused[OF host_wire.receivable, OF assms(1)[unfolded host_wire.wire_size_def]
      assms(2)[unfolded host_wire.wire_size_def]]
  note event = truncated_refused[OF event_wire.receivable, OF assms(3)[unfolded event_wire.wire_size_def]
      assms(4)[unfolded event_wire.wire_size_def]]
  note vm = truncated_refused[OF vm_wire.receivable, OF assms(5)[unfolded vm_wire.wire_size_def]
      assms(6)[unfolded vm_wire.wire_size_def]]
  from host event vm show ?thesis
    by (auto simp: handle_user_event_def labels split: prod.splits option.splits)
qed

text \<open>A change of membership sets the state of exactly the known hosts whose UUID a member's
  tags name; members without the tag and unknown hosts are skipped without stopping the rest,
  and the machines and listings are left alone.\<close>

theorem member_change_effect:
  "host_info (handle_member_change ms st iv) h =
     (if \<exists>tags\<in>set ms. tags ''uuid'' = Some h
      then map_option (\<lambda>hi. hi\<lparr>hinfo_fields := (hinfo_fields hi)\<lparr>hf_cstate := st\<rparr>\<rparr>) (host_info iv h)
      else host_info iv h) \<and>
   vms (handle_member_change ms st iv) = vms iv \<and>
   lists (handle_member_change ms st iv) h u = lists iv h u"
proof -
  have one: "host_info (fst (set_host_state uuid st iv)) h =
    (if uuid = h then map_option (\<lambda>hi. hi\<lparr>hinfo_fields := (hinfo_fields hi)\<lparr>hf_cstate := st\<rparr>\<rparr>) (host_info iv h)
     else host_info iv h)" for uuid iv
    by (auto simp: set_host_state_def host_info_def split: option.splits)
  show ?thesis
    by (induction ms arbitrary: iv)
       (auto simp: one set_host_state_views map_option.compositionality comp_def split: option.splits)
qed

text \<open>What an event may touch, by its kind.\<close>

definition member_state :: "string \<Rightarrow> Cstate option" where
  "member_state event =
     [''member-join'' \<mapsto> CSTATE_ACTIVE, ''member-leave'' \<mapsto> CSTATE_LEFT,
      ''member-failed'' \<mapsto> CSTATE_FAILED, ''member-reap'' \<mapsto> CSTATE_FAILED] event"

definition only_host :: "Inventory \<Rightarrow> Inventory \<Rightarrow> bool" where
  "only_host iv iv' \<longleftrightarrow> vms iv' = vms iv \<and> (\<forall>h u. lists iv' h u = lists iv h u) \<and>
     (\<exists>h0. \<forall>h. h \<noteq> h0 \<longrightarrow> host_info iv' h = host_info iv h)"

definition only_machine :: "Inventory \<Rightarrow> Inventory \<Rightarrow> bool" where
  "only_machine iv iv' \<longleftrightarrow> host_info iv' = host_info iv \<and>
     (\<exists>u0. \<forall>u. u \<noteq> u0 \<longrightarrow> vms iv' u = vms iv u \<and> (\<forall>h. lists iv' h u = lists iv h u))"

lemma only_host_op: "only_host iv iv" "only_host iv (update_host hi iv)"
  by (auto simp: only_host_def update_host_views host_info_update_host split: option.split)

lemma only_machine_place:
  "only_machine iv iv" "only_machine iv (place_vm u v iv)" "only_machine iv (remove_vm u h iv)"
  unfolding only_machine_def host_info_place inv_simps by (auto intro: exI[of _ u])

lemma only_machine_op:
  "only_machine iv (fst (Update_vm_state e iv))" "only_machine iv (fst (update_vm v iv))"
  by (simp_all add: Update_vm_state_def update_vm_state_eq update_vm_eq only_machine_place split: option.split)

text \<open>A prefix of a message that was cut short.\<close>

definition cut_short :: "string \<Rightarrow> byte list \<Rightarrow> bool" where
  "cut_short label payload \<longleftrightarrow>
     (label = LABEL_HOST_INFO \<and> (\<exists>hi i. host_wire.wire_size hi \<le> MAX_MESSAGE_SIZE \<and> i < host_wire.wire_size hi \<and>
        payload = take i (enc LittleEndian (of_HostInfo hi)))) \<or>
     (label = LABEL_VM_EVENT \<and> (\<exists>e i. event_wire.wire_size e \<le> MAX_MESSAGE_SIZE \<and> i < event_wire.wire_size e \<and>
        payload = take i (enc LittleEndian (of_VmEvent e)))) \<or>
     (label = LABEL_VM_INFO \<and> (\<exists>v i. vm_wire.wire_size v \<le> MAX_MESSAGE_SIZE \<and> i < vm_wire.wire_size v \<and>
        payload = take i (enc LittleEndian (of_VmInfo v))))"

lemma cut_short_ignored:
  assumes "cut_short label payload"
  shows "handle_user_event label payload iv = iv"
proof -
  note u = handle_user_event_def labels
  from assms consider
      hi i where "label = LABEL_HOST_INFO" "host_wire.wire_size hi \<le> MAX_MESSAGE_SIZE" "i < host_wire.wire_size hi"
        "payload = take i (enc LittleEndian (of_HostInfo hi))"
    | e i where "label = LABEL_VM_EVENT" "event_wire.wire_size e \<le> MAX_MESSAGE_SIZE" "i < event_wire.wire_size e"
        "payload = take i (enc LittleEndian (of_VmEvent e))"
    | v i where "label = LABEL_VM_INFO" "vm_wire.wire_size v \<le> MAX_MESSAGE_SIZE" "i < vm_wire.wire_size v"
        "payload = take i (enc LittleEndian (of_VmInfo v))"
    unfolding cut_short_def by blast
  then show ?thesis
  proof cases
    case 1
    from host_wire.cut_refused[OF 1(2,3)] obtain v n e where
      "Decode (take i (enc LittleEndian (of_HostInfo hi))) LittleEndian (VPtr (Some (of_HostInfo zero_HostInfo))) = (v, n, Some e)" .
    with 1 show ?thesis by (simp add: u)
  next
    case 2
    from event_wire.cut_refused[OF 2(2,3)] obtain v n x where
      "Decode (take i (enc LittleEndian (of_VmEvent e))) LittleEndian (VPtr (Some (of_VmEvent zero_VmEvent))) = (v, n, Some x)" .
    with 2 show ?thesis by (simp add: u)
  next
    case 3
    from vm_wire.cut_refused[OF 3(2,3)] obtain w n x where
      "Decode (take i (enc LittleEndian (of_VmInfo v))) LittleEndian (VPtr (Some (of_VmInfo zero_VmInfo))) = (w, n, Some x)" .
    with 3 show ?thesis by (simp add: u)
  qed
qed

text \<open>C11: what an event from the network does to a consistent inventory, whatever its bytes are. Joining,
  leaving, failing or being reaped sets the state of exactly the known hosts that the tags of a member
  name, to active, left or failed, and nothing else. A message about a host changes at most the
  information on one host, a message about a machine at most the entry and the listing of one machine,
  and a message that was cut short, or of another kind, nothing. The inventory stays consistent.\<close>

theorem received_event_effect:
  assumes "inventory_ok iv" "iv' = recv_serf_event e iv"
  shows "inventory_ok iv' \<and>
    (case member_state (ev_event e) of
       Some st \<Rightarrow>
         host_info iv' = (\<lambda>h. if \<exists>tags\<in>set (ev_members e). tags ''uuid'' = Some h
           then map_option (\<lambda>hi. hi\<lparr>hinfo_fields := (hinfo_fields hi)\<lparr>hf_cstate := st\<rparr>\<rparr>) (host_info iv h)
           else host_info iv h) \<and> vms iv' = vms iv \<and> (\<forall>h u. lists iv' h u = lists iv h u)
     | None \<Rightarrow>
         if ev_event e \<noteq> ''user'' \<or> cut_short (ev_name e) (ev_payload e) then iv' = iv
         else if ev_name e = LABEL_HOST_INFO then only_host iv iv'
         else if ev_name e = LABEL_VM_EVENT \<or> ev_name e = LABEL_VM_INFO then only_machine iv iv'
         else iv' = iv)"
proof (rule conjI)
  show "inventory_ok iv'" using received.perform_inv[OF assms(1)] assms(2) by simp
  have user: "if cut_short l p then handle_user_event l p iv = iv
    else if l = LABEL_HOST_INFO then only_host iv (handle_user_event l p iv)
    else if l = LABEL_VM_EVENT \<or> l = LABEL_VM_INFO then only_machine iv (handle_user_event l p iv)
    else handle_user_event l p iv = iv" for l p
    using cut_short_ignored[of l p iv]
    by (auto simp: handle_user_event_def labels only_host_op only_machine_op only_machine_place split: prod.split option.split)
  have member: "host_info (handle_member_change ms st iv) = (\<lambda>h. if \<exists>tags\<in>set ms. tags ''uuid'' = Some h
       then map_option (\<lambda>hi. hi\<lparr>hinfo_fields := (hinfo_fields hi)\<lparr>hf_cstate := st\<rparr>\<rparr>) (host_info iv h)
       else host_info iv h) \<and> vms (handle_member_change ms st iv) = vms iv \<and>
     (\<forall>h u. lists (handle_member_change ms st iv) h u = lists iv h u)" for ms st
    using member_change_effect[of ms st iv] by (simp add: fun_eq_iff)
  consider "member_state (ev_event e) = None" "ev_event e = ''user''" | "member_state (ev_event e) = None" "ev_event e \<noteq> ''user''"
    | st where "member_state (ev_event e) = Some st" by (cases "member_state (ev_event e)"; cases "ev_event e = ''user''") simp_all
  then show "case member_state (ev_event e) of
       Some st \<Rightarrow>
         host_info iv' = (\<lambda>h. if \<exists>tags\<in>set (ev_members e). tags ''uuid'' = Some h
           then map_option (\<lambda>hi. hi\<lparr>hinfo_fields := (hinfo_fields hi)\<lparr>hf_cstate := st\<rparr>\<rparr>) (host_info iv h)
           else host_info iv h) \<and> vms iv' = vms iv \<and> (\<forall>h u. lists iv' h u = lists iv h u)
     | None \<Rightarrow>
         if ev_event e \<noteq> ''user'' \<or> cut_short (ev_name e) (ev_payload e) then iv' = iv
         else if ev_name e = LABEL_HOST_INFO then only_host iv iv'
         else if ev_name e = LABEL_VM_EVENT \<or> ev_name e = LABEL_VM_INFO then only_machine iv iv'
         else iv' = iv"
  proof cases
    case 1
    then have "iv' = handle_user_event (ev_name e) (ev_payload e) iv" by (simp add: assms(2) recv_serf_event_def)
    with user[of "ev_name e" "ev_payload e"] 1 show ?thesis by (simp only: option.case simp_thms)
  next
    case 2
    then show ?thesis by (simp add: assms(2) recv_serf_event_def member_state_def split: if_splits)
  next
    case 3
    then have "iv' = handle_member_change (ev_members e) st iv"
      by (auto simp: assms(2) recv_serf_event_def member_state_def split: if_splits)
    with member[of "ev_members e" st] show ?thesis by (simp only: 3 option.case simp_thms)
  qed
qed

section \<open>Witnesses\<close>

lemma sample_sizes:
  "host_wire.wire_size (sample_host ''A'' 5) = 65"
  "vm_wire.wire_size (sample_vm ''v'' ''A'' 10) = 36"
  "event_wire.wire_size (VmEvent.truncate (sample_vm ''v'' ''A'' 10)) = 16"
  by (simp_all add: host_wire.wire_size_def vm_wire.wire_size_def event_wire.wire_size_def
      of_HostInfo_def of_HostListFields_def of_VmInfo_def of_VmEvent_def of_CustomField_def
      sample_host_def sample_vm_def VmEvent.truncate_def)

theorem system_info_delivered_witness:
  "\<exists>calls. serf_calls (send_system_info (\<lambda>c. None) (sample_host ''A'' 5) [sample_vm ''v'' ''A'' 10]
             \<lparr>serf_up = True, serf_buffer = replicate 1024 0, serf_calls = []\<rparr>) = calls \<and>
     fold deliver calls init_inventory = sample_inventory"
proof -
  have "info_ops (sample_host ''A'' 5) [sample_vm ''v'' ''A'' 10] =
          [OpHost (sample_host ''A'' 5), OpVm (sample_vm ''v'' ''A'' 10)]"
    by (simp add: info_ops_def sample_sizes) (simp add: sample_host_def)
  then show ?thesis
    using system_info_delivered[of "\<lparr>serf_up = True, serf_buffer = replicate 1024 0, serf_calls = []\<rparr>"
      "\<lambda>c. None" "sample_host ''A'' 5" "[sample_vm ''v'' ''A'' 10]"]
    by (auto simp: sample_inventory_def)
qed

theorem truncated_message_ignored_witness:
  "handle_user_event LABEL_VM_INFO (take 35 (enc LittleEndian (of_VmInfo (sample_vm ''v'' ''A'' 10))))
     init_inventory = init_inventory"
  using truncated_message_ignored[of "sample_host ''A'' 5" 60 "VmEvent.truncate (sample_vm ''v'' ''A'' 10)" 15
      "sample_vm ''v'' ''A'' 10" 35 init_inventory]
  by (simp add: sample_sizes)

text \<open>The host of the sample inventory fails.\<close>

theorem received_event_effect_witness:
  "host_info (recv_serf_event \<lparr>ev_event = ''member-failed'', ev_name = '''', ev_payload = [], ev_members = [[''uuid'' \<mapsto> ''A'']]\<rparr>
       sample_inventory) ''A'' =
     Some ((sample_host ''A'' 5)\<lparr>hinfo_fields := (hinfo_fields (sample_host ''A'' 5))\<lparr>hf_cstate := CSTATE_FAILED\<rparr>\<rparr>)"
proof -
  let ?e = "\<lparr>ev_event = ''member-failed'', ev_name = '''', ev_payload = [], ev_members = [[''uuid'' \<mapsto> ''A'']]\<rparr>"
  have "host_info sample_inventory ''A'' = Some (sample_host ''A'' 5)" by (simp add: host_info_def sample_hosts)
  with received_event_effect[OF sample_ok HOL.refl, of ?e, THEN conjunct2] show ?thesis by (simp add: member_state_def)
qed

end
