(* ===== verification/Paths.thy ===== *)
theory Paths
  imports Model
begin

text \<open>
  Go's packages \<open>path/filepath\<close> and \<open>os\<close> as far as the sources use them: lexical
  operations on slash-separated paths, and a file system whose files and directories are
  found by the segments of their absolute path. Every system call may fail: a call that can
  fail for reasons outside the model takes the failure as an argument.
\<close>

section \<open>Package filepath\<close>

definition join_segs :: "string list \<Rightarrow> string" where
  "join_segs segs = concat (case segs of [] \<Rightarrow> [] | s # ss \<Rightarrow> s # map (\<lambda>x. CHR ''/'' # x) ss)"

fun clean_segs :: "bool \<Rightarrow> string list \<Rightarrow> string list \<Rightarrow> string list" where
  "clean_segs rooted acc [] = rev acc"
| "clean_segs rooted acc (s # ss) =
     (if s = '''' \<or> s = ''.'' then clean_segs rooted acc ss
      else if s = ''..'' then
        (if acc \<noteq> [] \<and> hd acc \<noteq> ''..'' then clean_segs rooted (tl acc) ss
         else if rooted then clean_segs rooted acc ss
         else clean_segs rooted (s # acc) ss)
      else clean_segs rooted (s # acc) ss)"

definition filepath_IsAbs :: "string \<Rightarrow> bool" where
  "filepath_IsAbs path \<longleftrightarrow> has_prefix path ''/''"

definition path_segs :: "string \<Rightarrow> string list" where
  "path_segs path = clean_segs (filepath_IsAbs path) [] (split_on (CHR ''/'') path)"

definition filepath_Clean :: "string \<Rightarrow> string" where
  "filepath_Clean path =
     (let out = join_segs (path_segs path) in
      if filepath_IsAbs path then CHR ''/'' # out
      else if out = '''' then ''.'' else out)"

text \<open>The part after the last slash, and the part up to and with it.\<close>

definition last_part :: "string \<Rightarrow> string" where
  "last_part path = rev (takeWhile (\<lambda>c. c \<noteq> CHR ''/'') (rev path))"

definition dir_part :: "string \<Rightarrow> string" where
  "dir_part path = rev (dropWhile (\<lambda>c. c \<noteq> CHR ''/'') (rev path))"

definition filepath_Dir :: "string \<Rightarrow> string" where
  "filepath_Dir path = filepath_Clean (dir_part path)"

definition filepath_Base :: "string \<Rightarrow> string" where
  "filepath_Base path =
     (if path = '''' then ''.''
      else (let p = rev (dropWhile (\<lambda>c. c = CHR ''/'') (rev path)) in
            if last_part p = '''' then ''/'' else last_part p))"

definition filepath_Ext :: "string \<Rightarrow> string" where
  "filepath_Ext path =
     (let base = last_part path;
          tail = takeWhile (\<lambda>c. c \<noteq> CHR ''.'') (rev base) in
      if tail = rev base then '''' else CHR ''.'' # rev tail)"

subsection \<open>Plain names\<close>

text \<open>A name that is one path segment and stays where it is put.\<close>

definition plain :: "string \<Rightarrow> bool" where
  "plain s \<longleftrightarrow> s \<noteq> '''' \<and> s \<noteq> ''.'' \<and> s \<noteq> ''..'' \<and> CHR ''/'' \<notin> set s"

lemma clean_segs_plain: "list_all plain ss \<Longrightarrow> clean_segs r acc (ss @ ts) = clean_segs r (rev ss @ acc) ts"
  by (induction ss arbitrary: acc) (auto simp: plain_def)

lemma clean_segs_ok:
  assumes "\<forall>s\<in>set ss. CHR ''/'' \<notin> set s" "list_all plain acc"
  shows "list_all plain (clean_segs True acc ss)"
  using assms
proof (induction ss arbitrary: acc)
  case Nil
  then show ?case by (simp add: list_all_iff)
next
  case (Cons s ss)
  then show ?case by (cases acc) (auto simp: plain_def)
qed

text \<open>An absolute path resolves to plain segments only: \<open>Clean\<close> leaves no dot-dot in it.\<close>

lemma path_segs_plain: "filepath_IsAbs path \<Longrightarrow> list_all plain (path_segs path)"
  unfolding path_segs_def by (simp add: clean_segs_ok split_on_free)

lemma join_segs_Cons: "join_segs (s # ss) = s @ (if ss = [] then '''' else CHR ''/'' # join_segs ss)"
  by (cases ss) (simp_all add: join_segs_def)

lemma split_join:
  "ss \<noteq> [] \<Longrightarrow> \<forall>s\<in>set ss. CHR ''/'' \<notin> set s \<Longrightarrow> split_on (CHR ''/'') (join_segs ss) = ss"
  by (induction ss) (auto simp: join_segs_Cons split_on_id split_on_append)

lemma segs_of_join:
  assumes "list_all plain ss"
  shows "path_segs (CHR ''/'' # join_segs ss) = ss"
proof -
  have free: "\<forall>s\<in>set ss. CHR ''/'' \<notin> set s" using assms by (auto simp: list_all_iff plain_def)
  have "clean_segs True [] (split_on (CHR ''/'') (join_segs ss)) = ss"
  proof (cases "ss = []")
    case True
    then show ?thesis by (simp add: join_segs_def)
  next
    case False
    from clean_segs_plain[OF assms, of True "[]" "[]"] show ?thesis
      by (simp add: split_join[OF False free])
  qed
  then show ?thesis by (simp add: path_segs_def filepath_IsAbs_def has_prefix_def)
qed

lemma Clean_abs: "filepath_IsAbs path \<Longrightarrow> filepath_Clean path = CHR ''/'' # join_segs (path_segs path)"
  by (simp add: filepath_Clean_def)

lemma path_segs_Clean: "filepath_IsAbs path \<Longrightarrow> path_segs (filepath_Clean path) = path_segs path"
  by (simp add: Clean_abs segs_of_join path_segs_plain)

lemma Clean_idem: "filepath_IsAbs path \<Longrightarrow> filepath_Clean (filepath_Clean path) = filepath_Clean path"
  using path_segs_Clean[of path] by (simp add: Clean_abs[of path])
     (simp add: filepath_Clean_def filepath_IsAbs_def has_prefix_def)

lemma path_segs_append:
  assumes "filepath_IsAbs p"
  shows "path_segs (p @ CHR ''/'' # q) = clean_segs True (rev (path_segs p)) (split_on (CHR ''/'') q)"
proof -
  have gen: "clean_segs True acc (split_on (CHR ''/'') (p @ CHR ''/'' # q)) =
             clean_segs True (rev (clean_segs True acc (split_on (CHR ''/'') p))) (split_on (CHR ''/'') q)"
    for acc p
  proof -
    have "split_on (CHR ''/'') (p @ CHR ''/'' # q) = split_on (CHR ''/'') p @ split_on (CHR ''/'') q"
      by (induction p) (auto split: list.splits)
    moreover have "clean_segs True acc (ss @ ts) = clean_segs True (rev (clean_segs True acc ss)) ts" for ss ts
      by (induction ss arbitrary: acc) auto
    ultimately show ?thesis by simp
  qed
  have "filepath_IsAbs (p @ CHR ''/'' # q)"
    using assms by (auto simp: filepath_IsAbs_def has_prefix_iff)
  with assms gen[of "[]" p] show ?thesis by (simp add: path_segs_def)
qed

lemma path_segs_child [path_simps]:
  assumes "filepath_IsAbs p" "plain s"
  shows "path_segs (p @ CHR ''/'' # s) = path_segs p @ [s]"
  using assms(2) by (auto simp: path_segs_append[OF assms(1)] plain_def split_on_id)

lemma IsAbs_Cons [path_simps]: "filepath_IsAbs (CHR ''/'' # p)"
  by (simp add: filepath_IsAbs_def has_prefix_def)

lemma IsAbs_append [path_simps]: "filepath_IsAbs p \<Longrightarrow> filepath_IsAbs (p @ q)"
  by (auto simp: filepath_IsAbs_def has_prefix_iff)

lemma IsAbs_Clean [path_simps]: "filepath_IsAbs path \<Longrightarrow> filepath_IsAbs (filepath_Clean path)"
  by (simp add: Clean_abs path_simps)

lemma dir_part_child: "CHR ''/'' \<notin> set s \<Longrightarrow> dir_part (q @ CHR ''/'' # s) = q @ ''/''"
proof -
  assume "CHR ''/'' \<notin> set s"
  then have "\<forall>c\<in>set (rev s). c \<noteq> CHR ''/''" by auto
  then have "dropWhile (\<lambda>c. c \<noteq> CHR ''/'') (rev s @ CHR ''/'' # rev q) =
             dropWhile (\<lambda>c. c \<noteq> CHR ''/'') (CHR ''/'' # rev q)"
    by (intro dropWhile_append2) blast
  then show ?thesis by (simp add: dir_part_def)
qed

lemma last_part_child: "CHR ''/'' \<notin> set s \<Longrightarrow> last_part (q @ CHR ''/'' # s) = s"
proof -
  assume "CHR ''/'' \<notin> set s"
  then have "\<forall>c\<in>set (rev s). c \<noteq> CHR ''/''" by auto
  then have "takeWhile (\<lambda>c. c \<noteq> CHR ''/'') (rev s @ CHR ''/'' # rev q) =
             rev s @ takeWhile (\<lambda>c. c \<noteq> CHR ''/'') (CHR ''/'' # rev q)"
    by (intro takeWhile_append2) blast
  then show ?thesis by (simp add: last_part_def)
qed

lemma Dir_child [path_simps]:
  assumes "filepath_IsAbs q" "CHR ''/'' \<notin> set s"
  shows "path_segs (filepath_Dir (q @ CHR ''/'' # s)) = path_segs q"
    "filepath_IsAbs (filepath_Dir (q @ CHR ''/'' # s))"
proof -
  have a: "filepath_IsAbs (q @ ''/'')" using assms(1) by (rule IsAbs_append)
  have "path_segs (q @ ''/'') = path_segs q"
    using path_segs_append[OF assms(1), of "''''"] by simp
  with a show "path_segs (filepath_Dir (q @ CHR ''/'' # s)) = path_segs q"
    by (simp add: filepath_Dir_def dir_part_child[OF assms(2)] path_segs_Clean)
  show "filepath_IsAbs (filepath_Dir (q @ CHR ''/'' # s))"
    using a by (simp add: filepath_Dir_def dir_part_child[OF assms(2)] IsAbs_Clean)
qed

lemma Base_child [path_simps]:
  assumes "s \<noteq> ''''" "CHR ''/'' \<notin> set s"
  shows "filepath_Base (q @ CHR ''/'' # s) = s"
proof -
  obtain c t where c: "rev s = c # t" using assms(1) by (cases "rev s") auto
  then have "c \<in> set s" by (metis list.set_intros(1) set_rev)
  with assms(2) have "c \<noteq> CHR ''/''" by auto
  then have "dropWhile (\<lambda>c. c = CHR ''/'') (rev (q @ CHR ''/'' # s)) = rev (q @ CHR ''/'' # s)"
    by (simp add: c)
  then have "rev (dropWhile (\<lambda>c. c = CHR ''/'') (rev (q @ CHR ''/'' # s))) = q @ CHR ''/'' # s"
    by (simp only: rev_rev_ident)
  with assms show ?thesis by (simp add: filepath_Base_def last_part_child Let_def)
qed

lemma filepath_Dir_child:
  assumes "filepath_IsAbs q" "CHR ''/'' \<notin> set s"
  shows "filepath_Dir (q @ CHR ''/'' # s) = CHR ''/'' # join_segs (path_segs q)"
proof -
  have "path_segs (q @ ''/'') = path_segs q"
    using path_segs_append[OF assms(1), of "''''"] by simp
  with Clean_abs[OF IsAbs_append[OF assms(1), of "''/''"]] show ?thesis
    by (simp add: filepath_Dir_def dir_part_child[OF assms(2)])
qed

end
