(* ===== verification/Files.thy ===== *)
theory Files
  imports Paths
begin

text \<open>
  Package \<open>os\<close>: the shared file system as two views, the contents of files and the set of
  directories, both by resolved path. A call takes the error it may fail with for reasons
  outside the model (permissions, a full disk, a lost server) as its first argument.
\<close>

type_synonym path = "string list"
type_synonym fault = "gerr option"

record fs =
  fs_file :: "path \<rightharpoonup> string"
  fs_dir :: "path set"

type_synonym 'a os_result = "fs \<times> 'a"

definition os_ReadFile :: "fault \<Rightarrow> string \<Rightarrow> fs \<Rightarrow> string result" where
  "os_ReadFile flt p s = (case flt of Some e \<Rightarrow> Inl e
     | None \<Rightarrow> (case fs_file s (path_segs p) of None \<Rightarrow> Inl NotExist | Some c \<Rightarrow> Inr c))"

definition os_Stat :: "fault \<Rightarrow> string \<Rightarrow> fs \<Rightarrow> gerr option" where
  "os_Stat flt p s = (case flt of Some e \<Rightarrow> Some e
     | None \<Rightarrow> if fs_file s (path_segs p) \<noteq> None \<or> path_segs p \<in> fs_dir s then None else Some NotExist)"

text \<open>Creating a file or giving it new contents: the directory it lies in has to exist, and a
  directory is not a file.\<close>

definition fs_put :: "path \<Rightarrow> string \<Rightarrow> fs \<Rightarrow> fs" where
  "fs_put p c s = s\<lparr>fs_file := (fs_file s)(p \<mapsto> c)\<rparr>"

definition fs_drop :: "path \<Rightarrow> fs \<Rightarrow> fs" where
  "fs_drop p s = s\<lparr>fs_file := (fs_file s)(p := None)\<rparr>"

definition can_hold :: "fs \<Rightarrow> path \<Rightarrow> bool" where
  "can_hold s p \<longleftrightarrow> p \<noteq> [] \<and> butlast p \<in> fs_dir s \<and> p \<notin> fs_dir s"

text \<open>\<open>os.WriteFile\<close> truncates the file before it writes: a failure after that leaves a part.\<close>

definition os_WriteFile :: "(gerr \<times> nat option) option \<Rightarrow> string \<Rightarrow> string \<Rightarrow> fs \<Rightarrow> fs \<times> gerr option" where
  "os_WriteFile flt p c s =
     (if \<not> can_hold s (path_segs p) then (s, Some NotExist)
      else (case flt of
              None \<Rightarrow> (fs_put (path_segs p) c s, None)
            | Some (e, None) \<Rightarrow> (s, Some e)
            | Some (e, Some n) \<Rightarrow> (fs_put (path_segs p) (take n c) s, Some e)))"

definition os_Remove :: "fault \<Rightarrow> string \<Rightarrow> fs \<Rightarrow> fs \<times> gerr option" where
  "os_Remove flt p s = (case flt of Some e \<Rightarrow> (s, Some e)
     | None \<Rightarrow> if fs_file s (path_segs p) \<noteq> None then (fs_drop (path_segs p) s, None)
               else (s, Some NotExist))"

text \<open>\<open>Rename\<close> of a file replaces the target in one step.\<close>

definition os_Rename :: "fault \<Rightarrow> string \<Rightarrow> string \<Rightarrow> fs \<Rightarrow> fs \<times> gerr option" where
  "os_Rename flt old new s = (case flt of Some e \<Rightarrow> (s, Some e)
     | None \<Rightarrow>
         (case fs_file s (path_segs old) of
            None \<Rightarrow> (s, Some NotExist)
          | Some c \<Rightarrow>
              if can_hold s (path_segs new)
              then (fs_put (path_segs new) c (fs_drop (path_segs old) s), None)
              else (s, Some NotExist)))"

text \<open>\<open>os.CreateTemp\<close>: the caller passes the name the library draws, which is not in use.\<close>

definition os_CreateTemp :: "fault \<Rightarrow> string \<Rightarrow> fs \<Rightarrow> fs \<times> gerr option" where
  "os_CreateTemp flt tmpname s = (case flt of Some e \<Rightarrow> (s, Some e)
     | None \<Rightarrow> if can_hold s (path_segs tmpname) then (fs_put (path_segs tmpname) '''' s, None)
               else (s, Some NotExist))"

lemma fs_put_file [simp]: "fs_file (fs_put p c s) = (fs_file s)(p \<mapsto> c)" "fs_dir (fs_put p c s) = fs_dir s"
  by (simp_all add: fs_put_def)

lemma fs_drop_file [simp]: "fs_file (fs_drop p s) = (fs_file s)(p := None)" "fs_dir (fs_drop p s) = fs_dir s"
  by (simp_all add: fs_drop_def)

lemma can_hold_put [simp]: "can_hold (fs_put q c s) p = can_hold s p" "can_hold (fs_drop q s) p = can_hold s p"
  by (simp_all add: can_hold_def)

end
