(* ===== verification/Scan.thy ===== *)
theory Scan
  imports Prelude
begin

text \<open>
  \<open>fmt.Sscanf\<close> for the formats the sources use: the verb \<open>%d\<close>, literal text and single
  spaces, on lines without a newline. A scan returns the rest of the line, or \<open>None\<close> where
  \<open>Sscanf\<close> stops with an error.
\<close>

definition is_blank :: "char \<Rightarrow> bool" where
  "is_blank c \<longleftrightarrow> (let n = (of_char c :: nat) in n = 9 \<or> n = 11 \<or> n = 12 \<or> n = 13 \<or> n = 32)"

definition scan_digits :: "string \<Rightarrow> (nat \<times> string) option" where
  "scan_digits s =
     (let ds = takeWhile is_digit s in
      if ds = [] then None else Some (dec_nat ds, dropWhile is_digit s))"

text \<open>\<open>%d\<close> into an \<open>int\<close> and into a \<open>uint16\<close>; values that do not fit are errors.\<close>

definition scan_int :: "string \<Rightarrow> (int \<times> string) option" where
  "scan_int s =
     (let t = dropWhile is_blank s;
          neg = has_prefix t ''-'';
          u = (if neg \<or> has_prefix t ''+'' then tl t else t) in
      case scan_digits u of
        None \<Rightarrow> None
      | Some (n, rest) \<Rightarrow>
          (let v = (if neg then - int n else int n) in
           if - (2 ^ 63) \<le> v \<and> v < 2 ^ 63 then Some (v, rest) else None))"

definition scan_u16 :: "string \<Rightarrow> (u16 \<times> string) option" where
  "scan_u16 s =
     (case scan_digits (dropWhile is_blank s) of
        None \<Rightarrow> None
      | Some (n, rest) \<Rightarrow> if n < 65536 then Some (word_of_nat n, rest) else None)"

text \<open>A space in the format needs a space in the input, or its end.\<close>

definition scan_space :: "string \<Rightarrow> string option" where
  "scan_space s = (case s of [] \<Rightarrow> Some [] | c # cs \<Rightarrow>
     if is_blank c then Some (dropWhile is_blank cs) else None)"

definition scan_lit :: "string \<Rightarrow> string \<Rightarrow> string option" where
  "scan_lit lit s = (if has_prefix s lit then Some (drop (length lit) s) else None)"

lemma is_blank_digit: "is_digit c \<Longrightarrow> \<not> is_blank c"
  by (auto simp: is_digit_def is_blank_def Let_def)

lemma scan_digits_nat_dec:
  "rest = [] \<or> \<not> is_digit (hd rest) \<Longrightarrow> scan_digits (nat_dec n @ rest) = Some (n, rest)"
proof -
  assume r: "rest = [] \<or> \<not> is_digit (hd rest)"
  have t: "takeWhile is_digit (nat_dec n @ rest) = nat_dec n"
    using nat_dec_digits[of n] r by (cases rest) (simp_all add: takeWhile_append2 takeWhile_eq_all_conv)
  have "dropWhile is_digit (nat_dec n @ rest) = rest"
    using nat_dec_digits[of n] r by (cases rest) (simp_all add: dropWhile_append2)
  with t show ?thesis by (simp add: scan_digits_def)
qed

lemma drop_blank_nat_dec: "dropWhile is_blank (nat_dec n @ rest) = nat_dec n @ rest"
proof (cases "nat_dec n")
  case Nil
  then show ?thesis by simp
next
  case (Cons c cs)
  then have "is_digit c" using nat_dec_digits[of n] by auto
  with Cons show ?thesis by (simp add: is_blank_digit)
qed

lemma scan_u16_nat_dec:
  "rest = [] \<or> \<not> is_digit (hd rest) \<Longrightarrow> scan_u16 (nat_dec (unat w) @ rest) = Some (w, rest)"
  using unsigned_less[of w] by (simp add: scan_u16_def drop_blank_nat_dec scan_digits_nat_dec)

lemma scan_int_nat_dec:
  assumes "rest = [] \<or> \<not> is_digit (hd rest)" "n < 2 ^ 63"
  shows "scan_int (nat_dec n @ rest) = Some (int n, rest)"
proof -
  obtain c cs where c: "nat_dec n = c # cs" by (cases "nat_dec n") auto
  then have "is_digit c" using nat_dec_digits[of n] by auto
  then have "c \<noteq> CHR ''-''" "c \<noteq> CHR ''+''" by (auto simp: is_digit_def)
  with c have "\<not> has_prefix (nat_dec n @ rest) ''-''" "\<not> has_prefix (nat_dec n @ rest) ''+''"
    by (simp_all add: has_prefix_def)
  with assms show ?thesis
    by (simp add: scan_int_def drop_blank_nat_dec scan_digits_nat_dec Let_def)
qed

end
