(* ===== verification/Vmreg.thy ===== *)
theory Vmreg
  imports Files Scan
begin

text \<open>
  Package \<open>vmreg\<close> (\<open>vmreg.go\<close>): the registry of machine definitions on shared storage, one
  file per machine in the directory of the host that runs it, and the file that caches the
  host's lock identifier. \<open>Save\<close> is modelled as the sequence of its system calls, so that
  what a crash or a failure leaves behind at any point can be stated.
\<close>

section \<open>Names\<close>

definition reg_file :: "string \<Rightarrow> string \<Rightarrow> string" where
  "reg_file host_uuid vm_uuid = REG_DIR @ ''/'' @ host_uuid @ ''/'' @ vm_uuid @ ''.xml''"

definition reg_dir :: "string \<Rightarrow> string" where
  "reg_dir host_uuid = REG_DIR @ ''/'' @ host_uuid"

definition reg_lockid :: "string \<Rightarrow> string" where
  "reg_lockid host_uuid = REG_DIR @ ''/'' @ host_uuid @ ''/'' @ ''lockid''"

definition reg_path :: "string \<Rightarrow> string \<Rightarrow> path" where
  "reg_path host_uuid vm_uuid = [''vms'', ''xml'', host_uuid, vm_uuid @ ''.xml'']"

lemma REG_segs: "path_segs REG_DIR = [''vms'', ''xml'']" and REG_abs: "filepath_IsAbs REG_DIR"
  by (simp_all add: path_segs_def REG_DIR_def filepath_IsAbs_def has_prefix_def)

lemma plain_append: "plain s \<Longrightarrow> CHR ''/'' \<notin> set t \<Longrightarrow> length t > 2 \<Longrightarrow> plain (s @ t)"
  by (auto simp: plain_def append_eq_Cons_conv)

lemma reg_dir_segs: "plain h \<Longrightarrow> path_segs (reg_dir h) = [''vms'', ''xml'', h]"
  unfolding reg_dir_def using path_segs_child[OF REG_abs, of h] by (simp add: REG_segs)

lemma reg_file_segs: "plain h \<Longrightarrow> plain u \<Longrightarrow> path_segs (reg_file h u) = reg_path h u"
proof -
  assume h: "plain h" and u: "plain u"
  have "filepath_IsAbs (reg_dir h)" by (simp add: reg_dir_def path_simps REG_abs)
  from path_segs_child[OF this plain_append[OF u, of "''.xml''"]]
  show ?thesis by (simp add: reg_dir_segs[OF h] reg_path_def) (simp add: reg_dir_def reg_file_def)
qed

section \<open>Operations\<close>

definition Load :: "fault \<Rightarrow> string \<Rightarrow> string \<Rightarrow> fs \<Rightarrow> string result" where
  "Load flt host_uuid vm_uuid s = os_ReadFile flt (reg_file host_uuid vm_uuid) s"

text \<open>\<open>reg_syncdir\<close> opens, syncs and closes a directory: it only changes what survives a loss of
  power, which is not in the model; its failures are.\<close>

record sync_faults =
  sf_open :: fault
  sf_sync :: fault
  sf_close :: fault

definition reg_syncdir :: "sync_faults \<Rightarrow> string \<Rightarrow> fs \<Rightarrow> gerr option" where
  "reg_syncdir f dirname s =
     (case sf_open f of Some e \<Rightarrow> Some e
      | None \<Rightarrow> if path_segs dirname \<notin> fs_dir s then Some NotExist
        else (case sf_sync f of Some e \<Rightarrow> Some e | None \<Rightarrow> sf_close f))"

record save_faults =
  sv_create :: fault
  sv_write :: "(gerr \<times> nat) option"
  sv_sync :: fault
  sv_close :: fault
  sv_chmod :: fault
  sv_rename :: fault
  sv_remove :: fault
  sv_dir :: sync_faults

definition save_tmp :: "string \<Rightarrow> string \<Rightarrow> string \<Rightarrow> string" where
  "save_tmp host_uuid vm_uuid rnd =
     filepath_Dir (reg_file host_uuid vm_uuid) @ ''/'' @ vm_uuid @ ''.tmp-'' @ rnd"

text \<open>The steps of \<open>Save\<close>: each gives the next state and the error, and the first error runs
  the deferred removal of the temporary file, whose own error is dropped. A failing write may
  have written a part.\<close>

definition save_create :: "save_faults \<Rightarrow> string \<Rightarrow> fs \<Rightarrow> fs \<times> gerr option" where
  "save_create f tmp s = os_CreateTemp (sv_create f) tmp s"

definition save_write :: "save_faults \<Rightarrow> string \<Rightarrow> string \<Rightarrow> fs \<Rightarrow> fs \<times> gerr option" where
  "save_write f tmp xml s = (case sv_write f of
     Some (e, n) \<Rightarrow> (fs_put (path_segs tmp) (take n xml) s, Some e)
   | None \<Rightarrow> (fs_put (path_segs tmp) xml s, None))"

definition save_finish :: "save_faults \<Rightarrow> fs \<Rightarrow> gerr option" where
  "save_finish f s = (case sv_sync f of Some e \<Rightarrow> Some e
     | None \<Rightarrow> (case sv_close f of Some e \<Rightarrow> Some e | None \<Rightarrow> sv_chmod f))"

definition save_cleanup :: "save_faults \<Rightarrow> string \<Rightarrow> fs \<Rightarrow> fs" where
  "save_cleanup f tmp s = fst (os_Remove (sv_remove f) tmp s)"

definition Save ::
  "save_faults \<Rightarrow> string \<Rightarrow> string \<Rightarrow> string \<Rightarrow> string \<Rightarrow> fs \<Rightarrow> fs \<times> gerr option" where
  "Save f rnd host_uuid vm_uuid xml s =
     (let filename = reg_file host_uuid vm_uuid;
          dirname = filepath_Dir filename;
          tmp = save_tmp host_uuid vm_uuid rnd in
      case save_create f tmp s of
        (s1, Some e) \<Rightarrow> (s1, Some e)
      | (s1, None) \<Rightarrow>
          (case save_write f tmp xml s1 of
             (s2, Some e) \<Rightarrow> (save_cleanup f tmp s2, Some e)
           | (s2, None) \<Rightarrow>
               (case save_finish f s2 of
                  Some e \<Rightarrow> (save_cleanup f tmp s2, Some e)
                | None \<Rightarrow>
                    (case os_Rename (sv_rename f) tmp filename s2 of
                       (s3, Some e) \<Rightarrow> (save_cleanup f tmp s3, Some e)
                     | (s3, None) \<Rightarrow> (s3, reg_syncdir (sv_dir f) dirname s3)))))"

text \<open>The states \<open>Save\<close> passes through: where a crash of the host can leave the storage.\<close>

definition save_states :: "save_faults \<Rightarrow> string \<Rightarrow> string \<Rightarrow> string \<Rightarrow> string \<Rightarrow> fs \<Rightarrow> fs set" where
  "save_states f rnd host_uuid vm_uuid xml s =
     (let tmp = save_tmp host_uuid vm_uuid rnd in
      {s, fst (Save f rnd host_uuid vm_uuid xml s)} \<union>
      (case save_create f tmp s of
         (s1, Some e) \<Rightarrow> {s1}
       | (s1, None) \<Rightarrow>
           {s1, fst (save_write f tmp xml s1)} \<union>
           (\<lambda>n. fs_put (path_segs tmp) (take n xml) s1) ` {..length xml}))"

definition Save_lockid ::
  "(gerr \<times> nat option) option \<Rightarrow> sync_faults \<Rightarrow> string \<Rightarrow> u16 \<Rightarrow> fs \<Rightarrow> fs \<times> gerr option" where
  "Save_lockid wflt sf host_uuid lockid s =
     (let filename = reg_lockid host_uuid;
          dirname = filepath_Dir filename;
          v = nat_dec (unat lockid) @ [CHR 0x0A] in
      case os_WriteFile wflt filename v s of
        (s1, Some e) \<Rightarrow> (s1, Some e)
      | (s1, None) \<Rightarrow> (s1, reg_syncdir sf dirname s1))"

text \<open>\<open>Sscanf\<close> fails or scans one item, so the test of the count after it never applies.\<close>

definition Load_lockid :: "fault \<Rightarrow> string \<Rightarrow> fs \<Rightarrow> u16 result" where
  "Load_lockid flt host_uuid s =
     (case os_ReadFile flt (reg_lockid host_uuid) s of
        Inl e \<Rightarrow> Inl e
      | Inr data \<Rightarrow> (case scan_u16 data of
                     None \<Rightarrow> Inl (OsErr ''expected integer'')
                   | Some (v, rest) \<Rightarrow> Inr v))"

definition Move ::
  "fault \<Rightarrow> sync_faults \<Rightarrow> sync_faults \<Rightarrow> string \<Rightarrow> string \<Rightarrow> string \<Rightarrow> fs \<Rightarrow> fs \<times> gerr option" where
  "Move rf f1 f2 new_host old_host uuid s =
     (let filename = reg_file new_host uuid;
          dirname = filepath_Dir filename;
          filename_old = reg_file old_host uuid;
          dirname_old = filepath_Dir filename_old in
      case os_Rename rf filename_old filename s of
        (s1, Some e) \<Rightarrow> (s1, Some e)
      | (s1, None) \<Rightarrow>
          (case reg_syncdir f1 dirname s1 of
             Some e \<Rightarrow> (s1, Some e)
           | None \<Rightarrow> (s1, reg_syncdir f2 dirname_old s1)))"

definition Delete :: "fault \<Rightarrow> sync_faults \<Rightarrow> string \<Rightarrow> string \<Rightarrow> fs \<Rightarrow> fs \<times> gerr option" where
  "Delete rf sf host_uuid vm_uuid s =
     (let filename = reg_file host_uuid vm_uuid in
      case os_Remove rf filename s of
        (s1, Some e) \<Rightarrow> (s1, Some e)
      | (s1, None) \<Rightarrow> (s1, reg_syncdir sf (filepath_Dir filename) s1))"

definition Access :: "fault \<Rightarrow> string \<Rightarrow> string \<Rightarrow> fs \<Rightarrow> gerr option" where
  "Access flt host_uuid vm_uuid s = os_Stat flt (reg_file host_uuid vm_uuid) s"

text \<open>A directory entry is its name and whether it is a directory. The loops over what
  \<open>os.ReadDir\<close> returned.\<close>

fun uuids_loop :: "(string \<times> bool) list \<Rightarrow> string list" where
  "uuids_loop [] = []"
| "uuids_loop ((name, isdir) # es) =
     (if isdir then uuids_loop es
      else if length name \<noteq> 40 then uuids_loop es
      else if drop (length name - 4) name \<noteq> ''.xml'' then uuids_loop es
      else take (length name - 4) name # uuids_loop es)"

definition Uuids :: "(string \<times> bool) list result \<Rightarrow> string list result" where
  "Uuids entries = (case entries of Inl e \<Rightarrow> Inl e | Inr es \<Rightarrow> Inr (uuids_loop es))"

fun hosts_loop :: "(string \<times> bool) list \<Rightarrow> string list" where
  "hosts_loop [] = []"
| "hosts_loop ((name, isdir) # es) =
     (if \<not> isdir then hosts_loop es
      else if length name \<noteq> 36 then hosts_loop es
      else name # hosts_loop es)"

definition Hosts :: "(string \<times> bool) list result \<Rightarrow> string list result" where
  "Hosts entries = (case entries of Inl e \<Rightarrow> Inl e | Inr es \<Rightarrow> Inr (hosts_loop es))"

section \<open>Correctness\<close>

lemma xml_suffix: "CHR ''/'' \<notin> set u \<Longrightarrow> CHR ''/'' \<notin> set (u @ ''.xml'')"
  by simp

lemma plain_no_slash: "plain u \<Longrightarrow> CHR ''/'' \<notin> set u"
  by (simp add: plain_def)

lemma reg_file_eq: "reg_file h u = reg_dir h @ CHR ''/'' # (u @ ''.xml'')"
  by (simp add: reg_file_def reg_dir_def)

lemma reg_dir_abs: "filepath_IsAbs (reg_dir h)"
  by (simp add: reg_dir_def path_simps REG_abs)

lemma reg_file_Dir:
  assumes "plain h" "plain u"
  shows "path_segs (filepath_Dir (reg_file h u)) = [''vms'', ''xml'', h]"
    "filepath_IsAbs (filepath_Dir (reg_file h u))"
  using Dir_child[OF reg_dir_abs xml_suffix[OF plain_no_slash[OF assms(2)]], of h] assms
  by (simp_all add: reg_file_eq reg_dir_segs)

definition tmp_path :: "string \<Rightarrow> string \<Rightarrow> string \<Rightarrow> path" where
  "tmp_path h u rnd = [''vms'', ''xml'', h, u @ ''.tmp-'' @ rnd]"

lemma save_tmp_segs:
  assumes "plain h" "plain u" "CHR ''/'' \<notin> set rnd"
  shows "path_segs (save_tmp h u rnd) = tmp_path h u rnd"
  using path_segs_child[OF reg_file_Dir(2)[OF assms(1,2)] plain_append[OF assms(2), of "''.tmp-'' @ rnd"]]
    reg_file_Dir(1)[OF assms(1,2)] assms(3)
  by (simp add: save_tmp_def tmp_path_def)

text \<open>\<open>CreateTemp\<close> draws decimal digits, so no temporary file is taken for a definition.\<close>

definition drawn :: "string \<Rightarrow> bool" where
  "drawn rnd \<longleftrightarrow> list_all is_digit rnd"

lemma drawn_no_slash: "drawn rnd \<Longrightarrow> CHR ''/'' \<notin> set rnd"
  by (auto simp: drawn_def list_all_iff is_digit_def)

lemma tmp_not_reg: "drawn rnd \<Longrightarrow> tmp_path h u rnd \<noteq> reg_path h' u'"
proof
  assume d: "drawn rnd" and "tmp_path h u rnd = reg_path h' u'"
  then have "last (u @ ''.tmp-'' @ rnd) = last (u' @ ''.xml'')" by (simp add: tmp_path_def reg_path_def)
  then have "last (CHR ''-'' # rnd) = CHR ''l''" by simp
  moreover have "last (CHR ''-'' # rnd) = CHR ''-'' \<or> is_digit (last (CHR ''-'' # rnd))"
    using d by (cases rnd rule: rev_cases) (auto simp: drawn_def)
  ultimately show False by (auto simp: is_digit_def)
qed

lemma reg_path_inj: "reg_path h u = reg_path h' u' \<longleftrightarrow> h = h' \<and> u = u'"
  by (auto simp: reg_path_def)

text \<open>A storage set up for a host: its directory exists and none of its entries is a directory.\<close>

definition reg_ready :: "fs \<Rightarrow> string \<Rightarrow> bool" where
  "reg_ready s h \<longleftrightarrow> [''vms'', ''xml'', h] \<in> fs_dir s \<and> (\<forall>n. [''vms'', ''xml'', h, n] \<notin> fs_dir s)"

lemma reg_ready_hold: "reg_ready s h \<Longrightarrow> can_hold s (reg_path h u)" "reg_ready s h \<Longrightarrow> can_hold s (tmp_path h u rnd)"
  by (simp_all add: reg_ready_def can_hold_def reg_path_def tmp_path_def)

definition no_sync_faults :: sync_faults where
  "no_sync_faults = \<lparr>sf_open = None, sf_sync = None, sf_close = None\<rparr>"

text \<open>Changes that touch the temporary file only.\<close>

definition only_at :: "path \<Rightarrow> fs \<Rightarrow> fs \<Rightarrow> bool" where
  "only_at q s s' \<longleftrightarrow> fs_dir s' = fs_dir s \<and> (\<forall>p. p \<noteq> q \<longrightarrow> fs_file s' p = fs_file s p)"

lemma only_at_intros:
  "only_at q s s" "only_at q s s' \<Longrightarrow> only_at q s (fs_put q c s')"
  "only_at q s s' \<Longrightarrow> only_at q s (fs_drop q s')"
  by (simp_all add: only_at_def)

lemma save_create_only: "only_at (path_segs tmp) s (fst (save_create f tmp s))"
  by (auto simp: save_create_def os_CreateTemp_def only_at_intros split: option.splits)

lemma save_write_only:
  "only_at (path_segs tmp) s s1 \<Longrightarrow> only_at (path_segs tmp) s (fst (save_write f tmp xml s1))"
  by (auto simp: save_write_def only_at_intros split: option.splits)

lemma save_write_done:
  "save_write f tmp xml s1 = (s2, None) \<Longrightarrow> fs_file s2 (path_segs tmp) = Some xml"
  by (auto simp: save_write_def split: option.splits)

lemma save_cleanup_only:
  "only_at (path_segs tmp) s s1 \<Longrightarrow> only_at (path_segs tmp) s (save_cleanup f tmp s1)"
  by (auto simp: save_cleanup_def os_Remove_def only_at_intros split: option.splits)

lemma Save_cases:
  obtains (unchanged) e where "only_at (path_segs (save_tmp h u rnd)) s (fst (Save f rnd h u xml s))"
      "snd (Save f rnd h u xml s) = Some e"
  | (replaced) s2 where "only_at (path_segs (save_tmp h u rnd)) s s2"
      "can_hold s2 (path_segs (reg_file h u))"
      "fst (Save f rnd h u xml s) =
         fs_put (path_segs (reg_file h u)) xml (fs_drop (path_segs (save_tmp h u rnd)) s2)"
proof -
  let ?tmp = "save_tmp h u rnd"
  obtain s1 e1 where c: "save_create f ?tmp s = (s1, e1)" by fastforce
  obtain s2 e2 where w: "save_write f ?tmp xml s1 = (s2, e2)" by fastforce
  obtain s3 e3 where r: "os_Rename (sv_rename f) ?tmp (reg_file h u) s2 = (s3, e3)" by fastforce
  have o1: "only_at (path_segs ?tmp) s s1" using save_create_only[of ?tmp s f] c by simp
  have o2: "only_at (path_segs ?tmp) s s2" using save_write_only[OF o1, of f xml] w by simp
  show thesis
  proof (cases "e1 = None \<and> e2 = None \<and> save_finish f s2 = None \<and> e3 = None")
    case True
    then have "fs_file s2 (path_segs ?tmp) = Some xml" using save_write_done w by blast
    with r True have h: "can_hold s2 (path_segs (reg_file h u))"
      "s3 = fs_put (path_segs (reg_file h u)) xml (fs_drop (path_segs ?tmp) s2)"
      by (auto simp: os_Rename_def split: option.splits if_splits)
    have "fst (Save f rnd h u xml s) = s3"
      using True c w r by (simp add: Save_def Let_def)
    with h o2 show thesis by (auto intro: replaced)
  next
    case False
    have r3: "e3 \<noteq> None \<Longrightarrow> s3 = s2" using r by (auto simp: os_Rename_def split: option.splits if_splits)
    from False show thesis
      using c w r r3 o1 o2 save_cleanup_only[OF o2, of f] unchanged
      by (cases e1; cases e2; cases "save_finish f s2"; cases e3) (auto simp: Save_def Let_def)
  qed
qed

text \<open>C23: whatever fails and wherever a crash stops it, \<open>Save\<close> leaves the definition readable,
  as the old one or as the new one in full, and every other file but its own temporary file
  unchanged; when it reports success the new one is there and the temporary file is gone.\<close>

theorem Save_atomic:
  assumes "plain h" "plain u" "drawn rnd" "s' \<in> save_states f rnd h u xml s"
  shows "fs_file s' (reg_path h u) \<in> {fs_file s (reg_path h u), Some xml} \<and>
         (\<forall>p. p \<noteq> reg_path h u \<and> p \<noteq> tmp_path h u rnd \<longrightarrow> fs_file s' p = fs_file s p) \<and>
         fs_dir s' = fs_dir s \<and>
         (snd (Save f rnd h u xml s) = None \<longrightarrow>
            Load None h u (fst (Save f rnd h u xml s)) = Inr xml \<and>
            fs_file (fst (Save f rnd h u xml s)) (tmp_path h u rnd) = None)"
proof -
  let ?tmp = "save_tmp h u rnd" and ?s' = "fst (Save f rnd h u xml s)"
  note segs = save_tmp_segs[OF assms(1,2) drawn_no_slash[OF assms(3)]] reg_file_segs[OF assms(1,2)]
  note ne = tmp_not_reg[OF assms(3), of h u h u]
  have only: "fs_file t (reg_path h u) = fs_file s (reg_path h u) \<and>
       (\<forall>p. p \<noteq> reg_path h u \<and> p \<noteq> tmp_path h u rnd \<longrightarrow> fs_file t p = fs_file s p) \<and> fs_dir t = fs_dir s"
    if "only_at (path_segs ?tmp) s t" for t
    using that ne by (simp add: only_at_def segs)
  have final: "(fs_file ?s' (reg_path h u) \<in> {fs_file s (reg_path h u), Some xml} \<and>
       (\<forall>p. p \<noteq> reg_path h u \<and> p \<noteq> tmp_path h u rnd \<longrightarrow> fs_file ?s' p = fs_file s p) \<and>
       fs_dir ?s' = fs_dir s) \<and>
       (snd (Save f rnd h u xml s) = None \<longrightarrow> Load None h u ?s' = Inr xml \<and>
       fs_file ?s' (tmp_path h u rnd) = None)" (is "?F \<and> ?O")
  proof (cases rule: Save_cases[of h u rnd s f xml])
    case (unchanged e)
    from only[OF unchanged(1)] unchanged(2) show "?F \<and> ?O" by simp
  next
    case (replaced s2)
    have "?s' = fs_put (reg_path h u) xml (fs_drop (tmp_path h u rnd) s2)"
      using replaced(3) by (simp only: segs)
    moreover note only[OF replaced(1)]
    ultimately show "?F \<and> ?O" using ne by (simp add: Load_def os_ReadFile_def segs)
  qed
  obtain s1 e1 where c: "save_create f ?tmp s = (s1, e1)" by fastforce
  have o1: "only_at (path_segs ?tmp) s s1" using save_create_only[of ?tmp s f] c by simp
  have "s' = ?s' \<or> s' = s \<or> s' = s1 \<or> s' = fst (save_write f ?tmp xml s1) \<or>
        (\<exists>n. s' = fs_put (path_segs ?tmp) (take n xml) s1)"
    using assms(4) c by (cases e1) (auto simp: save_states_def Let_def)
  then have "only_at (path_segs ?tmp) s s' \<or> s' = ?s'"
    using o1 save_write_only[OF o1, of f xml] only_at_intros by metis
  with only final show ?thesis by blast
qed

section \<open>The registry as a map\<close>

text \<open>What clients see of the storage: a map from a host and a machine to a definition.\<close>

definition registry :: "fs \<Rightarrow> string \<Rightarrow> string \<rightharpoonup> string" where
  "registry s h u = fs_file s (reg_path h u)"

definition no_save_faults :: save_faults where
  "no_save_faults = \<lparr>sv_create = None, sv_write = None, sv_sync = None, sv_close = None, sv_chmod = None,
     sv_rename = None, sv_remove = None, sv_dir = no_sync_faults\<rparr>"

lemma syncdir_ok:
  "plain h \<Longrightarrow> plain u \<Longrightarrow> reg_ready s h \<Longrightarrow>
     reg_syncdir no_sync_faults (filepath_Dir (reg_file h u)) s = None"
  by (simp add: reg_syncdir_def no_sync_faults_def reg_file_Dir reg_ready_def)

lemma reg_ready_frame [simp]: "reg_ready (fs_put p c s) h = reg_ready s h" "reg_ready (fs_drop p s) h = reg_ready s h"
  by (simp_all add: reg_ready_def)

lemma Load_registry:
  "plain h \<Longrightarrow> plain u \<Longrightarrow>
     Load None h u s = (case registry s h u of None \<Rightarrow> Inl NotExist | Some c \<Rightarrow> Inr c)"
  by (simp add: Load_def os_ReadFile_def registry_def reg_file_segs)

lemma Save_ok:
  assumes "plain h" "plain u" "drawn rnd" "reg_ready s h"
  shows "Save no_save_faults rnd h u xml s =
     (fs_put (reg_path h u) xml (fs_drop (tmp_path h u rnd) (fs_put (tmp_path h u rnd) xml
        (fs_put (tmp_path h u rnd) '''' s))), None)"
  using syncdir_ok[OF assms(1,2)] reg_ready_hold[OF assms(4), of u] reg_ready_hold(2)[OF assms(4), of u rnd] assms(4)
  by (simp add: Save_def Let_def save_create_def os_CreateTemp_def save_write_def save_finish_def
      os_Rename_def no_save_faults_def save_tmp_segs[OF assms(1,2) drawn_no_slash[OF assms(3)]]
      reg_file_segs[OF assms(1,2)])


text \<open>With any failures: each operation does what it should to its entry, or nothing, and leaves
  every other entry.\<close>

lemma Save_registry:
  assumes "plain h" "plain u" "drawn rnd"
  shows "registry (fst (Save f rnd h u xml s)) = registry s \<or>
     registry (fst (Save f rnd h u xml s)) = (\<lambda>g v. if g = h \<and> v = u then Some xml else registry s g v)"
proof -
  note segs = save_tmp_segs[OF assms(1,2) drawn_no_slash[OF assms(3)]] reg_file_segs[OF assms(1,2)]
  note ne = tmp_not_reg[OF assms(3)]
  show ?thesis
  proof (cases rule: Save_cases[of h u rnd s f xml])
    case (unchanged e)
    then have "registry (fst (Save f rnd h u xml s)) = registry s"
      using ne[THEN not_sym] by (simp add: only_at_def segs registry_def fun_eq_iff)
    then show ?thesis ..
  next
    case (replaced s2)
    then have "registry (fst (Save f rnd h u xml s)) g v = (if g = h \<and> v = u then Some xml else registry s g v)" for g v
      using ne[of h u g v] ne[of h u g v, THEN not_sym]
      by (simp add: only_at_def segs registry_def reg_path_inj fun_upd_apply)
    then show ?thesis by (simp add: fun_eq_iff)
  qed
qed

lemma Move_registry:
  assumes "plain h" "plain u" "plain h'" "reg_ready s h'" "Move f f1 f2 h' h u s = (s1, e)"
  shows "s1 = s \<and> e \<noteq> None \<or>
     (\<exists>c. registry s h u = Some c \<and>
        registry s1 = (\<lambda>g v. if v = u \<and> g = h' then Some c else if v = u \<and> g = h then None else registry s g v))"
  using assms(5) reg_ready_hold(1)[OF assms(4), of u]
  by (auto simp: Move_def Let_def os_Rename_def reg_file_segs[OF assms(1,2)] reg_file_segs[OF assms(3,2)]
      registry_def reg_path_inj fun_eq_iff split: option.splits if_splits)

lemma Delete_registry:
  assumes "plain h" "plain u" "Delete f sf h u s = (s1, e)"
  shows "s1 = s \<and> e \<noteq> None \<or>
     (\<exists>c. registry s h u = Some c \<and> registry s1 = (\<lambda>g v. if v = u \<and> g = h then None else registry s g v))"
  using assms(3)
  by (auto simp: Delete_def Let_def os_Remove_def reg_file_segs[OF assms(1,2)] registry_def reg_path_inj fun_eq_iff
      split: option.splits if_splits)

text \<open>The cached lock identifier.\<close>

definition lockid_path :: "string \<Rightarrow> path" where
  "lockid_path h = [''vms'', ''xml'', h, ''lockid'']"

lemma reg_lockid_segs: "plain h \<Longrightarrow> path_segs (reg_lockid h) = lockid_path h"
proof -
  assume h: "plain h"
  have "plain ''lockid''" by (simp add: plain_def)
  from path_segs_child[OF reg_dir_abs this, of h] show ?thesis
    by (simp add: reg_dir_segs[OF h] lockid_path_def) (simp add: reg_lockid_def reg_dir_def)
qed

text \<open>A lock identifier saved without failures is read back, whatever the number is; a write
  interrupted after the file was truncated leaves a file that \<open>Load_lockid\<close> refuses with an
  error other than the one for a file that is not there.\<close>

theorem lockid_roundtrip:
  assumes "plain h" "reg_ready s h"
  shows "Load_lockid None h (fst (Save_lockid None sf h lockid s)) = Inr lockid \<and>
     Load_lockid None h (fst (Save_lockid (Some (e, Some 0)) sf h lockid s)) =
       Inl (OsErr ''expected integer'')"
proof -
  have "can_hold s (lockid_path h)" using assms(2) by (simp add: can_hold_def lockid_path_def reg_ready_def)
  moreover have "scan_u16 (nat_dec (unat lockid) @ [CHR 0x0A]) = Some (lockid, [CHR 0x0A])"
    by (rule scan_u16_nat_dec) (simp add: is_digit_def)
  moreover have "scan_u16 '''' = None" by (simp add: scan_u16_def scan_digits_def)
  ultimately show ?thesis
    by (simp add: Save_lockid_def Load_lockid_def Let_def os_WriteFile_def os_ReadFile_def
        reg_lockid_segs[OF assms(1)])
qed

definition xml_entry :: "string \<times> bool \<Rightarrow> bool" where
  "xml_entry e \<longleftrightarrow> \<not> snd e \<and> length (fst e) = 40 \<and> drop 36 (fst e) = ''.xml''"

lemma uuids_loop_eq: "uuids_loop es = map (\<lambda>e. take 36 (fst e)) (filter xml_entry es)"
  by (induction es rule: uuids_loop.induct) (auto simp: xml_entry_def)

lemma hosts_loop_eq: "hosts_loop es = map fst (filter (\<lambda>e. snd e \<and> length (fst e) = 36) es)"
  by (induction es rule: hosts_loop.induct) auto

lemma xml_entry_iff:
  "xml_entry e \<and> u = take 36 (fst e) \<longleftrightarrow> length u = 36 \<and> e = (u @ ''.xml'', False)"
proof
  assume x: "xml_entry e \<and> u = take 36 (fst e)"
  then have "fst e = u @ ''.xml''"
    using append_take_drop_id[of 36 "fst e"] by (simp add: xml_entry_def)
  with x show "length u = 36 \<and> e = (u @ ''.xml'', False)" by (cases e) (auto simp: xml_entry_def)
qed (simp add: xml_entry_def)

lemma distinct_uuids: "distinct (map fst es) \<Longrightarrow> distinct (uuids_loop es)"
proof -
  assume "distinct (map fst es)"
  then have "distinct (map fst (filter xml_entry es))" by (rule distinct_map_filter)
  then have "distinct (map (\<lambda>e. take 36 (fst e) @ ''.xml'') (filter xml_entry es))"
  proof (rule back_subst[of distinct])
    show "map fst (filter xml_entry es) = map (\<lambda>e. take 36 (fst e) @ ''.xml'') (filter xml_entry es)"
    proof (rule map_cong[OF refl])
      fix e assume "e \<in> set (filter xml_entry es)"
      then have "xml_entry e \<and> take 36 (fst e) = take 36 (fst e)" by simp
      then show "fst e = take 36 (fst e) @ ''.xml''" unfolding xml_entry_iff by (metis fst_conv)
    qed
  qed
  then have "distinct (map (\<lambda>u. u @ ''.xml'') (uuids_loop es))" by (simp add: uuids_loop_eq comp_def)
  then show "distinct (uuids_loop es)" by (simp add: distinct_map)
qed

text \<open>The machines of a host are the 36-character names of its \<open>.xml\<close> files, so a definition
  saved under such a UUID is listed and temporary files are not; hosts are the directories with
  36-character names. Each is listed once.\<close>

theorem Uuids_iff:
  "(u \<in> set (uuids_loop es) \<longleftrightarrow> length u = 36 \<and> (u @ ''.xml'', False) \<in> set es) \<and>
   (h \<in> set (hosts_loop es) \<longleftrightarrow> length h = 36 \<and> (h, True) \<in> set es) \<and>
   (distinct (map fst es) \<longrightarrow> distinct (uuids_loop es) \<and> distinct (hosts_loop es))"
proof -
  have "u \<in> set (uuids_loop es) \<longleftrightarrow> (\<exists>e\<in>set es. xml_entry e \<and> u = take 36 (fst e))"
    by (auto simp: uuids_loop_eq)
  then have "u \<in> set (uuids_loop es) \<longleftrightarrow> length u = 36 \<and> (u @ ''.xml'', False) \<in> set es"
    unfolding xml_entry_iff by auto
  moreover have "h \<in> set (hosts_loop es) \<longleftrightarrow> length h = 36 \<and> (h, True) \<in> set es"
    by (force simp: hosts_loop_eq)
  moreover have "distinct (map fst es) \<Longrightarrow> distinct (hosts_loop es)"
    by (simp add: hosts_loop_eq distinct_map_filter)
  ultimately show ?thesis using distinct_uuids[of es] by blast
qed

section \<open>Witnesses\<close>

definition sample_fs :: fs where
  "sample_fs = \<lparr>fs_file = [reg_path ''A'' ''v'' \<mapsto> ''old''],
     fs_dir = {[], [''vms''], [''vms'', ''xml''], [''vms'', ''xml'', ''A''], [''vms'', ''xml'', ''B'']}\<rparr>"

lemma sample_ready: "reg_ready sample_fs ''A''" "reg_ready sample_fs ''B''"
  by (simp_all add: reg_ready_def sample_fs_def)

lemma sample_plain: "plain ''A''" "plain ''B''" "plain ''v''" "drawn ''42''"
  by (simp_all add: plain_def drawn_def is_digit_def)

theorem Save_atomic_witness:
  "fs_file (fst (Save (no_save_faults\<lparr>sv_write := Some (OsErr ''no space'', 1)\<rparr>) ''42'' ''A'' ''v'' ''new'' sample_fs))
     (reg_path ''A'' ''v'') \<in> {Some ''old'', Some ''new''}"
proof -
  let ?f = "no_save_faults\<lparr>sv_write := Some (OsErr ''no space'', 1)\<rparr>"
  have "fst (Save ?f ''42'' ''A'' ''v'' ''new'' sample_fs) \<in> save_states ?f ''42'' ''A'' ''v'' ''new'' sample_fs"
    by (simp add: save_states_def Let_def)
  from Save_atomic[OF sample_plain(1,3,4) this]
  have "fs_file (fst (Save ?f ''42'' ''A'' ''v'' ''new'' sample_fs)) (reg_path ''A'' ''v'')
          \<in> {fs_file sample_fs (reg_path ''A'' ''v''), Some ''new''}" by (rule conjunct1)
  then show ?thesis by (simp add: sample_fs_def)
qed


theorem lockid_roundtrip_witness:
  "Load_lockid None ''A'' (fst (Save_lockid None no_sync_faults ''A'' 2000 sample_fs)) = Inr 2000"
  using lockid_roundtrip[OF sample_plain(1) sample_ready(1), of no_sync_faults "2000" "OsErr ''x''"] by blast

theorem Uuids_iff_witness:
  "set (uuids_loop [(''lockid'', False), (replicate 36 (CHR ''a'') @ ''.xml'', False)]) = {replicate 36 (CHR ''a'')} \<and>
   distinct (uuids_loop [(''lockid'', False), (replicate 36 (CHR ''a'') @ ''.xml'', False)])"
proof -
  let ?es = "[(''lockid'', False), (replicate 36 (CHR ''a'') @ ''.xml'', False)]"
  have "distinct (map fst ?es)" by simp
  moreover have "u \<in> set (uuids_loop ?es) \<longleftrightarrow> u = replicate 36 (CHR ''a'')" for u
    using Uuids_iff[of u ?es] by auto
  ultimately show ?thesis using Uuids_iff[of "[]" ?es] by blast
qed

end
