(* ===== verification/Oplog.thy ===== *)
theory Oplog
  imports Model Inventory
begin

text \<open>
  Libvirt as package \<open>hypervisor\<close> uses it, and the log of operations it keeps in the metadata of a
  domain: \<open>oplog.go\<close> and the type \<open>Operation\<close> of package \<open>metadata\<close>. Libvirt is a record of
  functions on the state \<open>'w\<close> of the outside world; \<open>encoding/xml\<close> and the clock are parameters.
\<close>

section \<open>Libvirt\<close>

text \<open>States with the reasons the sources tell apart.\<close>

datatype PausedReason = PAUSED_MIGRATION | PAUSED_SHUTTING_DOWN | PAUSED_CRASHED | PAUSED_STARTING_UP | PausedOther
datatype ShutoffReason = SHUTOFF_CRASHED | SHUTOFF_MIGRATED | SHUTOFF_DESTROYED | SHUTOFF_SHUTDOWN | ShutoffOther

datatype DomainState = DOMAIN_NOSTATE | DOMAIN_RUNNING | DOMAIN_BLOCKED | DOMAIN_PAUSED PausedReason
  | DOMAIN_SHUTDOWN | DOMAIN_SHUTOFF ShutoffReason | DOMAIN_CRASHED | DOMAIN_PMSUSPENDED

datatype MigrateFlag = MIGRATE_LIVE | MIGRATE_OFFLINE | MIGRATE_PERSIST_DEST | MIGRATE_ABORT_ON_ERROR
  | MIGRATE_UNDEFINE_SOURCE | MIGRATE_AUTO_CONVERGE | MIGRATE_PARALLEL | MIGRATE_UNSAFE

datatype UndefineFlag = UNDEFINE_MANAGED_SAVE | UNDEFINE_SNAPSHOTS_METADATA | UNDEFINE_NVRAM
  | UNDEFINE_CHECKPOINTS_METADATA

record MigrateParameters =
  mp_URI :: string
  mp_ParallelConnections :: "int option"

text \<open>A domain is known by the connection and its UUID.\<close>

record LvDomain =
  ld_conn :: string
  ld_uuid :: string

record 'w libvirt =
  lv_NewConnect :: "string \<Rightarrow> 'w \<Rightarrow> gerr option"
  lv_Lookup :: "string \<Rightarrow> string \<Rightarrow> 'w \<Rightarrow> gerr option"
  lv_GetUUIDString :: "LvDomain \<Rightarrow> 'w \<Rightarrow> string result"
  lv_GetTitle :: "LvDomain \<Rightarrow> 'w \<Rightarrow> string result"
  lv_IsPersistent :: "LvDomain \<Rightarrow> 'w \<Rightarrow> bool result"
  lv_GetState :: "LvDomain \<Rightarrow> 'w \<Rightarrow> DomainState result"
  lv_GetXMLDesc :: "LvDomain \<Rightarrow> bool \<Rightarrow> 'w \<Rightarrow> string result"  \<comment> \<open>inactive?\<close>
  lv_GetMetadata :: "LvDomain \<Rightarrow> string \<Rightarrow> 'w \<Rightarrow> string result"
  lv_SetMetadata :: "LvDomain \<Rightarrow> string \<Rightarrow> string \<Rightarrow> string \<Rightarrow> 'w \<Rightarrow> gerr option \<times> 'w"
  lv_DomainDefineXML :: "string \<Rightarrow> string \<Rightarrow> 'w \<Rightarrow> LvDomain result \<times> 'w"
  lv_Migrate3 :: "LvDomain \<Rightarrow> string \<Rightarrow> MigrateParameters \<Rightarrow> MigrateFlag list \<Rightarrow> 'w \<Rightarrow> LvDomain result \<times> 'w"
  lv_QemuMonitorCommand :: "LvDomain \<Rightarrow> string \<Rightarrow> 'w \<Rightarrow> string result \<times> 'w"
  lv_Create :: "LvDomain \<Rightarrow> 'w \<Rightarrow> gerr option \<times> 'w"
  lv_Suspend :: "LvDomain \<Rightarrow> 'w \<Rightarrow> gerr option \<times> 'w"
  lv_Resume :: "LvDomain \<Rightarrow> 'w \<Rightarrow> gerr option \<times> 'w"
  lv_Shutdown :: "LvDomain \<Rightarrow> 'w \<Rightarrow> gerr option \<times> 'w"
  lv_DestroyFlags :: "LvDomain \<Rightarrow> bool \<Rightarrow> 'w \<Rightarrow> gerr option \<times> 'w"  \<comment> \<open>graceful?\<close>
  lv_UndefineFlags :: "LvDomain \<Rightarrow> UndefineFlag list \<Rightarrow> 'w \<Rightarrow> gerr option \<times> 'w"
  lv_AttachDevice :: "LvDomain \<Rightarrow> string \<Rightarrow> 'w \<Rightarrow> gerr option \<times> 'w"

definition LIBVIRT_URI :: string where
  "LIBVIRT_URI = ''qemu:///system''"

section \<open>The record of an operation\<close>

record OpMeta =
  om_Space :: string
  om_Local :: string
  om_Op :: string
  om_Ts :: i64
  om_Te :: i64
  om_Status :: string
  om_Msg :: string

record oplog_env =
  oe_marshal :: "OpMeta \<Rightarrow> string result"
  oe_unmarshal :: "string \<Rightarrow> OpMeta result"

record OplogItem =
  oi_Op :: string
  oi_Ts :: i64
  oi_Te :: i64
  oi_Status :: string
  oi_Msg :: string

definition op_space :: "Operation \<Rightarrow> string" where
  "op_space op = ''virtx-op-'' @ Operation_String op"

text \<open>\<open>To_xml\<close> fills the record and marshals it; the caller uses the name in the record.\<close>

definition Operation_To_xml ::
  "(OpMeta \<Rightarrow> string result) \<Rightarrow> Operation \<Rightarrow> OperationState \<Rightarrow> string \<Rightarrow> i64 \<Rightarrow> i64 \<Rightarrow> OpMeta \<times> string result" where
  "Operation_To_xml marshal op state msg ts te =
     (let meta = \<lparr>om_Space = op_space op, om_Local = ''data-op'', om_Op = Operation_String op,
                  om_Ts = ts, om_Te = te, om_Status = OperationState_String state, om_Msg = msg\<rparr> in
      (meta, marshal meta))"

type_synonym op_entry = "OperationState \<times> string \<times> i64 \<times> i64"

definition Operation_From_xml :: "(string \<Rightarrow> OpMeta result) \<Rightarrow> string \<Rightarrow> (Operation \<times> op_entry) result" where
  "Operation_From_xml unmarshal xmlstr =
     rbind (unmarshal xmlstr) (\<lambda>meta.
     rbind (Operation_Parse (om_Op meta)) (\<lambda>op.
     rbind (OperationState_Parse (om_Status meta)) (\<lambda>state.
       Inr (op, state, om_Msg meta, om_Ts meta, om_Te meta))))"

section \<open>The log\<close>

definition oplog_record ::
  "'w libvirt \<Rightarrow> oplog_env \<Rightarrow> LvDomain \<Rightarrow> Operation \<Rightarrow> OperationState \<Rightarrow> string \<Rightarrow> i64 \<Rightarrow> i64 \<Rightarrow> 'w \<Rightarrow> gerr option \<times> 'w" where
  "oplog_record lv oe domain op state msg ts te w =
     (case Operation_To_xml (oe_marshal oe) op state msg ts te of
        (meta, Inl e) \<Rightarrow> (Some e, w)
      | (meta, Inr xmlstr) \<Rightarrow> lv_SetMetadata lv domain xmlstr (om_Local meta) (om_Space meta) w)"

definition oplog_load :: "'w libvirt \<Rightarrow> oplog_env \<Rightarrow> LvDomain \<Rightarrow> Operation \<Rightarrow> 'w \<Rightarrow> op_entry result" where
  "oplog_load lv oe domain op w =
     rbind (lv_GetMetadata lv domain (op_space op) w) (\<lambda>xmlstr.
     rbind (Operation_From_xml (oe_unmarshal oe) xmlstr) (\<lambda>(op', entry). Inr entry))"

text \<open>\<open>ts.Now\<close> reads the clock of the world.\<close>

definition oplog_complete ::
  "'w libvirt \<Rightarrow> oplog_env \<Rightarrow> ('w \<Rightarrow> i64) \<Rightarrow> LvDomain \<Rightarrow> Operation \<Rightarrow> string \<Rightarrow> 'w \<Rightarrow> gerr option \<times> 'w" where
  "oplog_complete lv oe now domain op msg w =
     (case oplog_load lv oe domain op w of
        Inl e \<Rightarrow> (Some e, w)
      | Inr (state, oldmsg, started, te) \<Rightarrow>
          if state \<noteq> OPERATION_STARTED then (Some (Msg ''operation is not in state: started''), w)
          else oplog_record lv oe domain op OPERATION_COMPLETED msg started (now w) w)"

definition logged_ops :: "Operation list" where
  "logged_ops = [OpVmBoot, OpVmMigrate, OpVmPause, OpVmResume, OpVmShutdown]"

definition oplog_item :: "Operation \<Rightarrow> op_entry \<Rightarrow> OplogItem" where
  "oplog_item op entry = (case entry of (state, msg, ts, te) \<Rightarrow>
     \<lparr>oi_Op = Operation_String op, oi_Ts = ts, oi_Te = te, oi_Status = OperationState_String state, oi_Msg = msg\<rparr>)"

fun oplog_items :: "'w libvirt \<Rightarrow> oplog_env \<Rightarrow> LvDomain \<Rightarrow> Operation list \<Rightarrow> 'w \<Rightarrow> OplogItem list" where
  "oplog_items lv oe domain [] w = []"
| "oplog_items lv oe domain (op # ops) w =
     (case oplog_load lv oe domain op w of
        Inl e \<Rightarrow> oplog_items lv oe domain ops w
      | Inr entry \<Rightarrow> oplog_item op entry # oplog_items lv oe domain ops w)"

definition oplog_load_list :: "'w libvirt \<Rightarrow> oplog_env \<Rightarrow> LvDomain \<Rightarrow> 'w \<Rightarrow> OplogItem list \<times> gerr option" where
  "oplog_load_list lv oe domain w = (oplog_items lv oe domain logged_ops w, None)"

end
