(* ===== verification/Lockman.thy ===== *)
theory Lockman
  imports Vmreg
begin

text \<open>
  Package \<open>lockman\<close> (\<open>lockman.go\<close>): this host's slot in the sanlock lockspace, the lease
  files of disks and the block in them that names the owner, and the commands run under a
  lease. The sanlock daemon and its client program are not part of the repository: running
  the client is a parameter that maps arguments and a state of the world to the output,
  whether the command failed, and the next state. MD5 is a parameter too.
\<close>

section \<open>Constants and names\<close>

definition LOCK_SPACE_FILE :: string where "LOCK_SPACE_FILE = LOCK_DIR @ LOCK_SPACE"

abbreviation LOCK_JOIN_RETRIES :: nat where "LOCK_JOIN_RETRIES \<equiv> 10"
abbreviation LOCK_INQ_RETRIES :: nat where "LOCK_INQ_RETRIES \<equiv> 10"
abbreviation HOST_ID_MAX :: nat where "HOST_ID_MAX \<equiv> 2000"
abbreviation SANLK_HOSTID_BUSY :: int where "SANLK_HOSTID_BUSY \<equiv> - 262"

definition LVB_SECTOR :: nat where "LVB_SECTOR = 2002"
definition BLOCK_SIZE :: nat where "BLOCK_SIZE = 512"

text \<open>\<open>fmt.Sprintf\<close> of \<open>%s:%s:%s:%d\<close> with a zero offset at the end.\<close>

definition sanlock_path :: "string \<Rightarrow> string \<Rightarrow> string" where
  "sanlock_path x file = LOCK_SPACE @ '':'' @ x @ '':'' @ file @ '':'' @ nat_dec 0"

definition Get_resource_path :: "string \<Rightarrow> string" where
  "Get_resource_path resource_name = LOCK_DIR @ resource_name @ ''/'' @ resource_name"

definition hex_digit :: "nat \<Rightarrow> char" where
  "hex_digit d = (if d < 10 then char_of (48 + d) else char_of (87 + d))"

definition hex_EncodeToString :: "byte list \<Rightarrow> string" where
  "hex_EncodeToString bs = concat (map (\<lambda>b. [hex_digit (unat b div 16), hex_digit (unat b mod 16)]) bs)"

definition dev_disks_prefixes :: "string list" where
  "dev_disks_prefixes = [''dm-uuid-mpath-'', ''scsi-'', ''nvme-'', ''wwn-0x'']"

fun lun_key :: "string list \<Rightarrow> string \<Rightarrow> string" where
  "lun_key [] key = key"
| "lun_key (pre # ps) key =
     (if has_prefix key pre
      then (if pre = ''wwn-0x'' then ''3'' @ trim_prefix key pre else trim_prefix key pre)
      else lun_key ps key)"

definition Get_resource_name :: "(byte list \<Rightarrow> byte list) \<Rightarrow> DiskDevice \<Rightarrow> string \<Rightarrow> string" where
  "Get_resource_name md5 device path =
     (if device = DEVICE_LUN then lun_key dev_disks_prefixes (filepath_Base path)
      else if device = DEVICE_DISK \<or> device = DEVICE_CDROM
        then hex_EncodeToString (md5 (bytes_of (trim_prefix path DS_DIR)))
      else '''')"

section \<open>The lockspace\<close>

type_synonym 'w sanlock = "string list \<Rightarrow> 'w \<Rightarrow> (string \<times> bool) \<times> 'w"

definition host_id_next :: "u16 \<Rightarrow> u16" where
  "host_id_next host_id = (let h = host_id + 1 in if 2000 < h then 1 else h)"

definition lines_of :: "string \<Rightarrow> string list" where
  "lines_of out = split_on (CHR 0x0A) out"

definition obind :: "'a option \<Rightarrow> ('a \<Rightarrow> 'b option) \<Rightarrow> 'b option" where
  "obind x f = (case x of None \<Rightarrow> None | Some y \<Rightarrow> f y)"

text \<open>The line \<open>add_lockspace done\<close> and its code.\<close>

definition scan_done :: "string \<Rightarrow> int option" where
  "scan_done line =
     obind (scan_lit ''add_lockspace'' line) (\<lambda>s. obind (scan_space s) (\<lambda>s.
       obind (scan_lit ''done'' s) (\<lambda>s. obind (scan_space s) (\<lambda>s. obind (scan_int s) (\<lambda>r. Some (fst r))))))"

fun join_code :: "string list \<Rightarrow> int \<Rightarrow> int" where
  "join_code [] code = code"
| "join_code (line # ls) code = (case scan_done line of Some c \<Rightarrow> c | None \<Rightarrow> join_code ls code)"

definition lm_join_lockspace :: "'w sanlock \<Rightarrow> u16 \<Rightarrow> 'w \<Rightarrow> int \<times> 'w" where
  "lm_join_lockspace sanlock host_id w =
     (case sanlock [''client'', ''add_lockspace'', ''-s'', sanlock_path (nat_dec (unat host_id)) LOCK_SPACE_FILE] w of
        ((out, failed), w') \<Rightarrow> (if \<not> failed then 0 else join_code (lines_of out) (- 1), w'))"

text \<open>The table of busy identifiers; Go panics on an index outside the array.\<close>

definition scan_status :: "string \<Rightarrow> (int \<times> int) option" where
  "scan_status line =
     obind (scan_int line) (\<lambda>(i, s). obind (scan_space s) (\<lambda>s. obind (scan_lit ''timestamp'' s) (\<lambda>s.
       obind (scan_space s) (\<lambda>s. obind (scan_int s) (\<lambda>r. Some (i, fst r))))))"

fun fill_busy :: "string list \<Rightarrow> bool list \<Rightarrow> bool list result" where
  "fill_busy [] busy_ids = Inr busy_ids"
| "fill_busy (line # ls) busy_ids =
     (case scan_status line of
        None \<Rightarrow> fill_busy ls busy_ids
      | Some (i, ts) \<Rightarrow>
          if ts = 0 then fill_busy ls busy_ids
          else if i < 0 \<or> int (length busy_ids) \<le> i then Inl (Panic ''index out of range'')
          else fill_busy ls (busy_ids[nat i := True]))"

text \<open>The two linear searches. The first stops at the first identifier that is not busy, the
  second asks the daemon for each identifier that is not busy. The counter \<open>i\<close> is the loop's.\<close>

function search1 :: "bool list \<Rightarrow> nat \<Rightarrow> u16 \<Rightarrow> nat \<times> u16" where
  "search1 busy_ids i host_id =
     (if HOST_ID_MAX < i then (i, host_id)
      else if \<not> busy_ids ! unat host_id then (i + 1, host_id)
      else search1 busy_ids (i + 1) (host_id_next host_id))"
  by auto
termination by (relation "measure (\<lambda>(b, i, h). 2001 - i)") auto

declare search1.simps [simp del]

function search2 :: "'w sanlock \<Rightarrow> bool list \<Rightarrow> nat \<Rightarrow> u16 \<Rightarrow> 'w \<Rightarrow> u16 result \<times> 'w" where
  "search2 sanlock busy_ids i host_id w =
     (if HOST_ID_MAX < i then (Inl (Msg ''could not join, all slots busy2''), w)
      else if busy_ids ! unat host_id
        then search2 sanlock busy_ids (i + 1) (host_id_next host_id) w
      else (case lm_join_lockspace sanlock host_id w of
              (code, w') \<Rightarrow>
                if code = 0 then (Inr host_id, w')
                else if code \<noteq> SANLK_HOSTID_BUSY
                  then (Inl (Msg (''add_lockspace failed for host_id '' @ nat_dec (unat host_id) @ '': '' @
                          int_dec code)), w')
                else search2 sanlock busy_ids (i + 1) (host_id_next host_id) w'))"
  by auto
termination by (relation "measure (\<lambda>(s, b, i, h, w). 2001 - i)") auto

declare search2.simps [simp del]

definition start_id :: "(byte list \<Rightarrow> byte list) \<Rightarrow> string \<Rightarrow> u16" where
  "start_id md5 host_uuid =
     ucast ((get_uint BigEndian (take 4 (md5 (bytes_of host_uuid))) :: u32) mod 2000 + 1)"

definition lm_search_join_lockspace ::
  "'w sanlock \<Rightarrow> (byte list \<Rightarrow> byte list) \<Rightarrow> string \<Rightarrow> 'w \<Rightarrow> u16 result \<times> 'w" where
  "lm_search_join_lockspace sanlock md5 host_uuid w =
     (case sanlock [''client'', ''host_status'', ''-s'', sanlock_path (nat_dec 0) LOCK_SPACE_FILE] w of
        ((out, failed), w1) \<Rightarrow>
          if failed \<and> length out \<noteq> 0 then (Inl (OsErr ''exit status''), w1)
          else (case fill_busy (lines_of out) (replicate 2001 False) of
                  Inl e \<Rightarrow> (Inl e, w1)
                | Inr busy_ids \<Rightarrow>
                    (case search1 busy_ids 0 (start_id md5 host_uuid) of
                       (i, host_id) \<Rightarrow>
                         if HOST_ID_MAX < i then (Inl (Msg ''could not join, all slots busy''), w1)
                         else search2 sanlock busy_ids 0 host_id w1)))"

text \<open>The identifier under which this host already is in the lockspace, 0 for none.\<close>

definition scan_inq :: "string \<Rightarrow> u16 option" where
  "scan_inq line =
     obind (scan_lit ''s'' line) (\<lambda>s. obind (scan_space s) (\<lambda>s.
       obind (scan_lit (LOCK_SPACE @ '':'') s) (\<lambda>s. obind (scan_u16 s) (\<lambda>r. Some (fst r)))))"

fun inq_id :: "string list \<Rightarrow> u16" where
  "inq_id [] = 0"
| "inq_id (line # ls) = (case scan_inq line of Some h \<Rightarrow> h | None \<Rightarrow> inq_id ls)"

definition lm_inq_lockspace :: "'w sanlock \<Rightarrow> 'w \<Rightarrow> u16 result \<times> 'w" where
  "lm_inq_lockspace sanlock w =
     (case sanlock [''client'', ''gets''] w of
        ((out, failed), w') \<Rightarrow> (if failed then Inl (OsErr ''exit status'') else Inr (inq_id (lines_of out)), w'))"

definition lm_leave_lockspace :: "'w sanlock \<Rightarrow> u16 \<Rightarrow> 'w \<Rightarrow> gerr option \<times> 'w" where
  "lm_leave_lockspace sanlock host_id w =
     (case sanlock [''client'', ''rem_lockspace'', ''-s'', sanlock_path (nat_dec (unat host_id)) LOCK_SPACE_FILE] w of
        ((out, failed), w') \<Rightarrow> (if failed then Some (OsErr ''exit status'') else None, w'))"

section \<open>Joining at start-up\<close>

text \<open>
  \<open>Init\<close>: the loop that joins, the loop that asks again. The argument \<open>save\<close> is
  \<open>vmreg.Save_lockid\<close> for this host on the storage as it is; sleeping between attempts is not
  modelled. \<open>err\<close> is the variable of the code, which keeps its last value.
\<close>

fun join_loop ::
  "'w sanlock \<Rightarrow> (byte list \<Rightarrow> byte list) \<Rightarrow> string \<Rightarrow> (u16 \<Rightarrow> gerr option) \<Rightarrow> nat \<Rightarrow> u16 \<Rightarrow> gerr option \<Rightarrow> 'w
     \<Rightarrow> u16 \<times> gerr option \<times> gerr option \<times> 'w"
where
  "join_loop sanlock md5 host_uuid save 0 host_id err w = (host_id, err, None, w)"
| "join_loop sanlock md5 host_uuid save (Suc n) host_id err w =
     (if host_id = 0 then
        (case lm_search_join_lockspace sanlock md5 host_uuid w of
           (Inr h, w') \<Rightarrow> (case save h of
               Some e \<Rightarrow> (h, Some e, Some (wrap ''vmreg: failed to Save_lockid: '' e), w')
             | None \<Rightarrow> (h, None, None, w'))
         | (Inl e, w') \<Rightarrow>
             if is_panic e then (0, Some e, Some e, w')
             else join_loop sanlock md5 host_uuid save n 0 (Some e) w')
      else
        (case lm_join_lockspace sanlock host_id w of
           (code, w') \<Rightarrow>
             if code = 0 then (host_id, err, None, w')
             else join_loop sanlock md5 host_uuid save n host_id
                    (Some (Msg (''add_lockspace failed for host_id '' @ nat_dec (unat host_id) @ '': '' @
                                int_dec code))) w'))"

fun inq_loop :: "'w sanlock \<Rightarrow> nat \<Rightarrow> gerr option \<Rightarrow> 'w \<Rightarrow> gerr option \<times> 'w" where
  "inq_loop sanlock 0 err w = (err, w)"
| "inq_loop sanlock (Suc n) err w =
     (case lm_inq_lockspace sanlock w of
        (Inr h, w') \<Rightarrow> (None, w')
      | (Inl e, w') \<Rightarrow> inq_loop sanlock n (Some e) w')"

definition finish_init :: "'w sanlock \<Rightarrow> u16 \<Rightarrow> gerr option \<Rightarrow> 'w \<Rightarrow> u16 \<times> gerr option \<times> 'w" where
  "finish_init sanlock host_id err w =
     (case err of
        Some e \<Rightarrow> (host_id, Some (wrap ''lm_join_lockspace: '' e), w)
      | None \<Rightarrow> (case inq_loop sanlock LOCK_INQ_RETRIES None w of
                   (e, w') \<Rightarrow> (host_id, map_option (wrap ''lm_inq_lockspace: '') e, w')))"

definition Init ::
  "'w sanlock \<Rightarrow> (byte list \<Rightarrow> byte list) \<Rightarrow> gerr option \<Rightarrow> u16 result \<Rightarrow> (u16 \<Rightarrow> gerr option) \<Rightarrow>
     string \<Rightarrow> 'w \<Rightarrow> u16 \<times> gerr option \<times> 'w" where
  "Init sanlock md5 lockdir cached save host_uuid w =
     (case lockdir of Some e \<Rightarrow> (0, Some (wrap ''lm_init_lockdir: '' e), w)
      | None \<Rightarrow>
        (case lm_inq_lockspace sanlock w of
           (Inl e, w1) \<Rightarrow> (0, Some (wrap ''lm_inq_lockspace: '' e), w1)
         | (Inr host_id, w1) \<Rightarrow>
             if host_id \<noteq> 0 then finish_init sanlock host_id None w1
             else (case (case cached of
                           Inr h \<Rightarrow> Inr (h, None)
                         | Inl e \<Rightarrow> if e = NotExist then Inr (0, Some e) else Inl e) of
                     Inl e \<Rightarrow> (0, Some (wrap ''vmreg: failed to Load_lockid: '' e), w1)
                   | Inr (h, err) \<Rightarrow>
                       (case join_loop sanlock md5 host_uuid save LOCK_JOIN_RETRIES h err w1 of
                          (h', e', Some ret, w2) \<Rightarrow> (h', Some ret, w2)
                        | (h', e', None, w2) \<Rightarrow> finish_init sanlock h' e' w2))))"

section \<open>The block that names the owner\<close>

text \<open>What happens to a read or write before it completes: interruptions and a failure. When the
  list is used up the call transfers all the bytes there are; a call interrupted for ever is
  not modelled.\<close>

datatype io_try = Interrupted | IoError string | Short nat

fun lm_pread :: "io_try list \<Rightarrow> string \<Rightarrow> nat \<Rightarrow> nat \<Rightarrow> string result" where
  "lm_pread [] c off n =
     (let got = take n (drop off c) in
      if length got \<noteq> n then Inl (Msg (''pread incomplete at offset '' @ nat_dec off)) else Inr got)"
| "lm_pread (Interrupted # ts) c off n = lm_pread ts c off n"
| "lm_pread (IoError e # ts) c off n = Inl (Msg (''pread at offset '' @ nat_dec off @ '': '' @ e))"
| "lm_pread (Short k # ts) c off n =
     (if k \<noteq> n then Inl (Msg (''pread incomplete at offset '' @ nat_dec off)) else Inr (take n (drop off c)))"

definition write_at :: "nat \<Rightarrow> string \<Rightarrow> string \<Rightarrow> string" where
  "write_at off bs c =
     take off (c @ replicate (off - length c) (CHR 0x00)) @ bs @ drop (off + length bs) c"

fun lm_pwrite :: "io_try list \<Rightarrow> string \<Rightarrow> nat \<Rightarrow> string \<Rightarrow> string \<times> gerr option" where
  "lm_pwrite [] buf off c = (write_at off buf c, None)"
| "lm_pwrite (Interrupted # ts) buf off c = lm_pwrite ts buf off c"
| "lm_pwrite (IoError e # ts) buf off c = (c, Some (Msg (''pwrite at offset '' @ nat_dec off @ '': '' @ e)))"
| "lm_pwrite (Short k # ts) buf off c =
     (write_at off (take k buf) c,
      if k \<noteq> length buf then Some (Msg (''pwrite incomplete at offset '' @ nat_dec off)) else None)"

definition lvb_block :: "string \<Rightarrow> string" where
  "lvb_block uuid = put_at_front (take BLOCK_SIZE uuid) (replicate BLOCK_SIZE (CHR 0x00))"

definition lm_set_lvb :: "io_try list \<Rightarrow> gerr option \<Rightarrow> string \<Rightarrow> string \<Rightarrow> string \<times> gerr option" where
  "lm_set_lvb ts fsync uuid c =
     (case lm_pwrite ts (lvb_block uuid) (LVB_SECTOR * BLOCK_SIZE) c of
        (c', Some e) \<Rightarrow> (c', Some e)
      | (c', None) \<Rightarrow> (c', fsync))"

text \<open>A new lease file: it is created, \<open>sanlock client init\<close> fills it, and the owner is set. The argument
  \<open>fill\<close> is what the command leaves in the file; the result is the file, if it is there, and the error.\<close>

definition lm_init_resource_file ::
  "gerr option \<Rightarrow> (string list \<Rightarrow> string \<Rightarrow> string \<times> gerr option) \<Rightarrow> io_try list \<Rightarrow> gerr option \<Rightarrow>
     string \<Rightarrow> string \<Rightarrow> string \<Rightarrow> string option \<times> gerr option" where
  "lm_init_resource_file opened fill ts fsync resource_path resource_name uuid =
     (case opened of
        Some e \<Rightarrow> (None, Some e)
      | None \<Rightarrow>
          (case fill [''client'', ''init'', ''-r'', sanlock_path resource_name resource_path] '''' of
             (c, Some e) \<Rightarrow> (Some c, Some e)
           | (c, None) \<Rightarrow> (case lm_set_lvb ts fsync uuid c of (c', e) \<Rightarrow> (Some c', e))))"

text \<open>The file is given by its contents, or nothing when it cannot be opened.\<close>

definition Read_lvb :: "io_try list \<Rightarrow> string option \<Rightarrow> string result" where
  "Read_lvb ts file =
     (case file of
        None \<Rightarrow> Inl NotExist
      | Some c \<Rightarrow>
          (case lm_pread ts c (LVB_SECTOR * BLOCK_SIZE) BLOCK_SIZE of
             Inl e \<Rightarrow> Inl e
           | Inr buf \<Rightarrow> Inr (takeWhile (\<lambda>x. x \<noteq> CHR 0x00) buf)))"

text \<open>The program \<open>virtx-check-lvb\<close>: exit code 0 if and only if the block names the machine.\<close>

definition check_lvb :: "io_try list \<Rightarrow> string option \<Rightarrow> string \<Rightarrow> nat" where
  "check_lvb ts file uuid =
     (case Read_lvb ts file of
        Inl e \<Rightarrow> 1
      | Inr lvb \<Rightarrow> if uuid \<noteq> lvb then 1 else 0)"

definition check_lvb_main :: "(string \<Rightarrow> string option) \<Rightarrow> io_try list \<Rightarrow> string list \<Rightarrow> nat" where
  "check_lvb_main open_file ts args =
     (if length args \<noteq> 3 then 1
      else if length (args ! 2) < 1 then 1
      else check_lvb ts (open_file (args ! 1)) (args ! 2))"

section \<open>Running commands under a lease\<close>

fun spawn_args :: "string list list \<Rightarrow> string list" where
  "spawn_args [] = []"
| "spawn_args (c # cs) = [''-c'', nat_dec (length c)] @ c @ spawn_args cs"

definition run_args :: "string \<Rightarrow> string \<Rightarrow> string list list \<Rightarrow> bool \<Rightarrow> string list" where
  "run_args resource_name uuid args no_disk =
     (let resource_path = Get_resource_path resource_name in
      [''client'', ''spawn'', ''-P'', ''1'', ''-r'', sanlock_path resource_name resource_path,
       ''-c'', ''3'', ''/usr/sbin/virtx-check-lvb'', resource_path, uuid] @
      spawn_args args @ (if no_disk then [''-d'', ''1''] else []))"

definition Run :: "'w sanlock \<Rightarrow> string \<Rightarrow> string \<Rightarrow> string list list \<Rightarrow> bool \<Rightarrow> 'w \<Rightarrow> gerr option \<times> 'w" where
  "Run sanlock resource_name uuid args no_disk w =
     (case sanlock (run_args resource_name uuid args no_disk) w of
        ((out, failed), w') \<Rightarrow> (if failed then Some (OsErr ''exit status'') else None, w'))"

definition Delete_resource :: "'w sanlock \<Rightarrow> string \<Rightarrow> string \<Rightarrow> 'w \<Rightarrow> gerr option \<times> 'w" where
  "Delete_resource sanlock resource_name uuid w =
     (let resource_path = Get_resource_path resource_name in
      Run sanlock resource_name uuid
        [[''/usr/bin/rm'', ''--'', resource_path],
         [''/usr/bin/rmdir'', ''--'', filepath_Dir resource_path]] True w)"

end
