(* ===== verification/Lockman_Create.thy ===== *)
theory Lockman_Create
  imports Lockman
begin

text \<open>
  Creating and deleting a lease file on storage several hosts share. \<open>Create_resource\<close> prepares
  the file in a temporary directory and renames that directory into place; \<open>Delete_resource\<close>
  runs two commands under the lease. Each system call is one step on the entries of the lock
  directory; the steps of any number of processes on any hosts interleave. \<open>lm_init_lockdir\<close>
  has the same structure one level higher. An entry is a directory, empty or with a lease file
  whose block names a machine.
\<close>

type_synonym lockdir = "string \<rightharpoonup> string option"

datatype pc =
    AtStat | AtMkdirTemp | AtChmod string | AtInit string | AtRename string | AtMove string
  | AtCheck | AtRm | AtRmdir
  | Ended "gerr option"

section \<open>The system calls of Create_resource\<close>

text \<open>Every step takes the failure the call meets, if any. The last two entries of the messages
  tell apart whether the owner could be read.\<close>

definition exists_err :: "string \<Rightarrow> string \<Rightarrow> string \<Rightarrow> string \<Rightarrow> gerr" where
  "exists_err n resource_name uuid tail =
     Msg (''('' @ n @ '') cannot create '' @ resource_name @ '' for vm '' @ uuid @ '': it already exists'' @ tail)"

definition create_stat :: "gerr option \<Rightarrow> string \<Rightarrow> string \<Rightarrow> lockdir \<Rightarrow> pc" where
  "create_stat unread resource_name uuid d =
     (case d resource_name of
        Some (Some lvb) \<Rightarrow>
          Ended (Some (if unread \<noteq> None then exists_err ''0'' resource_name uuid ''''
                       else exists_err ''1'' resource_name uuid ('' for vm '' @ lvb)))
      | _ \<Rightarrow> AtMkdirTemp)"

definition create_mkdir :: "gerr option \<Rightarrow> string \<Rightarrow> lockdir \<Rightarrow> pc \<times> lockdir" where
  "create_mkdir flt tmp d =
     (case flt of Some e \<Rightarrow> (Ended (Some e), d) | None \<Rightarrow> (AtChmod tmp, d(tmp \<mapsto> None)))"

definition create_chmod :: "gerr option \<Rightarrow> string \<Rightarrow> lockdir \<Rightarrow> pc \<times> lockdir" where
  "create_chmod flt tmp d =
     (case flt of Some e \<Rightarrow> (Ended (Some e), d(tmp := None)) | None \<Rightarrow> (AtInit tmp, d))"

definition create_init :: "gerr option \<Rightarrow> string \<Rightarrow> string \<Rightarrow> lockdir \<Rightarrow> pc \<times> lockdir" where
  "create_init flt tmp uuid d =
     (case flt of Some e \<Rightarrow> (Ended (Some e), d(tmp := None)) | None \<Rightarrow> (AtRename tmp, d(tmp \<mapsto> Some uuid)))"

text \<open>\<open>os.Rename\<close> looks first whether the new name is a directory, and then makes the system call,
  which replaces a directory only if that is empty. Any other failure than an existing target leaves
  the temporary directory behind.\<close>

definition create_exists :: "gerr option \<Rightarrow> string \<Rightarrow> string \<Rightarrow> string \<Rightarrow> lockdir \<Rightarrow> pc \<times> lockdir" where
  "create_exists unread tmp resource_name uuid d =
     (Ended (Some (case d resource_name of
        Some (Some lvb) \<Rightarrow>
          if unread \<noteq> None then exists_err ''2'' resource_name uuid ''''
          else exists_err ''3'' resource_name uuid ('' for vm '' @ lvb)
      | _ \<Rightarrow> exists_err ''2'' resource_name uuid '''')), d(tmp := None))"

definition create_look ::
  "gerr option \<Rightarrow> gerr option \<Rightarrow> string \<Rightarrow> string \<Rightarrow> string \<Rightarrow> lockdir \<Rightarrow> pc \<times> lockdir" where
  "create_look flt unread tmp resource_name uuid d =
     (if flt = None \<and> d resource_name \<noteq> None then create_exists unread tmp resource_name uuid d else (AtMove tmp, d))"

definition create_rename ::
  "gerr option \<Rightarrow> gerr option \<Rightarrow> string \<Rightarrow> string \<Rightarrow> string \<Rightarrow> lockdir \<Rightarrow> pc \<times> lockdir" where
  "create_rename flt unread tmp resource_name uuid d =
     (let err = (case flt of Some e \<Rightarrow> Some e
                 | None \<Rightarrow> (case d resource_name of Some (Some lvb) \<Rightarrow> Some Exist | _ \<Rightarrow> None)) in
      case err of
        None \<Rightarrow> (Ended None, (d(tmp := None))(resource_name := d tmp))
      | Some e \<Rightarrow> if e = Exist then create_exists unread tmp resource_name uuid d else (Ended (Some e), d))"

record create_faults =
  cf_unread1 :: "gerr option"
  cf_mkdir :: "gerr option"
  cf_chmod :: "gerr option"
  cf_init :: "gerr option"
  cf_look :: "gerr option"
  cf_rename :: "gerr option"
  cf_unread2 :: "gerr option"

text \<open>The function as the code has it, run without interference: the calls in order, until one ends it.\<close>

definition and_then :: "pc \<times> lockdir \<Rightarrow> (lockdir \<Rightarrow> pc \<times> lockdir) \<Rightarrow> pc \<times> lockdir" where
  "and_then step next = (case step of (Ended r, d) \<Rightarrow> (Ended r, d) | (_, d) \<Rightarrow> next d)"

definition Create_resource ::
  "create_faults \<Rightarrow> string \<Rightarrow> string \<Rightarrow> string \<Rightarrow> lockdir \<Rightarrow> lockdir \<times> gerr option" where
  "Create_resource f path resource_name uuid d =
     (case and_then (create_stat (cf_unread1 f) resource_name uuid d, d) (\<lambda>d.
           and_then (create_mkdir (cf_mkdir f) path d) (\<lambda>d.
           and_then (create_chmod (cf_chmod f) path d) (\<lambda>d.
           and_then (create_init (cf_init f) path uuid d) (\<lambda>d.
           and_then (create_look (cf_look f) (cf_unread2 f) path resource_name uuid d) (\<lambda>d.
           create_rename (cf_rename f) (cf_unread2 f) path resource_name uuid d))))) of
        (Ended r, d') \<Rightarrow> (d', r) | (_, d') \<Rightarrow> (d', None))"

lemma and_then_simps [simp]:
  "and_then (Ended r, d) k = (Ended r, d)" "and_then (AtMkdirTemp, d) k = k d" "and_then (AtChmod t, d) k = k d"
  "and_then (AtInit t, d) k = k d" "and_then (AtRename t, d) k = k d" "and_then (AtMove t, d) k = k d"
  by (simp_all add: and_then_def)

section \<open>Processes\<close>

fun create_step ::
  "gerr option \<Rightarrow> gerr option \<Rightarrow> string \<Rightarrow> string \<Rightarrow> string \<Rightarrow> pc \<Rightarrow> lockdir \<Rightarrow> pc \<times> lockdir" where
  "create_step flt unread tmp r u AtStat d = (create_stat unread r u d, d)"
| "create_step flt unread tmp r u AtMkdirTemp d = create_mkdir flt tmp d"
| "create_step flt unread tmp r u (AtChmod t) d = create_chmod flt t d"
| "create_step flt unread tmp r u (AtInit t) d = create_init flt t u d"
| "create_step flt unread tmp r u (AtRename t) d = create_look flt unread t r u d"
| "create_step flt unread tmp r u (AtMove t) d = create_rename flt unread t r u d"
| "create_step flt unread tmp r u pc d = (pc, d)"

text \<open>The commands of \<open>Delete_resource\<close>: the owner check, \<open>rm\<close> and \<open>rmdir\<close>; the first failure
  stops the chain.\<close>

fun delete_step :: "gerr option \<Rightarrow> string \<Rightarrow> string \<Rightarrow> pc \<Rightarrow> lockdir \<Rightarrow> pc \<times> lockdir" where
  "delete_step flt r u AtCheck d =
     (if flt = None \<and> d r = Some (Some u) then (AtRm, d) else (Ended (Some (OsErr ''exit status'')), d))"
| "delete_step flt r u AtRm d =
     (case d r of
        Some (Some lvb) \<Rightarrow> if flt = None then (AtRmdir, d(r \<mapsto> None)) else (Ended flt, d)
      | _ \<Rightarrow> (Ended (Some NotExist), d))"
| "delete_step flt r u AtRmdir d =
     (if flt = None \<and> d r = Some None then (Ended None, d(r := None)) else (Ended (Some (OsErr ''exit status'')), d))"
| "delete_step flt r u pc d = (pc, d)"

fun creating :: "pc \<Rightarrow> bool" where
  "creating AtStat \<longleftrightarrow> True"
| "creating AtMkdirTemp \<longleftrightarrow> True"
| "creating (AtChmod t) \<longleftrightarrow> True"
| "creating (AtInit t) \<longleftrightarrow> True"
| "creating (AtRename t) \<longleftrightarrow> True"
| "creating (AtMove t) \<longleftrightarrow> True"
| "creating _ \<longleftrightarrow> False"



record shared =
  sh_dir :: lockdir
  sh_pc :: "nat \<Rightarrow> pc"

text \<open>
  A step of some process \<open>p\<close>, which works for the machine \<open>uuid p\<close>. \<open>MkdirTemp\<close> draws a name that
  is not in use and is not that of the resource, to which it adds a suffix. sanlock grants the
  lease in a file to one process at a time: a process whose owner check passes does so while no
  other holds the lease of the file that is in place, that is, is between its check and its
  \<open>rm\<close>. With \<open>faults\<close> false no call fails for reasons outside the model.
\<close>

inductive sh_step :: "bool \<Rightarrow> (nat \<Rightarrow> string) \<Rightarrow> string \<Rightarrow> nat \<Rightarrow> shared \<Rightarrow> shared \<Rightarrow> bool"
  for faults :: bool and uuid :: "nat \<Rightarrow> string" and r :: string
where
  create: "creating (sh_pc s p) \<Longrightarrow> faults \<or> flt = None \<Longrightarrow> tmp \<noteq> r \<Longrightarrow> sh_dir s tmp = None \<Longrightarrow>
     create_step flt unread tmp r (uuid p) (sh_pc s p) (sh_dir s) = (pc', d') \<Longrightarrow>
     sh_step faults uuid r p s \<lparr>sh_dir = d', sh_pc = (sh_pc s)(p := pc')\<rparr>"
| check: "sh_pc s p = AtCheck \<Longrightarrow> faults \<or> flt = None \<Longrightarrow> \<forall>q. sh_pc s q \<noteq> AtRm \<Longrightarrow>
     delete_step flt r (uuid p) AtCheck (sh_dir s) = (pc', d') \<Longrightarrow>
     sh_step faults uuid r p s \<lparr>sh_dir = d', sh_pc = (sh_pc s)(p := pc')\<rparr>"
| remove: "sh_pc s p = AtRm \<or> sh_pc s p = AtRmdir \<Longrightarrow> faults \<or> flt = None \<Longrightarrow>
     delete_step flt r (uuid p) (sh_pc s p) (sh_dir s) = (pc', d') \<Longrightarrow>
     sh_step faults uuid r p s \<lparr>sh_dir = d', sh_pc = (sh_pc s)(p := pc')\<rparr>"

inductive sh_reach :: "bool \<Rightarrow> (nat \<Rightarrow> string) \<Rightarrow> string \<Rightarrow> shared \<Rightarrow> shared \<Rightarrow> bool"
  for faults :: bool and uuid :: "nat \<Rightarrow> string" and r :: string and s0 :: shared
where
  start: "sh_reach faults uuid r s0 s0"
| step: "sh_reach faults uuid r s0 s \<Longrightarrow> sh_step faults uuid r p s s' \<Longrightarrow> sh_reach faults uuid r s0 s'"

text \<open>At the start every process is about to create or to delete, or not there, and the lock
  directory has no entry or that of the resource.\<close>

definition sh_initial :: "string \<Rightarrow> shared \<Rightarrow> bool" where
  "sh_initial r s \<longleftrightarrow> (\<forall>p. sh_pc s p \<in> {AtStat, AtCheck}) \<and> dom (sh_dir s) \<subseteq> {r}"


section \<open>The invariant\<close>

text \<open>The temporary directory of a process and what is in it.\<close>

fun tmp_of :: "pc \<Rightarrow> string option" where
  "tmp_of (AtChmod t) = Some t"
| "tmp_of (AtInit t) = Some t"
| "tmp_of (AtRename t) = Some t"
| "tmp_of (AtMove t) = Some t"
| "tmp_of _ = None"

fun tmp_holds :: "string \<Rightarrow> pc \<Rightarrow> string option" where
  "tmp_holds u (AtRename t) = Some u"
| "tmp_holds u (AtMove t) = Some u"
| "tmp_holds u _ = None"

definition sh_ok :: "(nat \<Rightarrow> string) \<Rightarrow> string \<Rightarrow> shared \<Rightarrow> bool" where
  "sh_ok uuid r s \<longleftrightarrow>
     (\<forall>p t. tmp_of (sh_pc s p) = Some t \<longrightarrow> t \<noteq> r \<and> sh_dir s t = Some (tmp_holds (uuid p) (sh_pc s p))) \<and>
     (\<forall>p q t. p \<noteq> q \<and> tmp_of (sh_pc s p) = Some t \<longrightarrow> tmp_of (sh_pc s q) \<noteq> Some t) \<and>
     (\<forall>p. sh_pc s p = AtRm \<longrightarrow> sh_dir s r = Some (Some (uuid p)) \<and> (\<forall>q. sh_pc s q = AtRm \<longrightarrow> q = p))"

text \<open>How one step changes the directory, seen from the entry of the resource and from the
  entries of other processes.\<close>

lemma create_step_frame:
  assumes "create_step flt unread tmp r u pc d = (pc', d')" "creating pc" "tmp \<noteq> r" "d tmp = None"
    and "\<forall>t. tmp_of pc = Some t \<longrightarrow> t \<noteq> r \<and> d t = Some (tmp_holds u pc)"
  shows "pc' \<noteq> AtRm \<and>
     (d' r = d r \<or> (\<exists>t. pc = AtMove t \<and> (\<forall>v. d r \<noteq> Some (Some v)) \<and> d' r = Some (Some u) \<and> pc' = Ended None)) \<and>
     (\<forall>t. tmp_of pc' = Some t \<longrightarrow> t \<noteq> r \<and> d' t = Some (tmp_holds u pc') \<and> (tmp_of pc = Some t \<or> d t = None)) \<and>
     (\<forall>t. t \<noteq> r \<and> d t \<noteq> None \<and> tmp_of pc \<noteq> Some t \<longrightarrow> d' t = d t)"
  using assms
  by (cases pc)
     (auto simp: create_stat_def create_mkdir_def create_chmod_def create_init_def create_look_def create_exists_def
       create_rename_def Let_def
       split: option.splits if_splits)

lemma delete_step_frame:
  assumes "delete_step flt r u pc d = (pc', d')" "pc \<in> {AtCheck, AtRm, AtRmdir}"
  shows "tmp_of pc' = None \<and> (\<forall>t. t \<noteq> r \<longrightarrow> d' t = d t) \<and>
     (pc' = AtRm \<longrightarrow> pc = AtCheck \<and> d' = d \<and> d r = Some (Some u)) \<and>
     (d' r \<noteq> d r \<longrightarrow> pc = AtRm \<or> d r = Some None)"
  using assms by (auto split: option.splits if_splits)

lemma sh_ok_update:
  assumes "sh_ok uuid r s"
    and "\<And>t. tmp_of pc' = Some t \<Longrightarrow>
           t \<noteq> r \<and> d' t = Some (tmp_holds (uuid p) pc') \<and> (tmp_of (sh_pc s p) = Some t \<or> sh_dir s t = None)"
    and "\<And>t. t \<noteq> r \<Longrightarrow> sh_dir s t \<noteq> None \<Longrightarrow> tmp_of (sh_pc s p) \<noteq> Some t \<Longrightarrow> d' t = sh_dir s t"
    and "pc' = AtRm \<Longrightarrow> d' r = Some (Some (uuid p)) \<and> (\<forall>q. q \<noteq> p \<longrightarrow> sh_pc s q \<noteq> AtRm)"
    and "\<And>q. q \<noteq> p \<Longrightarrow> sh_pc s q = AtRm \<Longrightarrow> d' r = sh_dir s r"
  shows "sh_ok uuid r \<lparr>sh_dir = d', sh_pc = (sh_pc s)(p := pc')\<rparr>"
proof -
  let ?s' = "\<lparr>sh_dir = d', sh_pc = (sh_pc s)(p := pc')\<rparr>"
  note ok = assms(1)[unfolded sh_ok_def]
  have t1: "t \<noteq> r \<and> sh_dir s t = Some (tmp_holds (uuid q) (sh_pc s q))" if "tmp_of (sh_pc s q) = Some t" for q t
    using ok[THEN conjunct1, rule_format, OF that] .
  have t2: "tmp_of (sh_pc s q) \<noteq> Some t" if "q \<noteq> q'" "tmp_of (sh_pc s q') = Some t" for q q' t
    using ok[THEN conjunct2, THEN conjunct1, rule_format, of q' q t] that by simp
  have a: "t \<noteq> r \<and> sh_dir ?s' t = Some (tmp_holds (uuid q) (sh_pc ?s' q))"
    if "tmp_of (sh_pc ?s' q) = Some t" for q t
  proof (cases "q = p")
    case True
    with that assms(2) show ?thesis by simp
  next
    case False
    with that have q: "tmp_of (sh_pc s q) = Some t" by simp
    with t1[OF q] t2[of p q t] assms(3)[of t] False show ?thesis by auto
  qed
  have b: "tmp_of (sh_pc ?s' q') \<noteq> Some t" if "q \<noteq> q'" "tmp_of (sh_pc ?s' q) = Some t" for q q' t
  proof
    assume "tmp_of (sh_pc ?s' q') = Some t"
    with that show False
      using t1[of q t] t1[of q' t] t2[of q q' t] t2[of p q t] t2[of p q' t] assms(2)[of t]
      by (auto split: if_splits)
  qed
  have c: "sh_dir ?s' r = Some (Some (uuid q)) \<and> (\<forall>q'. sh_pc ?s' q' = AtRm \<longrightarrow> q' = q)"
    if "sh_pc ?s' q = AtRm" for q
  proof (cases "q = p")
    case True
    with that assms(4) show ?thesis by auto
  next
    case False
    with that have q: "sh_pc s q = AtRm" by simp
    from ok[THEN conjunct2, THEN conjunct2, rule_format, OF q]
    have r: "sh_dir s r = Some (Some (uuid q))" and u: "\<And>q'. sh_pc s q' = AtRm \<Longrightarrow> q' = q" by auto
    have "pc' \<noteq> AtRm" using assms(4) q False by auto
    with r u assms(5)[OF False q] show ?thesis by simp
  qed
  have A: "\<forall>q t. tmp_of (sh_pc ?s' q) = Some t \<longrightarrow> t \<noteq> r \<and> sh_dir ?s' t = Some (tmp_holds (uuid q) (sh_pc ?s' q))"
    by (intro allI impI) (rule a)
  have B: "\<forall>q q' t. q \<noteq> q' \<and> tmp_of (sh_pc ?s' q) = Some t \<longrightarrow> tmp_of (sh_pc ?s' q') \<noteq> Some t"
    by (intro allI impI, elim conjE) (rule b)
  have C: "\<forall>q. sh_pc ?s' q = AtRm \<longrightarrow> sh_dir ?s' r = Some (Some (uuid q)) \<and> (\<forall>q'. sh_pc ?s' q' = AtRm \<longrightarrow> q' = q)"
    by (intro allI impI) (rule c)
  show ?thesis unfolding sh_ok_def using A B C by (intro conjI)
qed

lemma sh_ok_step:
  assumes "sh_ok uuid r s" "sh_step faults uuid r p s s'"
  shows "sh_ok uuid r s'"
  using assms(2)
proof cases
  case (create flt tmp unread pc' d')
  from assms(1) have own: "\<forall>t. tmp_of (sh_pc s p) = Some t \<longrightarrow> t \<noteq> r \<and> sh_dir s t = Some (tmp_holds (uuid p) (sh_pc s p))"
    by (simp add: sh_ok_def)
  note f = create_step_frame[OF create(6,2,4,5) own]
  note f_pc = f[THEN conjunct1] and f_r = f[THEN conjunct2, THEN conjunct1]
    and f_tmp = f[THEN conjunct2, THEN conjunct2, THEN conjunct1, rule_format]
    and f_other = f[THEN conjunct2, THEN conjunct2, THEN conjunct2, rule_format]
  have "d' r = sh_dir s r" if "sh_pc s q = AtRm" for q
    using f_r assms(1) that by (auto simp: sh_ok_def)
  with f_pc f_tmp f_other show ?thesis unfolding create(1)
    by (intro sh_ok_update[OF assms(1)]) simp_all
next
  case (check flt pc' d')
  note f = delete_step_frame[OF check(5)]
  show ?thesis unfolding check(1)
    by (rule sh_ok_update[OF assms(1)]) (use f check(2,4) in auto)
next
  case (remove flt pc' d')
  have pc: "sh_pc s p \<in> {AtCheck, AtRm, AtRmdir}" using remove(2) by blast
  note f = delete_step_frame[OF remove(4) pc]
  have rm: "q = p \<or> sh_pc s p \<noteq> AtRm" "sh_dir s r \<noteq> Some None" if "sh_pc s q = AtRm" for q
    using assms(1) that by (auto simp: sh_ok_def)
  show ?thesis unfolding remove(1)
    by (rule sh_ok_update[OF assms(1)]) (use f rm remove(2) in auto)
qed

lemma sh_ok_initial: "sh_initial r s \<Longrightarrow> sh_ok uuid r s"
proof -
  assume "sh_initial r s"
  then have "sh_pc s p = AtStat \<or> sh_pc s p = AtCheck" for p by (simp add: sh_initial_def)
  then have "tmp_of (sh_pc s p) = None" "sh_pc s p \<noteq> AtRm" for p
    by (metis tmp_of.simps(5,7), metis pc.distinct)
  then show ?thesis by (simp add: sh_ok_def)
qed

lemma sh_ok_reach: "sh_reach faults uuid r s0 s \<Longrightarrow> sh_ok uuid r s0 \<Longrightarrow> sh_ok uuid r s"
  by (induction rule: sh_reach.induct) (auto intro: sh_ok_step)

section \<open>What creating and deleting guarantee\<close>

text \<open>\<open>Create_resource\<close>, run alone, succeeds exactly when no call fails and there is no directory of the
  lease, or an empty one that \<open>os.Rename\<close> failed to see; then the directory of the lease is there for the
  machine. When it fails it leaves the lock directory as it was, except that a rename that fails for
  another reason than an existing target leaves the temporary directory behind.\<close>

theorem Create_resource_result:
  assumes "path \<noteq> r" "d path = None" "Create_resource f path r u d = (d', res)"
  shows "(res = None \<longleftrightarrow> (d r = None \<or> d r = Some None \<and> cf_look f \<noteq> None) \<and> cf_mkdir f = None \<and> cf_chmod f = None \<and>
            cf_init f = None \<and> cf_rename f = None) \<and>
     (res = None \<longrightarrow> d' = d(r \<mapsto> Some u)) \<and>
     (res \<noteq> None \<longrightarrow> d' = d \<or>
        (\<exists>e. cf_rename f = Some e \<and> e \<noteq> Exist \<and> res = Some e \<and> d' = d(path \<mapsto> Some u)))"
proof -
  have d: "d(path := None) = d" using assms(2) by auto
  consider v where "d r = Some (Some v)" | e where "\<forall>v. d r \<noteq> Some (Some v)" "cf_mkdir f = Some e"
    | e where "\<forall>v. d r \<noteq> Some (Some v)" "cf_mkdir f = None" "cf_chmod f = Some e"
    | e where "\<forall>v. d r \<noteq> Some (Some v)" "cf_mkdir f = None" "cf_chmod f = None" "cf_init f = Some e"
    | "\<forall>v. d r \<noteq> Some (Some v)" "cf_mkdir f = None" "cf_chmod f = None" "cf_init f = None"
    by (cases "cf_mkdir f"; cases "cf_chmod f"; cases "cf_init f") auto
  then show ?thesis
  proof cases
    case 5
    then have s: "create_stat (cf_unread1 f) r u d = AtMkdirTemp"
      by (auto simp: create_stat_def split: option.splits)
    have r: "d r = None \<or> d r = Some None" using 5(1) by (metis option.exhaust)
    show ?thesis
      using 5 r assms(1,3) d
      by (cases "cf_rename f"; cases "cf_look f")
         (auto simp: Create_resource_def s create_mkdir_def create_chmod_def create_init_def create_look_def create_exists_def
           create_rename_def Let_def fun_upd_twist dest: sym split: if_splits option.splits)
  qed (use assms d in \<open>auto simp: Create_resource_def create_stat_def create_mkdir_def create_chmod_def
      create_init_def dest: sym split: option.splits\<close>)
qed

text \<open>C19: a lease file that is in place stays in place for its machine through every step of
  every process on every host, until a process that deletes it for that very machine removes
  it; no interleaving of creations and deletions takes a lease away from its owner.\<close>

theorem lease_kept:
  assumes "sh_initial r s0" "sh_reach faults uuid r s0 s" "sh_step faults uuid r p s s'"
    and "sh_dir s r = Some (Some u)" "sh_dir s' r \<noteq> Some (Some u)"
  shows "sh_pc s p = AtRm \<and> uuid p = u \<and> sh_dir s' r = Some None"
proof -
  have ok: "sh_ok uuid r s" by (rule sh_ok_reach[OF assms(2) sh_ok_initial[OF assms(1)]])
  from assms(3) show ?thesis
  proof cases
    case (create flt tmp unread pc' d')
    from ok have "\<forall>t. tmp_of (sh_pc s p) = Some t \<longrightarrow> t \<noteq> r \<and> sh_dir s t = Some (tmp_holds (uuid p) (sh_pc s p))"
      by (simp add: sh_ok_def)
    from create_step_frame[OF create(6,2,4,5) this, THEN conjunct2, THEN conjunct1] assms(4,5) create(1)
    show ?thesis by auto
  next
    case (check flt pc' d')
    with assms(4,5) show ?thesis by (auto split: if_splits)
  next
    case (remove flt pc' d')
    with assms(4,5) have rm: "sh_pc s p = AtRm" by (auto split: if_splits)
    with ok have "sh_dir s r = Some (Some (uuid p))" by (simp add: sh_ok_def)
    with rm remove assms(4,5) show ?thesis by (auto split: if_splits)
  qed
qed

text \<open>Creators only: who has won, and what is left in the directory.\<close>

definition winners_ok :: "bool \<Rightarrow> (nat \<Rightarrow> string) \<Rightarrow> string \<Rightarrow> shared \<Rightarrow> bool" where
  "winners_ok faults uuid r s \<longleftrightarrow>
     (\<forall>p. creating (sh_pc s p) \<or> (\<exists>e. sh_pc s p = Ended e)) \<and>
     (\<forall>p. sh_pc s p = Ended None \<longrightarrow> sh_dir s r = Some (Some (uuid p)) \<and> (\<forall>q. sh_pc s q = Ended None \<longrightarrow> q = p)) \<and>
     (\<forall>u. sh_dir s r = Some (Some u) \<longrightarrow> (\<exists>p. sh_pc s p = Ended None)) \<and> sh_dir s r \<noteq> Some None \<and>
     (\<not> faults \<longrightarrow> (\<forall>p e. sh_pc s p = Ended (Some e) \<longrightarrow> (\<exists>u. sh_dir s r = Some (Some u)))) \<and>
     (\<not> faults \<longrightarrow> (\<forall>t. sh_dir s t \<noteq> None \<longrightarrow> t = r \<or> (\<exists>p. tmp_of (sh_pc s p) = Some t)))"

lemma create_step_result:
  assumes "create_step flt unread tmp r u pc d = (pc', d')" "creating pc" "tmp \<noteq> r" "d tmp = None"
    and "\<forall>t. tmp_of pc = Some t \<longrightarrow> t \<noteq> r \<and> d t = Some (tmp_holds u pc)"
  shows "(creating pc' \<or> (\<exists>e. pc' = Ended e)) \<and>
     (pc' = Ended None \<longrightarrow> (\<forall>v. d r \<noteq> Some (Some v)) \<and> d' r = Some (Some u)) \<and>
     (pc' \<noteq> Ended None \<longrightarrow> d' r = d r) \<and>
     (flt = None \<longrightarrow> (\<forall>e. pc' = Ended (Some e) \<longrightarrow> d r \<noteq> None)) \<and>
     (flt = None \<longrightarrow> (\<forall>t. t \<noteq> r \<and> d' t \<noteq> None \<longrightarrow> tmp_of pc' = Some t \<or> (d t \<noteq> None \<and> tmp_of pc \<noteq> Some t)))"
  using assms
  by (cases pc)
     (auto simp: create_stat_def create_mkdir_def create_chmod_def create_init_def create_look_def create_exists_def
       create_rename_def Let_def
       split: option.splits if_splits)

lemma winners_step:
  assumes "sh_ok uuid r s" "winners_ok faults uuid r s" "sh_step faults uuid r p s s'"
  shows "winners_ok faults uuid r s'"
  using assms(3)
proof cases
  case (create flt tmp unread pc' d')
  from assms(1) have "\<forall>t. tmp_of (sh_pc s p) = Some t \<longrightarrow> t \<noteq> r \<and> sh_dir s t = Some (tmp_holds (uuid p) (sh_pc s p))"
    by (simp add: sh_ok_def)
  note f = create_step_result[OF create(6,2,4,5) this]
  have kind: "creating pc' \<or> (\<exists>e. pc' = Ended e)" using f by (elim conjE)
  have won: "pc' = Ended None \<Longrightarrow> (\<forall>v. sh_dir s r \<noteq> Some (Some v)) \<and> d' r = Some (Some (uuid p))"
    and same: "pc' \<noteq> Ended None \<Longrightarrow> d' r = sh_dir s r" using f by simp_all
  have full: "sh_dir s r \<noteq> Some None" using assms(2) unfolding winners_ok_def by (elim conjE)
  have lost: "\<not> faults \<Longrightarrow> pc' = Ended (Some e) \<Longrightarrow> \<exists>v. sh_dir s r = Some (Some v)" for e
    using f create(3) full by (metis not_None_eq)
  have clean: "\<not> faults \<Longrightarrow> t \<noteq> r \<Longrightarrow> d' t \<noteq> None \<Longrightarrow>
      tmp_of pc' = Some t \<or> (sh_dir s t \<noteq> None \<and> tmp_of (sh_pc s p) \<noteq> Some t)" for t
    using f create(3) by simp
  have p: "sh_pc s p \<noteq> Ended x" for x using create(2) by (cases "sh_pc s p") auto
  note w = assms(2)[unfolded winners_ok_def]
  have w1: "creating (sh_pc s q) \<or> (\<exists>e. sh_pc s q = Ended e)" for q using w by (elim conjE) blast
  have w2: "sh_pc s q = Ended None \<Longrightarrow> sh_dir s r = Some (Some (uuid q))"
    and w2': "sh_pc s q = Ended None \<Longrightarrow> sh_pc s q' = Ended None \<Longrightarrow> q' = q" for q q' using w by blast+
  have w3: "sh_dir s r = Some (Some u) \<Longrightarrow> \<exists>q. sh_pc s q = Ended None" for u using w by blast
  have w4: "\<not> faults \<Longrightarrow> sh_pc s q = Ended (Some e) \<Longrightarrow> \<exists>u. sh_dir s r = Some (Some u)" for q e using w by blast
  have w5: "\<not> faults \<Longrightarrow> sh_dir s t \<noteq> None \<Longrightarrow> t = r \<or> (\<exists>q. tmp_of (sh_pc s q) = Some t)" for t using w by blast
  show ?thesis
  proof (cases "pc' = Ended None")
    case True
    then have none: "sh_pc s q \<noteq> Ended None" for q using won w2 by blast
    show ?thesis
      unfolding winners_ok_def create(1)
      using True won[OF True] none kind w1 w5 clean full by (auto; metis)
  next
    case False
    have "\<exists>q. sh_pc s' q = Ended None" if "sh_dir s r = Some (Some u)" for u
      using w3[OF that] p False by (auto simp: create(1)) metis
    then show ?thesis
      unfolding winners_ok_def create(1)
      using False same[OF False] kind lost clean w1 w2 w2' w4 w5 full by (auto simp: create(1); metis)
  qed
next
  case (check flt pc' d')
  have "creating (sh_pc s p) \<or> (\<exists>e. sh_pc s p = Ended e)" using assms(2) by (simp add: winners_ok_def)
  with check(2) have False by simp
  then show ?thesis ..
next
  case (remove flt pc' d')
  have "creating (sh_pc s p) \<or> (\<exists>e. sh_pc s p = Ended e)" using assms(2) by (simp add: winners_ok_def)
  with remove(2) have False by auto
  then show ?thesis ..
qed

text \<open>Of any number of processes that create the same new lease file on any hosts at once, at most
  one is told that it succeeded, and the file then names its machine. If no call fails, one
  has succeeded as soon as any process has been told that the file exists, and no temporary
  directory is left but those of the processes still at work.\<close>

theorem one_creator_wins:
  assumes "\<forall>p. sh_pc s0 p = AtStat" "sh_dir s0 = Map.empty"
    and "sh_reach faults uuid r s0 s"
  shows "(\<forall>p q. sh_pc s p = Ended None \<and> sh_pc s q = Ended None \<longrightarrow> p = q) \<and>
     (\<forall>p. sh_pc s p = Ended None \<longrightarrow> sh_dir s r = Some (Some (uuid p))) \<and>
     (\<not> faults \<longrightarrow> (\<exists>p e. sh_pc s p = Ended (Some e)) \<longrightarrow> (\<exists>p. sh_pc s p = Ended None)) \<and>
     (\<not> faults \<longrightarrow> (\<forall>t. sh_dir s t \<noteq> None \<longrightarrow> t = r \<or> (\<exists>p. tmp_of (sh_pc s p) = Some t)))"
proof -
  have i: "sh_initial r s0" using assms(1,2) by (simp add: sh_initial_def)
  have w0: "winners_ok faults uuid r s0"
    unfolding winners_ok_def using assms(1,2) by auto
  from assms(3) have "winners_ok faults uuid r s"
  proof (induction rule: sh_reach.induct)
    case start
    show ?case by (rule w0)
  next
    case (step s p s')
    from winners_step[OF sh_ok_reach[OF step(1) sh_ok_initial[OF i]] step(3,2)] show ?case .
  qed
  then have w: "winners_ok faults uuid r s" .
  have a: "\<forall>p. sh_pc s p = Ended None \<longrightarrow> sh_dir s r = Some (Some (uuid p)) \<and> (\<forall>q. sh_pc s q = Ended None \<longrightarrow> q = p)"
    using w unfolding winners_ok_def by (elim conjE)
  have b: "\<forall>u. sh_dir s r = Some (Some u) \<longrightarrow> (\<exists>p. sh_pc s p = Ended None)"
    and c: "\<not> faults \<longrightarrow> (\<forall>p e. sh_pc s p = Ended (Some e) \<longrightarrow> (\<exists>u. sh_dir s r = Some (Some u)))"
    and d: "\<not> faults \<longrightarrow> (\<forall>t. sh_dir s t \<noteq> None \<longrightarrow> t = r \<or> (\<exists>p. tmp_of (sh_pc s p) = Some t))"
    using w unfolding winners_ok_def by blast+
  from a b c d show ?thesis by blast
qed

section \<open>Witnesses\<close>

definition no_create_faults :: create_faults where
  "no_create_faults = \<lparr>cf_unread1 = None, cf_mkdir = None, cf_chmod = None, cf_init = None,
     cf_look = None, cf_rename = None, cf_unread2 = None\<rparr>"

theorem Create_resource_result_witness:
  "snd (Create_resource no_create_faults ''r-tmp7'' ''r'' ''vm-1'' [''q'' \<mapsto> Some ''vm-2'']) = None"
proof -
  obtain d' res where c: "Create_resource no_create_faults ''r-tmp7'' ''r'' ''vm-1'' [''q'' \<mapsto> Some ''vm-2''] = (d', res)"
    by fastforce
  from Create_resource_result[OF _ _ c] show ?thesis by (simp add: c) (simp add: no_create_faults_def)
qed

definition deleter_start :: shared where
  "deleter_start = \<lparr>sh_dir = [''r'' \<mapsto> Some ''vm-0''], sh_pc = (\<lambda>p. AtCheck)\<rparr>"

theorem lease_kept_witness:
  "\<exists>s s'. sh_reach False (\<lambda>p. ''vm-0'') ''r'' deleter_start s \<and>
     sh_step False (\<lambda>p. ''vm-0'') ''r'' 3 s s' \<and> sh_dir s ''r'' = Some (Some ''vm-0'') \<and>
     sh_dir s' ''r'' = Some None \<and> sh_pc s 3 = AtRm"
proof -
  let ?s = "\<lparr>sh_dir = [''r'' \<mapsto> Some ''vm-0''], sh_pc = (\<lambda>p. AtCheck)(3 := AtRm)\<rparr>"
  let ?t = "\<lparr>sh_dir = [''r'' \<mapsto> None], sh_pc = (\<lambda>p. AtCheck)(3 := AtRmdir)\<rparr>"
  have i: "sh_initial ''r'' deleter_start" by (simp add: sh_initial_def deleter_start_def)
  have 1: "sh_step False (\<lambda>p. ''vm-0'') ''r'' 3 deleter_start ?s"
    using sh_step.check[of deleter_start 3 False None "''r''" "\<lambda>p. ''vm-0''" AtRm "[''r'' \<mapsto> Some ''vm-0'']"]
    by (simp add: deleter_start_def)
  have 2: "sh_step False (\<lambda>p. ''vm-0'') ''r'' 3 ?s ?t"
    using sh_step.remove[of ?s 3 False None "''r''" "\<lambda>p. ''vm-0''" AtRmdir "[''r'' \<mapsto> None]"]
    by (simp add: fun_upd_twist)
  note r = sh_reach.step[OF sh_reach.start 1]
  have "sh_pc ?s 3 = AtRm" using lease_kept[OF i r 2, of "''vm-0''"] by simp
  with r 2 show ?thesis by (intro exI[of _ ?s] exI[of _ ?t]) simp
qed

definition creators_start :: shared where
  "creators_start = \<lparr>sh_dir = Map.empty, sh_pc = (\<lambda>p. AtStat)\<rparr>"

lemma creator_step:
  assumes "sh_reach False uuid r s0 s" "creating (sh_pc s p)" "tmp \<noteq> r" "sh_dir s tmp = None"
    "create_step None None tmp r (uuid p) (sh_pc s p) (sh_dir s) = (pc', d')"
  shows "sh_reach False uuid r s0 \<lparr>sh_dir = d', sh_pc = (sh_pc s)(p := pc')\<rparr>"
proof -
  have "sh_step False uuid r p s \<lparr>sh_dir = d', sh_pc = (sh_pc s)(p := pc')\<rparr>"
    using assms(2-5) by (intro sh_step.create[where flt = None and tmp = tmp and unread = None]) simp_all
  with assms(1) show ?thesis by (rule sh_reach.step)
qed

theorem one_creator_wins_witness:
  "\<exists>s. sh_reach False nat_dec ''r'' creators_start s \<and> sh_pc s 4 = Ended None \<and>
       sh_dir s ''r'' = Some (Some (nat_dec 4))"
proof -
  let ?pcs = "\<lambda>pc. (\<lambda>p. AtStat)(4 := pc)"
  have s1: "sh_reach False nat_dec ''r'' creators_start \<lparr>sh_dir = Map.empty, sh_pc = ?pcs AtMkdirTemp\<rparr>"
    using creator_step[OF sh_reach.start[of False nat_dec "''r''" creators_start], of 4 "''t''"]
    by (simp add: creators_start_def create_stat_def)
  have s2: "sh_reach False nat_dec ''r'' creators_start \<lparr>sh_dir = [''t'' \<mapsto> None], sh_pc = ?pcs (AtChmod ''t'')\<rparr>"
    using creator_step[OF s1, of 4 "''t''"] by (simp add: create_mkdir_def)
  have s3: "sh_reach False nat_dec ''r'' creators_start \<lparr>sh_dir = [''t'' \<mapsto> None], sh_pc = ?pcs (AtInit ''t'')\<rparr>"
    using creator_step[OF s2, of 4 "''u''"] by (simp add: create_chmod_def)
  have s4: "sh_reach False nat_dec ''r'' creators_start
      \<lparr>sh_dir = [''t'' \<mapsto> Some (nat_dec 4)], sh_pc = ?pcs (AtRename ''t'')\<rparr>"
    using creator_step[OF s3, of 4 "''u''"] by (simp add: create_init_def)
  have s4': "sh_reach False nat_dec ''r'' creators_start
      \<lparr>sh_dir = [''t'' \<mapsto> Some (nat_dec 4)], sh_pc = ?pcs (AtMove ''t'')\<rparr>"
    using creator_step[OF s4, of 4 "''u''"] by (simp add: create_look_def)
  have s5: "sh_reach False nat_dec ''r'' creators_start
      \<lparr>sh_dir = [''r'' \<mapsto> Some (nat_dec 4)], sh_pc = ?pcs (Ended None)\<rparr>"
    using creator_step[OF s4', of 4 "''u''"] by (simp add: create_rename_def)
  let ?s = "\<lparr>sh_dir = [''r'' \<mapsto> Some (nat_dec 4)], sh_pc = ?pcs (Ended None)\<rparr>"
  have "\<forall>p. sh_pc ?s p = Ended None \<longrightarrow> sh_dir ?s ''r'' = Some (Some (nat_dec p))"
    by (rule one_creator_wins[OF _ _ s5, THEN conjunct2, THEN conjunct1]) (simp_all add: creators_start_def)
  moreover have "sh_pc ?s 4 = Ended None" by simp
  ultimately have "sh_dir ?s ''r'' = Some (Some (nat_dec 4))" by blast
  with s5 show ?thesis by (intro exI[of _ ?s]) simp
qed

end
