(* ===== verification/Lockman_Props.thy ===== *)
theory Lockman_Props
  imports Lockman
begin

text \<open>
  Correctness of the sequential part of package \<open>lockman\<close>: the search for a free slot, joining
  at start-up, the names of leases, the block that names the owner, and the commands run under
  a lease.
\<close>

section \<open>Searching a slot\<close>

definition valid_id :: "u16 \<Rightarrow> bool" where
  "valid_id h \<longleftrightarrow> 1 \<le> unat h \<and> unat h \<le> HOST_ID_MAX"

abbreviation nth_id :: "nat \<Rightarrow> u16 \<Rightarrow> u16" where
  "nth_id k h \<equiv> (host_id_next ^^ k) h"

lemma unat_next: "valid_id h \<Longrightarrow> unat (host_id_next h) = (if unat h = 2000 then 1 else unat h + 1)"
proof -
  assume v: "valid_id h"
  then have b: "unat h + 1 < 65536" by (simp add: valid_id_def)
  have u: "unat (h + 1) = unat h + 1"
    using b by (subst unat_add_lem [THEN iffD1]) simp_all
  have "(2000 < h + 1) = (2000 < unat h + 1)" by (simp add: word_less_nat_alt u)
  with v u show ?thesis by (auto simp: host_id_next_def Let_def valid_id_def)
qed

lemma next_valid: "valid_id h \<Longrightarrow> valid_id (host_id_next h)"
  using unat_next[of h] by (auto simp: valid_id_def)

lemma nth_id_index: "valid_id h \<Longrightarrow> valid_id (nth_id k h) \<and> unat (nth_id k h) = (unat h - 1 + k) mod 2000 + 1"
proof (induction k)
  case 0
  then show ?case by (auto simp: valid_id_def)
next
  case (Suc k)
  then have v: "valid_id (nth_id k h)" and u: "unat (nth_id k h) = (unat h - 1 + k) mod 2000 + 1" by auto
  have m: "(x + 1) mod 2000 = (if x mod 2000 = 1999 then 0 else x mod 2000 + 1)" for x :: nat
    by (simp add: mod_Suc)
  show ?case
    using next_valid[OF v] unat_next[OF v] u m[of "unat h - 1 + k"] by (auto simp: add.assoc)
qed

text \<open>Every valid identifier comes up within 2000 steps from any start.\<close>

lemma nth_id_covers:
  assumes "valid_id h" "valid_id g"
  shows "\<exists>k<2000. nth_id k h = g"
proof -
  let ?k = "(unat g + 2000 - unat h) mod 2000"
  have "(unat h - 1 + ?k) mod 2000 + 1 = unat g"
  proof -
    have "(unat h - 1 + ?k) mod 2000 = (unat h - 1 + (unat g + 2000 - unat h)) mod 2000"
      by (rule mod_add_right_eq)
    also have "unat h - 1 + (unat g + 2000 - unat h) = unat g - 1 + 2000"
      using assms by (simp add: valid_id_def)
    finally have "(unat h - 1 + ?k) mod 2000 = (unat g - 1) mod 2000" by simp
    moreover have "unat g - 1 < 2000" "1 \<le> unat g" using assms(2) by (auto simp: valid_id_def)
    ultimately show ?thesis by simp
  qed
  with nth_id_index[OF assms(1), of ?k] have "nth_id ?k h = g"
    by (metis unsigned_word_eqI)
  then show ?thesis by (intro exI[of _ ?k]) simp
qed

lemma start_valid: "valid_id (start_id md5 uuid)"
proof -
  let ?x = "(get_uint BigEndian (take 4 (md5 (bytes_of uuid))) :: u32) mod 2000"
  have x: "unat ?x < 2000" by (simp add: unat_mod)
  have "unat (?x + 1) = unat ?x + 1"
    using x by (subst unat_add_lem [THEN iffD1]) simp_all
  with x have "unat (start_id md5 uuid) = unat ?x + 1"
    by (simp add: start_id_def unsigned_ucast_eq take_bit_nat_eq_self)
  with x show ?thesis by (simp add: valid_id_def)
qed

lemma search1_result:
  "i \<le> 2001 \<Longrightarrow> search1 busy i h = (j, h') \<Longrightarrow>
     (\<exists>k. j = i + k + 1 \<and> i + k \<le> 2000 \<and> h' = nth_id k h \<and> \<not> busy ! unat h' \<and>
          (\<forall>m<k. busy ! unat (nth_id m h))) \<or>
     (j = 2001 \<and> (\<forall>m<2001 - i. busy ! unat (nth_id m h)))"
proof (induction busy i h rule: search1.induct)
  case (1 busy i h)
  show ?case
  proof (cases "i \<le> 2000 \<and> busy ! unat h")
    case False
    with "1.prems" show ?thesis by (subst (asm) search1.simps) (auto split: if_splits intro!: exI[of _ 0])
  next
    case True
    with "1.prems" have "search1 busy (i + 1) (host_id_next h) = (j, h')"
      by (subst (asm) search1.simps) simp
    from "1.IH"[OF _ _ _ this] True consider
      k where "j = i + 1 + k + 1" "i + 1 + k \<le> 2000" "h' = nth_id k (host_id_next h)" "\<not> busy ! unat h'"
        "\<forall>m<k. busy ! unat (nth_id m (host_id_next h))"
      | "j = 2001" "\<forall>m<2001 - (i + 1). busy ! unat (nth_id m (host_id_next h))" by auto
    then show ?thesis
    proof cases
      case (1 k)
      then have "\<forall>m<Suc k. busy ! unat (nth_id m h)"
        using True by (auto simp: less_Suc_eq_0_disj funpow_swap1)
      with 1 show ?thesis by (intro disjI1 exI[of _ "Suc k"]) (simp add: funpow_swap1)
    next
      case 2
      have "busy ! unat (nth_id m h)" if "m < 2001 - i" for m
        using 2(2) True that by (cases m) (auto simp: funpow_swap1)
      with 2(1) show ?thesis by blast
    qed
  qed
qed

lemma search1_free:
  assumes "valid_id h" "valid_id f" "\<not> busy ! unat f"
  shows "\<exists>j h'. search1 busy 0 h = (j, h') \<and> j \<le> 2000 \<and> valid_id h' \<and> \<not> busy ! unat h'"
proof -
  obtain j h' where s: "search1 busy 0 h = (j, h')" by fastforce
  obtain k where k: "k < 2000" "nth_id k h = f" using nth_id_covers[OF assms(1,2)] by blast
  from search1_result[OF _ s] k assms(3) obtain n where n: "j = n + 1" "h' = nth_id n h"
    "\<not> busy ! unat h'" "\<forall>m<n. busy ! unat (nth_id m h)" by auto
  with k assms(3) have "n \<le> k" by (meson not_le)
  with n k(1) nth_id_index[OF assms(1), of n] s show ?thesis by auto
qed

lemma search1_full:
  assumes "valid_id h" "\<forall>f. valid_id f \<longrightarrow> busy ! unat f"
  shows "\<exists>h'. search1 busy 0 h = (2001, h')"
proof -
  obtain j h' where s: "search1 busy 0 h = (j, h')" by fastforce
  from search1_result[OF _ s] assms nth_id_index[OF assms(1)] s show ?thesis by auto
qed

lemma all_nat_split: "(\<forall>m. P m) \<longleftrightarrow> P 0 \<and> (\<forall>m. P (Suc m))"
  by (metis not0_implies_Suc)

text \<open>The second search, for a daemon whose answer depends on the identifier only.\<close>

lemma search2_result:
  assumes "\<And>h w. fst (lm_join_lockspace sanlock h w) = code h"
    and "\<forall>m. i + m \<le> 2000 \<longrightarrow> busy ! unat (nth_id m h) \<or> code (nth_id m h) \<in> {0, SANLK_HOSTID_BUSY}"
  shows "(case fst (search2 sanlock busy i h w) of
            Inr g \<Rightarrow> \<exists>k. i + k \<le> 2000 \<and> g = nth_id k h \<and> \<not> busy ! unat g \<and> code g = 0
          | Inl e \<Rightarrow> \<forall>m. i + m \<le> 2000 \<longrightarrow> busy ! unat (nth_id m h) \<or> code (nth_id m h) \<noteq> 0)"
  using assms(2)
proof (induction "2001 - i" arbitrary: i h w)
  case 0
  then show ?case by (subst search2.simps) simp
next
  case (Suc n)
  then have i: "i \<le> 2000" by simp
  obtain c w' where c: "lm_join_lockspace sanlock h w = (c, w')" by fastforce
  then have code: "c = code h" using assms(1)[of h w] by simp
  have head: "busy ! unat h \<or> code h \<in> {0, SANLK_HOSTID_BUSY}" using Suc.prems[rule_format, of 0] i by simp
  have tail: "\<forall>m. (i + 1) + m \<le> 2000 \<longrightarrow> busy ! unat (nth_id m (host_id_next h)) \<or>
       code (nth_id m (host_id_next h)) \<in> {0, SANLK_HOSTID_BUSY}"
    using Suc.prems[rule_format, of "Suc _"] by (auto simp: funpow_swap1)
  show ?case
  proof (cases "\<not> busy ! unat h \<and> code h = 0")
    case True
    with i c code show ?thesis by (subst search2.simps) (auto intro: exI[of _ 0])
  next
    case False
    have "\<exists>v. search2 sanlock busy i h w = search2 sanlock busy (i + 1) (host_id_next h) v"
      using False i c code head by (subst search2.simps) auto
    then obtain v where s: "search2 sanlock busy i h w = search2 sanlock busy (i + 1) (host_id_next h) v"
      by blast
    have shift: "(\<forall>m. i + m \<le> 2000 \<longrightarrow> P m) \<longleftrightarrow> P 0 \<and> (\<forall>m. (i + 1) + m \<le> 2000 \<longrightarrow> P (Suc m))" for P
      by (subst all_nat_split) (use i in simp)
    have "n = 2001 - (i + 1)" using Suc.hyps(2) by simp
    note rest = Suc.hyps(1)[OF this tail, of v]
    show ?thesis
    proof (cases "fst (search2 sanlock busy (i + 1) (host_id_next h) v)")
      case (Inl e)
      with rest False show ?thesis by (simp add: s shift funpow_swap1)
    next
      case (Inr g)
      with rest obtain k where "i + 1 + k \<le> 2000" "g = nth_id k (host_id_next h)" "\<not> busy ! unat g" "code g = 0"
        by auto
      then have "\<exists>k. i + k \<le> 2000 \<and> g = nth_id k h \<and> \<not> busy ! unat g \<and> code g = 0"
        by (intro exI[of _ "Suc k"]) (simp add: funpow_swap1)
      then show ?thesis unfolding s Inr sum.case .
    qed
  qed
qed


section \<open>Joining at start-up\<close>

lemma search2_sound:
  "search2 sanlock busy i h w = (Inr g, w') \<Longrightarrow> valid_id h \<Longrightarrow>
     valid_id g \<and> (\<exists>v. fst (lm_join_lockspace sanlock g v) = 0)"
proof (induction sanlock busy i h w rule: search2.induct)
  case (1 sanlock busy i h w)
  obtain c v where c: "lm_join_lockspace sanlock h w = (c, v)" by fastforce
  from "1.prems"(1) c have i: "\<not> HOST_ID_MAX < i" by (subst (asm) search2.simps) (auto split: if_splits)
  note nv = next_valid[OF "1.prems"(2)]
  consider "busy ! unat h" | "\<not> busy ! unat h" "c = 0" | "\<not> busy ! unat h" "c = SANLK_HOSTID_BUSY"
    using "1.prems"(1) c i by (subst (asm) search2.simps) (auto split: if_splits)
  then show ?case
  proof cases
    case 1
    from "1.prems"(1) i 1 have "search2 sanlock busy (i + 1) (host_id_next h) w = (Inr g, w')"
      by (subst (asm) search2.simps) simp
    from "1.IH"(1)[OF i 1 this nv] show ?thesis .
  next
    case 2
    from "1.prems"(1) i c 2 have "g = h" by (subst (asm) search2.simps) simp
    with "1.prems"(2) c 2 show ?thesis by (auto intro!: exI[of _ w])
  next
    case 3
    from "1.prems"(1) i c 3 have "search2 sanlock busy (i + 1) (host_id_next h) v = (Inr g, w')"
      by (subst (asm) search2.simps) simp
    from "1.IH"(2)[OF i 3(1) c[symmetric] _ _ this nv] 3 show ?thesis by simp
  qed
qed

lemma search1_valid: "i \<le> 2001 \<Longrightarrow> search1 busy i h = (j, h') \<Longrightarrow> valid_id h \<Longrightarrow> j \<le> 2000 \<Longrightarrow> valid_id h'"
  using search1_result[of i busy h j h'] nth_id_index[of h] by auto

lemma search_join_sound:
  assumes "lm_search_join_lockspace sanlock md5 uuid w = (Inr g, w')"
  shows "valid_id g \<and> (\<exists>v. fst (lm_join_lockspace sanlock g v) = 0)"
proof -
  from assms obtain busy j h w1 where s1: "search1 busy 0 (start_id md5 uuid) = (j, h)" "j \<le> 2000"
    and s2: "search2 sanlock busy 0 h w1 = (Inr g, w')"
    by (auto simp: lm_search_join_lockspace_def split: prod.splits if_splits sum.splits)
  from search1_valid[OF _ s1(1) start_valid s1(2)] search2_sound[OF s2] show ?thesis by simp
qed

definition in_lockspace :: "'w sanlock \<Rightarrow> u16 \<Rightarrow> bool" where
  "in_lockspace sanlock h \<longleftrightarrow> h \<noteq> 0 \<and>
     ((\<exists>v. fst (lm_inq_lockspace sanlock v) = Inr h) \<or> (\<exists>v. fst (lm_join_lockspace sanlock h v) = 0))"

lemma valid_nonzero: "valid_id h \<Longrightarrow> h \<noteq> 0"
  by (auto simp: valid_id_def)

lemma join_loop_sound:
  "join_loop sanlock md5 uuid save n h err w = (h', None, None, w') \<Longrightarrow> (n = 0 \<longrightarrow> err \<noteq> None) \<Longrightarrow>
     in_lockspace sanlock h'"
proof (induction n arbitrary: h err w)
  case 0
  then show ?case by simp
next
  case (Suc n)
  show ?case
  proof (cases "h = 0")
    case True
    obtain r v where r: "lm_search_join_lockspace sanlock md5 uuid w = (r, v)" by fastforce
    show ?thesis
    proof (cases r)
      case (Inl e)
      with Suc.prems True r have "join_loop sanlock md5 uuid save n 0 (Some e) v = (h', None, None, w')" by (simp split: if_splits)
      from Suc.IH[OF this] show ?thesis by simp
    next
      case (Inr g)
      with Suc.prems True r have "g = h'" by (auto split: option.splits)
      with search_join_sound[OF r[unfolded Inr]] valid_nonzero show ?thesis by (auto simp: in_lockspace_def)
    qed
  next
    case False
    obtain c v where c: "lm_join_lockspace sanlock h w = (c, v)" by fastforce
    show ?thesis
    proof (cases "c = 0")
      case True
      with Suc.prems False c have "h = h'" by simp
      with False True c show ?thesis by (auto simp: in_lockspace_def intro!: exI[of _ w])
    next
      case fails: False
      with Suc.prems False c Suc.IH show ?thesis by (auto split: prod.splits)
    qed
  qed
qed

text \<open>\<open>Init\<close> reports success only with a non-zero identifier under which the daemon said
  this host is, or which it accepted: no start-up goes on without a slot.\<close>

theorem Init_joined:
  assumes "Init sanlock md5 lockdir cached save uuid w = (h, None, w')"
  shows "in_lockspace sanlock h"
proof -
  obtain h0 w1 where q: "lockdir = None" "lm_inq_lockspace sanlock w = (Inr h0, w1)"
    using assms by (auto simp: Init_def split: option.splits prod.splits sum.splits)
  have fin: "finish_init sanlock g err v = (h, None, w') \<Longrightarrow> err = None \<and> g = h" for g err v
    by (auto simp: finish_init_def split: option.splits prod.splits)
  show ?thesis
  proof (cases "h0 = 0")
    case False
    with assms q fin have "h0 = h" by (auto simp: Init_def)
    with False q(2) show ?thesis by (auto simp: in_lockspace_def intro!: exI[of _ w])
  next
    case True
    have "\<exists>g err v. join_loop sanlock md5 uuid save LOCK_JOIN_RETRIES g err w1 = (h, None, None, v)"
      using assms q True
      by (auto simp: Init_def simp del: join_loop.simps dest!: fin
          split: sum.splits prod.splits option.splits if_splits)
    with join_loop_sound show ?thesis by (metis zero_neq_numeral)
  qed
qed

text \<open>With an identifier from the cache, an attempt that fails and is followed by one that
  succeeds makes \<open>Init\<close> report the error of the failed attempt, although the host joined: the
  retries cannot help a host with a cached identifier.\<close>

theorem Init_forgets_success:
  assumes "lm_inq_lockspace sanlock w = (Inr 0, w1)" "h \<noteq> 0"
    and "lm_join_lockspace sanlock h w1 = (code, w2)" "code \<noteq> 0"
    and "lm_join_lockspace sanlock h w2 = (0, w3)"
  shows "Init sanlock md5 None (Inr h) save uuid w =
    (h, Some (Msg (''lm_join_lockspace: add_lockspace failed for host_id '' @ nat_dec (unat h) @ '': '' @ int_dec code)), w3)"
proof -
  have "LOCK_JOIN_RETRIES = Suc (Suc 8)" by simp
  with assms have "join_loop sanlock md5 uuid save LOCK_JOIN_RETRIES h None w1 =
    (h, Some (Msg (''add_lockspace failed for host_id '' @ nat_dec (unat h) @ '': '' @ int_dec code)), None, w3)"
    by (simp only: join_loop.simps) simp
  with assms(1) show ?thesis by (simp add: Init_def finish_init_def wrap_def del: join_loop.simps)
qed

section \<open>The block that names the owner\<close>

lemma write_at_read: "n = length bs \<Longrightarrow> take n (drop off (write_at off bs c)) = bs"
  by (simp add: write_at_def)

lemma write_at_other:
  assumes "i < length c" "i < off \<or> off + length bs \<le> i"
  shows "write_at off bs c ! i = c ! i"
  using assms by (auto simp: write_at_def nth_append min_def)

definition interrupted :: "io_try list \<Rightarrow> bool" where
  "interrupted ts \<longleftrightarrow> list_all (\<lambda>t. t = Interrupted) ts"

lemma pwrite_interrupted: "interrupted ts \<Longrightarrow> lm_pwrite ts buf off c = (write_at off buf c, None)"
  by (induction ts) (auto simp: interrupted_def)

lemma pread_interrupted: "interrupted ts \<Longrightarrow> lm_pread ts c off n = lm_pread [] c off n"
  by (induction ts) (auto simp: interrupted_def)

lemma length_lvb_block [simp]: "length (lvb_block uuid) = BLOCK_SIZE"
  by (simp add: lvb_block_def)

lemma lvb_block_text:
  "CHR 0x00 \<notin> set uuid \<Longrightarrow> takeWhile (\<lambda>x. x \<noteq> CHR 0x00) (lvb_block uuid) = take BLOCK_SIZE uuid"
proof -
  assume "CHR 0x00 \<notin> set uuid"
  then have "\<forall>x\<in>set (take BLOCK_SIZE uuid). x \<noteq> CHR 0x00" by (metis in_set_takeD)
  moreover have "takeWhile (\<lambda>x. x \<noteq> CHR 0x00) (replicate n (CHR 0x00)) = []" for n by (cases n) auto
  ultimately show ?thesis
    unfolding lvb_block_def put_at_front_def by (subst takeWhile_append2) auto
qed

text \<open>A name without zero bytes set in a lease file is read back, up to the size of a block,
  however often the calls are interrupted; setting it changes no other byte of the file, and
  for names that fit a block the owner check passes for exactly the name that was set.\<close>

theorem lvb_roundtrip:
  assumes "interrupted ts" "interrupted ts'" "CHR 0x00 \<notin> set uuid"
    and "c' = fst (lm_set_lvb ts None uuid c)"
  shows "Read_lvb ts' (Some c') = Inr (take BLOCK_SIZE uuid) \<and>
     (length uuid \<le> BLOCK_SIZE \<longrightarrow> (check_lvb ts' (Some c') u = 0 \<longleftrightarrow> u = uuid)) \<and>
     (\<forall>i < length c. i < LVB_SECTOR * BLOCK_SIZE \<or> (LVB_SECTOR + 1) * BLOCK_SIZE \<le> i \<longrightarrow> c' ! i = c ! i)"
proof -
  let ?off = "LVB_SECTOR * BLOCK_SIZE"
  have c': "c' = write_at ?off (lvb_block uuid) c"
    using assms(1,4) by (simp add: lm_set_lvb_def pwrite_interrupted)
  have read: "Read_lvb ts' (Some c') = Inr (take BLOCK_SIZE uuid)"
    using write_at_read[of BLOCK_SIZE "lvb_block uuid" ?off c]
    by (simp add: Read_lvb_def pread_interrupted[OF assms(2)] c' lvb_block_text[OF assms(3)] Let_def)
  moreover have "c' ! i = c ! i" if "i < length c" "i < ?off \<or> (LVB_SECTOR + 1) * BLOCK_SIZE \<le> i" for i
    unfolding c' using that by (intro write_at_other) (auto simp: algebra_simps)
  ultimately show ?thesis by (auto simp: check_lvb_def)
qed

lemma pwrite_done: "lm_pwrite ts buf off c = (c', None) \<Longrightarrow> c' = write_at off buf c"
  by (induction ts buf off c rule: lm_pwrite.induct) (auto split: if_splits)

text \<open>C26: a lease file names its owner from the start. When \<open>lm_init_resource_file\<close> succeeds, whatever
  interruptions and short writes it met, the check of the owner that is run before every command under
  the lease passes for the machine that the lease was created for and for no other, and what sanlock
  wrote into the other sectors is kept.\<close>

theorem new_lease_names_owner:
  assumes "lm_init_resource_file opened fill ts fsync path name uuid = (file, None)"
    and "CHR 0x00 \<notin> set uuid" "0 < length uuid" "length uuid \<le> BLOCK_SIZE" "interrupted ts'"
  shows "(check_lvb_main (\<lambda>p. if p = path then file else None) ts' [''virtx-check-lvb'', path, u] = 0 \<longleftrightarrow> u = uuid) \<and>
    (\<exists>c c'. fill [''client'', ''init'', ''-r'', sanlock_path name path] '''' = (c, None) \<and> file = Some c' \<and>
       (\<forall>i < length c. i < LVB_SECTOR * BLOCK_SIZE \<or> (LVB_SECTOR + 1) * BLOCK_SIZE \<le> i \<longrightarrow> c' ! i = c ! i))"
proof -
  let ?off = "LVB_SECTOR * BLOCK_SIZE"
  obtain c c' where c: "fill [''client'', ''init'', ''-r'', sanlock_path name path] '''' = (c, None)"
    "lm_set_lvb ts fsync uuid c = (c', None)" "file = Some c'"
    using assms(1) by (auto simp: lm_init_resource_file_def split: option.splits prod.splits)
  then have c': "c' = write_at ?off (lvb_block uuid) c"
    by (auto simp: lm_set_lvb_def dest: pwrite_done split: prod.splits option.splits)
  have read: "Read_lvb ts' (Some c') = Inr uuid"
    using write_at_read[of BLOCK_SIZE "lvb_block uuid" ?off c] assms(4)
    by (simp add: Read_lvb_def pread_interrupted[OF assms(5)] c' lvb_block_text[OF assms(2)] Let_def)
  have "c' ! i = c ! i" if "i < length c" "i < ?off \<or> (LVB_SECTOR + 1) * BLOCK_SIZE \<le> i" for i
    unfolding c' using that by (intro write_at_other) (auto simp: algebra_simps)
  with c read assms(3) show ?thesis by (auto simp: check_lvb_main_def check_lvb_def)
qed

section \<open>Names of leases\<close>

text \<open>A LUN has one lease whichever of the udev links names it: the \<open>wwn-0x\<close> link of an
  identifier \<open>k\<close> and the \<open>scsi-3\<close> and \<open>dm-uuid-mpath-3\<close> links give the same resource name.\<close>

theorem lun_links_agree:
  assumes "CHR ''/'' \<notin> set k"
  shows "Get_resource_name md5 DEVICE_LUN (dir @ ''/wwn-0x'' @ k) = ''3'' @ k \<and>
         Get_resource_name md5 DEVICE_LUN (dir' @ ''/scsi-3'' @ k) = ''3'' @ k \<and>
         Get_resource_name md5 DEVICE_LUN (dir'' @ ''/dm-uuid-mpath-3'' @ k) = ''3'' @ k"
proof -
  have "filepath_Base (dir @ CHR ''/'' # (''wwn-0x'' @ k)) = ''wwn-0x'' @ k"
    "filepath_Base (dir' @ CHR ''/'' # (''scsi-3'' @ k)) = ''scsi-3'' @ k"
    "filepath_Base (dir'' @ CHR ''/'' # (''dm-uuid-mpath-3'' @ k)) = ''dm-uuid-mpath-3'' @ k"
    using assms by (intro Base_child; simp)+
  then show ?thesis
    by (simp add: Get_resource_name_def dev_disks_prefixes_def has_prefix_def trim_prefix_def)
qed

lemma hex_digit_inj: "x < 16 \<Longrightarrow> y < 16 \<Longrightarrow> hex_digit x = hex_digit y \<Longrightarrow> x = y"
proof -
  assume "x < 16" "y < 16" "hex_digit x = hex_digit y"
  then have "of_char (hex_digit x) = (of_char (hex_digit y) :: nat)" by simp
  with \<open>x < 16\<close> \<open>y < 16\<close> show ?thesis by (auto simp: hex_digit_def split: if_splits)
qed

lemma unat_byte: "unat (b :: byte) < 256"
  using unsigned_less[of b] by simp

lemma hex_inj: "hex_EncodeToString xs = hex_EncodeToString ys \<Longrightarrow> xs = ys"
proof (induction xs arbitrary: ys)
  case Nil
  then show ?case by (cases ys) (simp_all add: hex_EncodeToString_def)
next
  case (Cons x xs)
  then obtain y zs where ys: "ys = y # zs" by (cases ys) (auto simp: hex_EncodeToString_def)
  have "hex_digit (unat x div 16) = hex_digit (unat y div 16)" "hex_digit (unat x mod 16) = hex_digit (unat y mod 16)"
    "hex_EncodeToString xs = hex_EncodeToString zs"
    using Cons.prems by (auto simp: ys hex_EncodeToString_def)
  moreover have "unat x div 16 = unat y div 16"
    by (rule hex_digit_inj[OF _ _ calculation(1)]) (use unat_byte[of x] unat_byte[of y] in auto)
  moreover have "unat x mod 16 = unat y mod 16"
    by (rule hex_digit_inj[OF _ _ calculation(2)]) simp_all
  moreover have "x = y" using calculation(4,5) by (metis div_mult_mod_eq unsigned_word_eqI)
  ultimately show ?case using Cons.IH by (auto simp: ys)
qed

lemma hex_digits_plain: "CHR ''/'' \<notin> set (hex_EncodeToString bs)"
proof -
  have digit: "hex_digit d \<noteq> CHR ''/''" if "d < 16" for d
  proof
    assume "hex_digit d = CHR ''/''"
    then have "of_char (hex_digit d) = (47 :: nat)" by simp
    with that show False by (auto simp: hex_digit_def split: if_splits)
  qed
  have hi: "unat b div 16 < 16" for b :: byte using unat_byte[of b] by simp
  have "hex_digit (unat b div 16) \<noteq> CHR ''/''" "hex_digit (unat b mod 16) \<noteq> CHR ''/''" for b :: byte
    using digit[OF hi[of b]] digit[of "unat b mod 16"] by simp_all
  then show ?thesis by (simp add: hex_EncodeToString_def) (metis not_sym)
qed

lemma path_segs_grandchild:
  "filepath_IsAbs b \<Longrightarrow> plain n \<Longrightarrow> path_segs (b @ CHR ''/'' # n @ CHR ''/'' # n) = path_segs b @ [n, n]"
  using path_segs_child[of "b @ CHR ''/'' # n" n] path_segs_child[of b n] by (simp add: path_simps)

lemma length_hex: "length (hex_EncodeToString bs) = 2 * length bs"
  by (induction bs) (simp_all add: hex_EncodeToString_def)

text \<open>Two disk or CD images share a lease exactly when their paths agree up to the datastore
  prefix, if MD5 does not map those two paths to one digest; the name has 32 characters and its
  lease file lies in a directory of that name under the lock directory.\<close>

theorem disk_leases_distinct:
  assumes "\<And>x. length (md5 x) = 16"
    and "md5 (bytes_of (trim_prefix p DS_DIR)) = md5 (bytes_of (trim_prefix q DS_DIR)) \<longrightarrow>
           trim_prefix p DS_DIR = trim_prefix q DS_DIR"
  shows "(Get_resource_name md5 DEVICE_DISK p = Get_resource_name md5 DEVICE_CDROM q \<longleftrightarrow>
            trim_prefix p DS_DIR = trim_prefix q DS_DIR) \<and>
         length (Get_resource_name md5 DEVICE_DISK p) = 32 \<and>
         path_segs (Get_resource_path (Get_resource_name md5 DEVICE_DISK p)) =
           [''vms'', ''lock'', Get_resource_name md5 DEVICE_DISK p, Get_resource_name md5 DEVICE_DISK p]"
proof -
  let ?n = "Get_resource_name md5 DEVICE_DISK p"
  have len: "length ?n = 32" by (simp add: Get_resource_name_def length_hex assms(1))
  have "CHR ''/'' \<notin> set ?n" by (simp add: Get_resource_name_def hex_digits_plain)
  with len have plain: "plain ?n" by (auto simp: plain_def)
  have root: "filepath_IsAbs ''/vms/lock''" "path_segs ''/vms/lock'' = [''vms'', ''lock'']"
    by (simp_all add: path_segs_def filepath_IsAbs_def has_prefix_def)
  from path_segs_grandchild[OF root(1) plain] root(2) have "path_segs (Get_resource_path ?n) = [''vms'', ''lock'', ?n, ?n]"
    by (simp add: Get_resource_path_def LOCK_DIR_def)
  moreover have "?n = Get_resource_name md5 DEVICE_CDROM q \<longleftrightarrow> trim_prefix p DS_DIR = trim_prefix q DS_DIR"
    using assms(2) by (auto simp: Get_resource_name_def dest: hex_inj)
  ultimately show ?thesis using len by simp
qed

section \<open>Commands under a lease\<close>

lemma spawn_args_inj:
  "spawn_args cs @ (if d then [''-d'', ''1''] else []) = spawn_args cs' @ (if d' then [''-d'', ''1''] else []) \<Longrightarrow>
     cs = cs' \<and> d = d'"
proof (induction cs arbitrary: cs')
  case Nil
  then show ?case by (cases cs') (auto split: if_splits)
next
  case (Cons c cs)
  then obtain c' ds where cs': "cs' = c' # ds" by (cases cs') (auto split: if_splits)
  with Cons.prems have n: "nat_dec (length c) = nat_dec (length c')" by simp
  then have "length c = length c'" by (rule nat_dec_inj)
  with Cons.prems cs' Cons.IH[of ds] show ?case by auto
qed

text \<open>Whatever is run under a lease, sanlock is first told to run the owner check on the lease
  file and the machine, and then exactly the commands given: the argument vector determines
  the list of commands and the flag.\<close>

theorem run_args_faithful:
  "take 10 (run_args r u args d) =
     [''client'', ''spawn'', ''-P'', ''1'', ''-r'', sanlock_path r (Get_resource_path r),
      ''-c'', ''3'', ''/usr/sbin/virtx-check-lvb'', Get_resource_path r] \<and>
   run_args r u args d ! 10 = u \<and>
   (run_args r u args d = run_args r u args' d' \<longleftrightarrow> args = args' \<and> d = d')"
  using spawn_args_inj[of args d args' d'] by (auto simp: run_args_def Let_def)

section \<open>Witnesses\<close>

text \<open>A daemon that accepts every slot, and one that answers busy once: its world counts the
  attempts to join.\<close>

definition sample_daemon :: "unit sanlock" where
  "sample_daemon args w = (('''', args ! 1 = ''host_status''), w)"

definition busy_once :: "nat sanlock" where
  "busy_once args n =
     (if args ! 1 = ''gets'' then (('''', False), n) else ((''add_lockspace done -262'', n = 0), n + 1))"

definition zero_md5 :: "byte list \<Rightarrow> byte list" where
  "zero_md5 bs = replicate 16 0"

lemma sample_daemon_join: "lm_join_lockspace sample_daemon h w = (0, w)"
  by (simp add: lm_join_lockspace_def sample_daemon_def)


lemma busy_once_inq: "lm_inq_lockspace busy_once n = (Inr 0, n)"
  by (simp add: lm_inq_lockspace_def busy_once_def lines_of_def scan_inq_def scan_lit_def has_prefix_def obind_def)

lemma busy_once_join: "lm_join_lockspace busy_once h n = (if n = 0 then - 262 else 0, n + 1)"
  by (simp add: lm_join_lockspace_def busy_once_def) code_simp

theorem Init_joined_witness: "in_lockspace busy_once 5"
proof -
  have "join_loop busy_once zero_md5 ''A'' (\<lambda>h. None) (Suc 9) 5 None 1 = (5, None, None, 2)"
    by (simp only: join_loop.simps busy_once_join) simp
  moreover have "inq_loop busy_once (Suc 9) None 2 = (None, 2)"
    by (simp only: inq_loop.simps busy_once_inq) simp
  ultimately have "Init busy_once zero_md5 None (Inr 5) (\<lambda>h. None) ''A'' 1 = (5, None, 2)"
    by (simp add: Init_def finish_init_def busy_once_inq del: join_loop.simps inq_loop.simps)
  then show ?thesis by (rule Init_joined)
qed

theorem Init_forgets_success_witness:
  "\<exists>e. Init busy_once zero_md5 None (Inr 5) (\<lambda>h. None) ''A'' 0 = (5, Some e, 2)"
  using Init_forgets_success[OF busy_once_inq[of 0], of 5 "- 262" 1 2 zero_md5 "\<lambda>h. None" "''A''"]
  by (simp add: busy_once_join)

theorem lvb_roundtrip_witness:
  "check_lvb [Interrupted] (Some (fst (lm_set_lvb [Interrupted, Interrupted] None ''vm-1'' ''data''))) ''vm-1'' = 0"
  using lvb_roundtrip[of "[Interrupted, Interrupted]" "[Interrupted]" "''vm-1''" _ "''data''" "''vm-1''", OF _ _ _ refl]
  by (simp add: interrupted_def BLOCK_SIZE_def)

theorem new_lease_names_owner_witness:
  "check_lvb_main (\<lambda>p. if p = ''/vms/lock/r/r'' then Some (fst (lm_set_lvb [] None ''vm-1'' ''sanlock'')) else None)
     [Interrupted] [''virtx-check-lvb'', ''/vms/lock/r/r'', ''vm-1''] = 0"
  using new_lease_names_owner[of None "\<lambda>a c. (''sanlock'', None)" "[]" None "''/vms/lock/r/r''" "''r''" "''vm-1''"
      "Some (fst (lm_set_lvb [] None ''vm-1'' ''sanlock''))" "[Interrupted]" "''vm-1''"]
  by (simp add: lm_init_resource_file_def lm_set_lvb_def interrupted_def BLOCK_SIZE_def)

theorem lun_links_agree_witness:
  "Get_resource_name zero_md5 DEVICE_LUN ''/dev/disk/by-id/wwn-0x6001'' = ''36001''"
  using lun_links_agree[of "''6001''" zero_md5 "''/dev/disk/by-id''" "''''" "''''"] by simp

theorem disk_leases_distinct_witness:
  "Get_resource_name zero_md5 DEVICE_DISK ''/vms/ds/a.img'' = Get_resource_name zero_md5 DEVICE_CDROM ''a.img''"
  using disk_leases_distinct[of zero_md5 "''/vms/ds/a.img''" "''a.img''"]
  by (simp add: zero_md5_def trim_prefix_def has_prefix_def DS_DIR_def)

end
