(* ===== verification/Lease_Store.thy ===== *)
theory Lease_Store
  imports Lockman_Create Lockman_Props
begin

text \<open>
  The contract between package \<open>lockman\<close> and its clients \<open>storage\<close> and \<open>cloudinit\<close>: who owns
  which lease, and how creating a lease and running commands under a lease change that. The
  provider is the lock directory of \<open>Lockman_Create\<close>: \<open>Create_resource\<close>, and \<open>Run\<close> as sanlock
  documents it: the owner check first, then the commands until one fails.
\<close>

section \<open>The contract\<close>

text \<open>The commands that end the life of a lease, as every caller of \<open>Run\<close> passes them, and the
  commands that do not reach into the lock directory.\<close>

abbreviation rm_lease :: "string \<Rightarrow> string list" where
  "rm_lease resource_name \<equiv> [''/usr/bin/rm'', ''--'', Get_resource_path resource_name]"

abbreviation rmdir_lease :: "string \<Rightarrow> string list" where
  "rmdir_lease resource_name \<equiv> [''/usr/bin/rmdir'', ''--'', filepath_Dir (Get_resource_path resource_name)]"

definition release_cmds :: "string \<Rightarrow> string list list" where
  "release_cmds resource_name = [rm_lease resource_name, rmdir_lease resource_name]"

definition outside :: "string list \<Rightarrow> bool" where
  "outside c \<longleftrightarrow> c \<noteq> [] \<and> \<not> has_prefix (last c) ''/vms/lock''"

locale lease_store =
  fixes owner :: "'w \<Rightarrow> string \<Rightarrow> string option" and valid_name :: "string \<Rightarrow> bool"
    and create :: "string \<Rightarrow> string \<Rightarrow> 'w \<Rightarrow> gerr option \<times> 'w"
    and run :: "string \<Rightarrow> string \<Rightarrow> string list list \<Rightarrow> bool \<Rightarrow> 'w \<Rightarrow> gerr option \<times> 'w"
  assumes create_ok: "valid_name r \<Longrightarrow> create r u w = (None, w') \<Longrightarrow>
      owner w r = None \<and> owner w' = (owner w)(r \<mapsto> u)"
    and create_err: "valid_name r \<Longrightarrow> create r u w = (Some e, w') \<Longrightarrow> owner w' = owner w"
    and run_keeps: "valid_name r \<Longrightarrow> list_all outside cmds \<Longrightarrow> owner (snd (run r u cmds nd w)) = owner w"
    and release_ok: "valid_name r \<Longrightarrow> list_all outside cmds \<Longrightarrow>
      run r u (cmds @ release_cmds r) nd w = (None, w') \<Longrightarrow>
      owner w r = Some u \<and> owner w' = (owner w)(r := None)"
    and release_err: "valid_name r \<Longrightarrow> list_all outside cmds \<Longrightarrow>
      run r u (cmds @ release_cmds r) nd w = (Some e, w') \<Longrightarrow>
      owner w' = owner w \<or> owner w r = Some u \<and> owner w' = (owner w)(r := None)"
begin

text \<open>Whatever happens, only leases of the given machine go, and no other name changes.\<close>

lemma release_owner:
  assumes "valid_name r" "list_all outside cmds" "run r u (cmds @ release_cmds r) nd w = (e, w')"
  shows "owner w' = owner w \<or> owner w r = Some u \<and> owner w' = (owner w)(r := None)"
  using release_ok[OF assms(1,2)] release_err[OF assms(1,2)] assms(3) by (cases e) blast+

end

section \<open>The lock directory keeps the contract\<close>

text \<open>Temporary directories are no leases.\<close>

definition lease_name :: "string \<Rightarrow> bool" where
  "lease_name r \<longleftrightarrow> plain r \<and> \<not> contains_str r ''-tmp''"

definition lease_owner :: "lockdir \<Rightarrow> string \<Rightarrow> string option" where
  "lease_owner d r =
     (if lease_name r then (case d r of Some (Some u) \<Rightarrow> Some u | _ \<Rightarrow> None) else None)"

definition lock_create :: "(string \<Rightarrow> create_faults) \<Rightarrow> (string \<Rightarrow> string) \<Rightarrow>
    string \<Rightarrow> string \<Rightarrow> lockdir \<Rightarrow> gerr option \<times> lockdir" where
  "lock_create flt rnd resource_name uuid d =
     (case Create_resource (flt resource_name) (resource_name @ ''-tmp'' @ rnd resource_name) resource_name uuid d of
        (d', e) \<Rightarrow> (e, d'))"

text \<open>A command under the lease: \<open>ext\<close> tells whether it succeeds. The two that remove the lease act on
  the lock directory when they do.\<close>

definition failed_unless :: "bool \<Rightarrow> gerr option" where
  "failed_unless ok = (if ok then None else Some (OsErr ''exit status''))"

definition exec_cmd :: "(string list \<Rightarrow> bool) \<Rightarrow> string \<Rightarrow> string list \<Rightarrow> lockdir \<Rightarrow> bool \<times> lockdir" where
  "exec_cmd ext r c d =
     (if c = rm_lease r
      then (case delete_step (failed_unless (ext c)) r '''' AtRm d of (AtRmdir, d') \<Rightarrow> (True, d') | (_, d') \<Rightarrow> (False, d'))
      else if c = rmdir_lease r
      then (case delete_step (failed_unless (ext c)) r '''' AtRmdir d of (Ended None, d') \<Rightarrow> (True, d') | (_, d') \<Rightarrow> (False, d'))
      else (ext c, d))"

fun exec_cmds :: "(string list \<Rightarrow> bool) \<Rightarrow> string \<Rightarrow> string list list \<Rightarrow> lockdir \<Rightarrow> bool \<times> lockdir" where
  "exec_cmds ext r [] d = (True, d)"
| "exec_cmds ext r (c # cs) d =
     (case exec_cmd ext r c d of (True, d') \<Rightarrow> exec_cmds ext r cs d' | (False, d') \<Rightarrow> (False, d'))"

text \<open>\<open>spawn\<close> tells whether sanlock gets as far as the owner check: its daemon answers, grants the lease of
  the resource and starts the program.\<close>

definition lock_run :: "(string \<Rightarrow> bool) \<Rightarrow> (string list \<Rightarrow> bool) \<Rightarrow>
    string \<Rightarrow> string \<Rightarrow> string list list \<Rightarrow> bool \<Rightarrow> lockdir \<Rightarrow> gerr option \<times> lockdir" where
  "lock_run spawn ext resource_name uuid cmds no_disk d =
     (case delete_step (failed_unless (spawn resource_name)) resource_name uuid AtCheck d of
        (AtRm, d1) \<Rightarrow> (case exec_cmds ext resource_name cmds d1 of (ok, d2) \<Rightarrow> (failed_unless ok, d2))
      | (_, d1) \<Rightarrow> (Some (OsErr ''exit status''), d1))"

text \<open>A release removes the lease file when sanlock starts the commands and \<open>rm\<close> succeeds; it reports
  success when \<open>rmdir\<close> does, too.\<close>

definition removes :: "(string \<Rightarrow> bool) \<Rightarrow> (string list \<Rightarrow> bool) \<Rightarrow> string \<Rightarrow> bool" where
  "removes spawn ext r \<longleftrightarrow> spawn r \<and> ext (rm_lease r)"

lemma tmp_no_lease: "\<not> lease_name (r @ ''-tmp'' @ x)"
  unfolding lease_name_def contains_str_iff by blast

lemma lease_owner_skip: "\<not> lease_name t \<Longrightarrow> lease_owner (d(t := v)) = lease_owner d"
  by (auto simp: lease_owner_def fun_eq_iff)

lemma lease_owner_put: "lease_name r \<Longrightarrow> lease_owner (d(r \<mapsto> Some u)) = (lease_owner d)(r \<mapsto> u)"
  and lease_owner_drop: "lease_name r \<Longrightarrow> lease_owner (d(r \<mapsto> None)) = (lease_owner d)(r := None)"
    "lease_name r \<Longrightarrow> lease_owner (d(r := None)) = (lease_owner d)(r := None)"
  by (auto simp: lease_owner_def fun_eq_iff)

lemma lease_owner_None: "lease_name r \<Longrightarrow> lease_owner d r = None \<longleftrightarrow> (\<forall>u. d r \<noteq> Some (Some u))"
  by (auto simp: lease_owner_def split: option.splits)

lemma lease_owner_Some: "lease_name r \<Longrightarrow> lease_owner d r = Some u \<longleftrightarrow> d r = Some (Some u)"
  by (auto simp: lease_owner_def split: option.splits)

lemma Create_resource_owner:
  assumes "lease_name r" "\<not> lease_name t" "Create_resource f t r u d = (d', e)"
  shows "case e of None \<Rightarrow> lease_owner d r = None \<and> lease_owner d' = (lease_owner d)(r \<mapsto> u)
    | Some x \<Rightarrow> lease_owner d' = lease_owner d"
proof -
  have ne: "t \<noteq> r" "r \<noteq> t" using assms(1,2) by auto
  note owner = lease_owner_skip[OF assms(2)] lease_owner_put[OF assms(1)] lease_owner_None[OF assms(1)]
  show ?thesis
    using assms(3) ne
    by (auto simp: Create_resource_def create_stat_def create_mkdir_def create_chmod_def create_init_def
        create_look_def create_exists_def create_rename_def Let_def owner fun_upd_twist split: option.splits if_splits)
qed

text \<open>Removing a lease.\<close>

lemma lock_dir_names:
  assumes "lease_name r"
  shows "has_prefix (Get_resource_path r) ''/vms/lock''" "has_prefix (filepath_Dir (Get_resource_path r)) ''/vms/lock''"
    and "Get_resource_path r \<noteq> filepath_Dir (Get_resource_path r)"
proof -
  have r: "plain r" "CHR ''/'' \<notin> set r" using assms by (auto simp: lease_name_def plain_def)
  have path: "Get_resource_path r = (''/vms/lock/'' @ r) @ CHR ''/'' # r"
    by (simp add: Get_resource_path_def LOCK_DIR_def)
  have root: "filepath_IsAbs ''/vms/lock''" "path_segs ''/vms/lock'' = [''vms'', ''lock'']"
    by (simp_all add: path_segs_def filepath_IsAbs_def has_prefix_def)
  have abs: "filepath_IsAbs (''/vms/lock/'' @ r)" by (simp add: filepath_IsAbs_def has_prefix_def)
  have segs: "path_segs (''/vms/lock/'' @ r) = [''vms'', ''lock'', r]"
    using path_segs_child[OF root(1) r(1)] by (simp add: root(2))
  have dir: "filepath_Dir (Get_resource_path r) = ''/vms/lock/'' @ r"
    unfolding path filepath_Dir_child[OF abs r(2)] segs by (simp add: join_segs_def)
  show "has_prefix (Get_resource_path r) ''/vms/lock''" by (simp add: path has_prefix_def)
  show "has_prefix (filepath_Dir (Get_resource_path r)) ''/vms/lock''" by (simp add: dir has_prefix_def)
  show "Get_resource_path r \<noteq> filepath_Dir (Get_resource_path r)"
    unfolding dir by (simp add: path)
qed

lemma exec_outside:
  assumes "lease_name r" "outside c"
  shows "exec_cmd ext r c d = (ext c, d)"
  using lock_dir_names[OF assms(1)] assms(2) by (auto simp: exec_cmd_def outside_def)

lemma exec_cmds_outside:
  assumes "lease_name r" "list_all outside cs"
  shows "exec_cmds ext r (cs @ ds) d = (if list_all ext cs then exec_cmds ext r ds d else (False, d))"
  using assms(2) by (induction cs) (auto simp: exec_outside[OF assms(1)] split: bool.splits)

lemma exec_release:
  assumes "lease_name r" "d r = Some (Some u)"
  shows "exec_cmds ext r (release_cmds r) d =
    (if \<not> ext (rm_lease r) then (False, d) else if ext (rmdir_lease r) then (True, d(r := None)) else (False, d(r \<mapsto> None)))"
  using assms lock_dir_names(3)[OF assms(1)] by (simp add: release_cmds_def exec_cmd_def failed_unless_def)

lemma lock_run_owned:
  "lock_run spawn ext r u cmds nd d =
     (if spawn r \<and> d r = Some (Some u) then (case exec_cmds ext r cmds d of (ok, d2) \<Rightarrow> (failed_unless ok, d2))
      else (failed_unless False, d))"
  by (simp add: lock_run_def failed_unless_def)

lemma lock_run_release:
  assumes "lease_name r" "list_all outside cmds"
  shows "lock_run spawn ext r u (cmds @ release_cmds r) nd d =
     (if d r = Some (Some u) \<and> list_all ext cmds \<and> removes spawn ext r
      then (failed_unless (ext (rmdir_lease r)), d(r := if ext (rmdir_lease r) then None else Some None))
      else (failed_unless False, d))"
  by (auto simp: lock_run_owned exec_cmds_outside[OF assms] exec_release[OF assms(1)] removes_def)

text \<open>A release of a lease one holds takes it away exactly when the lease file can be removed.\<close>

lemma lock_run_frees:
  assumes "lease_name r" "lease_owner d r = Some u"
  shows "lease_owner (snd (lock_run spawn ext r u (release_cmds r) nd d)) =
     (if removes spawn ext r then (lease_owner d)(r := None) else lease_owner d)"
  using lock_run_release[OF assms(1), of "[]" spawn ext u nd d] assms lease_owner_drop[OF assms(1), of d]
  by (simp add: lease_owner_Some)

text \<open>When only \<open>rmdir\<close> fails, an empty directory stays behind. It is no lease, but as long as the lock
  directory can be read no lease of that name is created again.\<close>

theorem stale_directory_blocks:
  assumes "lease_name r" "d r = Some (Some u)" "removes spawn ext r" "\<not> ext (rmdir_lease r)"
    and "lock_run spawn ext r u (release_cmds r) nd d = (e, d')" "cf_look f = None" "path \<noteq> r" "d path = None"
  shows "e \<noteq> None \<and> lease_owner d' r = None \<and> snd (Create_resource f path r u2 d') \<noteq> None"
proof -
  have d': "d' = d(r \<mapsto> None)" "e = failed_unless False"
    using lock_run_release[OF assms(1), of "[]" spawn ext u nd d] assms(2-5) by simp_all
  obtain d2 res where c: "Create_resource f path r u2 d' = (d2, res)" by fastforce
  from Create_resource_result[OF assms(7) _ c] assms(6,7,8) c show ?thesis
    using lease_owner_drop(1)[OF assms(1), of d] by (auto simp: d' failed_unless_def)
qed

text \<open>The lock directory as the provider.\<close>

interpretation lock: lease_store lease_owner lease_name "lock_create flt rnd" "lock_run spawn ext" for flt rnd spawn ext
proof unfold_locales
  fix r u d d' e cmds nd
  assume r: "lease_name r"
  show "lock_create flt rnd r u d = (None, d') \<Longrightarrow> lease_owner d r = None \<and> lease_owner d' = (lease_owner d)(r \<mapsto> u)"
    using Create_resource_owner[OF r tmp_no_lease[of r "rnd r"], of "flt r" u d d' None]
    by (simp add: lock_create_def split: prod.splits)
  show "lock_create flt rnd r u d = (Some e, d') \<Longrightarrow> lease_owner d' = lease_owner d"
    using Create_resource_owner[OF r tmp_no_lease[of r "rnd r"], of "flt r" u d d' "Some e"]
    by (simp add: lock_create_def split: prod.splits)
  assume cmds: "list_all outside cmds"
  show "lease_owner (snd (lock_run spawn ext r u cmds nd d)) = lease_owner d"
    using exec_cmds_outside[OF r cmds, of ext "[]"] by (simp add: lock_run_owned)
  show "lock_run spawn ext r u (cmds @ release_cmds r) nd d = (None, d') \<Longrightarrow>
      lease_owner d r = Some u \<and> lease_owner d' = (lease_owner d)(r := None)"
    using lease_owner_Some[OF r] lease_owner_drop(2)[OF r]
    by (auto simp: lock_run_release[OF r cmds] failed_unless_def split: if_splits)
  show "lock_run spawn ext r u (cmds @ release_cmds r) nd d = (Some e, d') \<Longrightarrow> lease_owner d' = lease_owner d \<or>
      lease_owner d r = Some u \<and> lease_owner d' = (lease_owner d)(r := None)"
    using lease_owner_Some[OF r] lease_owner_drop[OF r]
    by (auto simp: lock_run_release[OF r cmds] split: if_splits)
qed

text \<open>The names of files' leases are such names.\<close>

lemma hex_digits_range: "set (hex_EncodeToString bs) \<subseteq> hex_digit ` {..<16}"
proof -
  have "unat b div 16 < 16" "unat b mod 16 < 16" for b :: byte using unat_byte[of b] by simp_all
  then show ?thesis by (auto simp: hex_EncodeToString_def)
qed

lemma hex_lease_name: "bs \<noteq> [] \<Longrightarrow> lease_name (hex_EncodeToString bs)"
proof -
  assume ne: "bs \<noteq> []"
  have "x \<in> set (hex_EncodeToString bs) \<Longrightarrow> x \<noteq> CHR ''-'' \<and> x \<noteq> CHR ''.'' \<and> x \<noteq> CHR ''/''" for x
  proof -
    assume "x \<in> set (hex_EncodeToString bs)"
    with hex_digits_range obtain n where "n < 16" "x = hex_digit n" by blast
    then have "(of_char x :: nat) \<ge> 48"
      by (auto simp: hex_digit_def)
    then show ?thesis by auto
  qed
  then have c: "CHR ''-'' \<notin> set (hex_EncodeToString bs)" "CHR ''.'' \<notin> set (hex_EncodeToString bs)"
    "CHR ''/'' \<notin> set (hex_EncodeToString bs)" by blast+
  have "hex_EncodeToString bs \<noteq> ''''" using ne length_hex[of bs] by auto
  moreover have "\<not> contains_str (hex_EncodeToString bs) ''-tmp''"
    using c(1) by (auto simp: contains_str_iff)
  ultimately show ?thesis using c(2,3) by (auto simp: lease_name_def plain_def)
qed

end
