(* ===== verification/Vmdef.thy ===== *)
theory Vmdef
  imports Paths
begin

text \<open>
  The first part of package \<open>vmdef\<close> (\<open>vmdef.go\<close>): the disks of a definition, the number of
  virtual CPUs, the driver a path stands for, and the validation of a definition before it
  becomes a domain. Go's \<open>int16\<close> product wraps, and the conversion to \<open>uint\<close> extends its sign.
\<close>

section \<open>Definitions\<close>

definition Disks :: "Vmdef \<Rightarrow> Disk list" where
  "Disks vm = vm_osdisk vm # vm_disks vm"

fun path_in :: "Disk list \<Rightarrow> string \<Rightarrow> bool" where
  "path_in [] path \<longleftrightarrow> False"
| "path_in (disk # ds) path \<longleftrightarrow> (if path = disk_path disk then True else path_in ds path)"

definition Has_path :: "Vmdef \<Rightarrow> string \<Rightarrow> bool" where
  "Has_path vmdef path \<longleftrightarrow> path_in (Disks vmdef) path"

definition vmdef_get_vcpus :: "Vmdef \<Rightarrow> u64" where
  "vmdef_get_vcpus vmdef =
     scast (cd_sockets (vm_cpudef vmdef) * cd_cores (vm_cpudef vmdef) * cd_threads (vm_cpudef vmdef))"

definition Disk_driver :: "string \<Rightarrow> string" where
  "Disk_driver p =
     (let ext = filepath_Ext p in
      if ext = ''.qcow2'' then ''qcow2''
      else if ext = ''.iso'' \<or> ext = ''.raw'' then ''raw''
      else '''')"

definition Validate_disk_path :: "string \<Rightarrow> string" where
  "Validate_disk_path path =
     (if path = '''' \<or> \<not> filepath_IsAbs path then ''''
      else if filepath_Clean path \<noteq> path then ''''
      else if has_prefix path DEV_DIR then ''raw''
      else if \<not> has_prefix path DS_DIR then ''''
      else Disk_driver path)"

definition vmdef_validate_disk :: "Disk \<Rightarrow> gerr option" where
  "vmdef_validate_disk disk =
     (if disk_size disk <s 0 then Some (Msg ''invalid Disk Size'')
      else if Validate_disk_path (disk_path disk) = '''' then Some (Msg ''invalid Disk Path'')
      else if \<not> DiskDevice_IsValid (disk_device disk) then Some (Msg ''invalid Disk Device'')
      else if \<not> DiskBus_IsValid (disk_bus disk) then Some (Msg ''invalid Disk Bus'')
      else if \<not> DiskProvMode_IsValid (disk_prov disk) then Some (Msg ''invalid Disk Provisioning mode'')
      else if \<not> DiskManMode_IsValid (disk_man disk) then Some (Msg ''invalid Disk Management mode'')
      else if disk_device disk = DEVICE_LUN \<and> disk_bus disk \<noteq> BUS_VIRTIO_SCSI
        then Some (Msg ''invalid Bus type for Lun'')
      else if disk_device disk = DEVICE_CDROM \<and> disk_bus disk \<noteq> BUS_VIRTIO_SCSI \<and>
              disk_bus disk \<noteq> BUS_SCSI \<and> disk_bus disk \<noteq> BUS_SATA
        then Some (Msg ''invalid Bus type for CDROM'')
      else None)"

fun validate_disks :: "Disk list \<Rightarrow> gerr option" where
  "validate_disks [] = None"
| "validate_disks (disk # ds) =
     (case vmdef_validate_disk disk of Some e \<Rightarrow> Some e | None \<Rightarrow> validate_disks ds)"

fun validate_nets :: "Net list \<Rightarrow> gerr option" where
  "validate_nets [] = None"
| "validate_nets (net # ns) =
     (if net_mac net \<noteq> '''' \<and> length (net_mac net) \<noteq> MAC_LEN then Some (Msg ''invalid Mac'')
      else if \<not> NetModel_IsValid (net_model net) then Some (Msg ''invalid Net model'')
      else validate_nets ns)"

fun validate_custom :: "CustomField list \<Rightarrow> gerr option" where
  "validate_custom [] = None"
| "validate_custom (custom # cs) =
     (if cf_name custom = '''' then validate_custom cs
      else if \<not> CustomField_IsAlnum custom then Some (Msg ''invalid Custom Field'')
      else validate_custom cs)"

definition Validate :: "Vmdef \<Rightarrow> gerr option" where
  "Validate vmdef =
     (let cpu = vm_cpudef vmdef in
      if vm_name vmdef = '''' \<or> length (vm_name vmdef) > VM_NAME_MAX then Some (Msg ''invalid Name length'')
      else if mem_total (vm_memory vmdef) <s 1 then Some (Msg ''invalid memory size'')
      else if cd_model cpu = '''' then Some (Msg ''no cpu model provided'')
      else if cd_sockets cpu <s 1 \<or> cd_cores cpu <s 1 \<or> cd_threads cpu <s 1
        then Some (Msg ''no cpu topology provided'')
      else if 1 <s cd_threads cpu then Some (Msg ''unsupported cpu topology'')
      else if vm_genid vmdef \<noteq> '''' \<and> vm_genid vmdef \<noteq> ''auto'' \<and> length (vm_genid vmdef) \<noteq> 36
        then Some (Msg ''invalid Genid'')
      else if disk_path (vm_osdisk vmdef) = '''' then Some (Msg ''no OS Disk'')
      else if length (vm_disks vmdef) > DISKS_MAX then Some (Msg ''invalid Disks'')
      else if length (vm_nets vmdef) > NETS_MAX then Some (Msg ''invalid Nets'')
      else if vm_vlanid vmdef <s 0 \<or> 4094 <s vm_vlanid vmdef then Some (Msg ''invalid Vlanid'')
      else (case validate_disks (Disks vmdef) of
              Some e \<Rightarrow> Some e
            | None \<Rightarrow>
                (case validate_nets (vm_nets vmdef) of
                   Some e \<Rightarrow> Some e
                 | None \<Rightarrow> validate_custom (vm_custom vmdef))))"

section \<open>What validation establishes\<close>

lemma Has_path_iff: "Has_path vm p \<longleftrightarrow> p \<in> disk_path ` set (Disks vm)"
proof -
  have "path_in ds p \<longleftrightarrow> p \<in> disk_path ` set ds" for ds by (induction ds) auto
  then show ?thesis by (simp add: Has_path_def)
qed

lemma validate_disks_iff: "validate_disks ds = None \<longleftrightarrow> (\<forall>d\<in>set ds. vmdef_validate_disk d = None)"
  by (induction ds) (auto split: option.split)

lemma validate_nets_iff:
  "validate_nets ns = None \<longleftrightarrow>
     (\<forall>n\<in>set ns. (net_mac n = '''' \<or> length (net_mac n) = MAC_LEN) \<and> NetModel_IsValid (net_model n))"
  by (induction ns) auto

lemma validate_custom_iff:
  "validate_custom cs = None \<longleftrightarrow> (\<forall>c\<in>set cs. cf_name c = '''' \<or> CustomField_IsAlnum c)"
  by (induction cs) auto

lemma split_join_append:
  "ds \<noteq> [] \<Longrightarrow> \<forall>s\<in>set ds. CHR ''/'' \<notin> set s \<Longrightarrow>
     split_on (CHR ''/'') (join_segs ds @ CHR ''/'' # t) = ds @ split_on (CHR ''/'') t"
  by (induction ds) (auto simp: join_segs_Cons split_on_append)

text \<open>A path in normal form below a directory has the segments of the directory, and more.\<close>

lemma segs_below:
  assumes "list_all plain ss" "list_all plain ds" "ds \<noteq> []"
    and "has_prefix (CHR ''/'' # join_segs ss) (CHR ''/'' # join_segs ds @ ''/'')"
  shows "\<exists>rest. ss = ds @ rest \<and> rest \<noteq> []"
proof -
  have free: "\<forall>s\<in>set xs. CHR ''/'' \<notin> set s" if "list_all plain xs" for xs
    using that by (auto simp: list_all_iff plain_def)
  obtain t where t: "join_segs ss = join_segs ds @ CHR ''/'' # t" using assms(4) by (auto simp: has_prefix_iff)
  then have ne: "ss \<noteq> []" by (auto simp: join_segs_def)
  have "ss = split_on (CHR ''/'') (join_segs ss)" using split_join[OF ne free[OF assms(1)]] by simp
  also have "\<dots> = ds @ split_on (CHR ''/'') t"
    unfolding t by (rule split_join_append[OF assms(3) free[OF assms(2)]])
  finally show ?thesis by (intro exI[of _ "split_on (CHR ''/'') t"]) simp
qed

text \<open>A path that validation accepts is absolute and in normal form, has no empty, dot or
  dot-dot segment, and lies strictly below \<open>/dev\<close> or, with the extension of a known image
  format, strictly below the datastore directory; nothing else is accepted.\<close>

theorem valid_path_contained:
  "Validate_disk_path path \<noteq> '''' \<longleftrightarrow>
     (\<exists>ss. path = CHR ''/'' # join_segs ss \<and> list_all plain ss \<and>
        ((\<exists>rest. ss = ''dev'' # rest \<and> rest \<noteq> []) \<or>
         (\<exists>rest. ss = [''vms'', ''ds''] @ rest \<and> rest \<noteq> [] \<and> Disk_driver path \<noteq> '''')))"
proof -
  have roots: "DEV_DIR = CHR ''/'' # join_segs [''dev''] @ ''/''" "DS_DIR = CHR ''/'' # join_segs [''vms'', ''ds''] @ ''/''"
    "list_all plain [''dev'']" "list_all plain [''vms'', ''ds'']"
    by (simp_all add: DEV_DIR_def DS_DIR_def join_segs_def plain_def)
  show ?thesis
  proof
    assume v: "Validate_disk_path path \<noteq> ''''"
    then have abs: "filepath_IsAbs path" and clean: "filepath_Clean path = path"
      by (auto simp: Validate_disk_path_def split: if_splits)
    let ?ss = "path_segs path"
    have p: "path = CHR ''/'' # join_segs ?ss" using Clean_abs[OF abs] clean by simp
    have pl: "list_all plain ?ss" by (rule path_segs_plain[OF abs])
    have "has_prefix path DEV_DIR \<or> (has_prefix path DS_DIR \<and> Disk_driver path \<noteq> '''')"
      using v by (auto simp: Validate_disk_path_def split: if_splits)
    then have "(\<exists>rest. ?ss = [''dev''] @ rest \<and> rest \<noteq> []) \<or>
       (\<exists>rest. ?ss = [''vms'', ''ds''] @ rest \<and> rest \<noteq> [] \<and> Disk_driver path \<noteq> '''')"
      using segs_below[OF pl roots(3)] segs_below[OF pl roots(4)] p roots(1,2) by auto
    with p pl show "\<exists>ss. path = CHR ''/'' # join_segs ss \<and> list_all plain ss \<and>
        ((\<exists>rest. ss = ''dev'' # rest \<and> rest \<noteq> []) \<or>
         (\<exists>rest. ss = [''vms'', ''ds''] @ rest \<and> rest \<noteq> [] \<and> Disk_driver path \<noteq> ''''))"
      by (intro exI[of _ ?ss]) auto
  next
    assume "\<exists>ss. path = CHR ''/'' # join_segs ss \<and> list_all plain ss \<and>
        ((\<exists>rest. ss = ''dev'' # rest \<and> rest \<noteq> []) \<or>
         (\<exists>rest. ss = [''vms'', ''ds''] @ rest \<and> rest \<noteq> [] \<and> Disk_driver path \<noteq> ''''))"
    then obtain ss where p: "path = CHR ''/'' # join_segs ss" and pl: "list_all plain ss"
      and k: "(\<exists>rest. ss = ''dev'' # rest \<and> rest \<noteq> []) \<or>
         (\<exists>rest. ss = [''vms'', ''ds''] @ rest \<and> rest \<noteq> [] \<and> Disk_driver path \<noteq> '''')" by blast
    have abs: "filepath_IsAbs path" unfolding p by (rule IsAbs_Cons)
    have clean: "filepath_Clean path = path"
      using Clean_abs[OF abs] segs_of_join[OF pl] by (simp add: p)
    have "has_prefix path DEV_DIR \<or> (has_prefix path DS_DIR \<and> Disk_driver path \<noteq> '''')"
      using k by (auto simp: p DEV_DIR_def DS_DIR_def join_segs_Cons has_prefix_def)
    with abs clean p show "Validate_disk_path path \<noteq> ''''"
      by (auto simp: Validate_disk_path_def)
  qed
qed

text \<open>The meaning of a valid definition.\<close>

definition disk_valid :: "Disk \<Rightarrow> bool" where
  "disk_valid d \<longleftrightarrow> 0 \<le>s disk_size d \<and> Validate_disk_path (disk_path d) \<noteq> '''' \<and>
     disk_device d \<in> {DEVICE_DISK, DEVICE_CDROM, DEVICE_LUN} \<and>
     disk_bus d \<in> (if disk_device d = DEVICE_LUN then {BUS_VIRTIO_SCSI}
                  else if disk_device d = DEVICE_CDROM then {BUS_VIRTIO_SCSI, BUS_SATA, BUS_SCSI}
                  else {BUS_VIRTIO_BLK, BUS_VIRTIO_SCSI, BUS_SATA, BUS_SCSI}) \<and>
     disk_prov d \<in> {DISK_PROV_NONE, DISK_PROV_THIN, DISK_PROV_THICK} \<and>
     disk_man d \<in> {DISK_MAN_UNMANAGED, DISK_MAN_MANAGED}"

definition vmdef_valid :: "Vmdef \<Rightarrow> bool" where
  "vmdef_valid vm \<longleftrightarrow>
     vm_name vm \<noteq> '''' \<and> length (vm_name vm) \<le> VM_NAME_MAX \<and>
     1 \<le>s mem_total (vm_memory vm) \<and> cd_model (vm_cpudef vm) \<noteq> '''' \<and>
     1 \<le>s cd_sockets (vm_cpudef vm) \<and> 1 \<le>s cd_cores (vm_cpudef vm) \<and> cd_threads (vm_cpudef vm) = 1 \<and>
     (vm_genid vm = '''' \<or> vm_genid vm = ''auto'' \<or> length (vm_genid vm) = 36) \<and>
     length (vm_disks vm) \<le> DISKS_MAX \<and> length (vm_nets vm) \<le> NETS_MAX \<and>
     0 \<le>s vm_vlanid vm \<and> vm_vlanid vm \<le>s 4094 \<and>
     (\<forall>d\<in>set (Disks vm). disk_valid d) \<and>
     (\<forall>n\<in>set (vm_nets vm). (net_mac n = '''' \<or> length (net_mac n) = MAC_LEN) \<and>
        net_model n \<in> {NET_MODEL_VIRTIO, NET_MODEL_E1000E, NET_MODEL_E1000}) \<and>
     (\<forall>c\<in>set (vm_custom vm). cf_name c = '''' \<or> CustomField_IsAlnum c)"

lemma sless_sle: "\<not> (x <s y) \<longleftrightarrow> y \<le>s x" for x y :: "'a::len word"
  by (simp add: word_sless_alt word_sle_eq not_less)

lemma disk_valid_iff: "vmdef_validate_disk d = None \<longleftrightarrow> disk_valid d"
  by (auto simp: vmdef_validate_disk_def disk_valid_def IsValid_iffs sless_sle)

lemma threads_one: "1 \<le>s x \<and> x \<le>s 1 \<longleftrightarrow> x = (1 :: i16)"
proof -
  have "sint x = sint (1 :: i16) \<longleftrightarrow> x = 1" by (metis signed_word_eqI)
  then show ?thesis by (auto simp: word_sle_eq)
qed

lemma Validate_valid: "Validate vm = None \<longleftrightarrow> vmdef_valid vm"
proof -
  have path: "disk_valid d \<Longrightarrow> disk_path d \<noteq> ''''" for d
    by (auto simp: disk_valid_def Validate_disk_path_def)
  have "Validate vm = None \<longleftrightarrow>
     vm_name vm \<noteq> '''' \<and> length (vm_name vm) \<le> VM_NAME_MAX \<and>
     1 \<le>s mem_total (vm_memory vm) \<and> cd_model (vm_cpudef vm) \<noteq> '''' \<and>
     (1 \<le>s cd_sockets (vm_cpudef vm) \<and> 1 \<le>s cd_cores (vm_cpudef vm) \<and> 1 \<le>s cd_threads (vm_cpudef vm)) \<and>
     cd_threads (vm_cpudef vm) \<le>s 1 \<and>
     (vm_genid vm = '''' \<or> vm_genid vm = ''auto'' \<or> length (vm_genid vm) = 36) \<and>
     disk_path (vm_osdisk vm) \<noteq> '''' \<and> length (vm_disks vm) \<le> DISKS_MAX \<and> length (vm_nets vm) \<le> NETS_MAX \<and>
     (0 \<le>s vm_vlanid vm \<and> vm_vlanid vm \<le>s 4094) \<and>
     validate_disks (Disks vm) = None \<and> validate_nets (vm_nets vm) = None \<and> validate_custom (vm_custom vm) = None"
    by (simp add: Validate_def Let_def sless_sle [symmetric] not_less [symmetric] split: option.split)
  also have "\<dots> \<longleftrightarrow> vmdef_valid vm"
    using path[of "vm_osdisk vm"] threads_one[of "cd_threads (vm_cpudef vm)"]
    unfolding vmdef_valid_def validate_disks_iff disk_valid_iff validate_nets_iff validate_custom_iff IsValid_iffs
    by (simp add: Disks_def) blast
  finally show ?thesis .
qed

section \<open>The number of virtual CPUs\<close>

lemma sint_mult_i16: "sint (a * b :: i16) = signed_take_bit 15 (sint a * sint b)"
  by (simp add: sint_word_ariths)

lemma uint_scast_i16: "uint (scast (w :: i16) :: u64) = (if 0 \<le> sint w then sint w else 2 ^ 64 + sint w)"
proof -
  have b: "- (2 ^ 15) \<le> sint w" "sint w < 2 ^ 15" using sint_range_size[of w] by (simp_all add: word_size)
  have "uint (scast w :: u64) = take_bit 64 (sint w)" by (simp only: scast_eq uint_word_of_int_eq) simp
  also have "\<dots> = sint w mod 2 ^ 64" by (simp add: take_bit_eq_mod)
  also have "\<dots> = (if 0 \<le> sint w then sint w else 2 ^ 64 + sint w)"
  proof (cases "0 \<le> sint w")
    case True
    with b show ?thesis by simp
  next
    case False
    have "sint w mod 2 ^ 64 = (sint w + 2 ^ 64) mod 2 ^ 64" by simp
    also have "\<dots> = sint w + 2 ^ 64" using b False by (intro mod_pos_pos_trivial) simp_all
    finally show ?thesis using False by simp
  qed
  finally show ?thesis .
qed

text \<open>C22: for a valid definition the number of virtual CPUs given to the domain is the product of
  sockets and cores exactly when that product is below \<open>2 ^ 15\<close>: validation bounds neither
  factor, and a larger product wraps around.\<close>

theorem vcpus_product:
  assumes "Validate vm = None"
  shows "uint (vmdef_get_vcpus vm) = sint (cd_sockets (vm_cpudef vm)) * sint (cd_cores (vm_cpudef vm)) \<longleftrightarrow>
         sint (cd_sockets (vm_cpudef vm)) * sint (cd_cores (vm_cpudef vm)) < 2 ^ 15"
proof -
  let ?s = "cd_sockets (vm_cpudef vm)" and ?c = "cd_cores (vm_cpudef vm)"
  have v: "vmdef_valid vm" using assms by (simp add: Validate_valid)
  then have pos: "1 \<le> sint ?s" "1 \<le> sint ?c" and thr: "cd_threads (vm_cpudef vm) = 1"
    by (simp_all add: vmdef_valid_def word_sle_eq)
  have lim: "sint ?s < 2 ^ 15" "sint ?c < 2 ^ 15"
    using sint_range_size[of ?s] sint_range_size[of ?c] by (simp_all add: word_size)
  let ?p = "sint ?s * sint ?c"
  have p: "0 < ?p" "?p < 2 ^ 30"
    using pos lim mult_strict_mono[of "sint ?s" "2 ^ 15" "sint ?c" "2 ^ 15"] by simp_all
  have val: "uint (vmdef_get_vcpus vm) =
      (if 0 \<le> signed_take_bit 15 ?p then signed_take_bit 15 ?p else 2 ^ 64 + signed_take_bit 15 ?p)"
    by (simp add: vmdef_get_vcpus_def thr uint_scast_i16 sint_mult_i16)
  have range: "- (2 ^ 15) \<le> signed_take_bit 15 ?p" "signed_take_bit 15 ?p < 2 ^ 15"
    by (rule signed_take_bit_int_greater_eq_minus_exp, rule signed_take_bit_int_less_exp)
  show ?thesis
  proof
    assume "?p < 2 ^ 15"
    with p have "signed_take_bit 15 ?p = ?p" by (simp add: signed_take_bit_int_eq_self)
    with val p show "uint (vmdef_get_vcpus vm) = ?p" by simp
  next
    assume "uint (vmdef_get_vcpus vm) = ?p"
    with val range p show "?p < 2 ^ 15" by (simp split: if_splits)
  qed
qed

section \<open>Witness\<close>

definition sample_disk :: Disk where
  "sample_disk = \<lparr>disk_path = ''/vms/ds/a.qcow2'', disk_device = DEVICE_DISK, disk_bus = BUS_VIRTIO_BLK,
     disk_man = DISK_MAN_MANAGED, disk_prov = DISK_PROV_THIN, disk_size = 10\<rparr>"

definition sample_vmdef :: "i16 \<Rightarrow> i16 \<Rightarrow> Vmdef" where
  "sample_vmdef sockets cores =
     \<lparr>vm_name = ''web'',
      vm_cpudef = \<lparr>cd_model = ''host-model'', cd_nodes = 1, cd_sockets = sockets, cd_cores = cores, cd_threads = 1\<rparr>,
      vm_memory = \<lparr>mem_total = 2048, mem_hp = False\<rparr>, vm_numa = \<lparr>numa_placement = False\<rparr>,
      vm_osdisk = sample_disk, vm_disks = [],
      vm_nets = [\<lparr>net_name = ''br0'', net_nettype = NET_BRIDGE, net_model = NET_MODEL_VIRTIO, net_mac = ''''\<rparr>],
      vm_vlanid = 7, vm_firmware = FIRMWARE_UEFI, vm_genid = '''',
      vm_custom = [\<lparr>cf_name = ''tier'', cf_value = ''a''\<rparr>]\<rparr>"

lemma sample_disk_valid: "disk_valid sample_disk"
proof -
  have "Validate_disk_path ''/vms/ds/a.qcow2'' = ''qcow2''" by code_simp
  then show ?thesis by (simp add: disk_valid_def sample_disk_def word_sle_eq)
qed

lemma sample_vmdef_valid: "1 \<le>s s \<Longrightarrow> 1 \<le>s c \<Longrightarrow> vmdef_valid (sample_vmdef s c)"
  using sample_disk_valid
  by (simp add: vmdef_valid_def sample_vmdef_def Disks_def CustomField_IsAlnum_def custom_isalnum_def word_sle_eq)

text \<open>256 sockets of 256 cores are valid, and give a domain without CPUs.\<close>

theorem vcpus_product_witness:
  "Validate (sample_vmdef 256 256) = None \<and> uint (vmdef_get_vcpus (sample_vmdef 256 256)) \<noteq> 65536"
proof -
  have v: "Validate (sample_vmdef 256 256) = None"
    unfolding Validate_valid by (rule sample_vmdef_valid) (simp_all add: word_sle_eq)
  then show ?thesis using vcpus_product[OF v] by (simp add: sample_vmdef_def)
qed

end
