(* ===== verification/Storage.thy ===== *)
theory Storage
  imports Lease_Store Vmdef "HOL-Library.Signed_Division"
begin

text \<open>
  Package \<open>storage\<close> (\<open>storage.go\<close>, \<open>vdisk.go\<close>, \<open>lun.go\<close>): creating, detecting and deleting the
  disks of a machine under their leases. What the package calls is a record of functions on a
  state \<open>'w\<close> of the outside world: the two operations of package \<open>lockman\<close> and the system calls
  and programs that read or make files. A disk passed by pointer is returned with its changes.
\<close>

section \<open>What the package calls\<close>

record qmap =
  qm_Length :: u64
  qm_Zero :: bool
  qm_Compressed :: bool

record 'w storage_env =
  se_md5 :: "byte list \<Rightarrow> byte list"
  se_Create_resource :: "string \<Rightarrow> string \<Rightarrow> 'w \<Rightarrow> gerr option \<times> 'w"
  se_Run :: "string \<Rightarrow> string \<Rightarrow> string list list \<Rightarrow> bool \<Rightarrow> 'w \<Rightarrow> gerr option \<times> 'w"
  se_MkdirAll :: "string \<Rightarrow> 'w \<Rightarrow> gerr option \<times> 'w"
  se_EvalSymlinks :: "string \<Rightarrow> 'w \<Rightarrow> string result"
  se_ReadFile :: "string \<Rightarrow> 'w \<Rightarrow> string result"
  se_Lstat :: "string \<Rightarrow> 'w \<Rightarrow> (i64 \<times> i64) result"  \<comment> \<open>blocks and size\<close>
  se_qemu_map :: "string \<Rightarrow> 'w \<Rightarrow> qmap list result"  \<comment> \<open>\<open>qemu-img map\<close>, decoded\<close>
  se_getsize :: "string \<Rightarrow> 'w \<Rightarrow> u64 result"  \<comment> \<open>open and \<open>BLKGETSIZE64\<close>\<close>

text \<open>\<open>lockman.Delete_resource\<close> is a call of \<open>Run\<close>.\<close>

definition se_Delete_resource :: "'w storage_env \<Rightarrow> string \<Rightarrow> string \<Rightarrow> 'w \<Rightarrow> gerr option \<times> 'w" where
  "se_Delete_resource env resource_name uuid w = se_Run env resource_name uuid (release_cmds resource_name) True w"

definition resource_name_of :: "'w storage_env \<Rightarrow> Disk \<Rightarrow> string" where
  "resource_name_of env disk = Get_resource_name (se_md5 env) (disk_device disk) (disk_path disk)"

text \<open>\<open>strings.TrimSpace\<close> on ASCII text and \<open>strconv.Atoi\<close>, whose error text is kept short.\<close>

definition is_space :: "char \<Rightarrow> bool" where
  "is_space c \<longleftrightarrow> is_blank c \<or> c = CHR 0x0A"

definition TrimSpace :: "string \<Rightarrow> string" where
  "TrimSpace s = rev (dropWhile is_space (rev (dropWhile is_space s)))"

definition Atoi :: "string \<Rightarrow> int option" where
  "Atoi s = (case s of [] \<Rightarrow> None
     | c # cs \<Rightarrow> if is_space c then None
         else (case scan_int s of Some (v, []) \<Rightarrow> Some v | _ \<Rightarrow> None))"

section \<open>LUNs\<close>

definition DISCARD_PATH :: "string \<Rightarrow> string" where
  "DISCARD_PATH dev = ''/sys/block/'' @ dev @ ''/queue/discard_max_bytes''"

definition wipe_cmds :: "string \<Rightarrow> bool \<Rightarrow> string list list" where
  "wipe_cmds path discard =
     [[''/usr/sbin/wipefs'', ''-a'', path],
      if discard then [''/usr/sbin/blkdiscard'', path]
      else [''/usr/bin/dd'', ''if=/dev/zero'', ''of='' @ path, ''bs=1M'', ''count=1'']]"

definition lun_wipe :: "'w storage_env \<Rightarrow> string \<Rightarrow> string \<Rightarrow> string \<Rightarrow> bool \<Rightarrow> 'w \<Rightarrow> gerr option \<times> 'w" where
  "lun_wipe env path resource_name uuid del w =
     (case se_EvalSymlinks env path w of
        Inl e \<Rightarrow> (Some (wrap ''could not eval symlink: '' e), w)
      | Inr dev \<Rightarrow>
          (let discard_path = DISCARD_PATH (trim_prefix dev ''/dev'') in
           case se_ReadFile env discard_path w of
             Inl e \<Rightarrow> (Some (wrap (''could not read '' @ discard_path @ '': '') e), w)
           | Inr raw \<Rightarrow>
               (case Atoi (TrimSpace raw) of
                  None \<Rightarrow> (Some (Msg (''failed to parse '' @ discard_path @ '': invalid syntax'')), w)
                | Some i \<Rightarrow>
                    se_Run env resource_name uuid
                      (wipe_cmds path (0 < i) @ (if del then release_cmds resource_name else [])) del w)))"

definition lun_create :: "'w storage_env \<Rightarrow> Disk \<Rightarrow> string \<Rightarrow> string \<Rightarrow> 'w \<Rightarrow> gerr option \<times> 'w" where
  "lun_create env disk resource_name uuid w =
     (if Validate_disk_path (disk_path disk) \<noteq> ''raw'' then (Some (Msg ''invalid Disk Path''), w)
      else lun_wipe env (disk_path disk) resource_name uuid False w)"

definition lun_delete :: "'w storage_env \<Rightarrow> Disk \<Rightarrow> string \<Rightarrow> string \<Rightarrow> 'w \<Rightarrow> gerr option \<times> 'w" where
  "lun_delete env disk resource_name uuid w =
     (if Validate_disk_path (disk_path disk) \<noteq> ''raw'' then (Some (Msg ''invalid Disk Path''), w)
      else lun_wipe env (disk_path disk) resource_name uuid True w)"

definition lun_detect :: "'w storage_env \<Rightarrow> Disk \<Rightarrow> 'w \<Rightarrow> Disk \<times> gerr option" where
  "lun_detect env disk w =
     (case se_getsize env (disk_path disk) w of
        Inl e \<Rightarrow> (disk, Some e)
      | Inr sz \<Rightarrow> (disk\<lparr>disk_size := ucast (sz div 1048576), disk_prov := DISK_PROV_THIN\<rparr>, None))"

section \<open>Disk images\<close>

definition prealloc :: "string \<Rightarrow> DiskProvMode \<Rightarrow> string" where
  "prealloc disk_driver prov =
     (if disk_driver = ''qcow2'' then (if prov = DISK_PROV_THIN then ''metadata'' else ''falloc'')
      else if prov = DISK_PROV_THIN then ''off'' else ''falloc'')"

definition qemu_img_args :: "string \<Rightarrow> Disk \<Rightarrow> string list" where
  "qemu_img_args disk_driver disk =
     [''/usr/bin/qemu-img'', ''create'', ''-f'', disk_driver, ''-o'',
      ''preallocation='' @ prealloc disk_driver (disk_prov disk)] @
     (if disk_driver = ''qcow2'' then [''-o'', ''lazy_refcounts=off''] else []) @
     [disk_path disk, int_dec (sint (disk_size disk)) @ ''M'']"

definition vdisk_create :: "'w storage_env \<Rightarrow> Disk \<Rightarrow> string \<Rightarrow> string \<Rightarrow> 'w \<Rightarrow> gerr option \<times> 'w" where
  "vdisk_create env disk resource_name uuid w =
     (let disk_driver = Validate_disk_path (disk_path disk);
          dir = filepath_Dir (disk_path disk) in
      if disk_driver = '''' then (Some (Msg ''invalid Disk Path''), w)
      else (case se_MkdirAll env dir w of
              (Some e, w1) \<Rightarrow> (Some (wrap (''could not create path '' @ dir @ '': '') e), w1)
            | (None, w1) \<Rightarrow> se_Run env resource_name uuid [qemu_img_args disk_driver disk] False w1))"

definition vdisk_delete :: "'w storage_env \<Rightarrow> Disk \<Rightarrow> string \<Rightarrow> string \<Rightarrow> 'w \<Rightarrow> gerr option \<times> 'w" where
  "vdisk_delete env disk resource_name uuid w =
     (if Validate_disk_path (disk_path disk) = '''' then (Some (Msg ''invalid Disk Path''), w)
      else se_Run env resource_name uuid
             ([[''/usr/bin/rm'', ''--'', disk_path disk]] @ release_cmds resource_name) True w)"

definition vdisk_detect_raw_prov :: "'w storage_env \<Rightarrow> string \<Rightarrow> 'w \<Rightarrow> (DiskProvMode \<times> i32) \<times> gerr option" where
  "vdisk_detect_raw_prov env path w =
     (case se_Lstat env path w of
        Inl e \<Rightarrow> ((DISK_PROV_NONE, 0), Some e)
      | Inr (blocks, sz) \<Rightarrow>
          ((if blocks * 512 <s sz then DISK_PROV_THIN else DISK_PROV_THICK, word_of_int (sint sz sdiv 1048576)), None))"

fun qmaps_loop :: "qmap list \<Rightarrow> u64 \<Rightarrow> DiskProvMode \<Rightarrow> (u64 \<times> DiskProvMode) option" where
  "qmaps_loop [] virtual_size prov = Some (virtual_size, prov)"
| "qmaps_loop (q # qs) virtual_size prov =
     (if qm_Compressed q then None
      else qmaps_loop qs (virtual_size + qm_Length q) (if qm_Zero q then DISK_PROV_THIN else prov))"

definition vdisk_detect_qcow2_prov :: "'w storage_env \<Rightarrow> string \<Rightarrow> 'w \<Rightarrow> (DiskProvMode \<times> i32) \<times> gerr option" where
  "vdisk_detect_qcow2_prov env path w =
     (case se_qemu_map env path w of
        Inl e \<Rightarrow> ((DISK_PROV_NONE, 0), Some e)
      | Inr qmaps \<Rightarrow>
          if qmaps = [] then ((DISK_PROV_NONE, 0), Some (Msg ''image contains no extents''))
          else (case qmaps_loop qmaps 0 DISK_PROV_THICK of
                  None \<Rightarrow> ((DISK_PROV_NONE, 0), Some (Msg ''unsupported compressed qcow2''))
                | Some (virtual_size, prov) \<Rightarrow>
                    if virtual_size \<le> 0 then ((DISK_PROV_NONE, 0), Some (Msg ''invalid virtual size''))
                    else ((prov, ucast (virtual_size div 1048576)), None)))"

definition vdisk_detect :: "'w storage_env \<Rightarrow> Disk \<Rightarrow> 'w \<Rightarrow> Disk \<times> gerr option" where
  "vdisk_detect env disk w =
     (let disk_driver = Validate_disk_path (disk_path disk) in
      if disk_driver = '''' then (disk, Some (Msg ''invalid Disk Path''))
      else if disk_driver = ''raw'' \<or> disk_driver = ''qcow2'' then
        (case (if disk_driver = ''raw'' then vdisk_detect_raw_prov env (disk_path disk) w
               else vdisk_detect_qcow2_prov env (disk_path disk) w) of
           ((prov, sz), e) \<Rightarrow> (disk\<lparr>disk_prov := prov, disk_size := sz\<rparr>, e))
      else (disk, Some (Msg ''invalid Disk Path'')))"


section \<open>The operations by device\<close>

record 'w storage_ops =
  so_create :: "(Disk \<Rightarrow> string \<Rightarrow> string \<Rightarrow> 'w \<Rightarrow> gerr option \<times> 'w) option"
  so_delete :: "(Disk \<Rightarrow> string \<Rightarrow> string \<Rightarrow> 'w \<Rightarrow> gerr option \<times> 'w) option"
  so_detect :: "(Disk \<Rightarrow> 'w \<Rightarrow> Disk \<times> gerr option) option"

definition storage_ops_map :: "'w storage_env \<Rightarrow> DiskDevice \<Rightarrow> 'w storage_ops option" where
  "storage_ops_map env device =
     (if device = DEVICE_LUN then
        Some \<lparr>so_create = Some (lun_create env), so_delete = Some (lun_delete env), so_detect = Some (lun_detect env)\<rparr>
      else if device = DEVICE_DISK then
        Some \<lparr>so_create = Some (vdisk_create env), so_delete = Some (vdisk_delete env), so_detect = Some (vdisk_detect env)\<rparr>
      else if device = DEVICE_CDROM then
        Some \<lparr>so_create = None, so_delete = None, so_detect = Some (vdisk_detect env)\<rparr>
      else None)"

definition storage_is_managed_disk :: "Disk \<Rightarrow> bool" where
  "storage_is_managed_disk disk \<longleftrightarrow> disk_man disk \<noteq> DISK_MAN_UNMANAGED"

definition storage_create_disk :: "'w storage_env \<Rightarrow> Disk \<Rightarrow> string \<Rightarrow> string \<Rightarrow> 'w \<Rightarrow> gerr option \<times> 'w" where
  "storage_create_disk env disk resource_name uuid w =
     (case Option.bind (storage_ops_map env (disk_device disk)) so_create of
        None \<Rightarrow> (Some (Msg ''storage_create_disk: invalid disk device''), w)
      | Some f \<Rightarrow> f disk resource_name uuid w)"

definition Detect :: "'w storage_env \<Rightarrow> Disk \<Rightarrow> 'w \<Rightarrow> Disk \<times> gerr option" where
  "Detect env disk w =
     (case Option.bind (storage_ops_map env (disk_device disk)) so_detect of
        None \<Rightarrow> (disk, Some (Msg ''storage_detect: invalid disk device''))
      | Some f \<Rightarrow> f disk w)"

definition storage_delete_disk :: "'w storage_env \<Rightarrow> Disk \<Rightarrow> string \<Rightarrow> string \<Rightarrow> 'w \<Rightarrow> gerr option \<times> 'w" where
  "storage_delete_disk env disk resource_name uuid w =
     (case Option.bind (storage_ops_map env (disk_device disk)) so_delete of
        None \<Rightarrow> (Some (Msg ''storage_delete: invalid disk device''), w)
      | Some f \<Rightarrow> f disk resource_name uuid w)"

section \<open>The storage of a machine\<close>

text \<open>The resources created so far: the position of the disk in \<open>Disks\<close>, which stands for the
  pointer, and the name.\<close>

type_synonym created = "(nat \<times> string) list"

fun create_loop ::
  "'w storage_env \<Rightarrow> Vmdef option \<Rightarrow> string \<Rightarrow> nat \<Rightarrow> Disk list \<Rightarrow> created \<Rightarrow> 'w \<Rightarrow> Disk list \<times> created \<times> gerr option \<times> 'w" where
  "create_loop env old uuid i [] created w = ([], created, None, w)"
| "create_loop env old uuid i (disk # ds) created w =
     (if (case old of None \<Rightarrow> False | Some o' \<Rightarrow> Has_path o' (disk_path disk))
      then (case create_loop env old uuid (i + 1) ds created w of (ds', r) \<Rightarrow> (disk # ds', r))
      else
        (let name = resource_name_of env disk;
             managed = storage_is_managed_disk disk in
         case (if managed then se_Create_resource env name uuid w else (None, w)) of
           (Some e, w1) \<Rightarrow> (disk # ds, created, Some e, w1)
         | (None, w1) \<Rightarrow>
             (let created1 = (if managed then created @ [(i, name)] else created) in
              case (if managed \<and> disk_prov disk \<noteq> DISK_PROV_NONE
                    then (case storage_create_disk env disk name uuid w1 of (e, w2) \<Rightarrow> (disk, e, w2))
                    else (case Detect env disk w1 of (disk', e) \<Rightarrow> (disk', e, w1))) of
                (disk', Some e, w2) \<Rightarrow> (disk' # ds, created1, Some e, w2)
              | (disk', None, w2) \<Rightarrow>
                  (case create_loop env old uuid (i + 1) ds created1 w2 of (ds', r) \<Rightarrow> (disk' # ds', r)))))"

definition set_disks :: "Disk list \<Rightarrow> Vmdef \<Rightarrow> Vmdef" where
  "set_disks ds vm = vm\<lparr>vm_osdisk := hd ds, vm_disks := tl ds\<rparr>"

definition storage_Create :: "'w storage_env \<Rightarrow> Vmdef \<Rightarrow> Vmdef option \<Rightarrow> string \<Rightarrow> 'w \<Rightarrow> Vmdef \<times> created \<times> gerr option \<times> 'w" where
  "storage_Create env vm old uuid w =
     (case create_loop env old uuid 0 (Disks vm) [] w of (ds, r) \<Rightarrow> (set_disks ds vm, r))"

text \<open>\<open>Rollback\<close> only logs its errors.\<close>

fun Rollback :: "'w storage_env \<Rightarrow> created \<Rightarrow> string \<Rightarrow> 'w \<Rightarrow> 'w" where
  "Rollback env [] uuid w = w"
| "Rollback env ((i, name) # cs) uuid w = Rollback env cs uuid (snd (se_Delete_resource env name uuid w))"

fun delete_loop ::
  "'w storage_env \<Rightarrow> Vmdef option \<Rightarrow> string \<Rightarrow> bool \<Rightarrow> Disk list \<Rightarrow> gerr option \<Rightarrow> 'w \<Rightarrow> gerr option \<times> 'w" where
  "delete_loop env new uuid del [] first_err w = (first_err, w)"
| "delete_loop env new uuid del (disk # ds) first_err w =
     (if (case new of None \<Rightarrow> False | Some n \<Rightarrow> Has_path n (disk_path disk)) then delete_loop env new uuid del ds first_err w
      else if \<not> storage_is_managed_disk disk then delete_loop env new uuid del ds first_err w
      else
        (let name = resource_name_of env disk in
         case (if del then storage_delete_disk env disk name uuid w else se_Delete_resource env name uuid w) of
           (err, w') \<Rightarrow> delete_loop env new uuid del ds (if first_err = None then err else first_err) w'))"

definition storage_Delete :: "'w storage_env \<Rightarrow> Vmdef \<Rightarrow> Vmdef option \<Rightarrow> string \<Rightarrow> bool \<Rightarrow> 'w \<Rightarrow> gerr option \<times> 'w" where
  "storage_Delete env vm new uuid del w = delete_loop env new uuid del (Disks vm) None w"

end
