(* ===== verification/Vmdef_Xml.thy ===== *)
theory Vmdef_Xml
  imports Vmdef Lockman
begin

text \<open>
  The second part of package \<open>vmdef\<close> (\<open>vmdef.go\<close>), and package \<open>metadata\<close>: the libvirt domain of
  a definition, and the definition of a domain. The structs of \<open>libvirtxml\<close> are records of the
  fields the code sets or reads, where \<open>None\<close> is a nil pointer; parts that are the same for every
  domain are lists of attributes. Turning a domain into text and back is code of third-party
  packages and a parameter, and so are MD5 and the machine's architecture.
\<close>

section \<open>The structs of libvirtxml\<close>

record DomainDisk =
  dd_device :: string
  dd_rawio :: string
  dd_driver_type :: string
  dd_cache :: string
  dd_iothread :: "nat option"
  dd_source :: "(string option \<times> string option) option"  \<comment> \<open>block device and file\<close>
  dd_reservations :: string
  dd_target :: "(string \<times> string) option"  \<comment> \<open>device name and bus\<close>
  dd_readonly :: bool
  dd_boot :: "nat option"
  dd_alias :: "string option"
  dd_address :: "nat option"

record DomainController =
  dc_type :: string
  dc_index :: nat
  dc_model :: string
  dc_iothread :: "nat option"

record DomainLease =
  dl_lockspace :: string
  dl_key :: string
  dl_path :: string
  dl_offset :: nat

record DomainInterface =
  di_mac :: "string option"
  di_source :: "(string option \<times> string option) option"  \<comment> \<open>bridge and network\<close>
  di_vlan :: "nat list option"
  di_model :: "string option"
  di_txmode :: string

record DomainCPU =
  cpu_migratable :: string
  cpu_check :: string
  cpu_phys_bits :: nat
  cpu_topology :: "(int \<times> int \<times> int) option"
  cpu_mode :: string
  cpu_model :: "string option"

record DomainOS =
  os_machine :: string
  os_type :: string
  os_firmware :: string
  os_bios :: bool

type_synonym attrs = "(string \<times> string) list"

record DomainDevices =
  dv_disks :: "DomainDisk list"
  dv_controllers :: "DomainController list"
  dv_leases :: "DomainLease list"
  dv_interfaces :: "DomainInterface list"
  dv_fixed :: "(string \<times> attrs) list"

record Domain =
  dom_type :: string
  dom_name :: string
  dom_uuid :: string
  dom_genid :: "string option"
  dom_title :: string
  dom_description :: string
  dom_metadata :: "string option"
  dom_memory :: "(nat \<times> string) option"
  dom_backing :: "(string \<times> u64) option"
  dom_vcpu :: u64
  dom_iothreads :: nat
  dom_numatune :: "string option"
  dom_os :: "DomainOS option"
  dom_features :: "(string \<times> string) list"
  dom_cpu :: "DomainCPU option"
  dom_timers :: "(string \<times> string) list"
  dom_pm :: "(string \<times> string) list"
  dom_devices :: "DomainDevices option"

section \<open>Leases\<close>

definition vmdef_lease :: "(byte list \<Rightarrow> byte list) \<Rightarrow> Disk \<Rightarrow> DomainLease" where
  "vmdef_lease md5 disk =
     (let key = Get_resource_name md5 (disk_device disk) (disk_path disk) in
      \<lparr>dl_lockspace = LOCK_SPACE, dl_key = key, dl_path = Get_resource_path key, dl_offset = 0\<rparr>)"

section \<open>Disks to libvirt\<close>

text \<open>The counts by controller type are a Go map from strings, which gives 0 for a missing key.
  The state holds what \<open>Disk_to_xml\<close> updates through its pointers.\<close>

record disk_st =
  st_count :: "string \<Rightarrow> nat"
  st_iothreads :: nat
  st_disks :: "DomainDisk list"
  st_leases :: "DomainLease list"
  st_ctrls :: "DomainController list"

definition bus_ctrl :: "DiskBus \<Rightarrow> string \<times> string \<times> string \<times> bool" where
  "bus_ctrl bus =
     (if bus = BUS_SCSI then (''sd'', ''scsi'', ''lsilogic'', False)
      else if bus = BUS_VIRTIO_SCSI then (''sd'', ''scsi'', ''virtio-scsi'', True)
      else if bus = BUS_SATA then (''sd'', ''sata'', '''', False)
      else if bus = BUS_VIRTIO_BLK then (''vd'', ''virtio'', '''', True)
      else ('''', '''', '''', False))"

definition disk_alias :: "Disk \<Rightarrow> string \<Rightarrow> string \<Rightarrow> nat \<Rightarrow> string" where
  "disk_alias disk ctrl_type ctrl_model n =
     ''ua-'' @ DiskManMode_String (disk_man disk) @ ''_'' @ DiskProvMode_String (disk_prov disk) @ ''_'' @
     ctrl_type @ ''_'' @ ctrl_model @ ''_'' @ nat_dec n"

text \<open>The letter of a device: \<open>rune('a' + n)\<close>.\<close>

definition device_letter :: "nat \<Rightarrow> string" where
  "device_letter n = [char_of (97 + n)]"

definition domain_disk_of ::
  "Disk \<Rightarrow> string \<Rightarrow> string \<Rightarrow> string \<Rightarrow> string \<Rightarrow> nat \<Rightarrow> nat option \<Rightarrow> int \<Rightarrow> DomainDisk" where
  "domain_disk_of disk disk_driver ctrl_type ctrl_model device_name controller_index iothread order =
     (let lun = (disk_device disk = DEVICE_LUN) in
      \<lparr>dd_device = DiskDevice_String (disk_device disk),
       dd_rawio = (if lun then ''yes'' else ''''),
       dd_driver_type = disk_driver,
       dd_cache = (if lun then ''directsync'' else ''none''),
       dd_iothread = iothread,
       dd_source = Some (if lun then (Some (disk_path disk), None) else (None, Some (disk_path disk))),
       dd_reservations = (if lun then ''yes'' else ''''),
       dd_target = Some (device_name, ctrl_type),
       dd_readonly = (disk_device disk = DEVICE_CDROM),
       dd_boot = (if order \<le> 0 then None else Some (nat order)),
       dd_alias = Some (disk_alias disk ctrl_type ctrl_model controller_index),
       dd_address = (if ctrl_model = '''' then None else Some controller_index)\<rparr>)"

text \<open>A controller takes the next I/O thread when the bus uses one, and so does a virtio-blk disk,
  which has no controller.\<close>

definition domain_controller_of :: "string \<Rightarrow> string \<Rightarrow> bool \<Rightarrow> nat \<Rightarrow> nat \<Rightarrow> DomainController list \<times> nat" where
  "domain_controller_of ctrl_type ctrl_model use_iothread controller_index iothread_count =
     (if ctrl_model \<noteq> '''' then
        (if use_iothread
         then ([\<lparr>dc_type = ctrl_type, dc_index = controller_index, dc_model = ctrl_model,
                 dc_iothread = Some (iothread_count + 1)\<rparr>], iothread_count + 1)
         else ([\<lparr>dc_type = ctrl_type, dc_index = controller_index, dc_model = ctrl_model,
                 dc_iothread = None\<rparr>], iothread_count))
      else ([], iothread_count))"

definition disk_iothread :: "string \<Rightarrow> bool \<Rightarrow> nat \<Rightarrow> nat option \<times> nat" where
  "disk_iothread ctrl_type use_iothread iothread_count =
     (if ctrl_type = ''virtio'' \<and> use_iothread then (Some (iothread_count + 1), iothread_count + 1)
      else (None, iothread_count))"

definition Disk_to_xml ::
  "(byte list \<Rightarrow> byte list) \<Rightarrow> Disk \<Rightarrow> bool \<Rightarrow> int \<Rightarrow> disk_st \<Rightarrow> disk_st \<times> gerr option" where
  "Disk_to_xml md5 disk lease order st =
     (let disk_driver = Validate_disk_path (disk_path disk) in
      if disk_driver = '''' then (st, Some (Msg ''invalid Disk Path''))
      else (case bus_ctrl (disk_bus disk) of
        (device_prefix, ctrl_type, ctrl_model, use_iothread) \<Rightarrow>
          (let controller_index = st_count st ctrl_type;
               r = (if ctrl_type = ''virtio'' then st_count st ctrl_type
                    else st_count st ''scsi'' + st_count st ''sata'');
               device_name = device_prefix @ device_letter r in
           case domain_controller_of ctrl_type ctrl_model use_iothread controller_index (st_iothreads st) of
             (ctrls, ios1) \<Rightarrow>
               (case disk_iothread ctrl_type use_iothread ios1 of
                  (iothread, ios2) \<Rightarrow>
                    (\<lparr>st_count = (st_count st)(ctrl_type := st_count st ctrl_type + 1),
                      st_iothreads = ios2,
                      st_disks = st_disks st @ [domain_disk_of disk disk_driver ctrl_type ctrl_model
                                   device_name controller_index iothread order],
                      st_leases = st_leases st @ (if lease then [vmdef_lease md5 disk] else []),
                      st_ctrls = st_ctrls st @ ctrls\<rparr>, None)))))"

section \<open>Disks from libvirt\<close>

text \<open>The fields of the alias. Go indexes the first byte of the first two fields, which panics on
  an empty field.\<close>

definition alias_fields :: "string \<Rightarrow> string list" where
  "alias_fields name = split_n 5 (CHR ''_'') (drop 3 name)"

definition first_byte :: "string \<Rightarrow> char result" where
  "first_byte s = (case s of [] \<Rightarrow> Inl (Panic ''index out of range'') | c # cs \<Rightarrow> Inr c)"



text \<open>The disk is a fresh variable in the code: its size keeps the zero value.\<close>

definition vmdef_disk_from_xml :: "DomainDisk \<Rightarrow> Disk result" where
  "vmdef_disk_from_xml dd =
     rbind (DiskDevice_Parse (dd_device dd)) (\<lambda>device.
     rbind (need ''missing Disk Source'' (dd_source dd)) (\<lambda>source.
     rbind (if device = DEVICE_LUN then need ''missing Disk Block'' (fst source)
            else need ''missing Disk File'' (snd source)) (\<lambda>path.
     rbind (need ''missing Disk Target'' (dd_target dd)) (\<lambda>target.
     rbind (need ''missing Disk Alias'' (dd_alias dd)) (\<lambda>name.
       if length name < 5 then Inl (Msg ''Disk Alias too short'')
       else (let fields = alias_fields name in
         if length fields \<noteq> 5 then Inl (Msg ''invalid Disk Alias'')
         else
           rbind (first_byte (fields ! 0)) (\<lambda>m.
           rbind (DiskManMode_Parse m) (\<lambda>man.
           rbind (first_byte (fields ! 1)) (\<lambda>p.
           rbind (DiskProvMode_Parse p) (\<lambda>prov.
           rbind (DiskBus_Parse (fields ! 2) (fields ! 3)) (\<lambda>bus.
             Inr \<lparr>disk_path = path, disk_device = device, disk_bus = bus, disk_man = man,
                  disk_prov = prov, disk_size = 0\<rparr>)))))))))))"

section \<open>Package metadata\<close>

text \<open>\<open>encoding/xml\<close> on the struct \<open>Vm\<close> of \<open>metadata\<close> is a parameter: a list of fields with name
  and value becomes text, and text becomes fields.\<close>

fun meta_fields :: "CustomField list \<Rightarrow> (string \<times> string) list" where
  "meta_fields [] = []"
| "meta_fields (custom # cs) =
     (if cf_name custom = '''' then meta_fields cs
      else (cf_name custom, cf_value custom) # meta_fields cs)"

definition Vm_To_xml :: "((string \<times> string) list \<Rightarrow> string result) \<Rightarrow> CustomField list \<Rightarrow> string result" where
  "Vm_To_xml marshal customs = marshal (meta_fields customs)"

definition Vm_From_xml ::
  "(string \<Rightarrow> (string \<times> string) list result) \<Rightarrow> string \<Rightarrow> CustomField list \<Rightarrow> CustomField list result" where
  "Vm_From_xml unmarshal xmlstr customs =
     rbind (unmarshal xmlstr) (\<lambda>fs. Inr (customs @ map (\<lambda>(n, v). \<lparr>cf_name = n, cf_value = v\<rparr>) fs))"

section \<open>The domain of a definition\<close>

fun bits_Len64 :: "nat \<Rightarrow> nat" where
  "bits_Len64 n = (if n = 0 then 0 else bits_Len64 (n div 2) + 1)"

declare bits_Len64.simps [simp del]

definition cpu_named_mode :: "string \<Rightarrow> bool" where
  "cpu_named_mode m \<longleftrightarrow> m = ''host-model'' \<or> m = ''host-passthrough'' \<or> m = ''maximum''"

definition domain_cpu :: "Vmdef \<Rightarrow> DomainCPU" where
  "domain_cpu vmdef =
     (let cpu = vm_cpudef vmdef;
          model = cd_model cpu;
          phys_bits = bits_Len64 (unat (scast (mem_total (vm_memory vmdef)) :: u64)) + 20 in
      \<lparr>cpu_migratable = (if model = ''host-passthrough'' \<or> model = ''maximum'' then ''on'' else ''''),
       cpu_check = ''none'',
       cpu_phys_bits = (if phys_bits < 36 then 36 else phys_bits),
       cpu_topology = Some (sint (cd_sockets cpu), sint (cd_cores cpu), sint (cd_threads cpu)),
       cpu_mode = (if cpu_named_mode model then model else ''''),
       cpu_model = (if cpu_named_mode model then None else Some model)\<rparr>)"

definition domain_features :: "string \<Rightarrow> (string \<times> string) list option" where
  "domain_features arch =
     (if arch = ''aarch64'' then Some [(''acpi'', '''')]
      else if arch = ''x86_64''
        then Some [(''acpi'', ''''), (''apic-eoi'', ''on''), (''vmport'', ''off''), (''ioapic'', '''')]
      else None)"

definition domain_os :: "Vmdef \<Rightarrow> DomainOS" where
  "domain_os vmdef =
     \<lparr>os_machine = FirmwareType_Machine (vm_firmware vmdef), os_type = ''hvm'',
      os_firmware = FirmwareType_String (vm_firmware vmdef), os_bios = (vm_firmware vmdef = FIRMWARE_BIOS)\<rparr>"

definition domain_interface :: "Vmdef \<Rightarrow> Net \<Rightarrow> DomainInterface" where
  "domain_interface vmdef net =
     \<lparr>di_mac = (if net_mac net \<noteq> '''' then Some (net_mac net) else None),
      di_source = (if net_nettype net = NET_BRIDGE then Some (Some (net_name net), None)
                   else if net_nettype net = NET_LIBVIRT then Some (None, Some (net_name net))
                   else None),
      di_vlan = (if 0 <s vm_vlanid vmdef then Some [unat (scast (vm_vlanid vmdef) :: u64)] else None),
      di_model = Some (NetModel_String (net_model net)),
      di_txmode = ''iothread''\<rparr>"

definition init_st :: disk_st where
  "init_st = \<lparr>st_count = (\<lambda>_. 0)(''scsi'' := 1), st_iothreads = 0, st_disks = [], st_leases = [],
     st_ctrls = [\<lparr>dc_type = ''scsi'', dc_index = 0, dc_model = ''virtio-scsi'', dc_iothread = None\<rparr>]\<rparr>"

fun disks_loop ::
  "(byte list \<Rightarrow> byte list) \<Rightarrow> nat \<Rightarrow> Disk list \<Rightarrow> disk_st \<Rightarrow> disk_st \<times> gerr option" where
  "disks_loop md5 boot_order [] st = (st, None)"
| "disks_loop md5 boot_order (disk # ds) st =
     (let boots = (boot_order = 1 \<or> disk_device disk = DEVICE_CDROM);
          order = (if boots then int boot_order else - 1);
          boot_order' = (if boots then boot_order + 1 else boot_order);
          lease = (disk_man disk \<noteq> DISK_MAN_UNMANAGED) in
      case Disk_to_xml md5 disk lease order st of
        (st', Some e) \<Rightarrow> (st', Some e)
      | (st', None) \<Rightarrow> disks_loop md5 boot_order' ds st')"

text \<open>The devices every domain has.\<close>

definition fixed_devices :: "(string \<times> attrs) list" where
  "fixed_devices =
     [(''console'', [(''target-type'', ''serial'')]), (''console'', [(''target-type'', ''virtio'')]),
      (''channel'', [(''spicevmc-mouse'', ''client''), (''clipboard'', ''yes''), (''target-name'', ''com.redhat.spice.0'')]),
      (''graphics'', [(''vnc-autoport'', ''yes'')]), (''audio'', [(''id'', ''1''), (''type'', ''none'')]),
      (''video'', [(''model'', ''virtio'')]), (''memballoon'', [(''model'', ''none'')]),
      (''rng'', [(''model'', ''virtio''), (''random'', ''/dev/urandom'')])]"

definition to_domain ::
  "(byte list \<Rightarrow> byte list) \<Rightarrow> string \<Rightarrow> ((string \<times> string) list \<Rightarrow> string result) \<Rightarrow> Vmdef \<Rightarrow> string \<Rightarrow> Domain result" where
  "to_domain md5 arch marshal_vm vmdef uuid =
     (let vcpus = vmdef_get_vcpus vmdef in
      case domain_features arch of
        None \<Rightarrow> Inl (Msg ''invalid architecture'')
      | Some features \<Rightarrow>
        (case disks_loop md5 1 (Disks vmdef) init_st of
           (st, Some e) \<Rightarrow> Inl e
         | (st, None) \<Rightarrow>
           rbind (Vm_To_xml marshal_vm (vm_custom vmdef)) (\<lambda>meta_xml.
             Inr \<lparr>dom_type = ''kvm'', dom_name = uuid, dom_uuid = uuid,
                  dom_genid = (if vm_genid vmdef = '''' then None
                               else if vm_genid vmdef = ''auto'' then Some '''' else Some (vm_genid vmdef)),
                  dom_title = vm_name vmdef, dom_description = vm_name vmdef,
                  dom_metadata = Some meta_xml,
                  dom_memory = Some (unat (scast (mem_total (vm_memory vmdef)) :: u64), ''MiB''),
                  dom_backing = (if mem_hp (vm_memory vmdef) then Some (''immediate'', vcpus) else None),
                  dom_vcpu = vcpus,
                  dom_iothreads = st_iothreads st + length (vm_nets vmdef),
                  dom_numatune = (if numa_placement (vm_numa vmdef) then Some ''auto'' else None),
                  dom_os = Some (domain_os vmdef), dom_features = features,
                  dom_cpu = Some (domain_cpu vmdef),
                  dom_timers = [(''kvmclock'', ''yes'')],
                  dom_pm = [(''suspend-to-mem'', ''no''), (''suspend-to-disk'', ''no'')],
                  dom_devices = Some \<lparr>dv_disks = st_disks st, dv_controllers = st_ctrls st,
                    dv_leases = st_leases st, dv_interfaces = map (domain_interface vmdef) (vm_nets vmdef),
                    dv_fixed = fixed_devices\<rparr>\<rparr>)))"

definition To_xml ::
  "(byte list \<Rightarrow> byte list) \<Rightarrow> string \<Rightarrow> ((string \<times> string) list \<Rightarrow> string result) \<Rightarrow>
     (Domain \<Rightarrow> string result) \<Rightarrow> Vmdef \<Rightarrow> string \<Rightarrow> string result" where
  "To_xml md5 arch marshal_vm marshal_domain vmdef uuid =
     rbind (to_domain md5 arch marshal_vm vmdef uuid) marshal_domain"

section \<open>The definition of a domain\<close>

fun disks_from :: "DomainDisk list \<Rightarrow> Disk \<Rightarrow> Disk list \<Rightarrow> (Disk \<times> Disk list) result" where
  "disks_from [] os ds = Inr (os, ds)"
| "disks_from (dd # rest) os ds =
     rbind (vmdef_disk_from_xml dd) (\<lambda>disk.
       if dd_boot dd = Some 1 then disks_from rest disk ds
       else disks_from rest os (ds @ [disk]))"

definition net_from :: "DomainInterface \<Rightarrow> (Net \<times> i16) result" where
  "net_from di =
     rbind (need ''missing Interface Source'' (di_source di)) (\<lambda>source.
     rbind (case source of
              (Some b, _) \<Rightarrow> Inr (b, NET_BRIDGE)
            | (None, Some n) \<Rightarrow> Inr (n, NET_LIBVIRT)
            | (None, None) \<Rightarrow> Inl (Msg ''missing Interface Source Bridge or Network'')) (\<lambda>(name, nettype).
     let vlanid = (case di_vlan di of Some (t # ts) \<Rightarrow> word_of_nat t | _ \<Rightarrow> 0) in
     rbind (need ''missing Interface Model'' (di_model di)) (\<lambda>model.
     rbind (NetModel_Parse model) (\<lambda>m.
       Inr (\<lparr>net_name = name, net_nettype = nettype, net_model = m,
             net_mac = (case di_mac di of None \<Rightarrow> '''' | Some a \<Rightarrow> a)\<rparr>, vlanid)))))"

fun nets_from :: "DomainInterface list \<Rightarrow> Net list \<Rightarrow> i16 \<Rightarrow> (Net list \<times> i16) result" where
  "nets_from [] ns vlanid = Inr (ns, vlanid)"
| "nets_from (di # rest) ns vlanid = rbind (net_from di) (\<lambda>(net, v). nets_from rest (ns @ [net]) v)"

definition cpu_from :: "DomainCPU option \<Rightarrow> Cpudef \<Rightarrow> Cpudef result" where
  "cpu_from cpu old =
     (case cpu of None \<Rightarrow> Inl (Msg ''missing CPU.Topology'')
      | Some c \<Rightarrow>
          rbind (need ''missing CPU.Topology'' (cpu_topology c)) (\<lambda>(s, co, t).
          rbind (if cpu_mode c \<noteq> '''' \<and> cpu_mode c \<noteq> ''custom'' then Inr (cpu_mode c)
                 else need ''missing CPU.Mode or CPU.Model'' (cpu_model c)) (\<lambda>model.
            Inr (old\<lparr>cd_model := model, cd_sockets := word_of_int s, cd_cores := word_of_int co,
                     cd_threads := word_of_int t\<rparr>))))"

definition firmware_from :: "DomainOS \<Rightarrow> FirmwareType" where
  "firmware_from os =
     (case FirmwareType_Parse (os_firmware os) of
        Inr f \<Rightarrow> f
      | Inl e \<Rightarrow> if os_bios os then FIRMWARE_BIOS else FIRMWARE_UEFI)"

definition from_domain ::
  "(string \<Rightarrow> (string \<times> string) list result) \<Rightarrow> Domain \<Rightarrow> Vmdef \<Rightarrow> Vmdef result" where
  "from_domain unmarshal_vm domain vm =
     rbind (cpu_from (dom_cpu domain) (vm_cpudef vm)) (\<lambda>cpudef.
     rbind (need ''missing Memory'' (dom_memory domain)) (\<lambda>mem.
     rbind (need ''missing OS'' (dom_os domain)) (\<lambda>os.
     rbind (need ''missing Devices'' (dom_devices domain)) (\<lambda>devices.
     rbind (disks_from (dv_disks devices) (vm_osdisk vm) []) (\<lambda>(osdisk, disks).
     rbind (nets_from (dv_interfaces devices) [] (vm_vlanid vm)) (\<lambda>(nets, vlanid).
     rbind (need ''missing Metadata'' (dom_metadata domain)) (\<lambda>meta.
     rbind (Vm_From_xml unmarshal_vm meta (vm_custom vm)) (\<lambda>custom.
       Inr \<lparr>vm_name = dom_title domain, vm_cpudef = cpudef,
            vm_memory = \<lparr>mem_total = word_of_nat (fst mem div KiB),
                         mem_hp = (if dom_backing domain \<noteq> None then True else mem_hp (vm_memory vm))\<rparr>,
            vm_numa = \<lparr>numa_placement = (if dom_numatune domain \<noteq> None then True else numa_placement (vm_numa vm))\<rparr>,
            vm_osdisk = osdisk, vm_disks = disks, vm_nets = nets, vm_vlanid = vlanid,
            vm_firmware = firmware_from os,
            vm_genid = (case dom_genid domain of None \<Rightarrow> vm_genid vm | Some g \<Rightarrow> g),
            vm_custom = custom\<rparr>))))))))"

definition From_xml ::
  "(string \<Rightarrow> Domain result) \<Rightarrow> (string \<Rightarrow> (string \<times> string) list result) \<Rightarrow> Vmdef \<Rightarrow> string \<Rightarrow> Vmdef result" where
  "From_xml unmarshal_domain unmarshal_vm vm xmlstr =
     rbind (unmarshal_domain xmlstr) (\<lambda>domain. from_domain unmarshal_vm domain vm)"

text \<open>The zero value of the struct, which the callers pass.\<close>

definition zero_vmdef :: Vmdef where
  "zero_vmdef =
     \<lparr>vm_name = '''', vm_cpudef = \<lparr>cd_model = '''', cd_nodes = 0, cd_sockets = 0, cd_cores = 0, cd_threads = 0\<rparr>,
      vm_memory = \<lparr>mem_total = 0, mem_hp = False\<rparr>, vm_numa = \<lparr>numa_placement = False\<rparr>,
      vm_osdisk = \<lparr>disk_path = '''', disk_device = 0, disk_bus = 0, disk_man = 0, disk_prov = 0, disk_size = 0\<rparr>,
      vm_disks = [], vm_nets = [], vm_vlanid = 0, vm_firmware = 0, vm_genid = '''', vm_custom = []\<rparr>"

end
