(* ===== verification/Cloudinit.thy ===== *)
theory Cloudinit
  imports Oplog Storage Vmdef_Xml
begin

text \<open>
  Package \<open>cloudinit\<close> and \<open>hypervisor/cloudinit.go\<close>: the seed image a machine is booted with, its
  lease, and booting with it. The calls of \<open>lockman\<close> and \<open>storage\<close> are those of \<open>storage_env\<close>; the
  temporary files and the program that builds the image are further parameters.
\<close>

record Options =
  co_UserData :: string
  co_MetaData :: string
  co_NetworkConfig :: string

record CloudInitOption =
  ci_name :: string
  ci_value :: string

record 'w cloud_env =
  ce_storage :: "'w storage_env"
  ce_MkdirTemp :: "'w \<Rightarrow> string result \<times> 'w"
  ce_WriteFile :: "string \<Rightarrow> string \<Rightarrow> 'w \<Rightarrow> gerr option \<times> 'w"
  ce_Remove :: "string \<Rightarrow> 'w \<Rightarrow> 'w"
  ce_Stat :: "string \<Rightarrow> 'w \<Rightarrow> gerr option"
  ce_xorrisofs :: "string list \<Rightarrow> 'w \<Rightarrow> (gerr \<times> string) option \<times> 'w"  \<comment> \<open>error and output\<close>
  ce_lease_Marshal :: "DomainLease \<Rightarrow> string result"
  ce_disk_Marshal :: "DomainDisk \<Rightarrow> string result"

definition CI_DIR :: string where
  "CI_DIR = ''/vms/ds/ci/''"

section \<open>The seed image\<close>

definition init_disk :: "string \<Rightarrow> Disk" where
  "init_disk uuid =
     \<lparr>disk_path = CI_DIR @ uuid @ ''/seed.iso'', disk_device = DEVICE_CDROM, disk_bus = BUS_VIRTIO_SCSI,
      disk_man = DISK_MAN_MANAGED, disk_prov = DISK_PROV_NONE, disk_size = 0\<rparr>"

definition Options_Validate :: "Options \<Rightarrow> gerr option" where
  "Options_Validate opts =
     (if \<not> (co_UserData opts \<noteq> '''' \<or> co_NetworkConfig opts \<noteq> '''')
      then Some (Msg ''at least one of user_data or network_config must be provided'') else None)"

text \<open>A file is listed before it is written, so that a failed write is cleaned up too.\<close>

definition stage_ci_file ::
  "'w cloud_env \<Rightarrow> string list \<Rightarrow> string \<Rightarrow> string \<Rightarrow> string \<Rightarrow> string \<Rightarrow> 'w \<Rightarrow> string list \<times> gerr option \<times> 'w" where
  "stage_ci_file ce files name content stage_dir def w =
     (let f = filepath_Clean (stage_dir @ ''/'' @ name);
          content = (if content = '''' then def else content) in
      if content = '''' then (files, None, w) else (files @ [f], ce_WriteFile ce f content w))"

definition default_meta :: "string \<Rightarrow> string" where
  "default_meta vm_uuid = ''instance-id: '' @ vm_uuid @ [CHR 0x0A] @ ''local-hostname: '' @ vm_uuid @ [CHR 0x0A]"

definition stage_files ::
  "'w cloud_env \<Rightarrow> Options \<Rightarrow> string \<Rightarrow> string \<Rightarrow> 'w \<Rightarrow> string list \<times> gerr option \<times> 'w" where
  "stage_files ce opts stage_dir vm_uuid w =
     (case Options_Validate opts of
        Some e \<Rightarrow> ([], Some e, w)
      | None \<Rightarrow>
          (case stage_ci_file ce [] ''meta-data'' (co_MetaData opts) stage_dir (default_meta vm_uuid) w of
             (files, Some e, w1) \<Rightarrow> (files, Some e, w1)
           | (files, None, w1) \<Rightarrow>
               (case stage_ci_file ce files ''user-data'' (co_UserData opts) stage_dir '''' w1 of
                  (files, Some e, w2) \<Rightarrow> (files, Some e, w2)
                | (files, None, w2) \<Rightarrow>
                    stage_ci_file ce files ''network-config'' (co_NetworkConfig opts) stage_dir '''' w2)))"

definition build_iso :: "'w cloud_env \<Rightarrow> string \<Rightarrow> string list \<Rightarrow> 'w \<Rightarrow> gerr option \<times> 'w" where
  "build_iso ce iso_path files w =
     (case ce_xorrisofs ce ([''-output'', iso_path, ''-volid'', ''cidata'', ''-joliet'', ''-rock'', ''-quiet''] @ files) w of
        (None, w') \<Rightarrow> (None, w')
      | (Some (e, out), w') \<Rightarrow>
          (Some (Msg (''/usr/bin/xorrisofs failed: '' @ error_text e @ [CHR 0x0A] @ TrimSpace out)), w'))"

text \<open>The deferred calls: the staged files, then their directory.\<close>

definition remove_stage :: "'w cloud_env \<Rightarrow> string \<Rightarrow> string list \<Rightarrow> 'w \<Rightarrow> 'w" where
  "remove_stage ce stage_dir files w = ce_Remove ce stage_dir (fold (ce_Remove ce) files w)"

definition make_image ::
  "'w cloud_env \<Rightarrow> Disk \<Rightarrow> string \<Rightarrow> string list \<Rightarrow> 'w \<Rightarrow> Disk \<times> gerr option \<times> 'w" where
  "make_image ce disk uuid files w =
     (let env = ce_storage ce;
          name = resource_name_of env disk in
      case se_Create_resource env name uuid w of
        (Some e, w1) \<Rightarrow> (disk, Some e, w1)
      | (None, w1) \<Rightarrow>
          (case build_iso ce (disk_path disk) files w1 of
             (Some e, w2) \<Rightarrow> (disk, Some e, snd (se_Delete_resource env name uuid w2))
           | (None, w2) \<Rightarrow> (fst (Detect env disk w2), None, w2)))"

definition Create_disk :: "'w cloud_env \<Rightarrow> string \<Rightarrow> Options \<Rightarrow> 'w \<Rightarrow> Disk \<times> gerr option \<times> 'w" where
  "Create_disk ce uuid opts w =
     (let disk = init_disk uuid in
      case Options_Validate opts of
        Some e \<Rightarrow> (disk, Some e, w)
      | None \<Rightarrow>
          (case se_MkdirAll (ce_storage ce) (filepath_Dir (disk_path disk)) w of
             (Some e, w1) \<Rightarrow> (disk, Some (wrap (''creating directories for '' @ disk_path disk @ '': '') e), w1)
           | (None, w1) \<Rightarrow>
               (case ce_MkdirTemp ce w1 of
                  (Inl e, w2) \<Rightarrow> (disk, Some (wrap ''creating stage dir: '' e), w2)
                | (Inr stage_dir, w2) \<Rightarrow>
                    (case stage_files ce opts stage_dir uuid w2 of
                       (files, Some e, w3) \<Rightarrow>
                         (disk, Some (wrap (''failed to stage files in '' @ stage_dir @ '': '') e),
                          remove_stage ce stage_dir files w3)
                     | (files, None, w3) \<Rightarrow>
                         (case make_image ce disk uuid files w3 of
                            (disk', e, w4) \<Rightarrow> (disk', e, remove_stage ce stage_dir files w4))))))"

definition Delete_disk :: "'w cloud_env \<Rightarrow> string \<Rightarrow> 'w \<Rightarrow> gerr option \<times> 'w" where
  "Delete_disk ce uuid w =
     (let env = ce_storage ce;
          resource_name = resource_name_of env (init_disk uuid);
          resource_path = Get_resource_path resource_name in
      case ce_Stat ce resource_path w of
        Some e \<Rightarrow> if e = NotExist then (None, w)
                  else (Some (wrap (''cannot stat '' @ resource_path @ '': '') e), w)
      | None \<Rightarrow>
          (case se_Delete_resource env resource_name uuid w of
             (Some e, w1) \<Rightarrow> (Some (wrap (''failed to delete '' @ resource_path @ '': '') e), w1)
           | (None, w1) \<Rightarrow> (None, w1)))"

section \<open>Booting with a seed image\<close>

text \<open>The lease and the disk of the image, for controller 0.\<close>

definition get_iso_xml :: "'w cloud_env \<Rightarrow> Disk \<Rightarrow> (string \<times> string) result" where
  "get_iso_xml ce disk =
     (case Disk_to_xml (se_md5 (ce_storage ce)) disk True (- 1)
             \<lparr>st_count = (\<lambda>_. 0), st_iothreads = 0, st_disks = [], st_leases = [], st_ctrls = []\<rparr> of
        (st, Some e) \<Rightarrow> Inl e
      | (st, None) \<Rightarrow>
          (if length (st_disks st) \<noteq> 1 \<or> length (st_leases st) \<noteq> 1
           then Inl (Msg ''failed to convert Disk to XML'')
           else (case ce_lease_Marshal ce (hd (st_leases st)) of
                   Inl e \<Rightarrow> Inl (wrap ''marshalling lease XML: '' e)
                 | Inr lease_xml \<Rightarrow>
                     (case ce_disk_Marshal ce (hd (st_disks st)) of
                        Inl e \<Rightarrow> Inl (wrap ''marshalling disk XML: '' e)
                      | Inr disk_xml \<Rightarrow> Inr (lease_xml, disk_xml)))))"

definition cloudinit_attach :: "'w libvirt \<Rightarrow> 'w cloud_env \<Rightarrow> Disk \<Rightarrow> LvDomain \<Rightarrow> 'w \<Rightarrow> gerr option \<times> 'w" where
  "cloudinit_attach lv ce disk domain w =
     (case get_iso_xml ce disk of
        Inl e \<Rightarrow> (Some e, w)
      | Inr (lease_xml, disk_xml) \<Rightarrow>
          (case lv_AttachDevice lv domain lease_xml w of
             (Some e, w1) \<Rightarrow> (Some (wrap ''attaching Lease: '' e), w1)
           | (None, w1) \<Rightarrow>
               (case lv_AttachDevice lv domain disk_xml w1 of
                  (Some e, w2) \<Rightarrow> (Some (wrap ''attaching Disk: '' e), w2)
                | (None, w2) \<Rightarrow> (None, w2))))"

fun cloudinit_options :: "CloudInitOption list \<Rightarrow> Options \<Rightarrow> Options result" where
  "cloudinit_options [] opts = Inr opts"
| "cloudinit_options (item # ci) opts =
     (if ci_name item = ''ci-userdata'' then cloudinit_options ci (opts\<lparr>co_UserData := ci_value item\<rparr>)
      else if ci_name item = ''ci-metadata'' then cloudinit_options ci (opts\<lparr>co_MetaData := ci_value item\<rparr>)
      else if ci_name item = ''ci-networkconfig'' then cloudinit_options ci (opts\<lparr>co_NetworkConfig := ci_value item\<rparr>)
      else Inl (Msg (''cloudinit: unknown option item name '' @ ci_name item)))"

definition cloudinit_boot_domain ::
  "'w libvirt \<Rightarrow> 'w cloud_env \<Rightarrow> string \<Rightarrow> LvDomain \<Rightarrow> CloudInitOption list \<Rightarrow> 'w \<Rightarrow> gerr option \<times> 'w" where
  "cloudinit_boot_domain lv ce uuid domain ci w =
     (case cloudinit_options ci \<lparr>co_UserData = '''', co_MetaData = '''', co_NetworkConfig = ''''\<rparr> of
        Inl e \<Rightarrow> (Some e, w)
      | Inr opts \<Rightarrow>
          (case lv_Create lv domain w of
             (Some e, w1) \<Rightarrow> (Some (wrap ''cloudinit: '' e), w1)
           | (None, w1) \<Rightarrow>
               (case Create_disk ce uuid opts w1 of
                  (disk, Some e, w2) \<Rightarrow> (Some (wrap ''cloudinit: '' e), snd (lv_DestroyFlags lv domain False w2))
                | (disk, None, w2) \<Rightarrow>
                    (case cloudinit_attach lv ce disk domain w2 of
                       (Some e, w3) \<Rightarrow> (Some (wrap ''cloudinit: '' e), snd (lv_DestroyFlags lv domain False w3))
                     | (None, w3) \<Rightarrow> (None, w3)))))"

end
