(* ===== verification/Storage_Props.thy ===== *)
theory Storage_Props
  imports Storage
begin

text \<open>
  What the operations of package \<open>storage\<close> guarantee about leases: which ones creating the
  storage of a machine takes, what a rollback gives back, what deleting releases, and which ones
  an update leaves. The proofs use only the contract of \<open>lease_store\<close>; the properties state the
  results for the lock directory.
\<close>

section \<open>Disks that need a lease\<close>

definition in_def :: "Vmdef option \<Rightarrow> Disk \<Rightarrow> bool" where
  "in_def other disk \<longleftrightarrow> (case other of None \<Rightarrow> False | Some o' \<Rightarrow> Has_path o' (disk_path disk))"

definition wanted :: "'w storage_env \<Rightarrow> Vmdef option \<Rightarrow> Disk list \<Rightarrow> string list" where
  "wanted env other ds = map (resource_name_of env)
     (filter (\<lambda>d. \<not> in_def other d \<and> storage_is_managed_disk d) ds)"

lemma wanted_Cons:
  "wanted env other (d # ds) =
     (if \<not> in_def other d \<and> storage_is_managed_disk d then [resource_name_of env d] else []) @ wanted env other ds"
  by (simp add: wanted_def)

definition take_leases :: "string list \<Rightarrow> string \<Rightarrow> (string \<Rightarrow> string option) \<Rightarrow> string \<Rightarrow> string option" where
  "take_leases ns u own r = (if r \<in> set ns then Some u else own r)"

lemma take_leases_simps:
  "take_leases [] u own = own" "take_leases (n # ns) u own = take_leases ns u (own(n \<mapsto> u))"
  by (auto simp: take_leases_def fun_eq_iff)

text \<open>What is left of an attempt to take some leases for a machine that was rolled back: the owners are what
  they were, but a lease that could not be released is with the machine.\<close>

definition given_back ::
  "(string \<Rightarrow> bool) \<Rightarrow> string list \<Rightarrow> string \<Rightarrow> (string \<Rightarrow> string option) \<Rightarrow> (string \<Rightarrow> string option) \<Rightarrow> bool" where
  "given_back releases ns u own own' \<longleftrightarrow>
     (\<forall>n. own' n = own n \<or> n \<in> set ns \<and> own n = None \<and> \<not> releases n \<and> own' n = Some u)"

lemma given_back_same [simp]: "given_back releases ns u own own"
  by (simp add: given_back_def)

section \<open>Single disks\<close>

lemma valid_path_outside: "Validate_disk_path p \<noteq> '''' \<Longrightarrow> \<not> has_prefix p ''/vms/lock'' \<and> p \<noteq> ''''"
  by (auto simp: Validate_disk_path_def DEV_DIR_def DS_DIR_def has_prefix_iff split: if_splits)

lemma raw_not_empty: "Validate_disk_path p = ''raw'' \<Longrightarrow> Validate_disk_path p \<noteq> ''''"
  by simp

lemma wipe_outside: "Validate_disk_path p = ''raw'' \<Longrightarrow> list_all outside (wipe_cmds p b)"
  using valid_path_outside[OF raw_not_empty, of p] by (auto simp: wipe_cmds_def outside_def has_prefix_def)

lemma nat_dec_no_slash: "CHR ''/'' \<notin> set (nat_dec n)"
  using nat_dec_digits[of n] is_digit_neq(3) by blast

lemma qemu_outside: "outside (qemu_img_args drv d)"
proof -
  have "CHR ''/'' \<notin> set (int_dec i @ ''M'')" for i using nat_dec_no_slash by (auto simp: int_dec_def)
  then have "\<not> has_prefix (int_dec i @ ''M'') ''/vms/lock''" for i
    unfolding has_prefix_iff by (metis append_Cons list.set_intros(1))
  then show ?thesis by (simp add: outside_def qemu_img_args_def)
qed

lemma Detect_same:
  "Detect env d w = (d', e) \<Longrightarrow> disk_path d' = disk_path d \<and> disk_device d' = disk_device d \<and> disk_man d' = disk_man d
     \<and> disk_bus d' = disk_bus d"
  by (auto simp: Detect_def storage_ops_map_def lun_detect_def vdisk_detect_def Let_def
      split: option.splits if_splits sum.splits prod.splits)

locale storage_client = lease_store owner valid_name "se_Create_resource env" "se_Run env"
  for owner :: "'w \<Rightarrow> string \<Rightarrow> string option" and valid_name and env :: "'w storage_env" +
  assumes mkdir_keeps: "owner (snd (se_MkdirAll env p w)) = owner w"
begin

lemma run_owner: "valid_name r \<Longrightarrow> list_all outside cmds \<Longrightarrow> se_Run env r u cmds nd w = (e, w') \<Longrightarrow> owner w' = owner w"
  using run_keeps[of r cmds u nd w] by simp

lemma lun_wipe_keeps:
  "valid_name r \<Longrightarrow> Validate_disk_path p = ''raw'' \<Longrightarrow> lun_wipe env p r u False w = (e, w') \<Longrightarrow> owner w' = owner w"
  using run_owner[OF _ wipe_outside]
  by (auto simp: lun_wipe_def Let_def split: sum.splits option.splits)

lemma create_disk_keeps:
  assumes "valid_name r" "storage_create_disk env d r u w = (e, w')"
  shows "owner w' = owner w"
proof -
  have "owner w' = owner w" if "vdisk_create env d r u w = (e, w')"
  proof -
    obtain m w1 where m: "se_MkdirAll env (filepath_Dir (disk_path d)) w = (m, w1)" by fastforce
    then have "owner w1 = owner w" using mkdir_keeps[of "filepath_Dir (disk_path d)" w] by simp
    moreover have "owner w2 = owner w1" if "se_Run env r u [qemu_img_args drv d] False w1 = (e', w2)" for drv e' w2
      using run_owner[OF assms(1) _ that] qemu_outside by simp
    ultimately show ?thesis
      using that m by (auto simp: vdisk_create_def Let_def split: if_splits option.splits)
  qed
  moreover have "owner w' = owner w" if "lun_create env d r u w = (e, w')"
    using that lun_wipe_keeps[OF assms(1)] by (auto simp: lun_create_def split: if_splits)
  ultimately show ?thesis
    using assms(2) by (auto simp: storage_create_disk_def storage_ops_map_def split: if_splits option.splits)
qed

text \<open>Deleting a disk releases its lease and no other, or fails.\<close>

definition released :: "string \<Rightarrow> string \<Rightarrow> 'w \<Rightarrow> gerr option \<Rightarrow> 'w \<Rightarrow> bool" where
  "released r u w e w' \<longleftrightarrow>
     (case e of None \<Rightarrow> owner w r = Some u \<and> owner w' = (owner w)(r := None)
      | Some x \<Rightarrow> owner w' = owner w \<or> owner w r = Some u \<and> owner w' = (owner w)(r := None))"

lemma run_released:
  "valid_name r \<Longrightarrow> list_all outside cmds \<Longrightarrow> se_Run env r u (cmds @ release_cmds r) nd w = (e, w') \<Longrightarrow>
     released r u w e w'"
  using release_ok[of r cmds u nd w w'] release_err[of r cmds u nd w _ w']
  by (auto simp: released_def split: option.splits)

lemma delete_resource_released:
  "valid_name r \<Longrightarrow> se_Delete_resource env r u w = (e, w') \<Longrightarrow> released r u w e w'"
  using run_released[of r "[]" u True w e w'] by (simp add: se_Delete_resource_def)

lemma failed_keeps: "released r u w (Some x) w"
  by (simp add: released_def)

lemma delete_disk_released:
  assumes "valid_name r" "storage_delete_disk env d r u w = (e, w')"
  shows "released r u w e w'"
proof -
  have "released r u w e w'" if "vdisk_delete env d r u w = (e, w')"
  proof (cases "Validate_disk_path (disk_path d) = ''''")
    case True
    with that show ?thesis by (auto simp: vdisk_delete_def failed_keeps)
  next
    case False
    then have "list_all outside [[''/usr/bin/rm'', ''--'', disk_path d]]"
      using valid_path_outside by (simp add: outside_def)
    from run_released[OF assms(1) this] that False show ?thesis by (simp add: vdisk_delete_def)
  qed
  moreover have "released r u w e w'" if "lun_delete env d r u w = (e, w')"
    using that run_released[OF assms(1) wipe_outside]
    by (auto simp: lun_delete_def lun_wipe_def Let_def failed_keeps split: if_splits sum.splits option.splits)
  ultimately show ?thesis
    using assms(2) by (auto simp: storage_delete_disk_def storage_ops_map_def failed_keeps split: if_splits option.splits)
qed

section \<open>The loops\<close>

lemma create_loop_owner:
  assumes "create_loop env old u i ds created w = (ds', created', e, w')"
    and "list_all valid_name (wanted env old ds)"
  shows "\<exists>new rest. created' = created @ new \<and> wanted env old ds = map snd new @ rest \<and> (e = None \<longrightarrow> rest = []) \<and>
     distinct (map snd new) \<and> (\<forall>r\<in>set (map snd new). owner w r = None) \<and>
     owner w' = take_leases (map snd new) u (owner w)"
  using assms
proof (induction ds arbitrary: i created w ds')
  case Nil
  then show ?case by (auto simp: wanted_def take_leases_simps)
next
  case (Cons d ds)
  let ?name = "resource_name_of env d" and ?managed = "storage_is_managed_disk d"
  show ?case
  proof (cases "in_def old d")
    case True
    then obtain ds'' where "create_loop env old u (i + 1) ds created w = (ds'', created', e, w')"
      using Cons.prems(1) by (auto simp: in_def_def split: prod.splits option.splits)
    moreover have "wanted env old (d # ds) = wanted env old ds" using True by (simp add: wanted_Cons)
    ultimately show ?thesis using Cons.IH[of "i + 1" created w ds''] Cons.prems(2) by simp
  next
    case False
    then have nin: "\<not> (case old of None \<Rightarrow> False | Some o' \<Rightarrow> Has_path o' (disk_path d))" by (simp add: in_def_def)
    obtain e1 w1 where one: "(if ?managed then se_Create_resource env ?name u w else (None, w)) = (e1, w1)" by fastforce
    show ?thesis
    proof (cases e1)
      case (Some x)
      then have res: "created' = created" "e = Some x" "w' = w1"
        using Cons.prems(1) nin one by (auto simp: Let_def)
      have "?managed" using one Some by (auto split: if_splits)
      then have "owner w1 = owner w"
        using one Some create_err[of ?name u w x w1] Cons.prems(2) False by (simp add: wanted_Cons)
      then show ?thesis using res
        by (intro exI[of _ "[]"] exI[of _ "wanted env old (d # ds)"]) (simp add: take_leases_simps)
    next
      case None
      let ?created1 = "if ?managed then created @ [(i, ?name)] else created"
      have own1: "?managed \<Longrightarrow> valid_name ?name \<and> owner w ?name = None \<and> owner w1 = (owner w)(?name \<mapsto> u)"
        using one None create_ok[of ?name u w w1] Cons.prems(2) False by (simp add: wanted_Cons)
      have own2: "\<not> ?managed \<Longrightarrow> w1 = w" using one by simp
      obtain d' e2 w2 where two: "(if ?managed \<and> disk_prov d \<noteq> DISK_PROV_NONE
           then (case storage_create_disk env d ?name u w1 of (e, w2) \<Rightarrow> (d, e, w2))
           else (case Detect env d w1 of (disk', e) \<Rightarrow> (disk', e, w1))) = (d', e2, w2)" by (metis prod_cases3)
      have own3: "owner w2 = owner w1"
        using two own1 create_disk_keeps[of ?name d u w1] by (auto split: if_splits prod.splits)
      have head: "?managed \<Longrightarrow> owner w2 = (owner w)(?name \<mapsto> u)" "\<not> ?managed \<Longrightarrow> owner w2 = owner w"
        using own1 own2 own3 by auto
      have wants: "wanted env old (d # ds) = (if ?managed then [?name] else []) @ wanted env old ds"
        using False by (simp add: wanted_Cons)
      show ?thesis
      proof (cases e2)
        case (Some x)
        then have "created' = ?created1" "e = Some x" "w' = w2"
          using Cons.prems(1) nin one None two by (auto simp: Let_def)
        then show ?thesis
          using head own1 wants
          by (intro exI[of _ "if ?managed then [(i, ?name)] else []"] exI[of _ "wanted env old ds"])
             (auto simp: take_leases_simps)
      next
        case None2: None
        obtain ds'' where "create_loop env old u (i + 1) ds ?created1 w2 = (ds'', created', e, w')"
          using Cons.prems(1) nin one None two None2 by (auto simp: Let_def split: prod.splits)
        from Cons.IH[OF this] Cons.prems(2) wants obtain new rest
          where new: "created' = ?created1 @ new" "wanted env old ds = map snd new @ rest" "e = None \<longrightarrow> rest = []"
            "distinct (map snd new)" "\<forall>r\<in>set (map snd new). owner w2 r = None"
            "owner w' = take_leases (map snd new) u (owner w2)" by auto
        show ?thesis
        proof (cases ?managed)
          case True
          have "?name \<notin> set (map snd new)" using new(5) head(1)[OF True] by auto
          moreover have "\<forall>r\<in>set (map snd new). owner w r = None"
            using new(5) unfolding head(1)[OF True] by (metis fun_upd_apply option.distinct(1))
          ultimately show ?thesis
            using new(1-4,6) head(1)[OF True] own1[OF True] True wants
            by (intro exI[of _ "(i, ?name) # new"] exI[of _ rest]) (simp add: take_leases_simps)
        next
          case unmanaged: False
          then show ?thesis
            using new head(2) wants by (intro exI[of _ new] exI[of _ rest]) simp
        qed
      qed
    qed
  qed
qed

lemma delete_loop_owner:
  assumes "delete_loop env new u del ds first w = (e, w')" "list_all valid_name (wanted env new ds)"
  shows "(\<forall>r. owner w' r = owner w r \<or> (r \<in> set (wanted env new ds) \<and> owner w r = Some u \<and> owner w' r = None)) \<and>
     (e = None \<longrightarrow> first = None \<and> (\<forall>r\<in>set (wanted env new ds). owner w r = Some u \<and> owner w' r = None)) \<and>
     (first \<noteq> None \<longrightarrow> e = first)"
  using assms
proof (induction ds arbitrary: first w)
  case Nil
  then show ?case by (simp add: wanted_def)
next
  case (Cons d ds)
  let ?name = "resource_name_of env d"
  show ?case
  proof (cases "\<not> in_def new d \<and> storage_is_managed_disk d")
    case False
    then have loop: "delete_loop env new u del ds first w = (e, w')"
      using Cons.prems(1) by (auto simp: in_def_def split: option.splits if_splits)
    have wants: "wanted env new (d # ds) = wanted env new ds" using False by (simp add: wanted_Cons)
    from Cons.prems(2) have "list_all valid_name (wanted env new ds)" unfolding wants .
    from Cons.IH[OF loop this] show ?thesis unfolding wants .
  next
    case True
    then have wants: "wanted env new (d # ds) = ?name # wanted env new ds" by (simp add: wanted_Cons)
    with Cons.prems(2) have valid: "valid_name ?name" by simp
    obtain e1 w1 where one: "(if del then storage_delete_disk env d ?name u w else se_Delete_resource env ?name u w) = (e1, w1)"
      by fastforce
    let ?first = "if first = None then e1 else first"
    have rest: "delete_loop env new u del ds ?first w1 = (e, w')"
      using Cons.prems(1) True one by (auto simp: in_def_def Let_def split: option.splits)
    have rel: "released ?name u w e1 w1"
      using one delete_disk_released[OF valid] delete_resource_released[OF valid] by (auto split: if_splits)
    have "list_all valid_name (wanted env new ds)" using Cons.prems(2) wants by simp
    note ih = Cons.IH[OF rest this]
    note ih1 = ih[THEN conjunct1, rule_format] and ih2 = ih[THEN conjunct2, THEN conjunct1, rule_format]
      and ih3 = ih[THEN conjunct2, THEN conjunct2, rule_format]
    have step: "owner w1 = owner w \<or> owner w ?name = Some u \<and> owner w1 = (owner w)(?name := None)"
      using rel by (auto simp: released_def split: option.splits)
    have a: "owner w' r = owner w r \<or> (r \<in> set (wanted env new (d # ds)) \<and> owner w r = Some u \<and> owner w' r = None)" for r
      using ih1[of r] step unfolding wants by (auto split: if_splits)
    have b: "first = None \<and> (\<forall>r\<in>set (wanted env new (d # ds)). owner w r = Some u \<and> owner w' r = None)" if "e = None"
    proof -
      from ih2[OF that, THEN conjunct1] have "e1 = None" "first = None" by (simp_all split: if_splits)
      with rel have own: "owner w ?name = Some u" "owner w1 = (owner w)(?name := None)" by (simp_all add: released_def)
      have "owner w' ?name = None" using ih1[of ?name] own by auto
      moreover have "owner w r = Some u" if "owner w1 r = Some u" for r
        using that own by (auto split: if_splits)
      ultimately show ?thesis
        using ih2[OF that, THEN conjunct2] own(1) \<open>first = None\<close> unfolding wants by simp
    qed
    have c: "e = first" if "first \<noteq> None"
      using ih3 that by (cases first) simp_all
    show ?thesis by (rule conjI[OF allI[of _, OF a] conjI[OF impI[OF b] impI[OF c]]])
  qed
qed

text \<open>Giving back what was taken.\<close>

lemma Rollback_owner:
  assumes "list_all valid_name (map snd cs)"
  shows "owner (Rollback env cs u w) r = owner w r \<or>
     (r \<in> set (map snd cs) \<and> owner w r = Some u \<and> owner (Rollback env cs u w) r = None)"
  using assms
proof (induction cs arbitrary: w)
  case (Cons c cs)
  obtain i name where c: "c = (i, name)" by fastforce
  obtain e1 w1 where one: "se_Delete_resource env name u w = (e1, w1)" by fastforce
  from delete_resource_released[OF _ one] Cons.prems c
  have "owner w1 = owner w \<or> owner w name = Some u \<and> owner w1 = (owner w)(name := None)"
    by (auto simp: released_def split: option.splits)
  with Cons.IH[of w1] Cons.prems show ?case by (auto simp: c one split: if_splits)
qed simp

end

text \<open>A release of a lease one holds takes it away or not; \<open>releases\<close> tells of which names. A rollback
  gives back what it can and leaves the other leases with the machine.\<close>

locale storage_rollback = storage_client owner valid_name env
  for owner :: "'w \<Rightarrow> string \<Rightarrow> string option" and valid_name and env :: "'w storage_env" +
  fixes releases :: "string \<Rightarrow> bool"
  assumes release_held: "valid_name r \<Longrightarrow> owner w r = Some u \<Longrightarrow>
    owner (snd (se_Run env r u (release_cmds r) nd w)) = (if releases r then (owner w)(r := None) else owner w)"
begin

lemma Rollback_all:
  assumes "list_all valid_name (map snd cs)" "distinct (map snd cs)" "\<forall>r\<in>set (map snd cs). owner w r = Some u"
  shows "owner (Rollback env cs u w) = (\<lambda>r. if r \<in> set (map snd cs) \<and> releases r then None else owner w r)"
  using assms
proof (induction cs arbitrary: w)
  case (Cons c cs)
  obtain i name where c: "c = (i, name)" by fastforce
  let ?w1 = "snd (se_Delete_resource env name u w)"
  have own: "owner ?w1 = (if releases name then (owner w)(name := None) else owner w)"
    using release_held[of name w u True] Cons.prems(1,3) by (simp add: c se_Delete_resource_def)
  have "\<forall>r\<in>set (map snd cs). owner ?w1 r = Some u"
    using Cons.prems(2,3) unfolding own by (auto simp: c)
  with Cons.prems have "owner (Rollback env cs u ?w1) = (\<lambda>r. if r \<in> set (map snd cs) \<and> releases r then None else owner ?w1 r)"
    by (intro Cons.IH) simp_all
  then show ?case unfolding own by (auto simp: c fun_eq_iff)
qed simp

lemma Create_effect:
  assumes "storage_Create env vm old u w = (vm', created, e, w')" "list_all valid_name (wanted env old (Disks vm))"
  obtains rest where "wanted env old (Disks vm) = map snd created @ rest" "e = None \<Longrightarrow> rest = []"
    "distinct (map snd created)" "\<forall>r\<in>set (map snd created). owner w r = None"
    "owner w' = take_leases (map snd created) u (owner w)"
proof -
  obtain ds' where "create_loop env old u 0 (Disks vm) [] w = (ds', created, e, w')"
    using assms(1) by (auto simp: storage_Create_def split: prod.splits)
  from create_loop_owner[OF this assms(2)] that show thesis by auto
qed

lemma Create_rolled_back:
  assumes c: "storage_Create env vm old u w = (vm', created, e, w')" "list_all valid_name (wanted env old (Disks vm))"
    and kept: "owner w2 = owner w'"
  shows "owner (Rollback env created u w2) = take_leases (filter (\<lambda>r. \<not> releases r) (map snd created)) u (owner w)"
proof -
  obtain rest where new: "wanted env old (Disks vm) = map snd created @ rest" "distinct (map snd created)"
    "\<forall>r\<in>set (map snd created). owner w r = None" "owner w' = take_leases (map snd created) u (owner w)"
    using Create_effect[OF c] by metis
  have "list_all valid_name (map snd created)" using c(2) by (simp add: new(1))
  from Rollback_all[OF this new(2), of w2 u] show ?thesis
    using new(3,4) kept by (auto simp: take_leases_def fun_eq_iff)
qed

lemma Create_given_back:
  assumes c: "storage_Create env vm old u w = (vm', created, e, w')" "list_all valid_name (wanted env old (Disks vm))"
    and kept: "owner w2 = owner w'"
  shows "given_back releases (wanted env old (Disks vm)) u (owner w) (owner (Rollback env created u w2))"
proof -
  obtain rest where new: "wanted env old (Disks vm) = map snd created @ rest" "\<forall>r\<in>set (map snd created). owner w r = None"
    using Create_effect[OF c] by metis
  then show ?thesis by (auto simp: given_back_def Create_rolled_back[OF c kept] take_leases_def)
qed

end

section \<open>On the lock directory\<close>

text \<open>The calls of the package with the lock directory as the state: the model's own
  \<open>Create_resource\<close> and \<open>Run\<close>; what the other calls find does not depend on the leases.\<close>

record lock_world =
  lw_md5 :: "byte list \<Rightarrow> byte list"
  lw_faults :: "string \<Rightarrow> create_faults"
  lw_rnd :: "string \<Rightarrow> string"
  lw_spawn :: "string \<Rightarrow> bool"
  lw_ext :: "string list \<Rightarrow> bool"
  lw_mkdir :: "string \<Rightarrow> gerr option"
  lw_links :: "string \<Rightarrow> string result"
  lw_files :: "string \<Rightarrow> string result"
  lw_lstat :: "string \<Rightarrow> (i64 \<times> i64) result"
  lw_map :: "string \<Rightarrow> qmap list result"
  lw_getsize :: "string \<Rightarrow> u64 result"

definition lock_env :: "lock_world \<Rightarrow> lockdir storage_env" where
  "lock_env x =
     \<lparr>se_md5 = lw_md5 x, se_Create_resource = lock_create (lw_faults x) (lw_rnd x), se_Run = lock_run (lw_spawn x) (lw_ext x),
      se_MkdirAll = (\<lambda>p w. (lw_mkdir x p, w)), se_EvalSymlinks = (\<lambda>p w. lw_links x p),
      se_ReadFile = (\<lambda>p w. lw_files x p), se_Lstat = (\<lambda>p w. lw_lstat x p), se_qemu_map = (\<lambda>p w. lw_map x p),
      se_getsize = (\<lambda>p w. lw_getsize x p)\<rparr>"

interpretation lock_storage: storage_client lease_owner lease_name "lock_env x" for x
proof (rule storage_client.intro)
  show "lease_store lease_owner lease_name (se_Create_resource (lock_env x)) (se_Run (lock_env x))"
    unfolding lock_env_def by (simp add: lock.lease_store_axioms)
  show "storage_client_axioms lease_owner (lock_env x)"
    by unfold_locales (simp add: lock_env_def)
qed

definition frees :: "lock_world \<Rightarrow> string \<Rightarrow> bool" where
  "frees x r \<longleftrightarrow> removes (lw_spawn x) (lw_ext x) r"

interpretation lock_rollback: storage_rollback lease_owner lease_name "lock_env x" "frees x" for x
  by unfold_locales (simp add: lock_env_def lock_run_frees frees_def)

text \<open>The same calls in a world that has more than the lock directory.\<close>

definition beside :: "'d storage_env \<Rightarrow> ('d \<times> 'l) storage_env" where
  "beside env =
     \<lparr>se_md5 = se_md5 env, se_Create_resource = (\<lambda>r u (d, l). case se_Create_resource env r u d of (e, d') \<Rightarrow> (e, d', l)),
      se_Run = (\<lambda>r u c nd (d, l). case se_Run env r u c nd d of (e, d') \<Rightarrow> (e, d', l)),
      se_MkdirAll = (\<lambda>p (d, l). case se_MkdirAll env p d of (e, d') \<Rightarrow> (e, d', l)),
      se_EvalSymlinks = (\<lambda>p w. se_EvalSymlinks env p (fst w)), se_ReadFile = (\<lambda>p w. se_ReadFile env p (fst w)),
      se_Lstat = (\<lambda>p w. se_Lstat env p (fst w)), se_qemu_map = (\<lambda>p w. se_qemu_map env p (fst w)),
      se_getsize = (\<lambda>p w. se_getsize env p (fst w))\<rparr>"

interpretation beside_rollback: storage_rollback "\<lambda>w. lease_owner (fst w)" lease_name "beside (lock_env x)" "frees x" for x
proof unfold_locales
  fix r u nd cmds p e and w w' :: "lockdir \<times> 'l"
  obtain d l where w: "w = (d, l)" by fastforce
  obtain d' l' where w': "w' = (d', l')" by fastforce
  note un = beside_def w w'
  assume r: "lease_name r"
  show "se_Create_resource (beside (lock_env x)) r u w = (None, w') \<Longrightarrow>
      lease_owner (fst w) r = None \<and> lease_owner (fst w') = (lease_owner (fst w))(r \<mapsto> u)"
    using lock_storage.create_ok[OF r, of x u d d'] by (simp add: un split: prod.splits)
  show "se_Create_resource (beside (lock_env x)) r u w = (Some e, w') \<Longrightarrow> lease_owner (fst w') = lease_owner (fst w)"
    using lock_storage.create_err[OF r, of x u d e d'] by (simp add: un split: prod.splits)
  show "lease_owner (fst w) r = Some u \<Longrightarrow>
      lease_owner (fst (snd (se_Run (beside (lock_env x)) r u (release_cmds r) nd w))) =
        (if frees x r then (lease_owner (fst w))(r := None) else lease_owner (fst w))"
    using lock_rollback.release_held[OF r, of d u x nd] by (auto simp: un split: prod.splits)
  assume cmds: "list_all outside cmds"
  show "lease_owner (fst (snd (se_Run (beside (lock_env x)) r u cmds nd w))) = lease_owner (fst w)"
    using lock_storage.run_keeps[OF r cmds, of x u nd d] by (auto simp: un split: prod.splits)
  show "se_Run (beside (lock_env x)) r u (cmds @ release_cmds r) nd w = (None, w') \<Longrightarrow>
      lease_owner (fst w) r = Some u \<and> lease_owner (fst w') = (lease_owner (fst w))(r := None)"
    using lock_storage.release_ok[OF r cmds, of x u nd d d'] by (simp add: un split: prod.splits)
  show "se_Run (beside (lock_env x)) r u (cmds @ release_cmds r) nd w = (Some e, w') \<Longrightarrow>
      lease_owner (fst w') = lease_owner (fst w) \<or>
      lease_owner (fst w) r = Some u \<and> lease_owner (fst w') = (lease_owner (fst w))(r := None)"
    using lock_storage.release_err[OF r cmds, of x u nd d e d'] by (simp add: un split: prod.splits)
next
  fix p and w :: "lockdir \<times> 'l"
  show "lease_owner (fst (snd (se_MkdirAll (beside (lock_env x)) p w))) = lease_owner (fst w)"
    using lock_storage.mkdir_keeps[of x p "fst w"] by (cases w) (auto simp: beside_def split: prod.splits)
qed

text \<open>\<open>storage.Create\<close> takes leases in the order of the disks: on success exactly those of the
  managed disks that are not in the old definition, on failure a part of them. None of them had
  an owner, no other lease changes, and the list it returns names exactly the leases taken.\<close>

theorem Create_leases:
  assumes "storage_Create (lock_env x) vm old u d = (vm', created, e, d')"
    and "list_all lease_name (wanted (lock_env x) old (Disks vm))"
  shows "(\<exists>rest. wanted (lock_env x) old (Disks vm) = map snd created @ rest \<and> (e = None \<longrightarrow> rest = [])) \<and>
     distinct (map snd created) \<and>
     lease_owner d' = take_leases (map snd created) u (lease_owner d) \<and>
     (\<forall>r\<in>set (map snd created). lease_owner d r = None)"
proof -
  obtain ds' where "create_loop (lock_env x) old u 0 (Disks vm) [] d = (ds', created, e, d')"
    using assms(1) by (auto simp: storage_Create_def split: prod.splits)
  from lock_storage.create_loop_owner[OF this assms(2)] show ?thesis by auto
qed

text \<open>After a failed \<open>Create\<close>, \<open>Rollback\<close> brings every lease back to the owner it had, but for those it
  cannot release, which stay with the machine.\<close>

theorem Rollback_restores:
  assumes "storage_Create (lock_env x) vm old u d = (vm', created, e, d')"
    and "list_all lease_name (wanted (lock_env x) old (Disks vm))"
  shows "lease_owner (Rollback (lock_env x) created u d') =
    take_leases (filter (\<lambda>r. \<not> frees x r) (map snd created)) u (lease_owner d)"
  using assms by (rule lock_rollback.Create_rolled_back) simp

text \<open>\<open>storage.Delete\<close> releases leases of the machine itself only, and only of managed disks that
  the new definition does not have; when it reports success it released all of those.\<close>

theorem Delete_leases:
  assumes "storage_Delete (lock_env x) vm new u del d = (e, d')"
    and "list_all lease_name (wanted (lock_env x) new (Disks vm))"
  shows "(lease_owner d' r = lease_owner d r \<or>
      (r \<in> set (wanted (lock_env x) new (Disks vm)) \<and> lease_owner d r = Some u \<and> lease_owner d' r = None)) \<and>
     (e = None \<and> r \<in> set (wanted (lock_env x) new (Disks vm)) \<longrightarrow>
        lease_owner d r = Some u \<and> lease_owner d' r = None)"
proof -
  from assms(1) have "delete_loop (lock_env x) new u del (Disks vm) None d = (e, d')"
    by (simp add: storage_Delete_def)
  note loop = lock_storage.delete_loop_owner[OF this assms(2)]
  show ?thesis using loop[THEN conjunct1, rule_format, of r] loop[THEN conjunct2, THEN conjunct1] by blast
qed

section \<open>Updates\<close>

lemma set_wanted:
  "r \<in> set (wanted env other ds) \<longleftrightarrow>
     (\<exists>a\<in>set ds. \<not> in_def other a \<and> storage_is_managed_disk a \<and> resource_name_of env a = r)"
  by (auto simp: wanted_def)

lemma wanted_all:
  "list_all P (wanted env other ds) \<longleftrightarrow>
     (\<forall>a\<in>set ds. \<not> in_def other a \<and> storage_is_managed_disk a \<longrightarrow> P (resource_name_of env a))"
  by (auto simp: wanted_def list_all_iff)

lemma wanted_valid:
  "list_all P (wanted env None ds) \<Longrightarrow> list_all P (wanted env other ds)"
  by (auto simp: wanted_def list_all_iff in_def_def)

lemma name_of_same: "disk_path a = disk_path b \<Longrightarrow> disk_device a = disk_device b \<Longrightarrow>
    resource_name_of env a = resource_name_of env b"
  by (simp add: resource_name_of_def)

lemma create_loop_paths: "map disk_path (fst (create_loop env old u i ds created w)) = map disk_path ds"
proof (induction ds arbitrary: i created w)
  case (Cons d ds)
  have path: "Detect env d w1 = (d', e) \<Longrightarrow> disk_path d' = disk_path d" for w1 d' e
    by (rule Detect_same[THEN conjunct1])
  have "map disk_path ds1 = map disk_path ds" if "create_loop env old u j ds c w1 = (ds1, r)" for j c w1 ds1 r
    using Cons.IH[of j c w1] that by simp
  then show ?case by (auto simp: Let_def path split: prod.splits option.splits)
qed simp

lemma storage_Create_paths:
  assumes "storage_Create env vm old u w = (vm', r)"
  shows "map disk_path (Disks vm') = map disk_path (Disks vm)"
proof -
  obtain ds where "create_loop env old u 0 (Disks vm) [] w = (ds, r)" "vm' = set_disks ds vm"
    using assms by (auto simp: storage_Create_def split: prod.splits)
  moreover have "map disk_path ds = map disk_path (Disks vm)"
    using create_loop_paths[of env old u 0 "Disks vm" "[]" w] calculation(1) by simp
  ultimately show ?thesis by (cases ds) (simp_all add: set_disks_def Disks_def)
qed

text \<open>The names that an update takes and those it gives back, for definitions that agree on the disks they
  share, make up the names of the new definition.\<close>

lemma wanted_None: "r \<in> set (wanted env None ds) \<longleftrightarrow> (\<exists>a\<in>set ds. storage_is_managed_disk a \<and> resource_name_of env a = r)"
  by (simp add: set_wanted in_def_def)

lemma wanted_Some: "r \<in> set (wanted env (Some v) ds) \<longleftrightarrow>
    (\<exists>a\<in>set ds. \<not> Has_path v (disk_path a) \<and> storage_is_managed_disk a \<and> resource_name_of env a = r)"
  by (simp add: set_wanted in_def_def)

lemma shared_disk:
  assumes "\<forall>a\<in>set (Disks vm). \<forall>b\<in>set (Disks old). disk_path a = disk_path b \<longrightarrow> disk_device a = disk_device b \<and> disk_man a = disk_man b"
    and "a \<in> set (Disks vm)" "b \<in> set (Disks old)" "disk_path a = disk_path b"
  shows "storage_is_managed_disk a \<longleftrightarrow> storage_is_managed_disk b" "resource_name_of env a = resource_name_of env b"
  using assms name_of_same[of a b env] by (simp_all add: storage_is_managed_disk_def)

lemma update_names:
  assumes same: "\<forall>a\<in>set (Disks vm). \<forall>b\<in>set (Disks old). disk_path a = disk_path b \<longrightarrow>
      disk_device a = disk_device b \<and> disk_man a = disk_man b"
    and names: "\<forall>a\<in>set (Disks vm). \<forall>b\<in>set (Disks old). resource_name_of env a = resource_name_of env b \<longrightarrow> disk_path a = disk_path b"
  shows "r \<in> set (wanted env None (Disks vm)) \<longleftrightarrow>
    (r \<in> set (wanted env (Some old) (Disks vm)) \<or> r \<in> set (wanted env None (Disks old))) \<and> r \<notin> set (wanted env (Some vm) (Disks old))"
    (is "?N \<longleftrightarrow> (?new \<or> ?old) \<and> \<not> ?gone")
proof (intro iffI conjI)
  assume ?N
  then obtain a where a: "a \<in> set (Disks vm)" "storage_is_managed_disk a" "resource_name_of env a = r" by (auto simp: wanted_None)
  show "?new \<or> ?old"
  proof (cases "Has_path old (disk_path a)")
    case True
    then obtain b where b: "b \<in> set (Disks old)" "disk_path a = disk_path b" by (auto simp: Has_path_iff)
    from shared_disk(1)[OF same a(1) b] shared_disk(2)[OF same a(1) b, of env] a(2,3)
    have "storage_is_managed_disk b" "resource_name_of env b = r" by simp_all
    with b(1) show ?thesis unfolding wanted_None by blast
  qed (use a in \<open>auto simp: wanted_Some\<close>)
  show "\<not> ?gone"
    using a(1,3) names unfolding wanted_Some Has_path_iff by (metis image_eqI)
next
  assume "(?new \<or> ?old) \<and> \<not> ?gone"
  then consider ?new | b where "b \<in> set (Disks old)" "storage_is_managed_disk b" "resource_name_of env b = r" "Has_path vm (disk_path b)"
    unfolding wanted_Some wanted_None by blast
  then show ?N
  proof cases
    case 2
    then obtain a where a: "a \<in> set (Disks vm)" "disk_path a = disk_path b" by (auto simp: Has_path_iff)
    from shared_disk(1)[OF same a(1) 2(1) a(2)] shared_disk(2)[OF same a(1) 2(1) a(2), of env] 2(2,3)
    have "storage_is_managed_disk a" "resource_name_of env a = r" by simp_all
    with a(1) show ?thesis unfolding wanted_None by blast
  qed (auto simp: wanted_Some wanted_None)
qed


text \<open>An update does not take a lease for a managed disk whose path was in the old definition
  as an unmanaged disk, although the domain of the new definition refers to that lease.\<close>

theorem update_skips_lease:
  assumes "storage_Create (lock_env x) vm (Some old) u d = (vm1, created, None, d1)"
    and "list_all lease_name (wanted (lock_env x) None (Disks vm))"
    and "a \<in> set (Disks vm)" "storage_is_managed_disk a" "Has_path old (disk_path a)"
    and "\<forall>b\<in>set (Disks vm). resource_name_of (lock_env x) b = resource_name_of (lock_env x) a \<longrightarrow> disk_path b = disk_path a"
    and "lease_owner d (resource_name_of (lock_env x) a) = None"
  shows "lease_owner d1 (resource_name_of (lock_env x) a) = None"
proof -
  let ?r = "resource_name_of (lock_env x) a"
  have valid: "list_all lease_name (wanted (lock_env x) (Some old) (Disks vm))" using assms(2) by (rule wanted_valid)
  obtain ds' where "create_loop (lock_env x) (Some old) u 0 (Disks vm) [] d = (ds', created, None, d1)"
    using assms(1) by (auto simp: storage_Create_def split: prod.splits)
  from lock_storage.create_loop_owner[OF this valid]
  have "lease_owner d1 = take_leases (wanted (lock_env x) (Some old) (Disks vm)) u (lease_owner d)" by auto
  moreover have "?r \<notin> set (wanted (lock_env x) (Some old) (Disks vm))"
    using assms(5,6) by (auto simp: set_wanted in_def_def)
  ultimately show ?thesis using assms(7) by (simp add: take_leases_def)
qed

text \<open>A managed CDROM has no operation that deletes it.\<close>

lemma cdrom_no_delete: "disk_device d = DEVICE_CDROM \<Longrightarrow>
    storage_delete_disk env d r u w = (Some (Msg ''storage_delete: invalid disk device''), w)"
  by (simp add: storage_delete_disk_def storage_ops_map_def)

text \<open>Deleting a machine with its storage never releases the lease of a managed CDROM and
  reports an error, while deleting it without its storage releases that lease.\<close>

theorem cdrom_lease_leaks:
  assumes "vm_disks vm = []" "storage_is_managed_disk (vm_osdisk vm)" "disk_device (vm_osdisk vm) = DEVICE_CDROM"
    and "lease_name (resource_name_of (lock_env x) (vm_osdisk vm))"
    and "lease_owner d (resource_name_of (lock_env x) (vm_osdisk vm)) = Some u"
    and "frees x (resource_name_of (lock_env x) (vm_osdisk vm))"
    and "lw_ext x (rmdir_lease (resource_name_of (lock_env x) (vm_osdisk vm)))"
  shows "storage_Delete (lock_env x) vm None u True d = (Some (Msg ''storage_delete: invalid disk device''), d) \<and>
     (\<exists>d'. storage_Delete (lock_env x) vm None u False d = (None, d') \<and>
        lease_owner d' (resource_name_of (lock_env x) (vm_osdisk vm)) = None)"
proof -
  let ?r = "resource_name_of (lock_env x) (vm_osdisk vm)"
  have "d ?r = Some (Some u)" using assms(4,5) by (simp add: lease_owner_Some)
  then have "se_Delete_resource (lock_env x) ?r u d = (None, d(?r := None))"
    using lock_run_release[OF assms(4), of "[]" "lw_spawn x" "lw_ext x" u True d] assms(6,7)
    by (simp add: se_Delete_resource_def lock_env_def frees_def failed_unless_def)
  moreover have "lease_owner (d(?r := None)) ?r = None" using assms(4) by (simp add: lease_owner_drop)
  ultimately show ?thesis
    using assms(1-3) by (simp add: storage_Delete_def Disks_def cdrom_no_delete Let_def)
qed

section \<open>Witnesses\<close>

definition sample_world :: lock_world where
  "sample_world = \<lparr>lw_md5 = (\<lambda>bs. replicate 15 0 @ [word_of_nat (length bs)]), lw_faults = (\<lambda>_. no_create_faults),
     lw_rnd = (\<lambda>_. ''1''), lw_spawn = (\<lambda>_. True), lw_ext = (\<lambda>_. True), lw_mkdir = (\<lambda>_. None), lw_links = (\<lambda>p. Inr p),
     lw_files = (\<lambda>p. Inr ''0''), lw_lstat = (\<lambda>p. Inr (0, 1048576)), lw_map = (\<lambda>p. Inl NotExist),
     lw_getsize = (\<lambda>p. Inr 1048576)\<rparr>"

lemma sample_name: "lease_name (resource_name_of (lock_env sample_world) sample_disk)"
  by (simp add: resource_name_of_def lock_env_def sample_world_def sample_disk_def Get_resource_name_def hex_lease_name)

lemma sample_frees [simp]: "frees sample_world r" "lw_ext sample_world c"
  by (simp_all add: frees_def removes_def sample_world_def)

lemma sample_managed: "storage_is_managed_disk sample_disk"
  by (simp add: storage_is_managed_disk_def sample_disk_def)

lemma sample_Disks: "Disks (sample_vmdef 2 2) = [sample_disk]"
  by (simp add: Disks_def sample_vmdef_def)

lemma sample_wanted:
  "wanted (lock_env sample_world) None [sample_disk] = [resource_name_of (lock_env sample_world) sample_disk]"
  "wanted (lock_env sample_world) (Some (sample_vmdef 2 2)) [sample_disk] = []"
  by (simp_all add: wanted_def in_def_def sample_managed Has_path_iff sample_Disks)

text \<open>The calls of the sample world, kept folded so that names stay symbolic.\<close>

lemma sample_env:
  "se_Create_resource (lock_env sample_world) = lock_create (\<lambda>_. no_create_faults) (\<lambda>_. ''1'')"
  "se_Run (lock_env sample_world) = lock_run (\<lambda>_. True) (\<lambda>_. True)"
  "se_MkdirAll (lock_env sample_world) p w = (None, w)"
  by (simp_all add: lock_env_def sample_world_def)

lemma lock_create_free:
  "d r = None \<Longrightarrow>
     lock_create (\<lambda>_. no_create_faults) (\<lambda>_. rnd) r u d = (None, (d(r @ ''-tmp'' @ rnd := None))(r \<mapsto> Some u))"
  by (auto simp: lock_create_def Create_resource_def create_stat_def create_mkdir_def create_chmod_def create_init_def
      create_look_def create_exists_def create_rename_def no_create_faults_def Let_def fun_upd_twist split: option.splits)

lemma lock_run_outside:
  "lease_name r \<Longrightarrow> d r = Some (Some u) \<Longrightarrow> list_all outside cmds \<Longrightarrow> lock_run (\<lambda>_. True) (\<lambda>_. True) r u cmds nd d = (None, d)"
  using exec_cmds_outside[of r cmds "\<lambda>_. True" "[]" d] by (simp add: lock_run_owned list_all_iff failed_unless_def)

lemma sample_create:
  assumes "resource_name_of (lock_env sample_world) sample_disk = r" "d r = None"
  shows "storage_Create (lock_env sample_world) (sample_vmdef 2 2) None ''v'' d =
     (sample_vmdef 2 2, [(0, r)], None, (d(r @ ''-tmp1'' := None))(r \<mapsto> Some ''v''))"
proof -
  have r: "lease_name r" using sample_name assms(1) by simp
  have drv: "Validate_disk_path (disk_path sample_disk) = ''qcow2''" by code_simp
  have d: "disk_device sample_disk = DEVICE_DISK" "disk_prov sample_disk = DISK_PROV_THIN" by (simp_all add: sample_disk_def)
  have o1: "list_all outside [qemu_img_args ''qcow2'' sample_disk]" using qemu_outside by simp
  have "storage_create_disk (lock_env sample_world) sample_disk r ''v'' d1 = (None, d1)" if "d1 r = Some (Some ''v'')" for d1
    using lock_run_outside[of r d1 "''v''", OF r that o1]
    by (simp add: storage_create_disk_def storage_ops_map_def d vdisk_create_def Let_def drv sample_env)
  moreover have "set_disks [sample_disk] (sample_vmdef 2 2) = sample_vmdef 2 2" by (simp add: set_disks_def sample_vmdef_def)
  ultimately show ?thesis
    using lock_create_free[of d r "''1''" "''v''", OF assms(2)] assms(1)
    by (simp add: storage_Create_def sample_Disks sample_managed Let_def sample_env d)
qed

text \<open>The same in a world with more than the lock directory, also on an update that adds the disk.\<close>

lemma sample_create_beside:
  assumes "resource_name_of (lock_env sample_world) sample_disk = r" "d r = None" "\<not> in_def old sample_disk"
  shows "storage_Create (beside (lock_env sample_world)) (sample_vmdef 2 2) old u (d, l) =
     (sample_vmdef 2 2, [(0, r)], None, (d(r @ ''-tmp1'' := None))(r \<mapsto> Some u), l)"
proof -
  let ?env = "beside (lock_env sample_world) :: (lockdir \<times> 'a) storage_env"
  have r: "lease_name r" "resource_name_of ?env sample_disk = r"
    using sample_name assms(1) by (simp_all add: resource_name_of_def beside_def)
  have drv: "Validate_disk_path (disk_path sample_disk) = ''qcow2''" by code_simp
  have dv: "disk_device sample_disk = DEVICE_DISK" "disk_prov sample_disk = DISK_PROV_THIN" by (simp_all add: sample_disk_def)
  have o1: "list_all outside [qemu_img_args ''qcow2'' sample_disk]" using qemu_outside by simp
  have calls: "se_Create_resource ?env n u (e, l) = (case lock_create (\<lambda>_. no_create_faults) (\<lambda>_. ''1'') n u e of (x, e') \<Rightarrow> (x, e', l))"
    "se_Run ?env n u c nd (e, l) = (case lock_run (\<lambda>_. True) (\<lambda>_. True) n u c nd e of (x, e') \<Rightarrow> (x, e', l))"
    "se_MkdirAll ?env p (e, l) = (None, e, l)" for n e c nd p
    by (simp_all add: beside_def sample_env)
  let ?d = "(d(r @ ''-tmp1'' := None))(r \<mapsto> Some u)"
  have "storage_create_disk ?env sample_disk r u (?d, l) = (None, ?d, l)"
    using lock_run_outside[OF r(1) _ o1, of ?d u False]
    by (simp add: storage_create_disk_def storage_ops_map_def dv vdisk_create_def Let_def drv calls)
  moreover have "set_disks [sample_disk] (sample_vmdef 2 2) = sample_vmdef 2 2" by (simp add: set_disks_def sample_vmdef_def)
  moreover have "\<not> (case old of None \<Rightarrow> False | Some o' \<Rightarrow> Has_path o' (disk_path sample_disk))" using assms(3) by (simp add: in_def_def)
  ultimately show ?thesis
    using lock_create_free[of d r "''1''" u, OF assms(2)]
    by (simp add: storage_Create_def sample_Disks sample_managed Let_def calls dv r(2))
qed

text \<open>Creating the machine takes the lease of its disk; creating a second machine with the same disk
  fails, and the rollback leaves the lease with the first.\<close>

theorem Create_leases_witness:
  "\<exists>d'. storage_Create (lock_env sample_world) (sample_vmdef 2 2) None ''v'' Map.empty =
      (sample_vmdef 2 2, [(0, resource_name_of (lock_env sample_world) sample_disk)], None, d') \<and>
    lease_owner d' (resource_name_of (lock_env sample_world) sample_disk) = Some ''v''"
proof -
  have "(Map.empty :: lockdir) (resource_name_of (lock_env sample_world) sample_disk) = None" by simp
  note c = sample_create[OF refl this]
  have "list_all lease_name (wanted (lock_env sample_world) None (Disks (sample_vmdef 2 2)))"
    by (simp add: sample_Disks sample_wanted sample_name)
  from Create_leases[OF c this] c show ?thesis by (simp add: take_leases_def)
qed

definition taken_dir :: lockdir where
  "taken_dir = [resource_name_of (lock_env sample_world) sample_disk \<mapsto> Some ''v'']"

lemma taken_owner: "lease_owner taken_dir (resource_name_of (lock_env sample_world) sample_disk) = Some ''v''"
  by (simp add: lease_owner_Some sample_name taken_dir_def)

theorem Rollback_restores_witness:
  "\<exists>vm' created e d'. storage_Create (lock_env sample_world) (sample_vmdef 2 2) None ''w'' taken_dir = (vm', created, e, d') \<and>
     lease_owner (Rollback (lock_env sample_world) created ''w'' d') = lease_owner taken_dir"
proof -
  obtain vm' created e d' where c:
    "storage_Create (lock_env sample_world) (sample_vmdef 2 2) None ''w'' taken_dir = (vm', created, e, d')" by (metis prod_cases4)
  have "list_all lease_name (wanted (lock_env sample_world) None (Disks (sample_vmdef 2 2)))"
    by (simp add: sample_Disks sample_wanted sample_name)
  from Rollback_restores[OF c this] c show ?thesis by (auto simp: take_leases_simps)
qed

theorem Delete_leases_witness:
  "\<exists>e d'. storage_Delete (lock_env sample_world) (sample_vmdef 2 2) None ''w'' False taken_dir = (e, d') \<and>
     lease_owner d' (resource_name_of (lock_env sample_world) sample_disk) = Some ''v''"
proof -
  obtain e d' where c: "storage_Delete (lock_env sample_world) (sample_vmdef 2 2) None ''w'' False taken_dir = (e, d')" by fastforce
  have "list_all lease_name (wanted (lock_env sample_world) None (Disks (sample_vmdef 2 2)))"
    by (simp add: sample_Disks sample_wanted sample_name)
  from Delete_leases[OF c this, of "resource_name_of (lock_env sample_world) sample_disk"] c taken_owner show ?thesis by auto
qed

text \<open>An update that adds nothing keeps the lease.\<close>

lemma sample_update:
  "storage_Create (lock_env sample_world) (sample_vmdef 2 2) (Some (sample_vmdef 2 2)) ''v'' d = (sample_vmdef 2 2, [], None, d)"
  "storage_Delete (lock_env sample_world) (sample_vmdef 2 2) (Some (sample_vmdef 2 2)) ''v'' del d = (None, d)"
proof -
  have "set_disks [sample_disk] (sample_vmdef 2 2) = sample_vmdef 2 2" by (simp add: set_disks_def sample_vmdef_def)
  then show "storage_Create (lock_env sample_world) (sample_vmdef 2 2) (Some (sample_vmdef 2 2)) ''v'' d = (sample_vmdef 2 2, [], None, d)"
    by (simp add: storage_Create_def sample_Disks Has_path_iff)
  show "storage_Delete (lock_env sample_world) (sample_vmdef 2 2) (Some (sample_vmdef 2 2)) ''v'' del d = (None, d)"
    by (simp add: storage_Delete_def sample_Disks Has_path_iff)
qed

text \<open>An update that replaces the disk: the machine has the lease of the new disk and no longer that of the
  old one.\<close>

definition other_disk :: Disk where
  "other_disk = sample_disk\<lparr>disk_path := ''/vms/ds/other.qcow2''\<rparr>"

definition other_vmdef :: Vmdef where
  "other_vmdef = (sample_vmdef 2 2)\<lparr>vm_osdisk := other_disk\<rparr>"

lemma other_Disks: "Disks other_vmdef = [other_disk]"
  by (simp add: Disks_def other_vmdef_def sample_vmdef_def)

lemma other_managed: "storage_is_managed_disk other_disk"
  by (simp add: storage_is_managed_disk_def other_disk_def sample_disk_def)

lemma other_paths: "disk_path other_disk \<noteq> disk_path sample_disk"
  by (simp add: other_disk_def sample_disk_def)

lemma other_name: "lease_name (resource_name_of (lock_env sample_world) other_disk)"
  by (simp add: resource_name_of_def lock_env_def sample_world_def other_disk_def sample_disk_def Get_resource_name_def hex_lease_name)

lemma other_names: "resource_name_of (lock_env sample_world) other_disk \<noteq> resource_name_of (lock_env sample_world) sample_disk"
proof
  assume "resource_name_of (lock_env sample_world) other_disk = resource_name_of (lock_env sample_world) sample_disk"
  then show False
    by (simp add: resource_name_of_def lock_env_def sample_world_def other_disk_def sample_disk_def Get_resource_name_def
        DS_DIR_def trim_prefix_def has_prefix_def bytes_of_def del: replicate.simps) (drule hex_inj, simp)
qed

lemma other_created:
  assumes "resource_name_of (lock_env sample_world) other_disk = q" "d q = None"
  shows "storage_Create (lock_env sample_world) other_vmdef (Some (sample_vmdef 2 2)) ''v'' d =
     (other_vmdef, [(0, q)], None, (d(q @ ''-tmp1'' := None))(q \<mapsto> Some ''v''))"
proof -
  have q: "lease_name q" using other_name assms(1) by simp
  have drv: "Validate_disk_path (disk_path other_disk) = ''qcow2''" by code_simp
  have d: "disk_device other_disk = DEVICE_DISK" "disk_prov other_disk = DISK_PROV_THIN"
    by (simp_all add: other_disk_def sample_disk_def)
  have o1: "list_all outside [qemu_img_args ''qcow2'' other_disk]" using qemu_outside by simp
  have "storage_create_disk (lock_env sample_world) other_disk q ''v'' d1 = (None, d1)" if "d1 q = Some (Some ''v'')" for d1
    using lock_run_outside[of q d1 "''v''", OF q that o1]
    by (simp add: storage_create_disk_def storage_ops_map_def d vdisk_create_def Let_def drv sample_env)
  moreover have "set_disks [other_disk] other_vmdef = other_vmdef" by (simp add: set_disks_def other_vmdef_def sample_vmdef_def)
  ultimately show ?thesis
    using lock_create_free[of d q "''1''" "''v''", OF assms(2)] assms(1)
    by (simp add: storage_Create_def other_Disks sample_Disks Has_path_iff other_paths other_managed Let_def sample_env d)
qed

lemma other_deleted:
  assumes "resource_name_of (lock_env sample_world) sample_disk = r" "d r = Some (Some ''v'')"
  shows "storage_Delete (lock_env sample_world) (sample_vmdef 2 2) (Some other_vmdef) ''v'' False d = (None, d(r := None))"
proof -
  have r: "lease_name r" using sample_name assms(1) by simp
  have "se_Delete_resource (lock_env sample_world) r ''v'' d = (None, d(r := None))"
    using lock_run_release[OF r, of "[]" "\<lambda>_. True" "\<lambda>_. True" "''v''" True d] assms(2)
    by (simp add: se_Delete_resource_def sample_env removes_def failed_unless_def)
  then show ?thesis
    using other_paths assms(1) by (simp add: storage_Delete_def sample_Disks other_Disks Has_path_iff sample_managed Let_def)
qed


theorem update_skips_lease_witness:
  "lease_owner Map.empty (resource_name_of (lock_env sample_world) sample_disk) = None"
proof (rule update_skips_lease[OF sample_update(1)])
  show "list_all lease_name (wanted (lock_env sample_world) None (Disks (sample_vmdef 2 2)))"
    by (simp add: sample_Disks sample_wanted sample_name)
qed (simp_all add: sample_Disks sample_managed Has_path_iff lease_owner_def)

definition sample_cdrom :: Vmdef where
  "sample_cdrom = (sample_vmdef 2 2)\<lparr>vm_osdisk := sample_disk\<lparr>disk_device := DEVICE_CDROM, disk_bus := BUS_SATA\<rparr>\<rparr>"

theorem cdrom_lease_leaks_witness:
  "storage_Delete (lock_env sample_world) sample_cdrom None ''v'' True taken_dir =
     (Some (Msg ''storage_delete: invalid disk device''), taken_dir)"
proof -
  have same: "resource_name_of (lock_env sample_world) (vm_osdisk sample_cdrom) = resource_name_of (lock_env sample_world) sample_disk"
    by (simp add: resource_name_of_def sample_cdrom_def Get_resource_name_def sample_disk_def)
  show ?thesis
    using cdrom_lease_leaks[of sample_cdrom sample_world taken_dir "''v''"] taken_owner sample_name
    by (simp add: same) (simp add: sample_cdrom_def sample_vmdef_def storage_is_managed_disk_def sample_disk_def)
qed

end
