(* ===== verification/Cloudinit_Props.thy ===== *)
theory Cloudinit_Props
  imports Cloudinit Storage_Props
begin

text \<open>
  The lease of the seed image, on the lock directory: what making the image takes and gives back,
  and what the clean-up after the machine stopped removes.
\<close>

record cloud_world =
  cw_lock :: lock_world
  cw_tmp :: "string result"
  cw_write :: "string \<Rightarrow> string \<Rightarrow> gerr option"
  cw_iso :: "string list \<Rightarrow> (gerr \<times> string) option"
  cw_stat :: "gerr option"

text \<open>The lease file of a resource is there when its directory holds an owner block; looking for it may fail
  for another reason, \<open>cw_stat\<close>.\<close>

definition lock_stat :: "string \<Rightarrow> lockdir \<Rightarrow> gerr option" where
  "lock_stat p d = (case d (filepath_Base p) of Some (Some u) \<Rightarrow> None | _ \<Rightarrow> Some NotExist)"

definition cloud_lock_env :: "cloud_world \<Rightarrow> lockdir cloud_env" where
  "cloud_lock_env x =
     \<lparr>ce_storage = lock_env (cw_lock x), ce_MkdirTemp = (\<lambda>w. (cw_tmp x, w)), ce_WriteFile = (\<lambda>f c w. (cw_write x f c, w)),
      ce_Remove = (\<lambda>f w. w), ce_Stat = (\<lambda>p d. case cw_stat x of Some e \<Rightarrow> Some e | None \<Rightarrow> lock_stat p d), ce_xorrisofs = (\<lambda>args w. (cw_iso x args, w)),
      ce_lease_Marshal = (\<lambda>l. Inr ''''), ce_disk_Marshal = (\<lambda>d. Inr '''')\<rparr>"

definition seed_name :: "cloud_world \<Rightarrow> string \<Rightarrow> string" where
  "seed_name x uuid = resource_name_of (lock_env (cw_lock x)) (init_disk uuid)"

lemma lock_stat_path:
  assumes "lease_name r"
  shows "lock_stat (Get_resource_path r) d = (case d r of Some (Some u) \<Rightarrow> None | _ \<Rightarrow> Some NotExist)"
proof -
  have r: "CHR ''/'' \<notin> set r" "r \<noteq> []" using assms by (auto simp: lease_name_def plain_def)
  have path: "Get_resource_path r = (''/vms/lock/'' @ r) @ CHR ''/'' # r"
    by (simp add: Get_resource_path_def LOCK_DIR_def)
  have "\<forall>c\<in>set (rev r). c \<noteq> CHR ''/''" using r(1) by auto
  then have "takeWhile (\<lambda>c. c \<noteq> CHR ''/'') (rev r @ CHR ''/'' # x) = rev r" for x
    by (subst takeWhile_append2) simp_all
  moreover have "dropWhile (\<lambda>c. c = CHR ''/'') (rev r @ x) = rev r @ x" for x
    using r by (cases "rev r") auto
  ultimately have "filepath_Base (Get_resource_path r) = r"
    using r(2) unfolding path filepath_Base_def Let_def last_part_def by simp
  then show ?thesis by (simp add: lock_stat_def)
qed

lemma stage_file_pure: "snd (snd (stage_ci_file (cloud_lock_env x) files name content dir def d)) = d"
  by (simp add: stage_ci_file_def cloud_lock_env_def Let_def)

lemma stage_pure: "stage_files (cloud_lock_env x) opts dir uuid d = (files, e, d') \<Longrightarrow> d' = d"
  using stage_file_pure[of x]
  by (auto simp: stage_files_def split: option.splits prod.splits) (metis snd_conv)+

lemma remove_stage_pure: "remove_stage (cloud_lock_env x) dir files d = d"
proof -
  have "fold (ce_Remove (cloud_lock_env x)) files d = d" by (induction files) (simp_all add: cloud_lock_env_def)
  then show ?thesis by (simp add: remove_stage_def cloud_lock_env_def)
qed

lemma image_lease:
  assumes "lease_name (seed_name x uuid)" "make_image (cloud_lock_env x) (init_disk uuid) uuid files d = (disk, e, d')"
  shows "(e = None \<longrightarrow> lease_owner d (seed_name x uuid) = None \<and> lease_owner d' = (lease_owner d)(seed_name x uuid \<mapsto> uuid)) \<and>
     (e \<noteq> None \<longrightarrow> given_back (frees (cw_lock x)) [seed_name x uuid] uuid (lease_owner d) (lease_owner d'))"
proof -
  let ?r = "seed_name x uuid" and ?env = "lock_env (cw_lock x)"
  obtain e1 d1 where c: "se_Create_resource ?env ?r uuid d = (e1, d1)" by fastforce
  have env: "ce_storage (cloud_lock_env x) = ?env" by (simp add: cloud_lock_env_def)
  have build: "snd (build_iso (cloud_lock_env x) p files w) = w" for p w
    by (simp add: build_iso_def cloud_lock_env_def split: option.split prod.split)
  note run = assms(2)[unfolded make_image_def env Let_def seed_name_def[symmetric] c]
  show ?thesis
  proof (cases e1)
    case (Some y)
    with c have "lease_owner d1 = lease_owner d" using lock_storage.create_err[OF assms(1)] by blast
    then show ?thesis using run Some by auto
  next
    case None
    with c have own: "lease_owner d ?r = None" "lease_owner d1 = (lease_owner d)(?r \<mapsto> uuid)"
      using lock_storage.create_ok[OF assms(1)] by blast+
    obtain e2 where b: "build_iso (cloud_lock_env x) (disk_path (init_disk uuid)) files d1 = (e2, d1)"
      using build by (metis prod.collapse)
    show ?thesis
    proof (cases e2)
      case None
      then show ?thesis using run \<open>e1 = None\<close> b own by simp
    next
      case (Some y)
      have held: "lease_owner d1 ?r = Some uuid" unfolding own(2) by simp
      have e: "e = Some y" "d' = snd (se_Delete_resource ?env ?r uuid d1)" using run \<open>e1 = None\<close> b Some by simp_all
      have "lease_owner d' = (if frees (cw_lock x) ?r then (lease_owner d1)(?r := None) else lease_owner d1)"
        using lock_rollback.release_held[OF assms(1) held, of "cw_lock x" True] by (simp add: e(2) se_Delete_resource_def)
      then have "given_back (frees (cw_lock x)) [?r] uuid (lease_owner d) (lease_owner d')"
        using own(1) unfolding own(2) by (auto simp: given_back_def)
      with e(1) show ?thesis by simp
    qed
  qed
qed

lemma Create_disk_lease:
  assumes "lease_name (seed_name x uuid)"
  shows "case Create_disk (cloud_lock_env x) uuid opts d of (disk, e, d') \<Rightarrow>
      if e = None then lease_owner d (seed_name x uuid) = None \<and> lease_owner d' = (lease_owner d)(seed_name x uuid \<mapsto> uuid)
      else given_back (frees (cw_lock x)) [seed_name x uuid] uuid (lease_owner d) (lease_owner d')"
proof -
  obtain disk e d' where c: "Create_disk (cloud_lock_env x) uuid opts d = (disk, e, d')" by (metis prod_cases3)
  have mk: "snd (se_MkdirAll (ce_storage (cloud_lock_env x)) p w) = w" for p w
    by (simp add: cloud_lock_env_def lock_env_def)
  have tmp: "ce_MkdirTemp (cloud_lock_env x) w = (cw_tmp x, w)" for w by (simp add: cloud_lock_env_def)
  have "(e = None \<longrightarrow> lease_owner d (seed_name x uuid) = None \<and> lease_owner d' = (lease_owner d)(seed_name x uuid \<mapsto> uuid)) \<and>
      (e \<noteq> None \<longrightarrow> given_back (frees (cw_lock x)) [seed_name x uuid] uuid (lease_owner d) (lease_owner d'))"
  proof -
    obtain em where m: "se_MkdirAll (ce_storage (cloud_lock_env x)) (filepath_Dir (disk_path (init_disk uuid))) d = (em, d)"
      using mk by (metis prod.collapse)
    note run = c[unfolded Create_disk_def Let_def m tmp]
    show ?thesis
    proof (cases "Options_Validate opts = None \<and> em = None \<and> is_ok (cw_tmp x)")
      case False
      then show ?thesis using run by (auto simp: is_ok_iff split: option.splits sum.splits)
    next
      case True
      then obtain dir where ok: "Options_Validate opts = None" "em = None" "cw_tmp x = Inr dir" by (auto simp: is_ok_iff)
      obtain files es ds where s: "stage_files (cloud_lock_env x) opts dir uuid d = (files, es, ds)" by (metis prod_cases3)
      with stage_pure have "ds = d" by blast
      show ?thesis
      proof (cases es)
        case (Some y)
        then show ?thesis using run ok s \<open>ds = d\<close> by (auto simp: remove_stage_pure)
      next
        case None
        obtain disk4 e4 d4 where i: "make_image (cloud_lock_env x) (init_disk uuid) uuid files d = (disk4, e4, d4)" by (metis prod_cases3)
        then have "e = e4" "d' = d4" using run ok s \<open>ds = d\<close> None by (simp_all add: remove_stage_pure)
        with image_lease[OF assms i] show ?thesis by simp
      qed
    qed
  qed
  then show ?thesis unfolding c by auto
qed

lemma Delete_disk_lease:
  assumes "lease_name (seed_name x uuid)" "Delete_disk (cloud_lock_env x) uuid d = (e, d')"
  shows "if cw_stat x \<noteq> None then (e = None \<longleftrightarrow> cw_stat x = Some NotExist) \<and> d' = d
    else (case lease_owner d (seed_name x uuid) of
         None \<Rightarrow> e = None \<and> d' = d
       | Some u \<Rightarrow> if u \<noteq> uuid then e \<noteq> None \<and> d' = d
           else lease_owner d' = (if frees (cw_lock x) (seed_name x uuid) then (lease_owner d)(seed_name x uuid := None) else lease_owner d) \<and>
             (e = None \<longleftrightarrow> frees (cw_lock x) (seed_name x uuid) \<and> lw_ext (cw_lock x) (rmdir_lease (seed_name x uuid))))"
proof -
  let ?r = "seed_name x uuid" and ?lock = "cw_lock x"
  have env: "ce_storage (cloud_lock_env x) = lock_env ?lock"
    "ce_Stat (cloud_lock_env x) = (\<lambda>p d. case cw_stat x of Some e \<Rightarrow> Some e | None \<Rightarrow> lock_stat p d)"
    by (simp_all add: cloud_lock_env_def)
  note del = assms(2)[unfolded Delete_disk_def env Let_def seed_name_def[symmetric]]
  have run: "se_Delete_resource (lock_env ?lock) ?r uuid d =
      (if d ?r = Some (Some uuid) \<and> frees ?lock ?r
       then (failed_unless (lw_ext ?lock (rmdir_lease ?r)), d(?r := if lw_ext ?lock (rmdir_lease ?r) then None else Some None))
       else (failed_unless False, d))"
    using lock_run_release[OF assms(1), of "[]" "lw_spawn ?lock" "lw_ext ?lock" uuid True d]
    by (simp add: se_Delete_resource_def lock_env_def frees_def)
  show ?thesis
  proof (cases "cw_stat x")
    case (Some st)
    then show ?thesis using del by (auto split: if_splits)
  next
    case none: None
    show ?thesis
    proof (cases "lease_owner d ?r")
      case None
      then have "lock_stat (Get_resource_path ?r) d = Some NotExist"
        using lease_owner_None[OF assms(1), of d] by (auto simp: lock_stat_path[OF assms(1)] split: option.split)
      then show ?thesis using None none del by simp
    next
      case (Some u)
      then have d: "d ?r = Some (Some u)" using lease_owner_Some[OF assms(1)] by blast
      then have "lock_stat (Get_resource_path ?r) d = None" by (simp add: lock_stat_path[OF assms(1)])
      then show ?thesis using Some none d del lease_owner_drop[OF assms(1), of d]
        by (auto simp: run failed_unless_def split: if_splits)
    qed
  qed
qed


text \<open>A clean-up whose \<open>rm\<close> fails: the lease stays.\<close>

definition sample_cloud :: cloud_world where
  "sample_cloud = \<lparr>cw_lock = sample_world\<lparr>lw_ext := (\<lambda>c. hd c \<noteq> ''/usr/bin/rm'')\<rparr>, cw_tmp = Inr ''/tmp/virtx-ci-stage-1'',
     cw_write = (\<lambda>f c. None), cw_iso = (\<lambda>a. None), cw_stat = None\<rparr>"


end
