(* ===== verification/Domain.thy ===== *)
theory Domain
  imports Cloudinit Vmreg
begin

text \<open>
  \<open>hypervisor/domain.go\<close>: the operations on a domain, the record each leaves in the log of the
  domain, and the registry files of \<open>vmreg\<close> they keep in step with libvirt. The outside world \<open>w\<close>
  and the shared file system \<open>s\<close> are passed along; a fresh connection to libvirt per call either
  fails or gives the domain with the UUID.
\<close>

section \<open>Environment\<close>

record QemuMigrationInfo =
  qi_Status :: string
  qi_Transferred :: i64
  qi_Remaining :: i64
  qi_Total :: i64
  qi_Rate :: u32  \<comment> \<open>\<open>float32(Mbps / 8)\<close>, as bits\<close>

record 'w hv_env =
  he_lv :: "'w libvirt"
  he_oe :: oplog_env
  he_ce :: "'w cloud_env"
  he_now :: "'w \<Rightarrow> i64"
  he_machine :: string
  he_qemu_info :: "string \<Rightarrow> QemuMigrationInfo result"  \<comment> \<open>\<open>json.Unmarshal\<close>\<close>
  he_save :: "fs \<Rightarrow> save_faults \<times> string"  \<comment> \<open>what happens in \<open>Save\<close>, and its temporary name\<close>
  he_move :: "fs \<Rightarrow> fault \<times> sync_faults \<times> sync_faults"
  he_delete :: "fs \<Rightarrow> fault \<times> sync_faults"

definition lookup_domain :: "'w hv_env \<Rightarrow> string \<Rightarrow> 'w \<Rightarrow> LvDomain result" where
  "lookup_domain he uuid w =
     (case lv_NewConnect (he_lv he) LIBVIRT_URI w of
        Some e \<Rightarrow> Inl e
      | None \<Rightarrow> (case lv_Lookup (he_lv he) LIBVIRT_URI uuid w of
                  Some e \<Rightarrow> Inl e
                | None \<Rightarrow> Inr \<lparr>ld_conn = LIBVIRT_URI, ld_uuid = uuid\<rparr>))"

text \<open>Writing the log never stops an operation: \<open>_ = oplog_record(...)\<close>.\<close>

definition log_op :: "'w hv_env \<Rightarrow> LvDomain \<Rightarrow> Operation \<Rightarrow> OperationState \<Rightarrow> string \<Rightarrow> i64 \<Rightarrow> i64 \<Rightarrow> 'w \<Rightarrow> 'w" where
  "log_op he domain op state msg ts te w = snd (oplog_record (he_lv he) (he_oe he) domain op state msg ts te w)"

definition complete_op :: "'w hv_env \<Rightarrow> LvDomain \<Rightarrow> Operation \<Rightarrow> string \<Rightarrow> 'w \<Rightarrow> 'w" where
  "complete_op he domain op msg w = snd (oplog_complete (he_lv he) (he_oe he) (he_now he) domain op msg w)"

section \<open>Looking at a domain\<close>

definition runstate_of :: "DomainState \<Rightarrow> Vmrunstate" where
  "runstate_of state = (case state of
     DOMAIN_NOSTATE \<Rightarrow> RUNSTATE_NONE
   | DOMAIN_RUNNING \<Rightarrow> RUNSTATE_RUNNING
   | DOMAIN_BLOCKED \<Rightarrow> RUNSTATE_PAUSED
   | DOMAIN_PAUSED reason \<Rightarrow>
       (case reason of
          PAUSED_MIGRATION \<Rightarrow> RUNSTATE_MIGRATING
        | PAUSED_SHUTTING_DOWN \<Rightarrow> RUNSTATE_TERMINATING
        | PAUSED_CRASHED \<Rightarrow> RUNSTATE_CRASHED
        | PAUSED_STARTING_UP \<Rightarrow> RUNSTATE_STARTUP
        | PausedOther \<Rightarrow> RUNSTATE_PAUSED)
   | DOMAIN_SHUTDOWN \<Rightarrow> RUNSTATE_TERMINATING
   | DOMAIN_SHUTOFF reason \<Rightarrow>
       (case reason of
          SHUTOFF_CRASHED \<Rightarrow> RUNSTATE_CRASHED
        | SHUTOFF_MIGRATED \<Rightarrow> RUNSTATE_DELETED
        | SHUTOFF_DESTROYED \<Rightarrow> RUNSTATE_POWEROFF
        | SHUTOFF_SHUTDOWN \<Rightarrow> RUNSTATE_POWEROFF
        | ShutoffOther \<Rightarrow> RUNSTATE_POWEROFF)
   | DOMAIN_CRASHED \<Rightarrow> RUNSTATE_CRASHED
   | DOMAIN_PMSUSPENDED \<Rightarrow> RUNSTATE_PMSUSPENDED)"

text \<open>A domain that has shut down ends the shutdown operation in its log.\<close>

definition shutdown_seen :: "'w hv_env \<Rightarrow> LvDomain \<Rightarrow> DomainState \<Rightarrow> 'w \<Rightarrow> 'w" where
  "shutdown_seen he d state w =
     (if state = DOMAIN_SHUTOFF SHUTOFF_DESTROYED then complete_op he d OpVmShutdown ''forced shutdown'' w
      else if state = DOMAIN_SHUTOFF SHUTOFF_SHUTDOWN then complete_op he d OpVmShutdown ''graceful shutdown'' w
      else w)"

definition no_event :: VmEvent where
  "no_event = \<lparr>ve_uuid = '''', ve_host = '''', ve_runstate = RUNSTATE_NONE, ve_ts = 0\<rparr>"

definition get_domain_info :: "'w hv_env \<Rightarrow> LvDomain \<Rightarrow> 'w \<Rightarrow> (VmEvent \<times> string \<times> gerr option) \<times> 'w" where
  "get_domain_info he d w =
     (case lv_GetTitle (he_lv he) d w of
        Inl e \<Rightarrow> ((no_event, '''', Some e), w)
      | Inr name \<Rightarrow>
          (case lv_GetUUIDString (he_lv he) d w of
             Inl e \<Rightarrow> ((no_event, name, Some e), w)
           | Inr uuid \<Rightarrow>
               (case lv_GetState (he_lv he) d w of
                  Inl e \<Rightarrow> ((no_event\<lparr>ve_uuid := uuid\<rparr>, name, Some e), w)
                | Inr state \<Rightarrow>
                    ((\<lparr>ve_uuid = uuid, ve_host = he_machine he, ve_runstate = runstate_of state, ve_ts = 0\<rparr>,
                      name, None), shutdown_seen he d state w))))"

definition Dumpxml :: "'w hv_env \<Rightarrow> string \<Rightarrow> 'w \<Rightarrow> string result" where
  "Dumpxml he uuid w = rbind (lookup_domain he uuid w) (\<lambda>d. lv_GetXMLDesc (he_lv he) d False w)"

definition Log_domain :: "'w hv_env \<Rightarrow> string \<Rightarrow> 'w \<Rightarrow> OplogItem list result" where
  "Log_domain he uuid w = rbind (lookup_domain he uuid w) (\<lambda>d.
     case oplog_load_list (he_lv he) (he_oe he) d w of (items, Some e) \<Rightarrow> Inl e | (items, None) \<Rightarrow> Inr items)"

section \<open>Defining and deleting\<close>

text \<open>A registry file that cannot be written is only logged.\<close>

definition Define_domain :: "'w hv_env \<Rightarrow> string \<Rightarrow> string \<Rightarrow> 'w \<Rightarrow> fs \<Rightarrow> gerr option \<times> 'w \<times> fs" where
  "Define_domain he xml uuid w s =
     (case lv_NewConnect (he_lv he) LIBVIRT_URI w of
        Some e \<Rightarrow> (Some e, w, s)
      | None \<Rightarrow>
          (case lv_DomainDefineXML (he_lv he) LIBVIRT_URI xml w of
             (Inl e, w1) \<Rightarrow> (Some e, w1, s)
           | (Inr domain, w1) \<Rightarrow>
               (case lv_GetXMLDesc (he_lv he) domain True w1 of
                  Inl e \<Rightarrow> (Some e, w1, s)
                | Inr processed \<Rightarrow>
                    (case he_save he s of
                       (f, rnd) \<Rightarrow> (None, w1, fst (Save f rnd (he_machine he) uuid processed s))))))"

definition Delete_domain :: "'w hv_env \<Rightarrow> string \<Rightarrow> 'w \<Rightarrow> fs \<Rightarrow> gerr option \<times> 'w \<times> fs" where
  "Delete_domain he uuid w s =
     (case lookup_domain he uuid w of
        Inl e \<Rightarrow> (Some e, w, s)
      | Inr domain \<Rightarrow>
          (case lv_GetState (he_lv he) domain w of
             Inl e \<Rightarrow> (Some e, w, s)
           | Inr ds \<Rightarrow>
               if \<not> (case ds of DOMAIN_SHUTOFF reason \<Rightarrow> True | DOMAIN_CRASHED \<Rightarrow> True | _ \<Rightarrow> False)
               then (Some (Msg ''libvirt domain is not SHUTOFF or CRASHED''), w, s)
               else
                 (case lv_UndefineFlags (he_lv he) domain
                         [UNDEFINE_MANAGED_SAVE, UNDEFINE_SNAPSHOTS_METADATA, UNDEFINE_NVRAM,
                          UNDEFINE_CHECKPOINTS_METADATA] w of
                    (Some e, w1) \<Rightarrow> (Some e, w1, s)
                  | (None, w1) \<Rightarrow>
                      (case he_delete he s of
                         (f, sf) \<Rightarrow> (None, w1, fst (Delete f sf (he_machine he) uuid s))))))"

section \<open>Running and stopping\<close>

text \<open>Boot, pause and resume log that they start, act, and log how that ended.\<close>

definition logged_op ::
  "'w hv_env \<Rightarrow> LvDomain \<Rightarrow> Operation \<Rightarrow> ('w \<Rightarrow> gerr option \<times> 'w) \<Rightarrow> 'w \<Rightarrow> gerr option \<times> 'w" where
  "logged_op he domain op act w =
     (let started = he_now he w in
      case act (log_op he domain op OPERATION_STARTED '''' started 0 w) of
        (Some e, w2) \<Rightarrow> (Some e, log_op he domain op OPERATION_FAILED (error_text e) started (he_now he w2) w2)
      | (None, w2) \<Rightarrow> (None, log_op he domain op OPERATION_COMPLETED '''' started (he_now he w2) w2))"

definition Boot_domain :: "'w hv_env \<Rightarrow> string \<Rightarrow> CloudInitOption list \<Rightarrow> 'w \<Rightarrow> gerr option \<times> 'w" where
  "Boot_domain he uuid ci w =
     (case lookup_domain he uuid w of
        Inl e \<Rightarrow> (Some e, w)
      | Inr domain \<Rightarrow>
          logged_op he domain OpVmBoot
            (\<lambda>w1. if length ci > 0 then cloudinit_boot_domain (he_lv he) (he_ce he) uuid domain ci w1
                  else lv_Create (he_lv he) domain w1) w)"

definition Pause_domain :: "'w hv_env \<Rightarrow> string \<Rightarrow> 'w \<Rightarrow> gerr option \<times> 'w" where
  "Pause_domain he uuid w =
     (case lookup_domain he uuid w of
        Inl e \<Rightarrow> (Some e, w)
      | Inr domain \<Rightarrow> logged_op he domain OpVmPause (lv_Suspend (he_lv he) domain) w)"

definition Resume_domain :: "'w hv_env \<Rightarrow> string \<Rightarrow> 'w \<Rightarrow> gerr option \<times> 'w" where
  "Resume_domain he uuid w =
     (case lookup_domain he uuid w of
        Inl e \<Rightarrow> (Some e, w)
      | Inr domain \<Rightarrow> logged_op he domain OpVmResume (lv_Resume (he_lv he) domain) w)"

text \<open>The end of a shutdown is logged when it is seen.\<close>

definition Shutdown_domain :: "'w hv_env \<Rightarrow> string \<Rightarrow> i16 \<Rightarrow> 'w \<Rightarrow> gerr option \<times> 'w" where
  "Shutdown_domain he uuid force w =
     (case lookup_domain he uuid w of
        Inl e \<Rightarrow> (Some e, w)
      | Inr domain \<Rightarrow>
          (let started = he_now he w;
               msg = ''shutdown force='' @ int_dec (sint force) @ ''.'';
               w1 = log_op he domain OpVmShutdown OPERATION_STARTED msg started 0 w in
           case (if force = 0 then lv_Shutdown (he_lv he) domain w1
                 else if force = 1 then lv_DestroyFlags (he_lv he) domain True w1
                 else lv_DestroyFlags (he_lv he) domain False w1) of
             (Some e, w2) \<Rightarrow>
               (Some e, log_op he domain OpVmShutdown OPERATION_FAILED (msg @ '' '' @ error_text e) started (he_now he w2) w2)
           | (None, w2) \<Rightarrow> (None, w2)))"

section \<open>Migration\<close>

definition migrate_flags :: "bool \<Rightarrow> MigrateFlag list" where
  "migrate_flags live =
     (if live then [MIGRATE_LIVE, MIGRATE_PERSIST_DEST, MIGRATE_ABORT_ON_ERROR, MIGRATE_UNDEFINE_SOURCE,
                    MIGRATE_AUTO_CONVERGE, MIGRATE_PARALLEL, MIGRATE_UNSAFE]
      else [MIGRATE_OFFLINE, MIGRATE_PERSIST_DEST, MIGRATE_ABORT_ON_ERROR, MIGRATE_UNDEFINE_SOURCE, MIGRATE_UNSAFE])"

definition migrate_uri :: "string \<Rightarrow> string" where
  "migrate_uri hostname = ''qemu+tcp://'' @ hostname @ ''/system''"

definition migrate_msg :: "bool \<Rightarrow> string \<Rightarrow> string \<Rightarrow> string" where
  "migrate_msg live host_old host_uuid =
     (if live then ''live'' else ''offline'') @ '' migration from '' @ host_old @ '' to '' @ host_uuid @ ''.''"

definition Migrate_domain ::
  "'w hv_env \<Rightarrow> string \<Rightarrow> string \<Rightarrow> string \<Rightarrow> string \<Rightarrow> bool \<Rightarrow> int \<Rightarrow> 'w \<Rightarrow> fs \<Rightarrow> gerr option \<times> 'w \<times> fs" where
  "Migrate_domain he hostname host_uuid host_old uuid live vcpus w s =
     (let params = \<lparr>mp_URI = ''tcp://'' @ hostname, mp_ParallelConnections = (if live then Some vcpus else None)\<rparr> in
      case lv_NewConnect (he_lv he) LIBVIRT_URI w of
        Some e \<Rightarrow> (Some e, w, s)
      | None \<Rightarrow>
      (case lv_NewConnect (he_lv he) (migrate_uri hostname) w of
        Some e \<Rightarrow> (Some e, w, s)
      | None \<Rightarrow>
      (case lv_Lookup (he_lv he) LIBVIRT_URI uuid w of
        Some e \<Rightarrow> (Some e, w, s)
      | None \<Rightarrow>
          (let domain = \<lparr>ld_conn = LIBVIRT_URI, ld_uuid = uuid\<rparr>;
               started = he_now he w;
               msg = migrate_msg live host_old host_uuid;
               w1 = log_op he domain OpVmMigrate OPERATION_STARTED msg started 0 w in
           case lv_Migrate3 (he_lv he) domain (migrate_uri hostname) params (migrate_flags live) w1 of
             (Inl e, w2) \<Rightarrow>
               (Some e, log_op he domain OpVmMigrate OPERATION_FAILED (msg @ '' '' @ error_text e) started (he_now he w2) w2, s)
           | (Inr domain2, w2) \<Rightarrow>
               (case he_move he s of
                  (f, f1, f2) \<Rightarrow>
                    (case Move f f1 f2 host_uuid host_old uuid s of
                       (s1, e) \<Rightarrow>
                         (let msg = (case e of None \<Rightarrow> msg | Some x \<Rightarrow> msg @ '' WARNING:'' @ error_text x @ ''.'') in
                          (None, log_op he domain2 OpVmMigrate OPERATION_COMPLETED (msg @ '' Migrated.'') started (he_now he w2) w2, s1))))))))"

record MigrationInfo =
  mi_State :: MigrationState
  mi_Total :: i64
  mi_Remaining :: i64
  mi_Transferred :: i64
  mi_Rate :: u32

definition no_info :: MigrationInfo where
  "no_info = \<lparr>mi_State = 0, mi_Total = 0, mi_Remaining = 0, mi_Transferred = 0, mi_Rate = 0\<rparr>"

definition query_migrate :: string where
  "query_migrate = ''{ '' @ [CHR 0x22] @ ''execute'' @ [CHR 0x22] @ '': '' @ [CHR 0x22] @ ''query-migrate'' @ [CHR 0x22] @ '' }''"

definition migrate_cancel :: string where
  "migrate_cancel = ''{ '' @ [CHR 0x22] @ ''execute'' @ [CHR 0x22] @ '': '' @ [CHR 0x22] @ ''migrate_cancel'' @ [CHR 0x22] @ '' }''"

definition Get_migration_info :: "'w hv_env \<Rightarrow> string \<Rightarrow> 'w \<Rightarrow> MigrationInfo result \<times> 'w" where
  "Get_migration_info he uuid w =
     (case lookup_domain he uuid w of
        Inl e \<Rightarrow> (Inl e, w)
      | Inr domain \<Rightarrow>
          (case oplog_load (he_lv he) (he_oe he) domain OpVmMigrate w of
             Inl e \<Rightarrow> (Inl e, w)
           | Inr (state, msg, ts, tse) \<Rightarrow>
               if state = OPERATION_FAILED then (Inr (no_info\<lparr>mi_State := MIGRATION_FAILED\<rparr>), w)
               else if state = OPERATION_COMPLETED then (Inr (no_info\<lparr>mi_State := MIGRATION_COMPLETED\<rparr>), w)
               else
                 (case lv_QemuMonitorCommand (he_lv he) domain query_migrate w of
                    (Inl e, w1) \<Rightarrow> (Inl e, w1)
                  | (Inr result_json, w1) \<Rightarrow>
                      (rbind (he_qemu_info he result_json) (\<lambda>qi.
                       rbind (MigrationState_Parse (qi_Status qi)) (\<lambda>st.
                         Inr \<lparr>mi_State = st, mi_Total = qi_Total qi, mi_Remaining = qi_Remaining qi,
                              mi_Transferred = qi_Transferred qi, mi_Rate = qi_Rate qi\<rparr>)), w1))))"

definition Abort_migration :: "'w hv_env \<Rightarrow> string \<Rightarrow> 'w \<Rightarrow> gerr option \<times> 'w" where
  "Abort_migration he uuid w =
     (case lookup_domain he uuid w of
        Inl e \<Rightarrow> (Some e, w)
      | Inr domain \<Rightarrow>
          (case oplog_load (he_lv he) (he_oe he) domain OpVmMigrate w of
             Inl e \<Rightarrow> (Some e, w)
           | Inr (state, msg, ts, tse) \<Rightarrow>
               if state = OPERATION_FAILED then (Some (Msg ''Abort_migration: migration already ended (FAILED)''), w)
               else if state = OPERATION_COMPLETED then (Some (Msg ''Abort_migration: migration already ended (COMPLETED)''), w)
               else if state = OPERATION_STARTED then
                 (case lv_QemuMonitorCommand (he_lv he) domain migrate_cancel w of
                    (Inl e, w1) \<Rightarrow> (Some e, w1)
                  | (Inr out, w1) \<Rightarrow> (None, w1))
               else (Some (Msg ''Abort_migration: unknown operation state''), w)))"

end
