(* ===== verification/Systeminfo.thy ===== *)
theory Systeminfo
  imports Domain
begin

text \<open>
  \<open>hypervisor/systeminfo.go\<close> and \<open>counter.go\<close>: what a host collects about itself and its machines.
  Integers keep their width; the two conversions through \<open>float64\<close> are parameters, as are libvirt
  and the files of the host, which are read as they are at the time of the call.
\<close>

section \<open>Counters\<close>

definition Counter_delta_uint64 :: "u64 \<Rightarrow> u64 \<Rightarrow> u64" where
  "Counter_delta_uint64 c1 c0 = (if c0 \<le> c1 then c1 - c0 else 0xFFFFFFFFFFFFFFFF - c0 + c1 + 1)"

definition Counter_delta_int64 :: "i64 \<Rightarrow> i64 \<Rightarrow> i64" where
  "Counter_delta_int64 c1 c0 =
     (if c0 <=s c1 then c1 - c0 else (0x7FFFFFFFFFFFFFFF - c0) + (c1 - 0x8000000000000000) + 1)"

section \<open>State\<close>

record Vmstats =
  vs_CpuUtilization :: i32
  vs_MhzUsed :: i32
  vs_MemoryCapacity :: i64
  vs_MemoryUsed :: i64
  vs_DiskCapacity :: i64
  vs_DiskAllocation :: i64
  vs_DiskPhysical :: i64
  vs_NetRxBw :: i32
  vs_NetTxBw :: i32
  vs_Oplog :: "OplogItem list"

record SystemInfoVm = VmInfo +
  sv_stats :: Vmstats
  sv_hp :: bool
  sv_cpu_time :: u64
  sv_net_rx :: i64
  sv_net_tx :: i64

record Hostresource =
  hr_Total :: i32
  hr_Used :: i32
  hr_Free :: i32
  hr_Usedos :: i32
  hr_Reservedvms :: i32
  hr_Usedvms :: i32
  hr_Availablevms :: i32

record Hostresources =
  hrs_Memory :: Hostresource
  hrs_Hp :: Hostresource
  hrs_Cpu :: Hostresource

text \<open>The capabilities are the fields that are read.\<close>

record Caps =
  cp_UUID :: string
  cp_Arch :: string
  cp_Vendor :: string
  cp_Model :: string
  cp_Counter :: "u64 option"  \<comment> \<open>frequency\<close>

record NodeInfo =
  ni_Memory :: u64
  ni_MHz :: u64
  ni_Nodes :: u32
  ni_Sockets :: u32
  ni_Cores :: u32
  ni_Threads :: u32

record SystemInfoImm =
  im_caps :: Caps
  im_info :: NodeInfo
  im_hp_size :: u64
  im_hp_total :: u64
  im_bios_version :: string
  im_bios_date :: string
  im_os_id :: string
  im_os_version :: string

record SystemInfo =
  si_imm :: SystemInfoImm
  si_Host :: HostInfo
  si_res :: Hostresources
  si_Vms :: "string \<rightharpoonup> SystemInfoVm"
  si_cpu_idle_ns :: u64
  si_cpu_kernel_ns :: u64
  si_cpu_iowait_ns :: u64
  si_cpu_user_ns :: u64

text \<open>The part of a domain's XML that is read.\<close>

record xmlDisk =
  xd_Device :: string
  xd_File :: string
  xd_Dev :: string

record xmlInterface =
  xi_Dev :: string
  xi_Tags :: "int list"

record xmlDomain =
  xm_MemoryBacking :: bool
  xm_Disks :: "xmlDisk list"
  xm_Interfaces :: "xmlInterface list"

record 'w sys_env =
  sy_he :: "'w hv_env"
  sy_GetHostname :: "'w \<Rightarrow> string result"
  sy_ListAllDomains :: "'w \<Rightarrow> LvDomain list result"
  sy_GetFreeMemory :: "'w \<Rightarrow> u64 result"
  sy_GetCPUStats :: "'w \<Rightarrow> (u64 \<times> u64 \<times> u64 \<times> u64) result"  \<comment> \<open>idle, kernel, iowait, user\<close>
  sy_GetCapabilities :: "'w \<Rightarrow> Caps result"
  sy_GetSysinfo :: "'w \<Rightarrow> (string \<times> string) list result"
  sy_GetNodeInfo :: "'w \<Rightarrow> NodeInfo result"
  sy_ReadFile :: "string \<Rightarrow> 'w \<Rightarrow> string result"
  sy_xml :: "string \<Rightarrow> xmlDomain result"
  sy_GetBlockInfo :: "LvDomain \<Rightarrow> string \<Rightarrow> 'w \<Rightarrow> (u64 \<times> u64 \<times> u64) result"
  sy_InterfaceStats :: "LvDomain \<Rightarrow> string \<Rightarrow> 'w \<Rightarrow> (i64 option \<times> i64 option) result"
  sy_GetInfo :: "LvDomain \<Rightarrow> 'w \<Rightarrow> (u64 \<times> u64 \<times> u64) result"  \<comment> \<open>CPUs, CPU time, memory\<close>
  sy_MemoryStats :: "LvDomain \<Rightarrow> 'w \<Rightarrow> (bool \<times> u64) list result"  \<comment> \<open>RSS?\<close>
  sy_reserved :: "u32 \<Rightarrow> i32"  \<comment> \<open>\<open>float64(total)/100*factor\<close>\<close>
  sy_used :: "u64 \<Rightarrow> i64 \<Rightarrow> u64 \<Rightarrow> i32"  \<comment> \<open>\<open>delta/(interval*1000000)*MHz\<close>\<close>

section \<open>Files of the host\<close>

definition trim_cr :: "string \<Rightarrow> string" where
  "trim_cr l = (if l \<noteq> [] \<and> last l = CHR 0x0D then butlast l else l)"

text \<open>\<open>bufio.Scanner\<close> by lines.\<close>

definition scan_lines :: "string \<Rightarrow> string list" where
  "scan_lines data = (let ls = split_on (CHR 0x0A) data in
     map trim_cr (if last ls = [] then butlast ls else ls))"

text \<open>\<open>strings.Fields\<close>.\<close>

fun fields_aux :: "string \<Rightarrow> string \<Rightarrow> string list" where
  "fields_aux acc [] = (if acc = [] then [] else [rev acc])"
| "fields_aux acc (c # cs) =
     (if is_space c then (if acc = [] then fields_aux [] cs else rev acc # fields_aux [] cs)
      else fields_aux (c # acc) cs)"

definition Fields :: "string \<Rightarrow> string list" where
  "Fields s = fields_aux [] s"

definition ParseUint :: "string \<Rightarrow> u64 result" where
  "ParseUint s =
     (if s \<noteq> [] \<and> list_all is_digit s \<and> dec_nat s < 2 ^ 64 then Inr (word_of_nat (dec_nat s))
      else Inl (Msg ''strconv.ParseUint''))"

text \<open>The first field of an empty line, and the second of a line with one, do not exist.\<close>

fun meminfo_lines :: "string \<Rightarrow> string list \<Rightarrow> u64 result" where
  "meminfo_lines key [] = Inl (Msg ''key not found'')"
| "meminfo_lines key (line # ls) =
     (case Fields line of
        [] \<Rightarrow> Inl (Panic ''index out of range'')
      | f0 # fs \<Rightarrow>
          if f0 = key @ '':'' then (case fs of [] \<Rightarrow> Inl (Panic ''index out of range'') | f1 # _ \<Rightarrow> ParseUint f1)
          else meminfo_lines key ls)"

definition get_meminfo :: "'w sys_env \<Rightarrow> string \<Rightarrow> 'w \<Rightarrow> u64 result" where
  "get_meminfo sy key w = rbind (sy_ReadFile sy ''/proc/meminfo'' w) (\<lambda>data. meminfo_lines key (scan_lines data))"

definition trim_quotes :: "string \<Rightarrow> string" where
  "trim_quotes s = (let q = (\<lambda>c. c = CHR 0x22) in rev (dropWhile q (rev (dropWhile q s))))"

fun os_lines :: "string list \<Rightarrow> string \<Rightarrow> string \<Rightarrow> string \<times> string" where
  "os_lines [] i v = (i, v)"
| "os_lines (line # ls) i v =
     (if has_prefix line ''ID='' then os_lines ls (trim_quotes (drop 3 line)) v
      else if has_prefix line ''VERSION_ID='' then os_lines ls i (trim_quotes (drop 11 line))
      else os_lines ls i v)"

definition get_os_version :: "'w sys_env \<Rightarrow> 'w \<Rightarrow> string \<times> string" where
  "get_os_version sy w =
     (case sy_ReadFile sy ''/etc/os-release'' w of
        Inr data \<Rightarrow> os_lines (scan_lines data) '''' ''''
      | Inl e \<Rightarrow> (case sy_ReadFile sy ''/usr/lib/os-release'' w of
                    Inr data \<Rightarrow> os_lines (scan_lines data) '''' ''''
                  | Inl e \<Rightarrow> ('''', '''')))"

definition MAX_FREQ_PATH :: string where
  "MAX_FREQ_PATH = ''/sys/devices/system/cpu/cpu0/cpufreq/cpuinfo_max_freq''"

text \<open>The entries of the BIOS; the last of a name counts.\<close>

definition bios_entry :: "string \<Rightarrow> (string \<times> string) list \<Rightarrow> string" where
  "bios_entry name es = (case map_of (rev es) name of None \<Rightarrow> '''' | Some v \<Rightarrow> v)"

definition system_info_get_immutable :: "'w sys_env \<Rightarrow> 'w \<Rightarrow> SystemInfoImm result" where
  "system_info_get_immutable sy w =
     rbind (sy_GetCapabilities sy w) (\<lambda>caps.
     rbind (sy_GetSysinfo sy w) (\<lambda>bios.
     rbind (sy_GetNodeInfo sy w) (\<lambda>info.
     case get_meminfo sy ''Hugepagesize'' w of
       Inl e \<Rightarrow> Inl (wrap ''failed to read Hugepagesize: '' e)
     | Inr hp_size \<Rightarrow>
     (case get_meminfo sy ''HugePages_Total'' w of
       Inl e \<Rightarrow> Inl (wrap ''failed to read HugePages_Total: '' e)
     | Inr hp_total \<Rightarrow>
         (let mhz = (case sy_ReadFile sy MAX_FREQ_PATH w of
                       Inl e \<Rightarrow> ni_MHz info
                     | Inr raw \<Rightarrow> (case Atoi (TrimSpace raw) of
                                    None \<Rightarrow> ni_MHz info
                                  | Some v \<Rightarrow> word_of_int (v sdiv 1000)));
              (os_id, os_version) = get_os_version sy w in
          Inr \<lparr>im_caps = caps, im_info = info\<lparr>ni_MHz := mhz\<rparr>, im_hp_size = hp_size,
               im_hp_total = hp_total * hp_size, im_bios_version = bios_entry ''version'' bios,
               im_bios_date = bios_entry ''date'' bios, im_os_id = os_id, im_os_version = os_version\<rparr>)))))"

section \<open>The statistics of a machine\<close>

definition no_stats :: Vmstats where
  "no_stats = \<lparr>vs_CpuUtilization = 0, vs_MhzUsed = 0, vs_MemoryCapacity = 0, vs_MemoryUsed = 0, vs_DiskCapacity = 0,
     vs_DiskAllocation = 0, vs_DiskPhysical = 0, vs_NetRxBw = 0, vs_NetTxBw = 0, vs_Oplog = []\<rparr>"

abbreviation MiBw :: u64 where "MiBw \<equiv> 1048576"
abbreviation KiBw :: "64 word" where "KiBw \<equiv> 1024"

text \<open>The first error of \<open>GetBlockInfo\<close> ends the loop and the function.\<close>

fun stats_disks :: "'w sys_env \<Rightarrow> LvDomain \<Rightarrow> xmlDisk list \<Rightarrow> Vmstats \<Rightarrow> 'w \<Rightarrow> Vmstats result" where
  "stats_disks sy d [] st w = Inr st"
| "stats_disks sy d (disk # ds) st w =
     (if xd_Device disk \<noteq> ''disk'' \<and> xd_Device disk \<noteq> ''lun'' then stats_disks sy d ds st w
      else if xd_File disk = '''' \<and> xd_Dev disk = '''' then stats_disks sy d ds st w
      else (let path = (if xd_File disk \<noteq> '''' then xd_File disk else xd_Dev disk) in
            case sy_GetBlockInfo sy d path w of
              Inl e \<Rightarrow> Inl e
            | Inr (capacity, allocation, physical) \<Rightarrow>
                stats_disks sy d ds
                  (st\<lparr>vs_DiskCapacity := vs_DiskCapacity st + capacity div MiBw,
                      vs_DiskAllocation := vs_DiskAllocation st + allocation div MiBw,
                      vs_DiskPhysical := vs_DiskPhysical st + physical div MiBw\<rparr>) w))"

text \<open>A failing \<open>InterfaceStats\<close> skips the interface, its VLAN too.\<close>

fun stats_nets :: "'w sys_env \<Rightarrow> LvDomain \<Rightarrow> xmlInterface list \<Rightarrow> i64 \<Rightarrow> i64 \<Rightarrow> i16 \<Rightarrow> 'w \<Rightarrow> i64 \<times> i64 \<times> i16" where
  "stats_nets sy d [] rx tx vlan w = (rx, tx, vlan)"
| "stats_nets sy d (net # ns) rx tx vlan w =
     (let vlan' = (case xi_Tags net of [] \<Rightarrow> vlan | t # ts \<Rightarrow> word_of_int t) in
      if xi_Dev net = '''' then stats_nets sy d ns rx tx vlan' w
      else (case sy_InterfaceStats sy d (xi_Dev net) w of
              Inl e \<Rightarrow> stats_nets sy d ns rx tx vlan w
            | Inr (r, t) \<Rightarrow>
                stats_nets sy d ns (case r of None \<Rightarrow> rx | Some v \<Rightarrow> rx + v)
                  (case t of None \<Rightarrow> tx | Some v \<Rightarrow> tx + v) vlan' w))"

definition memory_used :: "(bool \<times> u64) list result \<Rightarrow> i64" where
  "memory_used stats = (case stats of Inl e \<Rightarrow> 0
     | Inr ss \<Rightarrow> (case find fst ss of None \<Rightarrow> 0 | Some (_, v) \<Rightarrow> v div KiBw))"

text \<open>Signed division truncates. A divisor that wrapped to 0 panics.\<close>

definition sdivw :: "'a::len word \<Rightarrow> 'a word \<Rightarrow> 'a word" where
  "sdivw a b = word_of_int (sint a sdiv sint b)"

definition go_div :: "('a::len word \<Rightarrow> 'a word \<Rightarrow> 'a word) \<Rightarrow> 'a word \<Rightarrow> 'a word \<Rightarrow> 'a word result" where
  "go_div f a b = (if b = 0 then Inl (Panic ''integer divide by zero'') else Inr (f a b))"

definition cpu_utilization :: "u64 \<Rightarrow> i64 \<Rightarrow> i16 \<Rightarrow> i32 result" where
  "cpu_utilization udelta interval vcpus =
     (if 0 < udelta \<and> 0 <s interval \<and> 0 <s vcpus
      then rbind (go_div (div) (udelta * 100) (interval * 1000000)) (\<lambda>q. Inr (ucast q))
      else Inr 0)"

definition net_bandwidth :: "i64 \<Rightarrow> i64 \<Rightarrow> i32 result" where
  "net_bandwidth delta interval =
     (if 0 <s delta \<and> 0 <s interval
      then rbind (go_div sdivw (delta * 1000) (interval * KiBw)) (\<lambda>q. Inr (ucast q))
      else Inr 0)"

definition stats_deltas :: "SystemInfoVm \<Rightarrow> SystemInfoVm \<Rightarrow> SystemInfoImm \<Rightarrow> SystemInfoVm result" where
  "stats_deltas vm old imm =
     (let interval = ve_ts vm - ve_ts old in
      rbind (cpu_utilization (Counter_delta_uint64 (sv_cpu_time vm) (sv_cpu_time old)) interval (vmi_vcpus vm)) (\<lambda>util.
      rbind (net_bandwidth (Counter_delta_int64 (sv_net_rx vm) (sv_net_rx old)) interval) (\<lambda>rx.
      rbind (net_bandwidth (Counter_delta_int64 (sv_net_tx vm) (sv_net_tx old)) interval) (\<lambda>tx.
        Inr (vm\<lparr>sv_stats := (sv_stats vm)\<lparr>vs_CpuUtilization := util,
                  vs_MhzUsed := sdivw (util * ucast (ni_MHz (im_info imm))) 100,
                  vs_NetRxBw := rx, vs_NetTxBw := tx\<rparr>\<rparr>)))))"

definition get_domain_stats ::
  "'w sys_env \<Rightarrow> LvDomain \<Rightarrow> SystemInfoVm \<Rightarrow> SystemInfoVm option \<Rightarrow> SystemInfoImm \<Rightarrow> 'w \<Rightarrow> SystemInfoVm result" where
  "get_domain_stats sy d vm old imm w =
     rbind (lv_GetXMLDesc (he_lv (sy_he sy)) d False w) (\<lambda>xmldata.
     rbind (sy_xml sy xmldata) (\<lambda>xd.
     rbind (stats_disks sy d (xm_Disks xd) (sv_stats vm) w) (\<lambda>st1.
     case stats_nets sy d (xm_Interfaces xd) (sv_net_rx vm) (sv_net_tx vm) (vmi_vlanid vm) w of
       (rx, tx, vlan) \<Rightarrow>
     rbind (sy_GetInfo sy d w) (\<lambda>(nr_cpu, cpu_time, memory).
     let vm1 = vm\<lparr>sv_hp := (xm_MemoryBacking xd \<or> sv_hp vm), sv_net_rx := rx, sv_net_tx := tx, vmi_vlanid := vlan,
                  vmi_vcpus := ucast nr_cpu, sv_cpu_time := cpu_time,
                  sv_stats := st1\<lparr>vs_MemoryCapacity := memory div KiBw,
                                   vs_MemoryUsed := memory_used (sy_MemoryStats sy d w)\<rparr>\<rparr> in
     case old of None \<Rightarrow> Inr vm1 | Some o' \<Rightarrow> stats_deltas vm1 o' imm))))"

section \<open>The host\<close>

record totals =
  to_memory_capacity :: u64
  to_memory_used :: u64
  to_hp_capacity :: u64
  to_vcpus_mhz :: u32
  to_percent :: i32

definition no_totals :: totals where
  "no_totals = \<lparr>to_memory_capacity = 0, to_memory_used = 0, to_hp_capacity = 0, to_vcpus_mhz = 0, to_percent = 0\<rparr>"

definition add_totals :: "u64 \<Rightarrow> SystemInfoVm \<Rightarrow> totals \<Rightarrow> totals" where
  "add_totals mhz vm t =
     (let t1 = (if sv_hp vm then t\<lparr>to_hp_capacity := to_hp_capacity t + vs_MemoryCapacity (sv_stats vm)\<rparr>
                else t\<lparr>to_memory_capacity := to_memory_capacity t + vs_MemoryCapacity (sv_stats vm)\<rparr>) in
      t1\<lparr>to_memory_used := to_memory_used t + vs_MemoryUsed (sv_stats vm),
         to_vcpus_mhz := to_vcpus_mhz t + scast (vmi_vcpus vm) * ucast mhz,
         to_percent := to_percent t + vs_CpuUtilization (sv_stats vm)\<rparr>)"

definition new_vm :: "VmEvent \<Rightarrow> string \<Rightarrow> SystemInfoVm" where
  "new_vm ve name = \<lparr>ve_uuid = ve_uuid ve, ve_host = ve_host ve, ve_runstate = ve_runstate ve, ve_ts = ve_ts ve,
     vmi_name = name, vmi_vlanid = 0, vmi_custom = [], vmi_vcpus = 0,
     sv_stats = no_stats, sv_hp = False, sv_cpu_time = 0, sv_net_rx = 0, sv_net_tx = 0\<rparr>"

text \<open>A machine whose information cannot be read is left out; a panic stops the program.\<close>

fun collect_vms ::
  "'w sys_env \<Rightarrow> SystemInfo option \<Rightarrow> SystemInfoImm \<Rightarrow> i64 \<Rightarrow> LvDomain list \<Rightarrow> (string \<rightharpoonup> SystemInfoVm) \<Rightarrow> totals \<Rightarrow> 'w \<Rightarrow>
     ((string \<rightharpoonup> SystemInfoVm) \<times> totals) result \<times> 'w" where
  "collect_vms sy hv imm ts [] found t w = (Inr (found, t), w)"
| "collect_vms sy hv imm ts (d # ds) found t w =
     (case get_domain_info (sy_he sy) d w of
        ((ve, name, Some e), w1) \<Rightarrow> collect_vms sy hv imm ts ds found t w1
      | ((ve, name, None), w1) \<Rightarrow>
          (let vm = (new_vm ve name)\<lparr>ve_ts := ts\<rparr>;
               old = Option.bind hv (\<lambda>si. si_Vms si (ve_uuid ve)) in
           case get_domain_stats sy d vm old imm w1 of
             Inl e \<Rightarrow> if is_panic e then (Inl e, w1) else collect_vms sy hv imm ts ds found t w1
           | Inr vm' \<Rightarrow>
               collect_vms sy hv imm ts ds (found(ve_uuid ve \<mapsto> vm')) (add_totals (ni_MHz (im_info imm)) vm' t) w1))"

definition hp_resource :: "SystemInfoImm \<Rightarrow> u64 \<Rightarrow> totals \<Rightarrow> Hostresource" where
  "hp_resource imm hp_free t =
     (let total = ucast (im_hp_total imm div KiBw);
          free = ucast (hp_free div KiBw);
          used = total - free;
          usedvms = ucast (to_hp_capacity t) in
      \<lparr>hr_Total = total, hr_Used = used, hr_Free = free, hr_Usedos = used - usedvms, hr_Reservedvms = usedvms,
       hr_Usedvms = usedvms, hr_Availablevms = total - usedvms - (used - usedvms)\<rparr>)"

definition memory_resource :: "SystemInfoImm \<Rightarrow> i32 \<Rightarrow> u64 \<Rightarrow> totals \<Rightarrow> Hostresource" where
  "memory_resource imm hp_total memory_free t =
     (let total = ucast (ni_Memory (im_info imm) div KiBw) - hp_total;
          free = ucast (memory_free div MiBw);
          used = total - free;
          reserved = ucast (to_memory_capacity t);
          usedvms = ucast (to_memory_used t) in
      \<lparr>hr_Total = total, hr_Used = used, hr_Free = free, hr_Usedos = used - usedvms, hr_Reservedvms = reserved,
       hr_Usedvms = usedvms, hr_Availablevms = total - reserved - (used - usedvms)\<rparr>)"

definition cpu_total :: "NodeInfo \<Rightarrow> i32" where
  "cpu_total info = ucast (ucast (ni_Nodes info * ni_Sockets info * ni_Cores info * ni_Threads info) * ni_MHz info)"

text \<open>Without an earlier measurement in time order only the total and the reservation are known.\<close>

definition cpu_resource ::
  "'w sys_env \<Rightarrow> NodeInfo \<Rightarrow> SystemInfo option \<Rightarrow> i64 \<Rightarrow> u64 \<times> u64 \<times> u64 \<times> u64 \<Rightarrow> totals \<Rightarrow> Hostresource" where
  "cpu_resource sy info hv ts cpustats t =
     (let r = \<lparr>hr_Total = cpu_total info, hr_Used = 0, hr_Free = 0, hr_Usedos = 0,
               hr_Reservedvms = sy_reserved sy (to_vcpus_mhz t), hr_Usedvms = 0, hr_Availablevms = 0\<rparr> in
      case hv of
        None \<Rightarrow> r
      | Some old \<Rightarrow>
          (let interval = ts - hf_ts (hinfo_fields (si_Host old)) in
           if interval <=s 0 then r
           else
             (case cpustats of (idle, krnl, iowait, user) \<Rightarrow>
               let mhz = ni_MHz info;
                   used = sy_used sy (Counter_delta_uint64 krnl (si_cpu_kernel_ns old)) interval mhz +
                          sy_used sy (Counter_delta_uint64 iowait (si_cpu_iowait_ns old)) interval mhz +
                          sy_used sy (Counter_delta_uint64 user (si_cpu_user_ns old)) interval mhz;
                   usedvms = sdivw (to_percent t * ucast mhz) 100;
                   usedos = used - usedvms in
               r\<lparr>hr_Used := used, hr_Free := hr_Total r - used, hr_Usedvms := usedvms, hr_Usedos := usedos,
                 hr_Availablevms := hr_Total r - hr_Reservedvms r - usedos\<rparr>)))"

definition host_info_of :: "SystemInfoImm \<Rightarrow> string \<Rightarrow> i64 \<Rightarrow> i32 \<Rightarrow> i32 \<Rightarrow> HostInfo" where
  "host_info_of imm name ts memory hp =
     \<lparr>hinfo_uuid = cp_UUID (im_caps imm),
      hinfo_fields = \<lparr>hf_name = name,
        hf_cpuarch = \<lparr>ca_arch = cp_Arch (im_caps imm), ca_vendor = cp_Vendor (im_caps imm)\<rparr>,
        hf_cpudef = \<lparr>cd_model = cp_Model (im_caps imm), cd_nodes = ucast (ni_Nodes (im_info imm)),
          cd_sockets = ucast (ni_Sockets (im_info imm)), cd_cores = ucast (ni_Cores (im_info imm)),
          cd_threads = ucast (ni_Threads (im_info imm))\<rparr>,
        hf_cstate = CSTATE_ACTIVE, hf_memoryavailable = memory, hf_hpavailable = hp,
        hf_osid = im_os_id imm, hf_osv = im_os_version imm, hf_ts = ts\<rparr>\<rparr>"

text \<open>The new information also becomes the state \<open>hv.si\<close> of the hypervisor; on an error it is kept.\<close>

definition system_info_get :: "'w sys_env \<Rightarrow> SystemInfo option \<Rightarrow> 'w \<Rightarrow> SystemInfo result \<times> 'w" where
  "system_info_get sy hv w =
     (case (case hv of None \<Rightarrow> system_info_get_immutable sy w | Some old \<Rightarrow> Inr (si_imm old)) of
        Inl e \<Rightarrow> (Inl e, w)
      | Inr imm \<Rightarrow>
     (case sy_GetHostname sy w of
        Inl e \<Rightarrow> (Inl e, w)
      | Inr name \<Rightarrow>
     (let ts = he_now (sy_he sy) w in
      case sy_ListAllDomains sy w of
        Inl e \<Rightarrow> (Inl e, w)
      | Inr doms \<Rightarrow>
     (case collect_vms sy hv imm ts doms Map.empty no_totals w of
        (Inl e, w1) \<Rightarrow> (Inl e, w1)
      | (Inr (found, t), w1) \<Rightarrow>
          (rbind (sy_GetFreeMemory sy w1) (\<lambda>memory_free.
           rbind (get_meminfo sy ''HugePages_Free'' w1) (\<lambda>hp_free.
           rbind (sy_GetCPUStats sy w1) (\<lambda>cpustats.
             let hp = hp_resource imm (hp_free * im_hp_size imm) t;
                 memory = memory_resource imm (hr_Total hp) memory_free t;
                 cpu = cpu_resource sy (im_info imm) hv ts cpustats t in
             case cpustats of (idle, krnl, iowait, user) \<Rightarrow>
             Inr \<lparr>si_imm = imm, si_Host = host_info_of imm name ts (hr_Availablevms memory) (hr_Availablevms hp),
                  si_res = \<lparr>hrs_Memory = memory, hrs_Hp = hp, hrs_Cpu = cpu\<rparr>, si_Vms = found,
                  si_cpu_idle_ns = idle, si_cpu_kernel_ns = krnl, si_cpu_iowait_ns = iowait,
                  si_cpu_user_ns = user\<rparr>))), w1)))))"

section \<open>Answers\<close>

definition system_info_get_vmstats :: "SystemInfo option \<Rightarrow> string \<Rightarrow> Vmstats result" where
  "system_info_get_vmstats si uuid =
     (case si of None \<Rightarrow> Inl (Msg ''SystemInfo not available'')
      | Some s \<Rightarrow> (case si_Vms s uuid of None \<Rightarrow> Inl (Msg ''could not find vm'') | Some vm \<Rightarrow> Inr (sv_stats vm)))"

definition Get_Vmstats :: "'w hv_env \<Rightarrow> SystemInfo option \<Rightarrow> string \<Rightarrow> 'w \<Rightarrow> Vmstats result" where
  "Get_Vmstats he si uuid w =
     rbind (system_info_get_vmstats si uuid) (\<lambda>stats.
       Inr (case Log_domain he uuid w of Inl e \<Rightarrow> stats | Inr items \<Rightarrow> stats\<lparr>vs_Oplog := items\<rparr>))"

record Host =
  ho_Uuid :: string
  ho_Name :: string
  ho_Cpuarch :: Cpuarch
  ho_Cpudef :: Cpudef
  ho_Tscfreq :: i64
  ho_Sysinfo :: "string \<times> string"
  ho_Osid :: string
  ho_Osv :: string
  ho_Cstate :: Cstate
  ho_Lockid :: i16
  ho_Resources :: Hostresources
  ho_Ts :: i64

definition system_info_get_host :: "string \<Rightarrow> u16 \<Rightarrow> SystemInfo \<Rightarrow> Host" where
  "system_info_get_host machine lockid si =
     (let f = hinfo_fields (si_Host si); imm = si_imm si in
      \<lparr>ho_Uuid = machine, ho_Name = hf_name f, ho_Cpuarch = hf_cpuarch f, ho_Cpudef = hf_cpudef f,
       ho_Tscfreq = (case cp_Counter (im_caps imm) of None \<Rightarrow> 0 | Some fr \<Rightarrow> fr),
       ho_Sysinfo = (im_bios_version imm, im_bios_date imm), ho_Osid = hf_osid f, ho_Osv = hf_osv f,
       ho_Cstate = hf_cstate f, ho_Lockid = ucast lockid, ho_Resources = si_res si, ho_Ts = hf_ts f\<rparr>)"

text \<open>The machines listed for this host that libvirt does not know: for each an event that it was
  deleted. \<open>order\<close> is the order in which the map is visited.\<close>

definition delete_ghosts :: "string \<Rightarrow> string list \<Rightarrow> Inventory \<Rightarrow> (string \<rightharpoonup> SystemInfoVm) \<Rightarrow> i64 \<Rightarrow> VmEvent list" where
  "delete_ghosts machine order iv found ts =
     (case Get_hostdata machine iv of
        Inl e \<Rightarrow> []
      | Inr idata \<Rightarrow>
          map (\<lambda>u. \<lparr>ve_uuid = u, ve_host = machine, ve_runstate = RUNSTATE_DELETED, ve_ts = ts\<rparr>)
            (filter (\<lambda>u. u \<in> hd_vms idata \<and> found u = None) order))"

end
