(* ===== verification/Hypervisor.thy ===== *)
theory Hypervisor
  imports Systeminfo Serfcomm
begin

text \<open>
  \<open>hypervisor/hypervisor.go\<close> and the loop of \<open>systeminfo.go\<close>: the connection to libvirt, the
  callback for the events of domains, the rounds that collect system information, and the check of
  the registry at the start. A channel is the list of what was sent into it and not yet received;
  of a \<open>SystemInfo\<close> it carries what the receiver reads, the host and the machines. The lock
  \<open>hv.m\<close> makes each function one step.
\<close>

section \<open>State\<close>

type_synonym sys_msg = "HostInfo \<times> (string \<rightharpoonup> SystemInfoVm)"

record Hypervisor =
  hv_conn :: "bool option"  \<comment> \<open>nil, or whether it is open\<close>
  hv_is_connected :: bool
  hv_lifecycle_id :: int
  hv_channels :: bool  \<comment> \<open>not nil\<close>
  hv_vm_event_ch :: "VmEvent list"
  hv_system_info_ch :: "sys_msg list"
  hv_system_info_loop_done :: bool
  hv_si :: "SystemInfo option"

text \<open>After \<open>init\<close>.\<close>

definition init_hypervisor :: Hypervisor where
  "init_hypervisor = \<lparr>hv_conn = None, hv_is_connected = False, hv_lifecycle_id = -1, hv_channels = True,
     hv_vm_event_ch = [], hv_system_info_ch = [], hv_system_info_loop_done = False, hv_si = None\<rparr>"

definition get_system_info_loop_done :: "Hypervisor \<Rightarrow> bool" where
  "get_system_info_loop_done hv = hv_system_info_loop_done hv"

definition set_system_info_loop_done :: "Hypervisor \<Rightarrow> Hypervisor" where
  "set_system_info_loop_done hv = hv\<lparr>hv_system_info_loop_done := True\<rparr>"

section \<open>Connecting\<close>

text \<open>Registering gives an identifier also when it fails. A call on a nil connection panics.\<close>

record 'w conn_env =
  cn_NewConnect :: "'w \<Rightarrow> gerr option"
  cn_Register :: "'w \<Rightarrow> int \<times> gerr option \<times> 'w"
  cn_Deregister :: "int \<Rightarrow> 'w \<Rightarrow> 'w"
  cn_Close :: "'w \<Rightarrow> 'w"

definition stop_listening :: "'w conn_env \<Rightarrow> Hypervisor \<Rightarrow> 'w \<Rightarrow> Hypervisor \<times> 'w" where
  "stop_listening cn hv w =
     (if hv_lifecycle_id hv < 0 then (hv, w)
      else (hv\<lparr>hv_lifecycle_id := -1\<rparr>, cn_Deregister cn (hv_lifecycle_id hv) w))"

definition start_listening :: "'w conn_env \<Rightarrow> Hypervisor \<Rightarrow> 'w \<Rightarrow> gerr option \<times> Hypervisor \<times> 'w" where
  "start_listening cn hv w = (case cn_Register cn w of (i, e, w1) \<Rightarrow> (e, hv\<lparr>hv_lifecycle_id := i\<rparr>, w1))"

definition Connect :: "'w conn_env \<Rightarrow> Hypervisor \<Rightarrow> 'w \<Rightarrow> gerr option \<times> Hypervisor \<times> 'w" where
  "Connect cn hv w =
     (case (case hv_conn hv of
              None \<Rightarrow> (hv, w)
            | Some opened \<Rightarrow>
                (case stop_listening cn hv w of
                   (hv1, w1) \<Rightarrow> (hv1\<lparr>hv_conn := Some False, hv_is_connected := False\<rparr>, cn_Close cn w1))) of
        (hv1, w1) \<Rightarrow>
          (case cn_NewConnect cn w1 of
             Some e \<Rightarrow> (Some e, hv1, w1)
           | None \<Rightarrow> start_listening cn (hv1\<lparr>hv_conn := Some True, hv_is_connected := True\<rparr>) w1))"

definition Shutdown :: "'w conn_env \<Rightarrow> Hypervisor \<Rightarrow> 'w \<Rightarrow> (Hypervisor \<times> 'w) result" where
  "Shutdown cn hv w =
     (case stop_listening cn hv w of
        (hv1, w1) \<Rightarrow>
          if hv_conn hv1 = None then Inl (Panic ''nil connection'')
          else Inr (hv1\<lparr>hv_conn := None, hv_channels := False, hv_lifecycle_id := -1\<rparr>, cn_Close cn w1))"

section \<open>Events of domains\<close>

datatype DomainEventType = EVENT_DEFINED | EVENT_UNDEFINED | EVENT_STOPPED | EVENT_CRASHED | EventOther

record DomainEventLifecycle =
  de_Event :: DomainEventType
  de_Migrated :: bool  \<comment> \<open>the detail is \<open>DOMAIN_EVENT_STOPPED_MIGRATED\<close>\<close>

text \<open>\<open>imm\<close> of a new \<open>SystemInfo\<close>; without an older measurement it is not read.\<close>

definition no_imm :: SystemInfoImm where
  "no_imm = \<lparr>im_caps = \<lparr>cp_UUID = '''', cp_Arch = '''', cp_Vendor = '''', cp_Model = '''', cp_Counter = None\<rparr>,
     im_info = \<lparr>ni_Memory = 0, ni_MHz = 0, ni_Nodes = 0, ni_Sockets = 0, ni_Cores = 0, ni_Threads = 0\<rparr>,
     im_hp_size = 0, im_hp_total = 0, im_bios_version = '''', im_bios_date = '''', im_os_id = '''', im_os_version = ''''\<rparr>"

definition send_defined :: "'w sys_env \<Rightarrow> LvDomain \<Rightarrow> VmEvent \<Rightarrow> string \<Rightarrow> Hypervisor \<Rightarrow> 'w \<Rightarrow> Hypervisor" where
  "send_defined sy d ve name hv w =
     (case get_domain_stats sy d (new_vm ve name) None no_imm w of
        Inl e \<Rightarrow> hv
      | Inr vm \<Rightarrow> hv\<lparr>hv_system_info_ch := hv_system_info_ch hv @ [(zero_HostInfo, [ve_uuid vm \<mapsto> vm])]\<rparr>)"

definition cleanup_event :: "DomainEventLifecycle \<Rightarrow> bool" where
  "cleanup_event e \<longleftrightarrow> (de_Event e = EVENT_STOPPED \<and> \<not> de_Migrated e) \<or> de_Event e = EVENT_CRASHED"

text \<open>What the callback does once it has the event \<open>ve\<close>. An error of \<open>Delete_disk\<close> is logged.\<close>

definition lifecycle_send ::
  "'w sys_env \<Rightarrow> LvDomain \<Rightarrow> DomainEventLifecycle \<Rightarrow> VmEvent \<Rightarrow> string \<Rightarrow> Hypervisor \<Rightarrow> 'w \<Rightarrow> Hypervisor \<times> 'w" where
  "lifecycle_send sy d e ve name hv w =
     (let hv1 = (if de_Event e = EVENT_DEFINED then send_defined sy d ve name hv w
                 else if ve_runstate ve \<noteq> RUNSTATE_NONE then hv\<lparr>hv_vm_event_ch := hv_vm_event_ch hv @ [ve]\<rparr>
                 else hv) in
      if cleanup_event e then (hv1, snd (Delete_disk (he_ce (sy_he sy)) (ve_uuid ve) w)) else (hv1, w))"

definition lifecycle_cb :: "'w sys_env \<Rightarrow> LvDomain \<Rightarrow> DomainEventLifecycle \<Rightarrow> Hypervisor \<Rightarrow> 'w \<Rightarrow> Hypervisor \<times> 'w" where
  "lifecycle_cb sy d e hv w =
     (let he = sy_he sy in
      if \<not> hv_system_info_loop_done hv then (hv, w)
      else if de_Event e = EVENT_UNDEFINED then
        (case lv_GetUUIDString (he_lv he) d w of
           Inl err \<Rightarrow> (hv, w)
         | Inr uuid \<Rightarrow>
             lifecycle_send sy d e
               \<lparr>ve_uuid = uuid, ve_host = he_machine he, ve_runstate = RUNSTATE_DELETED, ve_ts = he_now he w\<rparr> '''' hv w)
      else
        (case lv_IsPersistent (he_lv he) d w of
           Inl err \<Rightarrow> (hv, w)
         | Inr False \<Rightarrow> (hv, w)
         | Inr True \<Rightarrow>
             (case get_domain_info he d w of
                ((ve, name, err), w1) \<Rightarrow> lifecycle_send sy d e (ve\<lparr>ve_ts := he_now he w1\<rparr>) name hv w1)))"

section \<open>The check of the registry\<close>

record reg_env =
  re_MkdirAll :: fault
  re_hosts :: "(string \<times> bool) list result"  \<comment> \<open>\<open>os.ReadDir\<close> of the registry\<close>
  re_uuids :: "(string \<times> bool) list result"  \<comment> \<open>and of the directory of this host\<close>
  re_access :: "string \<Rightarrow> string \<Rightarrow> fault"

text \<open>The first component is the message of \<open>logger.Fatal\<close>, which ends the program; the second
  the warnings.\<close>

definition unregistered :: "string \<Rightarrow> string \<Rightarrow> string" where
  "unregistered machine uuid = ''WARNING: local libvirt domain '' @ machine @ ''/'' @ uuid @ '' is not registered in vmreg''"

fun check_hosts :: "reg_env \<Rightarrow> string \<Rightarrow> string \<Rightarrow> fs \<Rightarrow> string list \<Rightarrow> string option \<times> string list" where
  "check_hosts re machine uuid s [] = (None, [])"
| "check_hosts re machine uuid s (host # hs) =
     (let err = Access (re_access re host uuid) host uuid s in
      if host = machine then
        (if err = None then check_hosts re machine uuid s hs
         else if err \<noteq> Some NotExist then (Some (''could not access file in '' @ reg_dir machine @ '': '' @ error_text (the err)), [])
         else (case check_hosts re machine uuid s hs of
                 (fatal, ws) \<Rightarrow> (fatal, unregistered machine uuid # ws)))
      else if err = Some NotExist then check_hosts re machine uuid s hs
      else if err = None then (Some (''local libvirt domain '' @ uuid @ '' is registered in remote host '' @ host), [])
      else (Some (''local libvirt domain '' @ uuid @ '' may be registered in remote host '' @ host @ '' and is not accessible''), []))"

fun check_domains :: "reg_env \<Rightarrow> string \<Rightarrow> fs \<Rightarrow> string list \<Rightarrow> string option \<times> string list" where
  "check_domains re machine s [] = (None, [])"
| "check_domains re machine s (uuid # us) =
     (case Hosts (re_hosts re) of
        Inl e \<Rightarrow> (Some (''could not get list of hosts: '' @ error_text e), [])
      | Inr hs \<Rightarrow>
          (case check_hosts re machine uuid s hs of
             (Some fatal, ws) \<Rightarrow> (Some fatal, ws)
           | (None, ws) \<Rightarrow> (case check_domains re machine s us of (fatal, ws') \<Rightarrow> (fatal, ws @ ws'))))"

text \<open>\<open>order\<close> is the order in which the machines of \<open>si.Vms\<close> are visited.\<close>

definition check_vmreg ::
  "'w hv_env \<Rightarrow> reg_env \<Rightarrow> string \<Rightarrow> string list \<Rightarrow> 'w \<Rightarrow> fs \<Rightarrow> string option \<times> string list" where
  "check_vmreg he re host_uuid order w s =
     (case re_MkdirAll re of
        Some e \<Rightarrow> (Some (''could not create '' @ reg_dir host_uuid @ '': '' @ error_text e), [])
      | None \<Rightarrow>
          (let s1 = s\<lparr>fs_dir := insert (path_segs (reg_dir host_uuid)) (fs_dir s)\<rparr> in
           case check_domains re host_uuid s1 order of
             (Some fatal, ws) \<Rightarrow> (Some fatal, ws)
           | (None, ws) \<Rightarrow>
               (case Uuids (re_uuids re) of
                  Inl e \<Rightarrow> (Some (''could not get the list of VM uuids for host '' @ host_uuid), ws)
                | Inr uuids \<Rightarrow>
                    (case lv_NewConnect (he_lv he) LIBVIRT_URI w of
                       Some e \<Rightarrow> (Some (''could not connect to libvirt: '' @ error_text e), ws)
                     | None \<Rightarrow>
                         (None, ws @ map (\<lambda>u. ''WARNING: vmreg VM '' @ host_uuid @ ''/'' @ u @ '' is not registered in libvirt'')
                                       (filter (\<lambda>u. lv_Lookup (he_lv he) LIBVIRT_URI u w \<noteq> None) uuids))))))"

section \<open>Rounds of system information\<close>

text \<open>What an unsuccessful \<open>system_info_get\<close> has already set of the host; its machines are not
  set then.\<close>

definition system_info_left :: "'w sys_env \<Rightarrow> SystemInfo option \<Rightarrow> 'w \<Rightarrow> HostInfo" where
  "system_info_left sy hvsi w =
     (case (case hvsi of None \<Rightarrow> system_info_get_immutable sy w | Some old \<Rightarrow> Inr (si_imm old)) of
        Inl e \<Rightarrow> zero_HostInfo
      | Inr imm \<Rightarrow>
          (case sy_GetHostname sy w of
             Inl e \<Rightarrow> zero_HostInfo\<lparr>hinfo_uuid := cp_UUID (im_caps imm)\<rparr>
           | Inr name \<Rightarrow> host_info_of imm name (he_now (sy_he sy) w) 0 0))"

text \<open>The UUID of the machine is set once the capabilities are known.\<close>

definition machine_set :: "'w sys_env \<Rightarrow> SystemInfo option \<Rightarrow> 'w \<Rightarrow> string" where
  "machine_set sy hvsi w =
     (case hvsi of
        None \<Rightarrow> (case system_info_get_immutable sy w of Inl e \<Rightarrow> '''' | Inr imm \<Rightarrow> he_machine (sy_he sy))
      | Some old \<Rightarrow> he_machine (sy_he sy))"

definition send_round ::
  "string \<Rightarrow> string list \<Rightarrow> Inventory \<Rightarrow> HostInfo \<Rightarrow> (string \<rightharpoonup> SystemInfoVm) \<Rightarrow> Hypervisor \<Rightarrow> Hypervisor" where
  "send_round machine order iv host found hv =
     hv\<lparr>hv_system_info_ch := hv_system_info_ch hv @ [(host, found)],
        hv_vm_event_ch := hv_vm_event_ch hv @ delete_ghosts machine order iv found (hinfo_ts host)\<rparr>"

text \<open>A turn of the loop ends the loop with an error of libvirt, or a panic. \<open>libvirt_err\<close> tells the
  errors of libvirt that are at least \<open>ERR_ERROR\<close>; \<open>order\<close> is the order of the host's list.\<close>

definition loop_turn ::
  "'w sys_env \<Rightarrow> (gerr \<Rightarrow> bool) \<Rightarrow> string list \<Rightarrow> Inventory \<Rightarrow> Hypervisor \<Rightarrow> 'w \<Rightarrow> gerr option \<times> Hypervisor \<times> 'w" where
  "loop_turn sy libvirt_err order iv hv w =
     (case system_info_get sy (hv_si hv) w of
        (Inl e, w1) \<Rightarrow> (if libvirt_err e \<or> is_panic e then Some e else None, hv, w1)
      | (Inr si, w1) \<Rightarrow>
          (None, send_round (he_machine (sy_he sy)) order iv (si_Host si) (si_Vms si) (hv\<lparr>hv_si := Some si\<rparr>), w1))"

text \<open>The first round goes on with what was collected unless libvirt failed, checks the registry,
  which may end the program, and then lets events be sent. The error \<open>OsErr\<close> stands for the exit.\<close>

definition first_round ::
  "'w sys_env \<Rightarrow> reg_env \<Rightarrow> (gerr \<Rightarrow> bool) \<Rightarrow> string list \<Rightarrow> string list \<Rightarrow> Inventory \<Rightarrow> Hypervisor \<Rightarrow> 'w \<Rightarrow> fs \<Rightarrow>
     gerr option \<times> Hypervisor \<times> 'w" where
  "first_round sy re libvirt_err order vorder iv hv w s =
     (case system_info_get sy (hv_si hv) w of
        (r, w1) \<Rightarrow>
          (case r of
             Inl e \<Rightarrow> if libvirt_err e \<or> is_panic e then (Some e, hv, w1)
                      else (case check_vmreg (sy_he sy) re (machine_set sy (hv_si hv) w) [] w1 s of
                              (Some fatal, ws) \<Rightarrow> (Some (OsErr fatal), hv, w1)
                            | (None, ws) \<Rightarrow>
                                (None, send_round (machine_set sy (hv_si hv) w) order iv (system_info_left sy (hv_si hv) w)
                                         Map.empty (set_system_info_loop_done hv), w1))
           | Inr si \<Rightarrow>
               (case check_vmreg (sy_he sy) re (he_machine (sy_he sy)) vorder w1 s of
                  (Some fatal, ws) \<Rightarrow> (Some (OsErr fatal), hv\<lparr>hv_si := Some si\<rparr>, w1)
                | (None, ws) \<Rightarrow>
                    (None, send_round (he_machine (sy_he sy)) order iv (si_Host si) (si_Vms si)
                             (set_system_info_loop_done (hv\<lparr>hv_si := Some si\<rparr>)), w1))))"

section \<open>Configuration and answers\<close>

text \<open>\<open>parse\<close> is \<open>strconv.ParseFloat\<close>, a number as its bits; 25.0 is the default. A comment starts at
  a hash sign.\<close>

fun preplace_lines :: "(string \<Rightarrow> u64 option) \<Rightarrow> string list \<Rightarrow> u64" where
  "preplace_lines parse [] = 0x4039000000000000"
| "preplace_lines parse (l # ls) =
     (let line = TrimSpace (takeWhile (\<lambda>c. c \<noteq> CHR 0x23) l) in
      if line = '''' then preplace_lines parse ls
      else (case split_n 2 (CHR '' '') line of
              [name, value] \<Rightarrow>
                if TrimSpace name = ''-o'' then
                  (case parse (TrimSpace value) of None \<Rightarrow> preplace_lines parse ls | Some v \<Rightarrow> v)
                else preplace_lines parse ls
            | _ \<Rightarrow> preplace_lines parse ls))"

definition read_numa_preplace_conf :: "'w sys_env \<Rightarrow> (string \<Rightarrow> u64 option) \<Rightarrow> 'w \<Rightarrow> u64" where
  "read_numa_preplace_conf sy parse w =
     (case sy_ReadFile sy ''/etc/numa-preplace.conf'' w of
        Inl e \<Rightarrow> 0x4039000000000000
      | Inr data \<Rightarrow> preplace_lines parse (scan_lines data))"

text \<open>Before the first round there is no \<open>hv.si\<close> to read.\<close>

definition Get_host :: "string \<Rightarrow> u16 \<Rightarrow> Hypervisor \<Rightarrow> Host result" where
  "Get_host machine lockid hv = (case hv_si hv of
     None \<Rightarrow> Inl (Panic ''nil SystemInfo'') | Some si \<Rightarrow> Inr (system_info_get_host machine lockid si))"

end
