(* ===== verification/Domain_Props.thy ===== *)
theory Domain_Props
  imports Domain
begin

text \<open>
  The log of operations as a map from operations to entries, what each operation on a domain
  leaves in it, and how libvirt and the registry go together. What is used of libvirt are the
  documented effects of its calls on metadata, stated as \<open>metadata_kept\<close> and \<open>calls_keep\<close>.
\<close>

section \<open>The log as a map\<close>

text \<open>Metadata that was set is read back with the same content, under its namespace only; a call
  that fails changes nothing. The text itself may differ: libvirt drops namespaces.\<close>

definition same_entry :: "OpMeta \<Rightarrow> OpMeta \<Rightarrow> bool" where
  "same_entry m m' \<longleftrightarrow> om_Op m' = om_Op m \<and> om_Ts m' = om_Ts m \<and> om_Te m' = om_Te m \<and>
     om_Status m' = om_Status m \<and> om_Msg m' = om_Msg m"

definition metadata_kept :: "'w libvirt \<Rightarrow> oplog_env \<Rightarrow> bool" where
  "metadata_kept lv oe \<longleftrightarrow>
     (\<forall>d x k u w e w'. lv_SetMetadata lv d x k u w = (e, w') \<longrightarrow>
        (\<forall>d' u'. (d', u') \<noteq> (d, u) \<or> e \<noteq> None \<longrightarrow> lv_GetMetadata lv d' u' w' = lv_GetMetadata lv d' u' w) \<and>
        (\<forall>m. e = None \<and> oe_marshal oe m = Inr x \<longrightarrow>
           (\<exists>y m'. lv_GetMetadata lv d u w' = Inr y \<and> oe_unmarshal oe y = Inr m' \<and> same_entry m m')))"

definition log_of :: "'w libvirt \<Rightarrow> oplog_env \<Rightarrow> LvDomain \<Rightarrow> 'w \<Rightarrow> Operation \<Rightarrow> op_entry option" where
  "log_of lv oe d w op = (case oplog_load lv oe d op w of Inl e \<Rightarrow> None | Inr entry \<Rightarrow> Some entry)"

abbreviation known_op :: "Operation \<Rightarrow> bool" where
  "known_op op \<equiv> op \<in> set (map fst OperationToString)"

abbreviation known_state :: "OperationState \<Rightarrow> bool" where
  "known_state st \<equiv> st \<in> set [1, 2, 3]"

lemma logged_known: "op \<in> set logged_ops \<Longrightarrow> known_op op"
  by (auto simp: logged_ops_def OperationToString_def)

lemma op_space_inj: "known_op op \<Longrightarrow> known_op op' \<Longrightarrow> op_space op = op_space op' \<longleftrightarrow> op = op'"
  using operation_codec.shown_inj by (auto simp: op_space_def inj_on_def)

lemma log_of_same: "lv_GetMetadata lv d (op_space op) w' = lv_GetMetadata lv d' (op_space op) w \<Longrightarrow>
    log_of lv oe d w' op = log_of lv oe d' w op"
  by (simp add: log_of_def oplog_load_def)

lemma record_kept:
  assumes "metadata_kept lv oe" "oplog_record lv oe d op st msg ts te w = (e, w')"
    and "(d', u') \<noteq> (d, op_space op) \<or> e \<noteq> None"
  shows "lv_GetMetadata lv d' u' w' = lv_GetMetadata lv d' u' w"
proof (cases "oe_marshal oe (fst (Operation_To_xml (oe_marshal oe) op st msg ts te))")
  case (Inl x)
  then show ?thesis using assms(2) by (simp add: oplog_record_def Operation_To_xml_def Let_def)
next
  case (Inr x)
  then have "lv_SetMetadata lv d x ''data-op'' (op_space op) w = (e, w')"
    using assms(2) by (simp add: oplog_record_def Operation_To_xml_def Let_def)
  with assms(1,3) show ?thesis unfolding metadata_kept_def by blast
qed

lemma record_stored:
  assumes "metadata_kept lv oe" "oplog_record lv oe d op st msg ts te w = (None, w')"
    and "known_op op" "known_state st"
  shows "log_of lv oe d w' op = Some (st, msg, ts, te)"
proof -
  let ?m = "fst (Operation_To_xml (oe_marshal oe) op st msg ts te)"
  obtain x where x: "oe_marshal oe ?m = Inr x" "lv_SetMetadata lv d x ''data-op'' (op_space op) w = (None, w')"
    using assms(2) by (auto simp: oplog_record_def Operation_To_xml_def Let_def split: sum.splits)
  then obtain y m' where "lv_GetMetadata lv d (op_space op) w' = Inr y" "oe_unmarshal oe y = Inr m'" "same_entry ?m m'"
    using assms(1) unfolding metadata_kept_def by blast
  then show ?thesis
    using operation_codec.parse_shown[OF assms(3)] opstate_codec.parse_shown[OF assms(4)]
    by (simp add: log_of_def oplog_load_def Operation_From_xml_def Operation_To_xml_def same_entry_def Let_def)
qed

lemma record_log:
  assumes "metadata_kept lv oe" "oplog_record lv oe d op st msg ts te w = (e, w')"
    and "known_op op" "known_state st" "known_op op'"
  shows "log_of lv oe d' w' op' =
     (if e = None \<and> d' = d \<and> op' = op then Some (st, msg, ts, te) else log_of lv oe d' w op')"
proof (cases "e = None \<and> d' = d \<and> op' = op")
  case True
  with record_stored[OF assms(1) _ assms(3,4)] assms(2) show ?thesis by simp
next
  case False
  then have "(d', op_space op') \<noteq> (d, op_space op) \<or> e \<noteq> None"
    using op_space_inj[OF assms(5,3)] by auto
  from record_kept[OF assms(1,2) this] False show ?thesis using log_of_same[of lv d' op' w' d' w oe] by auto
qed

lemma complete_log:
  assumes "metadata_kept lv oe" "oplog_complete lv oe now d op msg w = (e, w')" "known_op op" "known_op op'"
  shows "log_of lv oe d' w' op' =
     (case log_of lv oe d w op of
        Some (st, m, started, te) \<Rightarrow>
          if st = OPERATION_STARTED \<and> e = None \<and> d' = d \<and> op' = op
          then Some (OPERATION_COMPLETED, msg, started, now w) else log_of lv oe d' w op'
      | None \<Rightarrow> log_of lv oe d' w op')"
proof (cases "oplog_load lv oe d op w")
  case (Inl x)
  then show ?thesis using assms(2) by (simp add: oplog_complete_def log_of_def)
next
  case (Inr entry)
  obtain st m started te where entry: "entry = (st, m, started, te)" by (metis prod_cases4)
  have here: "log_of lv oe d w op = Some (st, m, started, te)" by (simp add: log_of_def Inr entry)
  show ?thesis
  proof (cases "st = OPERATION_STARTED")
    case True
    then have "oplog_record lv oe d op OPERATION_COMPLETED msg started (now w) w = (e, w')"
      using assms(2) Inr entry by (simp add: oplog_complete_def)
    from record_log[OF assms(1) this assms(3) _ assms(4)] True show ?thesis by (simp add: here)
  next
    case False
    then have "w' = w" using assms(2) Inr entry by (simp add: oplog_complete_def)
    then show ?thesis using False by (simp add: here)
  qed
qed

lemma items_log:
  "oplog_items lv oe d ops w = map (\<lambda>op. oplog_item op (the (log_of lv oe d w op)))
     (filter (\<lambda>op. log_of lv oe d w op \<noteq> None) ops)"
  by (induction ops) (auto simp: log_of_def split: sum.splits)

text \<open>C31: the log behaves as a map from operations to entries: recording overwrites the entry of
  its operation in its domain only, completing does so exactly when the entry says started and
  keeps its start time, a call that fails changes nothing, and the list shown is the entries of
  the five logged operations in order.\<close>

theorem oplog_refines_map:
  assumes "metadata_kept lv oe" "known_op op" "known_state st" "known_op op'"
  shows "(case oplog_record lv oe d op st msg ts te w of (e, w') \<Rightarrow>
      log_of lv oe d' w' op' =
        (if e = None \<and> d' = d \<and> op' = op then Some (st, msg, ts, te) else log_of lv oe d' w op')) \<and>
    (case oplog_complete lv oe now d op msg w of (e, w') \<Rightarrow>
      log_of lv oe d' w' op' =
        (case log_of lv oe d w op of
           Some (st1, m, started, te1) \<Rightarrow>
             if st1 = OPERATION_STARTED \<and> e = None \<and> d' = d \<and> op' = op
             then Some (OPERATION_COMPLETED, msg, started, now w) else log_of lv oe d' w op'
         | None \<Rightarrow> log_of lv oe d' w op')) \<and>
    oplog_load_list lv oe d w =
      (map (\<lambda>o'. oplog_item o' (the (log_of lv oe d w o')))
         (filter (\<lambda>o'. log_of lv oe d w o' \<noteq> None) logged_ops), None)"
proof (intro conjI)
  obtain e w' where r: "oplog_record lv oe d op st msg ts te w = (e, w')" by fastforce
  from record_log[OF assms(1) r assms(2,3,4)]
  show "case oplog_record lv oe d op st msg ts te w of (e, w') \<Rightarrow> log_of lv oe d' w' op' =
        (if e = None \<and> d' = d \<and> op' = op then Some (st, msg, ts, te) else log_of lv oe d' w op')"
    unfolding r by simp
next
  obtain e w' where c: "oplog_complete lv oe now d op msg w = (e, w')" by fastforce
  from complete_log[OF assms(1) c assms(2,4)]
  show "case oplog_complete lv oe now d op msg w of (e, w') \<Rightarrow> log_of lv oe d' w' op' =
        (case log_of lv oe d w op of
           Some (st1, m, started, te1) \<Rightarrow>
             if st1 = OPERATION_STARTED \<and> e = None \<and> d' = d \<and> op' = op
             then Some (OPERATION_COMPLETED, msg, started, now w) else log_of lv oe d' w op'
         | None \<Rightarrow> log_of lv oe d' w op')"
    unfolding c by (simp only: prod.case)
qed (simp add: oplog_load_list_def items_log)

section \<open>Calls that leave the metadata alone\<close>

text \<open>\<open>P\<close> survives every call but those that set metadata, migrate or undefine.\<close>

definition kept_by :: "'w hv_env \<Rightarrow> ('w \<Rightarrow> bool) \<Rightarrow> bool" where
  "kept_by he P \<longleftrightarrow> (\<forall>w. P w \<longrightarrow>
     (\<forall>d. P (snd (lv_Create (he_lv he) d w)) \<and> P (snd (lv_Suspend (he_lv he) d w)) \<and>
          P (snd (lv_Resume (he_lv he) d w)) \<and> P (snd (lv_Shutdown (he_lv he) d w)) \<and>
          (\<forall>g. P (snd (lv_DestroyFlags (he_lv he) d g w))) \<and>
          (\<forall>x. P (snd (lv_AttachDevice (he_lv he) d x w))) \<and>
          (\<forall>c. P (snd (lv_QemuMonitorCommand (he_lv he) d c w)))) \<and>
     (\<forall>r u. P (snd (se_Create_resource (ce_storage (he_ce he)) r u w))) \<and>
     (\<forall>r u cmds nd. P (snd (se_Run (ce_storage (he_ce he)) r u cmds nd w))) \<and>
     (\<forall>p. P (snd (se_MkdirAll (ce_storage (he_ce he)) p w))) \<and>
     P (snd (ce_MkdirTemp (he_ce he) w)) \<and>
     (\<forall>f c. P (snd (ce_WriteFile (he_ce he) f c w))) \<and>
     (\<forall>f. P (ce_Remove (he_ce he) f w)) \<and>
     (\<forall>args. P (snd (ce_xorrisofs (he_ce he) args w))))"

definition same_meta :: "'w libvirt \<Rightarrow> 'w \<Rightarrow> 'w \<Rightarrow> bool" where
  "same_meta lv w w' \<longleftrightarrow> (\<forall>d u. lv_GetMetadata lv d u w' = lv_GetMetadata lv d u w)"

definition calls_keep :: "'w hv_env \<Rightarrow> bool" where
  "calls_keep he \<longleftrightarrow> (\<forall>w. kept_by he (same_meta (he_lv he) w))"

lemma kept_calls:
  assumes "kept_by he P" "P w"
  shows "lv_Create (he_lv he) d w = (e, w') \<Longrightarrow> P w'" "lv_Suspend (he_lv he) d w = (e, w') \<Longrightarrow> P w'"
    and "lv_Resume (he_lv he) d w = (e, w') \<Longrightarrow> P w'" "lv_Shutdown (he_lv he) d w = (e, w') \<Longrightarrow> P w'"
    and "lv_DestroyFlags (he_lv he) d g w = (e, w') \<Longrightarrow> P w'" "lv_AttachDevice (he_lv he) d x w = (e, w') \<Longrightarrow> P w'"
    and "lv_QemuMonitorCommand (he_lv he) d c w = (r1, w') \<Longrightarrow> P w'"
    and "se_Create_resource (ce_storage (he_ce he)) r u w = (e, w') \<Longrightarrow> P w'"
    and "se_Run (ce_storage (he_ce he)) r u cmds nd w = (e, w') \<Longrightarrow> P w'"
    and "se_MkdirAll (ce_storage (he_ce he)) p w = (e, w') \<Longrightarrow> P w'"
    and "ce_MkdirTemp (he_ce he) w = (r1, w') \<Longrightarrow> P w'" "ce_WriteFile (he_ce he) f content w = (e, w') \<Longrightarrow> P w'"
    and "P (ce_Remove (he_ce he) f w)" "ce_xorrisofs (he_ce he) args w = (x2, w') \<Longrightarrow> P w'"
  using assms unfolding kept_by_def by (metis snd_conv)+

lemma kept_remove: "kept_by he P \<Longrightarrow> P w \<Longrightarrow> P (fold (ce_Remove (he_ce he)) files w)"
  by (induction files arbitrary: w) (simp_all add: kept_calls(13))

lemma kept_stage_file:
  "kept_by he P \<Longrightarrow> P w \<Longrightarrow> stage_ci_file (he_ce he) files name content dir def w = (files', e, w') \<Longrightarrow> P w'"
  by (auto simp: stage_ci_file_def Let_def split: if_splits intro: kept_calls(12))

lemma kept_stage:
  assumes "kept_by he P" "P w" "stage_files (he_ce he) opts dir uuid w = (files, e, w')"
  shows "P w'"
  using assms(2,3) by (auto simp: stage_files_def split: option.splits prod.splits) (meson kept_stage_file[OF assms(1)])+

lemma kept_delete_resource:
  "kept_by he P \<Longrightarrow> P w \<Longrightarrow> P (snd (se_Delete_resource (ce_storage (he_ce he)) r u w))"
  by (simp add: se_Delete_resource_def kept_by_def)

lemma kept_image:
  assumes "kept_by he P" "P w" "make_image (he_ce he) disk uuid files w = (disk', e, w')"
  shows "P w'"
proof -
  have build: "P w2" if "P w1" "build_iso (he_ce he) p files w1 = (e1, w2)" for p w1 w2 e1
    using that by (auto simp: build_iso_def split: prod.splits option.splits intro: kept_calls(14)[OF assms(1), rotated])
  from assms(2,3) show ?thesis
    by (auto simp: make_image_def Let_def split: prod.splits option.splits
        intro: kept_calls(8)[OF assms(1), rotated] build[rotated] kept_delete_resource[OF assms(1)])
qed

lemma kept_Create_disk:
  assumes "kept_by he P" "P w" "Create_disk (he_ce he) uuid opts w = (disk, e, w')"
  shows "P w'"
proof -
  note k = kept_calls[OF assms(1)]
  have stage: "P (remove_stage (he_ce he) dir files w1)" if "P w1" for dir files w1
    unfolding remove_stage_def by (rule k(13)[OF kept_remove[OF assms(1) that]])
  from assms(2,3) show ?thesis
    by (auto simp: Create_disk_def Let_def split: prod.splits option.splits sum.splits)
      (meson stage k(10,11) kept_stage[OF assms(1)] kept_image[OF assms(1)])+
qed

lemma kept_boot:
  assumes "kept_by he P" "P w" "cloudinit_boot_domain (he_lv he) (he_ce he) uuid d ci w = (e, w')"
  shows "P w'"
proof -
  note k = kept_calls[OF assms(1)]
  have attach: "P w2" if "P w1" "cloudinit_attach (he_lv he) (he_ce he) disk d w1 = (e1, w2)" for disk w1 w2 e1
    using that by (auto simp: cloudinit_attach_def split: prod.splits option.splits sum.splits intro: k(6)[rotated])
  have destroy: "P (snd (lv_DestroyFlags (he_lv he) d g w1))" if "P w1" for w1 g
    using that assms(1) by (simp add: kept_by_def)
  from assms(2,3) show ?thesis
    by (auto simp: cloudinit_boot_domain_def split: prod.splits option.splits sum.splits)
      (meson destroy k(1) kept_Create_disk[OF assms(1)] attach)+
qed

section \<open>What an operation leaves in the log\<close>

lemma same_meta_refl [simp]: "same_meta lv w w"
  by (simp add: same_meta_def)

lemma same_meta_log: "same_meta lv w w' \<Longrightarrow> log_of lv oe d w' op = log_of lv oe d w op"
  by (rule log_of_same) (simp add: same_meta_def)

definition log_writable :: "'w libvirt \<Rightarrow> oplog_env \<Rightarrow> bool" where
  "log_writable lv oe \<longleftrightarrow> (\<forall>m. is_ok (oe_marshal oe m)) \<and> (\<forall>d x k u w. fst (lv_SetMetadata lv d x k u w) = None)"

lemma writable_record:
  assumes "log_writable lv oe"
  shows "fst (oplog_record lv oe d op st msg ts te w) = None"
proof -
  obtain x where "oe_marshal oe (fst (Operation_To_xml (oe_marshal oe) op st msg ts te)) = Inr x"
    using assms unfolding log_writable_def is_ok_iff by blast
  then show ?thesis using assms by (simp add: log_writable_def oplog_record_def Operation_To_xml_def Let_def)
qed

lemma log_op_log:
  assumes "metadata_kept (he_lv he) (he_oe he)" "log_writable (he_lv he) (he_oe he)"
    and "known_op op" "known_state st" "known_op op'"
  shows "log_of (he_lv he) (he_oe he) d' (log_op he d op st msg ts te w) op' =
     (if d' = d \<and> op' = op then Some (st, msg, ts, te) else log_of (he_lv he) (he_oe he) d' w op')"
proof -
  obtain w' where "oplog_record (he_lv he) (he_oe he) d op st msg ts te w = (None, w')"
    using writable_record[OF assms(2)] by (metis prod.collapse)
  from record_log[OF assms(1) this assms(3-5)] this show ?thesis by (simp add: log_op_def)
qed

definition entry_after :: "gerr option \<Rightarrow> i64 \<Rightarrow> i64 \<Rightarrow> op_entry" where
  "entry_after e started te = (case e of
     None \<Rightarrow> (OPERATION_COMPLETED, '''', started, te) | Some x \<Rightarrow> (OPERATION_FAILED, error_text x, started, te))"

lemma logged_op_log:
  assumes "metadata_kept (he_lv he) (he_oe he)" "log_writable (he_lv he) (he_oe he)"
    and keep: "\<And>w1 e1 w2. act w1 = (e1, w2) \<Longrightarrow> same_meta (he_lv he) w1 w2"
    and "known_op op" "known_op op'" "logged_op he d op act w = (e, w')"
  shows "\<exists>te. log_of (he_lv he) (he_oe he) d' w' op' =
     (if d' = d \<and> op' = op then Some (entry_after e (he_now he w) te) else log_of (he_lv he) (he_oe he) d' w op')"
proof -
  let ?w1 = "log_op he d op OPERATION_STARTED '''' (he_now he w) 0 w"
  obtain e1 w2 where act: "act ?w1 = (e1, w2)" by fastforce
  note log = log_op_log[OF assms(1,2,4) _ assms(5)]
  have mid: "log_of (he_lv he) (he_oe he) d' w2 op' =
      (if d' = d \<and> op' = op then Some (OPERATION_STARTED, '''', he_now he w, 0) else log_of (he_lv he) (he_oe he) d' w op')"
    using same_meta_log[OF keep[OF act], of "he_oe he" d' op'] log[of OPERATION_STARTED d'] by simp
  have "e = e1" "w' = log_op he d op (fst (entry_after e1 (he_now he w) (he_now he w2)))
      (fst (snd (entry_after e1 (he_now he w) (he_now he w2)))) (he_now he w) (he_now he w2) w2"
    using assms(6) act by (auto simp: logged_op_def Let_def entry_after_def split: option.splits)
  then show ?thesis
    by (intro exI[of _ "he_now he w2"]) (auto simp: log mid entry_after_def split: option.split)
qed

lemma keep_act:
  assumes "calls_keep he"
  shows "lv_Create (he_lv he) d w = (e, w') \<Longrightarrow> same_meta (he_lv he) w w'"
    and "lv_Suspend (he_lv he) d w = (e, w') \<Longrightarrow> same_meta (he_lv he) w w'"
    and "lv_Resume (he_lv he) d w = (e, w') \<Longrightarrow> same_meta (he_lv he) w w'"
    and "lv_Shutdown (he_lv he) d w = (e, w') \<Longrightarrow> same_meta (he_lv he) w w'"
    and "lv_DestroyFlags (he_lv he) d g w = (e, w') \<Longrightarrow> same_meta (he_lv he) w w'"
    and "lv_QemuMonitorCommand (he_lv he) d c w = (r, w') \<Longrightarrow> same_meta (he_lv he) w w'"
    and "cloudinit_boot_domain (he_lv he) (he_ce he) uuid d ci w = (e, w') \<Longrightarrow> same_meta (he_lv he) w w'"
proof -
  have k: "kept_by he (same_meta (he_lv he) w)" using assms by (simp add: calls_keep_def)
  note c = kept_calls[OF k same_meta_refl]
  show "lv_Create (he_lv he) d w = (e, w') \<Longrightarrow> same_meta (he_lv he) w w'" by (rule c(1))
  show "lv_Suspend (he_lv he) d w = (e, w') \<Longrightarrow> same_meta (he_lv he) w w'" by (rule c(2))
  show "lv_Resume (he_lv he) d w = (e, w') \<Longrightarrow> same_meta (he_lv he) w w'" by (rule c(3))
  show "lv_Shutdown (he_lv he) d w = (e, w') \<Longrightarrow> same_meta (he_lv he) w w'" by (rule c(4))
  show "lv_DestroyFlags (he_lv he) d g w = (e, w') \<Longrightarrow> same_meta (he_lv he) w w'" by (rule c(5))
  show "lv_QemuMonitorCommand (he_lv he) d c w = (r, w') \<Longrightarrow> same_meta (he_lv he) w w'" by (rule c(7))
  show "cloudinit_boot_domain (he_lv he) (he_ce he) uuid d ci w = (e, w') \<Longrightarrow> same_meta (he_lv he) w w'"
    by (rule kept_boot[OF k same_meta_refl])
qed

lemma lookup_uuid: "lookup_domain he uuid w = Inr d \<Longrightarrow> d = \<lparr>ld_conn = LIBVIRT_URI, ld_uuid = uuid\<rparr>"
  by (simp add: lookup_domain_def split: option.splits)

definition local_domain :: "string \<Rightarrow> LvDomain" where
  "local_domain uuid = \<lparr>ld_conn = LIBVIRT_URI, ld_uuid = uuid\<rparr>"


section \<open>Shutting down\<close>

lemma complete_op_log:
  assumes "metadata_kept (he_lv he) (he_oe he)" "log_writable (he_lv he) (he_oe he)" "known_op op" "known_op op'"
  shows "log_of (he_lv he) (he_oe he) d' (complete_op he d op msg w) op' =
     (case log_of (he_lv he) (he_oe he) d w op of
        Some (st, m, started, te) \<Rightarrow>
          if st = OPERATION_STARTED \<and> d' = d \<and> op' = op
          then Some (OPERATION_COMPLETED, msg, started, he_now he w) else log_of (he_lv he) (he_oe he) d' w op'
      | None \<Rightarrow> log_of (he_lv he) (he_oe he) d' w op')"
proof -
  obtain e w' where c: "oplog_complete (he_lv he) (he_oe he) (he_now he) d op msg w = (e, w')" by fastforce
  have "e = None" if "log_of (he_lv he) (he_oe he) d w op = Some (OPERATION_STARTED, m, started, te)" for m started te
    using that c writable_record[OF assms(2)]
    by (auto simp: log_of_def oplog_complete_def split: sum.splits) (metis fst_conv)
  with complete_log[OF assms(1) c assms(3,4)] c show ?thesis
    by (auto simp: complete_op_def split: option.splits prod.splits)
qed

definition shutdown_text :: "ShutoffReason \<Rightarrow> string" where
  "shutdown_text reason = (if reason = SHUTOFF_DESTROYED then ''forced shutdown'' else ''graceful shutdown'')"

text \<open>A shutdown that libvirt accepted is logged as started, and as completed when the domain is
  first seen shut off, with the time of that observation; what is seen later does not change the
  entry again.\<close>

theorem shutdown_logged_once:
  assumes "metadata_kept (he_lv he) (he_oe he)" "log_writable (he_lv he) (he_oe he)" "calls_keep he"
    and "Shutdown_domain he uuid force w = (None, w1)" "same_meta (he_lv he) w1 w2"
    and "reason \<in> {SHUTOFF_DESTROYED, SHUTOFF_SHUTDOWN}"
    and "lv_GetState (he_lv he) (local_domain uuid) w2 = Inr (DOMAIN_SHUTOFF reason)"
    and "get_domain_info he (local_domain uuid) w2 = ((ve, name, None), w3)" "same_meta (he_lv he) w3 w4"
  shows "log_of (he_lv he) (he_oe he) (local_domain uuid) w1 OpVmShutdown =
      Some (OPERATION_STARTED, ''shutdown force='' @ int_dec (sint force) @ ''.'', he_now he w, 0) \<and>
    log_of (he_lv he) (he_oe he) (local_domain uuid) w3 OpVmShutdown =
      Some (OPERATION_COMPLETED, shutdown_text reason, he_now he w, he_now he w2) \<and>
    log_of (he_lv he) (he_oe he) (local_domain uuid) (snd (get_domain_info he (local_domain uuid) w4)) OpVmShutdown =
      Some (OPERATION_COMPLETED, shutdown_text reason, he_now he w, he_now he w2)"
proof -
  let ?d = "local_domain uuid" and ?log = "log_of (he_lv he) (he_oe he)"
  let ?msg = "''shutdown force='' @ int_dec (sint force) @ ''.''"
  have known: "known_op OpVmShutdown" by (simp add: OperationToString_def)
  note complete = complete_op_log[OF assms(1,2) known known, where d = ?d and d' = ?d]
  let ?v = "log_op he ?d OpVmShutdown OPERATION_STARTED ?msg (he_now he w) 0 w"
  from assms(4) have look: "lookup_domain he uuid w = Inr ?d"
    using lookup_uuid[of he uuid w] by (auto simp: Shutdown_domain_def local_domain_def split: sum.splits)
  have "same_meta (he_lv he) ?v w1"
    using assms(4) look keep_act(4)[OF assms(3), where d = ?d and w = ?v and w' = w1]
      keep_act(5)[OF assms(3), where d = ?d and w = ?v and w' = w1]
    by (auto simp: Shutdown_domain_def Let_def split: if_splits option.splits prod.splits)
  from same_meta_log[OF this] have log1: "?log ?d w1 OpVmShutdown = Some (OPERATION_STARTED, ?msg, he_now he w, 0)"
    using log_op_log[OF assms(1,2) known _ known] by simp
  then have log2: "?log ?d w2 OpVmShutdown = Some (OPERATION_STARTED, ?msg, he_now he w, 0)"
    using same_meta_log[OF assms(5)] by simp
  have "w3 = complete_op he ?d OpVmShutdown (shutdown_text reason) w2"
    using assms(6,7,8) by (auto simp: get_domain_info_def shutdown_seen_def shutdown_text_def split: sum.splits)
  then have log3: "?log ?d w3 OpVmShutdown = Some (OPERATION_COMPLETED, shutdown_text reason, he_now he w, he_now he w2)"
    using complete[of "shutdown_text reason" w2] log2 by simp
  then have log4: "?log ?d w4 OpVmShutdown = Some (OPERATION_COMPLETED, shutdown_text reason, he_now he w, he_now he w2)"
    using same_meta_log[OF assms(9)] by simp
  have "?log ?d (shutdown_seen he ?d state w4) OpVmShutdown = ?log ?d w4 OpVmShutdown" for state
    using complete[of _ w4] log4 by (simp add: shutdown_seen_def)
  then have "?log ?d (snd (get_domain_info he ?d w4)) OpVmShutdown = ?log ?d w4 OpVmShutdown"
    by (simp add: get_domain_info_def split: sum.splits)
  with log1 log3 log4 show ?thesis by simp
qed

section \<open>Migration\<close>

text \<open>A migration that fails leaves the metadata alone; one that succeeds takes it to the domain on
  the other host, and the source domain is gone or keeps its own.\<close>

definition meta_shrinks :: "'w libvirt \<Rightarrow> LvDomain \<Rightarrow> 'w \<Rightarrow> 'w \<Rightarrow> bool" where
  "meta_shrinks lv d w w' \<longleftrightarrow>
     (\<forall>u. lv_GetMetadata lv d u w' = lv_GetMetadata lv d u w \<or> \<not> is_ok (lv_GetMetadata lv d u w'))"

definition migration_moves :: "'w libvirt \<Rightarrow> bool" where
  "migration_moves lv \<longleftrightarrow>
     (\<forall>d uri params flags w. case lv_Migrate3 lv d uri params flags w of
        (Inl e, w') \<Rightarrow> same_meta lv w w'
      | (Inr d2, w') \<Rightarrow> (\<forall>u. lv_GetMetadata lv d2 u w' = lv_GetMetadata lv d u w) \<and>
                       (\<forall>d'. d' \<noteq> d2 \<longrightarrow> meta_shrinks lv d' w w'))"

lemma migration_movesD:
  assumes "migration_moves lv"
  shows "lv_Migrate3 lv d uri params flags w = (Inl e, w') \<Longrightarrow> same_meta lv w w'"
    and "lv_Migrate3 lv d uri params flags w = (Inr d2, w') \<Longrightarrow> lv_GetMetadata lv d2 u w' = lv_GetMetadata lv d u w"
    and "lv_Migrate3 lv d uri params flags w = (Inr d2, w') \<Longrightarrow> d' \<noteq> d2 \<Longrightarrow> meta_shrinks lv d' w w'"
proof -
  note m = assms[unfolded migration_moves_def, THEN spec, of d, THEN spec, of uri, THEN spec, of params,
      THEN spec, of flags, THEN spec, of w]
  show "lv_Migrate3 lv d uri params flags w = (Inl e, w') \<Longrightarrow> same_meta lv w w'" using m by simp
  show "lv_Migrate3 lv d uri params flags w = (Inr d2, w') \<Longrightarrow> lv_GetMetadata lv d2 u w' = lv_GetMetadata lv d u w"
    using m by simp
  show "lv_Migrate3 lv d uri params flags w = (Inr d2, w') \<Longrightarrow> d' \<noteq> d2 \<Longrightarrow> meta_shrinks lv d' w w'" using m by simp
qed

lemma known_migrate: "known_op OpVmMigrate"
  by (simp add: OperationToString_def)

lemma log_of_load: "oplog_load lv oe d op w = Inr entry \<longleftrightarrow> log_of lv oe d w op = Some entry"
  by (auto simp: log_of_def split: sum.splits)

text \<open>What libvirt answered decides how the migration went on; the calls before it change nothing.\<close>

lemma Migrate_domain_cases:
  assumes run: "Migrate_domain he hostname host_uuid host_old uuid live vcpus w s = (e, w', s')"
  obtains (refused) x where "e = Some x" "w' = w" "s' = s"
  | (failed) x t0 t1 w2 where "e = Some x" "s' = s"
      "w' = log_op he (local_domain uuid) OpVmMigrate OPERATION_FAILED (migrate_msg live host_old host_uuid @ '' '' @ error_text x) t0 t1 w2"
  | (completed) d2 w1 w2 f f1 f2 em where "e = None" "lv_Migrate3 (he_lv he) (local_domain uuid) (migrate_uri hostname)
        \<lparr>mp_URI = ''tcp://'' @ hostname, mp_ParallelConnections = (if live then Some vcpus else None)\<rparr> (migrate_flags live) w1 = (Inr d2, w2)"
      "Move f f1 f2 host_uuid host_old uuid s = (s', em)"
      "w' = log_op he d2 OpVmMigrate OPERATION_COMPLETED (migrate_msg live host_old host_uuid @
         (case em of None \<Rightarrow> '''' | Some x \<Rightarrow> '' WARNING:'' @ error_text x @ ''.'') @ '' Migrated.'') (he_now he w) (he_now he w2) w2"
proof -
  let ?lv = "he_lv he" and ?d = "local_domain uuid" and ?msg = "migrate_msg live host_old host_uuid"
  let ?w1 = "log_op he ?d OpVmMigrate OPERATION_STARTED ?msg (he_now he w) 0 w"
  let ?ps = "\<lparr>mp_URI = ''tcp://'' @ hostname, mp_ParallelConnections = (if live then Some vcpus else None)\<rparr>"
  obtain r w2 where mig: "lv_Migrate3 ?lv ?d (migrate_uri hostname) ?ps (migrate_flags live) ?w1 = (r, w2)" by fastforce
  obtain f f1 f2 where f: "he_move he s = (f, f1, f2)" by (metis prod_cases3)
  obtain s1 em where mv: "Move f f1 f2 host_uuid host_old uuid s = (s1, em)" by fastforce
  note run' = run[unfolded Migrate_domain_def Let_def, folded local_domain_def]
  show thesis
  proof (cases "lv_NewConnect ?lv LIBVIRT_URI w = None \<and> lv_NewConnect ?lv (migrate_uri hostname) w = None \<and>
      lv_Lookup ?lv LIBVIRT_URI uuid w = None")
    case False
    with run' have "s' = s \<and> w' = w \<and> e \<noteq> None" by (auto split: option.splits; metis)
    with refused show thesis by blast
  next
    case True
    show thesis
    proof (cases r)
      case (Inl x)
      with run' True mig show thesis by (intro failed[of x "he_now he w" "he_now he w2" w2]) (simp_all add: local_domain_def)
    next
      case (Inr d2)
      with run' True mig f mv show thesis
        by (intro completed[of ?w1 d2 w2 f f1 f2 em]) (auto simp: local_domain_def split: option.splits)
    qed
  qed
qed


section \<open>The registry\<close>

text \<open>C34: defining and deleting change the registry file of the machine on this host and no other
  entry, and only when libvirt did its part: a defined machine is registered with the definition
  libvirt made of it, or the file could not be written and the old entry is left, which is not
  reported; a machine is deleted only when it is shut off or crashed and libvirt undefined it.\<close>

theorem registry_follows_libvirt:
  assumes "plain (he_machine he)" "plain uuid" "drawn (snd (he_save he s))"
  shows "(case Define_domain he xml uuid w s of (e, w', s') \<Rightarrow>
       registry s' = registry s \<or>
       (\<exists>d x. e = None \<and> lv_DomainDefineXML (he_lv he) LIBVIRT_URI xml w = (Inr d, w') \<and>
          lv_GetXMLDesc (he_lv he) d True w' = Inr x \<and>
          registry s' = (\<lambda>g v. if g = he_machine he \<and> v = uuid then Some x else registry s g v))) \<and>
     (case Delete_domain he uuid w s of (e, w', s') \<Rightarrow>
       (\<exists>ds. lv_GetState (he_lv he) (local_domain uuid) w = Inr ds \<and>
          ds \<in> insert DOMAIN_CRASHED (range DOMAIN_SHUTOFF) \<and>
          w' = snd (lv_UndefineFlags (he_lv he) (local_domain uuid)
                 [UNDEFINE_MANAGED_SAVE, UNDEFINE_SNAPSHOTS_METADATA, UNDEFINE_NVRAM, UNDEFINE_CHECKPOINTS_METADATA] w) \<and>
          (registry s' = registry s \<or>
           e = None \<and> registry s' = (\<lambda>g v. if v = uuid \<and> g = he_machine he then None else registry s g v)))
       \<or> e \<noteq> None \<and> w' = w \<and> s' = s)"
proof (rule conjI)
  obtain f rnd where f: "he_save he s = (f, rnd)" by fastforce
  with assms(3) have "drawn rnd" by simp
  from Save_registry[OF assms(1,2) this, of f _ s] f
  show "case Define_domain he xml uuid w s of (e, w', s') \<Rightarrow>
       registry s' = registry s \<or>
       (\<exists>d x. e = None \<and> lv_DomainDefineXML (he_lv he) LIBVIRT_URI xml w = (Inr d, w') \<and>
          lv_GetXMLDesc (he_lv he) d True w' = Inr x \<and>
          registry s' = (\<lambda>g v. if g = he_machine he \<and> v = uuid then Some x else registry s g v))"
    by (auto simp: Define_domain_def split: option.split sum.split prod.split)
next
  obtain f sf where f: "he_delete he s = (f, sf)" by fastforce
  obtain s1 e1 where d: "Delete f sf (he_machine he) uuid s = (s1, e1)" by fastforce
  have reg: "registry s1 = registry s \<or> registry s1 = (\<lambda>g v. if v = uuid \<and> g = he_machine he then None else registry s g v)"
    using Delete_registry[OF assms(1,2) d] by auto
  show "case Delete_domain he uuid w s of (e, w', s') \<Rightarrow>
       (\<exists>ds. lv_GetState (he_lv he) (local_domain uuid) w = Inr ds \<and>
          ds \<in> insert DOMAIN_CRASHED (range DOMAIN_SHUTOFF) \<and>
          w' = snd (lv_UndefineFlags (he_lv he) (local_domain uuid)
                 [UNDEFINE_MANAGED_SAVE, UNDEFINE_SNAPSHOTS_METADATA, UNDEFINE_NVRAM, UNDEFINE_CHECKPOINTS_METADATA] w) \<and>
          (registry s' = registry s \<or>
           e = None \<and> registry s' = (\<lambda>g v. if v = uuid \<and> g = he_machine he then None else registry s g v)))
       \<or> e \<noteq> None \<and> w' = w \<and> s' = s"
  proof (cases "lookup_domain he uuid w")
    case (Inl x)
    then show ?thesis by (simp add: Delete_domain_def)
  next
    case (Inr dom)
    then have look: "lookup_domain he uuid w = Inr (local_domain uuid)"
      using lookup_uuid[of he uuid w] by (simp add: local_domain_def)
    let ?undo = "lv_UndefineFlags (he_lv he) (local_domain uuid)
       [UNDEFINE_MANAGED_SAVE, UNDEFINE_SNAPSHOTS_METADATA, UNDEFINE_NVRAM, UNDEFINE_CHECKPOINTS_METADATA] w"
    obtain eu wu where u: "?undo = (eu, wu)" by fastforce
    show ?thesis
      using look u f d reg by (cases "lv_GetState (he_lv he) (local_domain uuid) w"; cases eu)
        (auto simp: Delete_domain_def split: DomainState.split)
  qed
qed

section \<open>Every history of operations\<close>

text \<open>One step of a host: an operation of the interface, or a look at a domain by the event handler
  or the periodic collection. Defining a domain is left out: it starts a log of its own.\<close>

inductive hv_step :: "'w hv_env \<Rightarrow> 'w \<times> fs \<Rightarrow> 'w \<times> fs \<Rightarrow> bool" for he where
  step_boot: "Boot_domain he uuid ci w = (e, w') \<Longrightarrow> hv_step he (w, s) (w', s)"
| step_pause: "Pause_domain he uuid w = (e, w') \<Longrightarrow> hv_step he (w, s) (w', s)"
| step_resume: "Resume_domain he uuid w = (e, w') \<Longrightarrow> hv_step he (w, s) (w', s)"
| step_shutdown: "Shutdown_domain he uuid force w = (e, w') \<Longrightarrow> hv_step he (w, s) (w', s)"
| step_seen: "get_domain_info he d w = (r, w') \<Longrightarrow> hv_step he (w, s) (w', s)"
| step_query: "Get_migration_info he uuid w = (i, w') \<Longrightarrow> hv_step he (w, s) (w', s)"
| step_abort: "Abort_migration he uuid w = (e, w') \<Longrightarrow> hv_step he (w, s) (w', s)"
| step_migrate: "Migrate_domain he hostname host_uuid host_old uuid live vcpus w s = (e, w', s') \<Longrightarrow>
    hv_step he (w, s) (w', s')"
| step_delete: "Delete_domain he uuid w s = (e, w', s') \<Longrightarrow> hv_step he (w, s) (w', s')"

text \<open>An entry has an end time exactly when its operation ended.\<close>

definition log_ok :: "'w hv_env \<Rightarrow> 'w \<Rightarrow> bool" where
  "log_ok he w \<longleftrightarrow> (\<forall>d op st msg ts te. known_op op \<longrightarrow>
     log_of (he_lv he) (he_oe he) d w op = Some (st, msg, ts, te) \<longrightarrow> (te = 0 \<longleftrightarrow> st = OPERATION_STARTED))"

text \<open>What is assumed of libvirt and the clock.\<close>

definition libvirt_laws :: "'w hv_env \<Rightarrow> bool" where
  "libvirt_laws he \<longleftrightarrow> metadata_kept (he_lv he) (he_oe he) \<and> calls_keep he \<and> migration_moves (he_lv he) \<and>
     (\<forall>d d' flags w. meta_shrinks (he_lv he) d' w (snd (lv_UndefineFlags (he_lv he) d flags w))) \<and>
     (\<forall>w. he_now he w \<noteq> 0)"

lemma log_shrinks:
  assumes "meta_shrinks lv d w w'"
  shows "log_of lv oe d w' op = log_of lv oe d w op \<or> log_of lv oe d w' op = None"
proof (cases "lv_GetMetadata lv d (op_space op) w'")
  case (Inl x)
  then show ?thesis by (simp add: log_of_def oplog_load_def)
next
  case (Inr x)
  then have "lv_GetMetadata lv d (op_space op) w' = lv_GetMetadata lv d (op_space op) w"
    using assms unfolding meta_shrinks_def by (metis is_ok_simps(1))
  from log_of_same[OF this] show ?thesis by (rule disjI1)
qed

lemma log_ok_shrinks: "(\<And>d. meta_shrinks (he_lv he) d w w') \<Longrightarrow> log_ok he w \<Longrightarrow> log_ok he w'"
proof -
  assume shrink: "\<And>d. meta_shrinks (he_lv he) d w w'" and ok: "log_ok he w"
  have "te = 0 \<longleftrightarrow> st = OPERATION_STARTED"
    if "known_op op" "log_of (he_lv he) (he_oe he) d w' op = Some (st, msg, ts, te)" for d op st msg ts te
  proof -
    from log_shrinks[OF shrink[of d], of "he_oe he" op] that(2)
    have "log_of (he_lv he) (he_oe he) d w op = Some (st, msg, ts, te)" by simp
    with ok that(1) show ?thesis unfolding log_ok_def by blast
  qed
  then show ?thesis unfolding log_ok_def by blast
qed

lemma log_ok_same: "same_meta (he_lv he) w w' \<Longrightarrow> log_ok he w \<Longrightarrow> log_ok he w'"
  by (rule log_ok_shrinks) (simp_all add: same_meta_def meta_shrinks_def)

lemma log_ok_record:
  assumes "libvirt_laws he" "log_ok he w" "known_op op" "known_state st" "te = 0 \<longleftrightarrow> st = OPERATION_STARTED"
  shows "log_ok he (log_op he d op st msg ts te w)"
proof -
  obtain e w' where r: "oplog_record (he_lv he) (he_oe he) d op st msg ts te w = (e, w')" by fastforce
  have "metadata_kept (he_lv he) (he_oe he)" using assms(1) by (simp add: libvirt_laws_def)
  note log = record_log[OF this r assms(3,4)]
  show ?thesis
    unfolding log_ok_def log_op_def r snd_conv
  proof (intro allI impI)
    fix d' op' st' msg' ts' te'
    assume k: "known_op op'" and l: "log_of (he_lv he) (he_oe he) d' w' op' = Some (st', msg', ts', te')"
    show "te' = 0 \<longleftrightarrow> st' = OPERATION_STARTED"
    proof (cases "e = None \<and> d' = d \<and> op' = op")
      case True
      with log[OF k, of d'] l assms(5) show ?thesis by simp
    next
      case False
      with log[OF k, of d'] l have "log_of (he_lv he) (he_oe he) d' w op' = Some (st', msg', ts', te')" by metis
      with assms(2) k show ?thesis unfolding log_ok_def by blast
    qed
  qed
qed

lemma log_ok_complete:
  assumes "libvirt_laws he" "log_ok he w" "known_op op"
  shows "log_ok he (complete_op he d op msg w)"
proof -
  have "complete_op he d op msg w = w \<or>
      (\<exists>started. complete_op he d op msg w = log_op he d op OPERATION_COMPLETED msg started (he_now he w) w)"
    by (auto simp: complete_op_def log_op_def oplog_complete_def split: sum.split)
  moreover have "he_now he w \<noteq> 0" using assms(1) by (simp add: libvirt_laws_def)
  ultimately show ?thesis using assms(2) log_ok_record[OF assms, of OPERATION_COMPLETED] by auto
qed

lemma log_ok_logged_op:
  assumes "libvirt_laws he" "log_ok he w" "known_op op"
    and "\<And>w1 e1 w2. act w1 = (e1, w2) \<Longrightarrow> same_meta (he_lv he) w1 w2"
  shows "log_ok he (snd (logged_op he d op act w))"
proof -
  have now: "he_now he v \<noteq> 0" for v using assms(1) by (simp add: libvirt_laws_def)
  obtain e w2 where a: "act (log_op he d op OPERATION_STARTED '''' (he_now he w) 0 w) = (e, w2)" by fastforce
  have "log_ok he w2"
    using log_ok_same[OF assms(4)[OF a] log_ok_record[OF assms(1-3)]] by simp
  note rec = log_ok_record[OF assms(1) this assms(3)]
  show ?thesis using a rec now by (cases e) (simp_all add: logged_op_def Let_def)
qed

lemma laws_simps:
  assumes "libvirt_laws he"
  shows "calls_keep he" "migration_moves (he_lv he)" "he_now he v \<noteq> 0"
    and "meta_shrinks (he_lv he) d' w (snd (lv_UndefineFlags (he_lv he) d flags w))"
  using assms by (simp_all add: libvirt_laws_def)

lemma step_ops: "known_op OpVmBoot" "known_op OpVmPause" "known_op OpVmResume" "known_op OpVmShutdown"
  by (simp_all add: OperationToString_def)

lemma log_ok_Boot:
  assumes "libvirt_laws he" "log_ok he w" "Boot_domain he uuid ci w = (e, w')"
  shows "log_ok he w'"
proof (cases "lookup_domain he uuid w")
  case (Inl x)
  with assms(2,3) show ?thesis by (simp add: Boot_domain_def)
next
  case (Inr d)
  let ?act = "\<lambda>w1. if length ci > 0 then cloudinit_boot_domain (he_lv he) (he_ce he) uuid d ci w1
                  else lv_Create (he_lv he) d w1"
  have "same_meta (he_lv he) w1 w2" if "?act w1 = (e1, w2)" for w1 e1 w2
    using that keep_act(1,7)[OF laws_simps(1)[OF assms(1)]] by (metis (no_types, lifting))
  from log_ok_logged_op[OF assms(1,2) step_ops(1), of ?act d, OF this] Inr assms(3)
  show ?thesis by (simp add: Boot_domain_def)
qed

lemma log_ok_Pause_Resume:
  assumes "libvirt_laws he" "log_ok he w"
  shows "Pause_domain he uuid w = (e, w') \<Longrightarrow> log_ok he w'" "Resume_domain he uuid w = (e, w') \<Longrightarrow> log_ok he w'"
proof -
  note keep = keep_act[OF laws_simps(1)[OF assms(1)]]
  have pause: "log_ok he (snd (logged_op he d OpVmPause (lv_Suspend (he_lv he) d) w))" for d
    by (rule log_ok_logged_op[OF assms step_ops(2) keep(2)])
  have resume: "log_ok he (snd (logged_op he d OpVmResume (lv_Resume (he_lv he) d) w))" for d
    by (rule log_ok_logged_op[OF assms step_ops(3) keep(3)])
  show "log_ok he w'" if "Pause_domain he uuid w = (e, w')"
    using that pause assms(2) by (cases "lookup_domain he uuid w") (simp_all add: Pause_domain_def, metis snd_conv)
  show "log_ok he w'" if "Resume_domain he uuid w = (e, w')"
    using that resume assms(2) by (cases "lookup_domain he uuid w") (simp_all add: Resume_domain_def, metis snd_conv)
qed

lemma log_ok_Shutdown:
  assumes "libvirt_laws he" "log_ok he w" "Shutdown_domain he uuid force w = (e, w')"
  shows "log_ok he w'"
proof (cases "lookup_domain he uuid w")
  case (Inl x)
  with assms(2,3) show ?thesis by (simp add: Shutdown_domain_def)
next
  case (Inr d)
  note rec = log_ok_record[OF assms(1) _ step_ops(4)] and keep = keep_act[OF laws_simps(1)[OF assms(1)]]
  let ?msg = "''shutdown force='' @ int_dec (sint force) @ ''.''"
  let ?v = "log_op he d OpVmShutdown OPERATION_STARTED ?msg (he_now he w) 0 w"
  obtain e2 w2 where act: "(if force = 0 then lv_Shutdown (he_lv he) d ?v
      else if force = 1 then lv_DestroyFlags (he_lv he) d True ?v else lv_DestroyFlags (he_lv he) d False ?v) = (e2, w2)"
    by fastforce
  have "same_meta (he_lv he) ?v w2"
  proof (cases "force = 0")
    case True
    with act have "lv_Shutdown (he_lv he) d ?v = (e2, w2)" by simp
    then show ?thesis by (rule keep(4))
  next
    case False
    with act have "lv_DestroyFlags (he_lv he) d (force = 1) ?v = (e2, w2)" by (cases "force = 1") simp_all
    then show ?thesis by (rule keep(5))
  qed
  from log_ok_same[OF this rec[OF assms(2)]] have "log_ok he w2" by simp
  note ended = rec[OF this, of OPERATION_FAILED] this and now = laws_simps(3)[OF assms(1)]
  note run = assms(3)[unfolded Shutdown_domain_def Inr sum.case Let_def act prod.case]
  show ?thesis using run ended now by (cases e2) auto
qed

lemma log_ok_seen:
  "libvirt_laws he \<Longrightarrow> log_ok he w \<Longrightarrow> get_domain_info he d w = (r, w') \<Longrightarrow> log_ok he w'"
  using log_ok_complete[OF _ _ step_ops(4)]
  by (auto simp: get_domain_info_def shutdown_seen_def split: sum.splits if_splits)

lemma log_ok_queries:
  assumes "libvirt_laws he" "log_ok he w"
  shows "Get_migration_info he uuid w = (i, w') \<Longrightarrow> log_ok he w'" "Abort_migration he uuid w = (e, w') \<Longrightarrow> log_ok he w'"
  using log_ok_same[OF keep_act(6)[OF laws_simps(1)[OF assms(1)]] assms(2)] assms(2)
  by (auto simp: Get_migration_info_def Abort_migration_def split: sum.splits if_splits prod.splits)

lemma log_ok_Migrate:
  assumes "libvirt_laws he" "log_ok he w"
    and "Migrate_domain he hostname host_uuid host_old uuid live vcpus w s = (e, w', s')"
  shows "log_ok he w'"
proof -
  let ?d = "local_domain uuid"
  let ?ps = "\<lparr>mp_URI = ''tcp://'' @ hostname, mp_ParallelConnections = (if live then Some vcpus else None)\<rparr>"
  let ?v = "log_op he ?d OpVmMigrate OPERATION_STARTED (migrate_msg live host_old host_uuid) (he_now he w) 0 w"
  obtain r w2 where mig: "lv_Migrate3 (he_lv he) ?d (migrate_uri hostname) ?ps (migrate_flags live) ?v = (r, w2)"
    by fastforce
  note rec = log_ok_record[OF assms(1) _ known_migrate]
  have v: "log_ok he ?v" using rec[OF assms(2)] by simp
  have "log_ok he w2"
  proof (cases r)
    case (Inl x)
    with migration_movesD(1)[OF laws_simps(2)[OF assms(1)]] mig have "same_meta (he_lv he) ?v w2" by simp
    from log_ok_same[OF this v] show ?thesis .
  next
    case (Inr d2)
    with mig have r: "lv_Migrate3 (he_lv he) ?d (migrate_uri hostname) ?ps (migrate_flags live) ?v = (Inr d2, w2)" by simp
    note m = migration_movesD(2,3)[OF laws_simps(2)[OF assms(1)] r]
    have moved: "log_of (he_lv he) (he_oe he) d2 w2 op = log_of (he_lv he) (he_oe he) ?d ?v op" for op
      by (rule log_of_same) (simp add: m(1))
    have "te = 0 \<longleftrightarrow> st = OPERATION_STARTED"
      if "known_op op" "log_of (he_lv he) (he_oe he) d' w2 op = Some (st, msg, ts, te)" for d' op st msg ts te
    proof (cases "d' = d2")
      case True
      with that v moved show ?thesis unfolding log_ok_def by metis
    next
      case False
      from log_shrinks[OF m(2)[OF this], of "he_oe he" op]
      have "log_of (he_lv he) (he_oe he) d' w2 op = log_of (he_lv he) (he_oe he) d' ?v op"
        unfolding that(2) by simp
      with that v show ?thesis unfolding log_ok_def by metis
    qed
    then show ?thesis unfolding log_ok_def by blast
  qed
  from rec[OF this] show ?thesis
    using assms(2,3) mig laws_simps(3)[OF assms(1)]
    by (auto simp: Migrate_domain_def Let_def local_domain_def split: option.splits sum.splits prod.splits)
qed

lemma log_ok_Delete:
  assumes "libvirt_laws he" "log_ok he w" "Delete_domain he uuid w s = (e, w', s')"
  shows "log_ok he w'"
proof -
  have "log_ok he w1" if "lv_UndefineFlags (he_lv he) d flags w = (e1, w1)" for d flags e1 w1
    using log_ok_shrinks[OF _ assms(2), of w1] laws_simps(4)[OF assms(1)] that by (metis snd_conv)
  with assms(2,3) show ?thesis
    by (auto simp: Delete_domain_def split: sum.splits if_splits prod.splits option.splits)
qed

lemma log_ok_step: "hv_step he v v' \<Longrightarrow> libvirt_laws he \<Longrightarrow> log_ok he (fst v) \<Longrightarrow> log_ok he (fst v')"
  by (induction rule: hv_step.induct)
    (auto intro: log_ok_Boot log_ok_Pause_Resume log_ok_Shutdown log_ok_seen log_ok_queries log_ok_Migrate log_ok_Delete)

text \<open>C35: in every history of operations and observations on the domains of a host, whatever fails
  and including writes to the log itself, an entry of a log has an end time exactly when it
  does not say started, if that was so at the beginning.\<close>

theorem log_times_consistent:
  assumes "libvirt_laws he" "(hv_step he)\<^sup>*\<^sup>* (w, s) (w', s')" "log_ok he w"
  shows "log_ok he w'"
proof -
  from assms(2) have "log_ok he (fst (w', s'))"
    by (induction rule: rtranclp_induct) (use assms(3) log_ok_step[OF _ assms(1)] in simp_all)
  then show ?thesis by simp
qed

section \<open>Witnesses\<close>

text \<open>A libvirt that only keeps metadata, in a form that can be read back: each string with its
  length before it.\<close>

definition put_str :: "string \<Rightarrow> string" where
  "put_str s = replicate (length s) (CHR ''1'') @ CHR ''0'' # s"

definition get_str :: "string \<Rightarrow> string \<times> string" where
  "get_str s = (let n = length (takeWhile (\<lambda>c. c = CHR ''1'') s); r = drop (n + 1) s in (take n r, drop n r))"

lemma get_put_str [simp]: "get_str (put_str s @ r) = (s, r)"
proof -
  have "takeWhile (\<lambda>c. c = CHR ''1'') (replicate n (CHR ''1'') @ CHR ''0'' # x) = replicate n (CHR ''1'')" for n x
    by (induction n) simp_all
  then have t: "takeWhile (\<lambda>c. c = CHR ''1'') (put_str s @ r) = replicate (length s) (CHR ''1'')"
    by (simp add: put_str_def)
  have d: "drop (length s + 1) (put_str s @ r) = s @ r"
    by (simp add: put_str_def)
  show ?thesis unfolding get_str_def t Let_def length_replicate d by simp
qed

definition sample_oe :: oplog_env where
  "sample_oe = \<lparr>
     oe_marshal = (\<lambda>m. Inr (put_str (om_Op m) @ put_str (nat_dec (unat (om_Ts m))) @ put_str (nat_dec (unat (om_Te m))) @
        put_str (om_Status m) @ put_str (om_Msg m) @ '''')),
     oe_unmarshal = (\<lambda>x. let (o', a) = get_str x; (ts, b) = get_str a; (te, c) = get_str b; (st, d) = get_str c in
        Inr \<lparr>om_Space = '''', om_Local = '''', om_Op = o', om_Ts = word_of_nat (dec_nat ts),
             om_Te = word_of_nat (dec_nat te), om_Status = st, om_Msg = fst (get_str d)\<rparr>)\<rparr>"

lemma sample_roundtrip: "oe_marshal sample_oe m = Inr x \<Longrightarrow> \<exists>m'. oe_unmarshal sample_oe x = Inr m' \<and> same_entry m m'"
  using get_put_str[where r = "''''"] by (auto simp: sample_oe_def same_entry_def)

type_synonym meta_world = "LvDomain \<Rightarrow> string \<rightharpoonup> string"

definition sample_lv :: "DomainState \<Rightarrow> meta_world libvirt" where
  "sample_lv st = \<lparr>lv_NewConnect = (\<lambda>u w. None), lv_Lookup = (\<lambda>c u w. None), lv_GetUUIDString = (\<lambda>d w. Inr (ld_uuid d)),
     lv_GetTitle = (\<lambda>d w. Inr ''name''), lv_IsPersistent = (\<lambda>d w. Inr True), lv_GetState = (\<lambda>d w. Inr st),
     lv_GetXMLDesc = (\<lambda>d i w. Inr ''<domain/>''),
     lv_GetMetadata = (\<lambda>d u w. case w d u of None \<Rightarrow> Inl NotExist | Some x \<Rightarrow> Inr x),
     lv_SetMetadata = (\<lambda>d x k u w. (None, w(d := (w d)(u \<mapsto> x)))),
     lv_DomainDefineXML = (\<lambda>c x w. (Inr \<lparr>ld_conn = c, ld_uuid = ''v''\<rparr>, w)),
     lv_Migrate3 = (\<lambda>d uri p fl w. if uri = migrate_uri ''down'' then (Inl (OsErr ''refused''), w)
        else (Inr \<lparr>ld_conn = uri, ld_uuid = ld_uuid d\<rparr>, w(\<lparr>ld_conn = uri, ld_uuid = ld_uuid d\<rparr> := w d))),
     lv_QemuMonitorCommand = (\<lambda>d c w. (Inr '''', w)),
     lv_Create = (\<lambda>d w. (None, w)), lv_Suspend = (\<lambda>d w. (Some (OsErr ''not running''), w)),
     lv_Resume = (\<lambda>d w. (None, w)), lv_Shutdown = (\<lambda>d w. (None, w)), lv_DestroyFlags = (\<lambda>d g w. (None, w)),
     lv_UndefineFlags = (\<lambda>d fl w. (None, w(d := Map.empty))), lv_AttachDevice = (\<lambda>d x w. (None, w))\<rparr>"

definition sample_se :: "meta_world storage_env" where
  "sample_se = \<lparr>se_md5 = (\<lambda>b. b), se_Create_resource = (\<lambda>r u w. (None, w)), se_Run = (\<lambda>r u c nd w. (None, w)),
     se_MkdirAll = (\<lambda>p w. (None, w)), se_EvalSymlinks = (\<lambda>p w. Inr p), se_ReadFile = (\<lambda>p w. Inr ''0''),
     se_Lstat = (\<lambda>p w. Inr (0, 0)), se_qemu_map = (\<lambda>p w. Inl NotExist), se_getsize = (\<lambda>p w. Inr 0)\<rparr>"

definition sample_ce :: "meta_world cloud_env" where
  "sample_ce = \<lparr>ce_storage = sample_se, ce_MkdirTemp = (\<lambda>w. (Inr ''/tmp/x'', w)), ce_WriteFile = (\<lambda>f c w. (None, w)),
     ce_Remove = (\<lambda>f w. w), ce_Stat = (\<lambda>p w. None), ce_xorrisofs = (\<lambda>a w. (None, w)),
     ce_lease_Marshal = (\<lambda>l. Inr ''<lease/>''), ce_disk_Marshal = (\<lambda>d. Inr ''<disk/>'')\<rparr>"

definition sample_he :: "DomainState \<Rightarrow> meta_world hv_env" where
  "sample_he st = \<lparr>he_lv = sample_lv st, he_oe = sample_oe, he_ce = sample_ce, he_now = (\<lambda>w. 7), he_machine = ''A'',
     he_qemu_info = (\<lambda>x. Inl NotExist), he_save = (\<lambda>s. (no_save_faults, ''42'')),
     he_move = (\<lambda>s. (None, no_sync_faults, no_sync_faults)), he_delete = (\<lambda>s. (None, no_sync_faults))\<rparr>"

lemma sample_he_simps [simp]:
  "he_lv (sample_he st) = sample_lv st" "he_oe (sample_he st) = sample_oe" "he_ce (sample_he st) = sample_ce"
  "he_now (sample_he st) w = 7" "he_machine (sample_he st) = ''A''" "he_save (sample_he st) s = (no_save_faults, ''42'')"
  by (simp_all add: sample_he_def)

lemma sample_kept: "metadata_kept (sample_lv st) sample_oe"
  unfolding metadata_kept_def
proof (intro allI impI conjI)
  fix d x k u w e w' d' u'
  assume s: "lv_SetMetadata (sample_lv st) d x k u w = (e, w')"
  then have w': "e = None" "w' = w(d := (w d)(u \<mapsto> x))" by (simp_all add: sample_lv_def)
  show "(d', u') \<noteq> (d, u) \<or> e \<noteq> None \<Longrightarrow>
      lv_GetMetadata (sample_lv st) d' u' w' = lv_GetMetadata (sample_lv st) d' u' w"
    using w' by (auto simp: sample_lv_def)
  have "lv_GetMetadata (sample_lv st) d u w' = Inr x" unfolding w' by (simp add: sample_lv_def)
  then show "\<exists>y m'. lv_GetMetadata (sample_lv st) d u w' = Inr y \<and> oe_unmarshal sample_oe y = Inr m' \<and> same_entry m m'"
    if "e = None \<and> oe_marshal sample_oe m = Inr x" for m using that sample_roundtrip by blast
qed

lemma sample_writable: "log_writable (sample_lv st) sample_oe"
  by (simp add: log_writable_def sample_lv_def sample_oe_def)

lemma sample_calls: "calls_keep (sample_he st)"
  by (simp add: calls_keep_def kept_by_def same_meta_def sample_lv_def sample_ce_def sample_se_def)

lemma sample_moves: "migration_moves (sample_lv st)"
  by (simp add: migration_moves_def same_meta_def meta_shrinks_def sample_lv_def)

lemma sample_laws: "libvirt_laws (sample_he st)"
  unfolding libvirt_laws_def using sample_kept[of st] sample_calls[of st] sample_moves[of st]
  by (simp add: meta_shrinks_def sample_lv_def)

lemma sample_lookup: "lookup_domain (sample_he st) u w = Inr (local_domain u)"
  by (simp add: lookup_domain_def local_domain_def sample_lv_def)

theorem oplog_refines_map_witness:
  "\<exists>w'. oplog_record (sample_lv DOMAIN_RUNNING) sample_oe (local_domain ''v'') OpVmBoot OPERATION_STARTED ''go'' 7 0 (\<lambda>_. Map.empty) = (None, w') \<and>
     log_of (sample_lv DOMAIN_RUNNING) sample_oe (local_domain ''v'') w' OpVmBoot = Some (OPERATION_STARTED, ''go'', 7, 0)"
proof -
  let ?run = "oplog_record (sample_lv DOMAIN_RUNNING) sample_oe (local_domain ''v'') OpVmBoot OPERATION_STARTED ''go'' 7 0 (\<lambda>_. Map.empty)"
  obtain w' where r: "?run = (None, w')" using writable_record[OF sample_writable] by (metis prod.collapse)
  have known: "known_op OpVmBoot" "known_state OPERATION_STARTED" by (simp_all add: OperationToString_def)
  have "case ?run of (e, w') \<Rightarrow> log_of (sample_lv DOMAIN_RUNNING) sample_oe (local_domain ''v'') w' OpVmBoot =
      (if e = None \<and> local_domain ''v'' = local_domain ''v'' \<and> OpVmBoot = OpVmBoot
       then Some (OPERATION_STARTED, ''go'', 7, 0)
       else log_of (sample_lv DOMAIN_RUNNING) sample_oe (local_domain ''v'') (\<lambda>_. Map.empty) OpVmBoot)"
    by (rule oplog_refines_map[OF sample_kept known(1) known(2) known(1), THEN conjunct1])
  then show ?thesis using r by simp
qed


theorem shutdown_logged_once_witness:
  "\<exists>w'. Shutdown_domain (sample_he (DOMAIN_SHUTOFF SHUTOFF_SHUTDOWN)) ''v'' 0 (\<lambda>_. Map.empty) = (None, w') \<and>
     log_of (sample_lv (DOMAIN_SHUTOFF SHUTOFF_SHUTDOWN)) sample_oe (local_domain ''v'')
       (snd (get_domain_info (sample_he (DOMAIN_SHUTOFF SHUTOFF_SHUTDOWN)) (local_domain ''v'') w')) OpVmShutdown =
       Some (OPERATION_COMPLETED, ''graceful shutdown'', 7, 7)"
proof -
  let ?he = "sample_he (DOMAIN_SHUTOFF SHUTOFF_SHUTDOWN)"
  obtain e w' where s: "Shutdown_domain ?he ''v'' 0 (\<lambda>_. Map.empty) = (e, w')" by fastforce
  have e: "e = None" using s by (simp add: Shutdown_domain_def sample_lookup Let_def) (simp add: sample_lv_def)
  obtain info w3 where g0: "get_domain_info ?he (local_domain ''v'') w' = (info, w3)" by fastforce
  obtain ve name e2 where "info = (ve, name, e2)" by (cases info)
  with g0 have g: "get_domain_info ?he (local_domain ''v'') w' = ((ve, name, e2), w3)" by simp
  have e2: "e2 = None" using g by (simp add: get_domain_info_def) (simp add: sample_lv_def)
  have "lv_GetState (he_lv ?he) (local_domain ''v'') w' = Inr (DOMAIN_SHUTOFF SHUTOFF_SHUTDOWN)" by (simp add: sample_lv_def)
  from shutdown_logged_once[OF _ _ sample_calls s[unfolded e] same_meta_refl _ this g[unfolded e2] same_meta_refl]
  have "log_of (he_lv ?he) (he_oe ?he) (local_domain ''v'') w3 OpVmShutdown =
      Some (OPERATION_COMPLETED, shutdown_text SHUTOFF_SHUTDOWN, he_now ?he (\<lambda>_. Map.empty), he_now ?he w')"
    by (simp add: sample_kept sample_writable)
  then show ?thesis using s e g by (simp add: shutdown_text_def)
qed

lemma sample_log_set: "log_op (sample_he st) d op s m t te w d (op_space op) \<noteq> None"
  by (simp add: log_op_def oplog_record_def Operation_To_xml_def Let_def) (simp add: sample_lv_def sample_oe_def)


theorem registry_follows_libvirt_witness:
  "registry (snd (snd (Delete_domain (sample_he DOMAIN_RUNNING) ''v'' (\<lambda>_. Map.empty) sample_fs))) = registry sample_fs"
proof -
  obtain e w' s' where d: "Delete_domain (sample_he DOMAIN_RUNNING) ''v'' (\<lambda>_. Map.empty) sample_fs = (e, w', s')" by (metis prod_cases3)
  have "plain (he_machine (sample_he DOMAIN_RUNNING))" "drawn (snd (he_save (sample_he DOMAIN_RUNNING) sample_fs))"
    using sample_plain by simp_all
  from registry_follows_libvirt[OF this(1) sample_plain(3) this(2), THEN conjunct2, of "\<lambda>_. Map.empty"] d
  show ?thesis by (auto simp: sample_lv_def)
qed

theorem log_times_consistent_witness:
  "log_ok (sample_he DOMAIN_RUNNING) (snd (Boot_domain (sample_he DOMAIN_RUNNING) ''v'' [] (\<lambda>_. Map.empty)))"
proof -
  let ?he = "sample_he DOMAIN_RUNNING" and ?w = "\<lambda>_. Map.empty"
  obtain e w' where b: "Boot_domain ?he ''v'' [] ?w = (e, w')" by fastforce
  from step_boot[OF this] have "(hv_step ?he)\<^sup>*\<^sup>* (?w, sample_fs) (w', sample_fs)" by (rule r_into_rtranclp)
  moreover have "log_ok ?he ?w" by (simp add: log_ok_def log_of_def oplog_load_def) (simp add: sample_lv_def)
  ultimately show ?thesis using log_times_consistent[OF sample_laws] b by simp
qed

end
