(* ===== verification/Systeminfo_Props.thy ===== *)
theory Systeminfo_Props
  imports Systeminfo Domain_Props
begin

text \<open>
  What a host reports of itself: counters, the accounting of its resources, the well-formedness of
  the information, and the removal of machines from the inventory that libvirt does not know.
\<close>

section \<open>Counters\<close>

text \<open>Both differences of counters are subtraction modulo \<open>2^64\<close>, so a counter that wrapped
  around once still gives the number of events; for the signed counters the branch for the wrap
  is the same subtraction.\<close>

theorem counter_delta_wraps:
  "uint (Counter_delta_uint64 c1 c0) = (uint c1 - uint c0) mod 2 ^ 64 \<and>
   Counter_delta_int64 c1 c0 = c1 - c0"
proof -
  have "Counter_delta_uint64 c1 c0 = c1 - c0" by (simp add: Counter_delta_uint64_def)
  moreover have "Counter_delta_int64 c1 c0 = c1 - c0" by (simp add: Counter_delta_int64_def)
  ultimately show ?thesis by (simp only: uint_word_arith_bintrs take_bit_eq_mod) simp
qed

section \<open>The machines of a host\<close>

text \<open>What \<open>get_domain_stats\<close> leaves of a machine's identity.\<close>

lemma stats_deltas_keep:
  "stats_deltas vm old imm = Inr vm' \<Longrightarrow> VmInfo.truncate vm' = VmInfo.truncate vm"
  by (auto simp: stats_deltas_def Let_def rbind_def VmInfo.truncate_def split: sum.splits)

lemma get_domain_stats_keep:
  assumes "get_domain_stats sy d vm old imm w = Inr vm'"
  shows "ve_uuid vm' = ve_uuid vm" "ve_ts vm' = ve_ts vm" "ve_host vm' = ve_host vm"
    "ve_runstate vm' = ve_runstate vm" "vmi_name vm' = vmi_name vm"
  using assms
  by (auto simp: get_domain_stats_def rbind_def Let_def VmInfo.truncate_def
      split: sum.splits prod.splits option.splits dest!: stats_deltas_keep)

lemma get_domain_info_found:
  "get_domain_info he d w = ((ve, name, None), w') \<Longrightarrow>
     lv_GetUUIDString (he_lv he) d w = Inr (ve_uuid ve) \<and> ve_host ve = he_machine he \<and>
     (\<exists>st. lv_GetState (he_lv he) d w = Inr st \<and> ve_runstate ve = runstate_of st)"
  by (auto simp: get_domain_info_def split: sum.splits)

lemma runstate_of_valid: "1 \<le> uint (runstate_of st) + 1 \<and> uint (runstate_of st) \<le> 9"
  by (auto simp: runstate_of_def split: DomainState.split PausedReason.split ShutoffReason.split)

text \<open>One machine more: it is left out, or described by an entry under its UUID.\<close>

definition described :: "string \<Rightarrow> i64 \<Rightarrow> string \<Rightarrow> SystemInfoVm \<Rightarrow> bool" where
  "described machine ts u vm \<longleftrightarrow> ve_uuid vm = u \<and> ve_host vm = machine \<and> ve_ts vm = ts \<and> uint (ve_runstate vm) \<le> 9"

lemma collect_cases:
  assumes "collect_vms sy hv imm ts (d # ds) found t w = (Inr r, w')"
  obtains (skip) w1 where "collect_vms sy hv imm ts ds found t w1 = (Inr r, w')"
  | (take) u vm w1 where "lv_GetUUIDString (he_lv (sy_he sy)) d w = Inr u"
      "described (he_machine (sy_he sy)) ts u vm"
      "collect_vms sy hv imm ts ds (found(u \<mapsto> vm)) (add_totals (ni_MHz (im_info imm)) vm t) w1 = (Inr r, w')"
proof -
  obtain ve name oe w1 where i: "get_domain_info (sy_he sy) d w = ((ve, name, oe), w1)"
    by (metis prod.collapse)
  show thesis
  proof (cases oe)
    case (Some e)
    with assms i show thesis by (intro skip) simp
  next
    case None
    let ?vm = "(new_vm ve name)\<lparr>ve_ts := ts\<rparr>" and ?old = "Option.bind hv (\<lambda>si. si_Vms si (ve_uuid ve))"
    from i None have info: "get_domain_info (sy_he sy) d w = ((ve, name, None), w1)" by simp
    note ve = get_domain_info_found[OF info]
    show thesis
    proof (cases "get_domain_stats sy d ?vm ?old imm w1")
      case (Inl e)
      with assms info show thesis by (intro skip) (simp add: Let_def split: if_splits)
    next
      case (Inr vm')
      have "described (he_machine (sy_he sy)) ts (ve_uuid ve) vm'"
        using ve get_domain_stats_keep[OF Inr] runstate_of_valid by (auto simp: described_def new_vm_def)
      moreover have "collect_vms sy hv imm ts ds (found(ve_uuid ve \<mapsto> vm'))
          (add_totals (ni_MHz (im_info imm)) vm' t) w1 = (Inr r, w')"
        using assms info Inr by (simp add: Let_def)
      ultimately show thesis using ve by (intro take) auto
    qed
  qed
qed

lemma collect_described:
  assumes "collect_vms sy hv imm ts ds found t w = (Inr (found', t'), w')"
    and "\<And>u vm. found u = Some vm \<Longrightarrow> described (he_machine (sy_he sy)) ts u vm"
    and "found' u = Some vm"
  shows "described (he_machine (sy_he sy)) ts u vm"
  using assms
proof (induction ds arbitrary: found t w)
  case (Cons d ds)
  from Cons.prems(1) show ?case
  proof (cases rule: collect_cases)
    case (skip w1)
    from Cons.IH[OF this Cons.prems(2,3)] show ?thesis .
  next
    case (take u' vm' w1)
    show ?thesis
      by (rule Cons.IH[OF take(3) _ Cons.prems(3)]) (auto simp: take(2) Cons.prems(2) split: if_splits)
  qed
qed simp

text \<open>The totals are sums over the machines found, when no two domains have the same UUID.\<close>

definition totals_of :: "u64 \<Rightarrow> (string \<rightharpoonup> SystemInfoVm) \<Rightarrow> totals" where
  "totals_of mhz found = (let vm = (\<lambda>u. the (found u)); st = (\<lambda>u. sv_stats (vm u)) in
     \<lparr>to_memory_capacity = (\<Sum>u \<in> {u \<in> dom found. \<not> sv_hp (vm u)}. vs_MemoryCapacity (st u)),
      to_memory_used = (\<Sum>u \<in> dom found. vs_MemoryUsed (st u)),
      to_hp_capacity = (\<Sum>u \<in> {u \<in> dom found. sv_hp (vm u)}. vs_MemoryCapacity (st u)),
      to_vcpus_mhz = (\<Sum>u \<in> dom found. scast (vmi_vcpus (vm u)) * ucast mhz),
      to_percent = (\<Sum>u \<in> dom found. vs_CpuUtilization (st u))\<rparr>)"

lemma totals_of_empty: "totals_of mhz Map.empty = no_totals"
  by (simp add: totals_of_def no_totals_def)

lemma sum_found_upd:
  fixes g :: "SystemInfoVm \<Rightarrow> 'b::comm_monoid_add"
  assumes "found u = None"
  shows "(\<Sum>x \<in> {x \<in> dom found. P (the (found x))}. g (the ((found(u \<mapsto> vm)) x))) =
    (\<Sum>x \<in> {x \<in> dom found. P (the (found x))}. g (the (found x)))"
  using assms by (intro sum.cong) auto

lemma found_upd_set:
  assumes "found u = None"
  shows "{x \<in> dom (found(u \<mapsto> vm)). P (the ((found(u \<mapsto> vm)) x))} =
      (if P vm then insert u {x \<in> dom found. P (the (found x))} else {x \<in> dom found. P (the (found x))})"
  using assms by auto

lemma sum_insert_found:
  fixes g :: "SystemInfoVm \<Rightarrow> 'b::comm_monoid_add"
  assumes "finite (dom found)" "found u = None"
  shows "(\<Sum>x \<in> {x \<in> dom (found(u \<mapsto> vm)). P (the ((found(u \<mapsto> vm)) x))}. g (the ((found(u \<mapsto> vm)) x))) =
    (if P vm then g vm + (\<Sum>x \<in> {x \<in> dom found. P (the (found x))}. g (the (found x)))
     else (\<Sum>x \<in> {x \<in> dom found. P (the (found x))}. g (the (found x))))"
proof -
  have "u \<notin> {x \<in> dom found. P (the (found x))}" "finite {x \<in> dom found. P (the (found x))}"
    using assms by auto
  then show ?thesis
    unfolding found_upd_set[where found = found and u = u and P = P and vm = vm, OF assms(2)]
    by (simp add: sum_found_upd[where found = found and u = u and P = P and g = g and vm = vm, OF assms(2)] del: fun_upd_apply) simp
qed

lemma totals_of_insert:
  assumes "finite (dom found)" "found u = None"
  shows "totals_of mhz (found(u \<mapsto> vm)) = add_totals mhz vm (totals_of mhz found)"
proof -
  note ins = sum_insert_found[where found = found and u = u and vm = vm, OF assms]
  note all = ins[where P = "\<lambda>_. True", simplified if_True simp_thms Collect_mem_eq]
  show ?thesis
    by (simp only: totals_of_def add_totals_def Let_def
        ins[where P = sv_hp and g = "\<lambda>v. vs_MemoryCapacity (sv_stats v)"]
        ins[where P = "\<lambda>v. \<not> sv_hp v" and g = "\<lambda>v. vs_MemoryCapacity (sv_stats v)"]
        all[where g = "\<lambda>v. vs_MemoryUsed (sv_stats v)"] all[where g = "\<lambda>v. vs_CpuUtilization (sv_stats v)"]
        all[where g = "\<lambda>v. scast (vmi_vcpus v) * ucast mhz"])
      (simp add: add.commute)
qed

definition uuids_known :: "'w libvirt \<Rightarrow> bool" where
  "uuids_known lv \<longleftrightarrow> (\<forall>d w u. lv_GetUUIDString lv d w = Inr u \<longrightarrow> u = ld_uuid d)"

lemma collect_totals:
  assumes "uuids_known (he_lv (sy_he sy))"
    and "collect_vms sy hv imm ts ds found t w = (Inr (found', t'), w')"
    and "distinct (map ld_uuid ds)" "\<And>d. d \<in> set ds \<Longrightarrow> found (ld_uuid d) = None"
    and "finite (dom found)" "t = totals_of (ni_MHz (im_info imm)) found"
  shows "t' = totals_of (ni_MHz (im_info imm)) found'"
  using assms(2-)
proof (induction ds arbitrary: found t w)
  case (Cons d ds)
  from Cons.prems(1) show ?case
  proof (cases rule: collect_cases)
    case (skip w1)
    from Cons.IH[OF this] Cons.prems(2-) show ?thesis by simp
  next
    case (take u vm w1)
    have u: "u = ld_uuid d" using assms(1) take(1) by (simp add: uuids_known_def)
    then have "found u = None" using Cons.prems(3) by simp
    note ins = totals_of_insert[OF Cons.prems(4) this, of "ni_MHz (im_info imm)" vm]
    show ?thesis
    proof (rule Cons.IH[OF take(3)])
      show "add_totals (ni_MHz (im_info imm)) vm t = totals_of (ni_MHz (im_info imm)) (found(u \<mapsto> vm))"
        by (simp only: ins Cons.prems(5))
      show "finite (dom (found(u \<mapsto> vm)))" using Cons.prems(4) by (simp only: dom_fun_upd) simp
    qed (use Cons.prems(2,3) u in \<open>auto simp: image_iff\<close>)
  qed
qed simp

text \<open>What a successful collection consists of.\<close>

lemma system_info_get_cases:
  assumes "system_info_get sy hv w = (Inr si, w')"
  obtains doms t w1 memory_free hp_free cpustats where
    "sy_ListAllDomains sy w = Inr doms"
    "collect_vms sy hv (si_imm si) (he_now (sy_he sy) w) doms Map.empty no_totals w = (Inr (si_Vms si, t), w1)"
    "hrs_Hp (si_res si) = hp_resource (si_imm si) (hp_free * im_hp_size (si_imm si)) t"
    "hrs_Memory (si_res si) = memory_resource (si_imm si) (hr_Total (hrs_Hp (si_res si))) memory_free t"
    "hrs_Cpu (si_res si) = cpu_resource sy (im_info (si_imm si)) hv (he_now (sy_he sy) w) cpustats t"
    "hf_ts (hinfo_fields (si_Host si)) = he_now (sy_he sy) w"
    "hf_hpavailable (hinfo_fields (si_Host si)) = hr_Availablevms (hrs_Hp (si_res si))"
    "hf_memoryavailable (hinfo_fields (si_Host si)) = hr_Availablevms (hrs_Memory (si_res si))"
  using assms
  by (fastforce simp: system_info_get_def Let_def rbind_def host_info_of_def split: sum.splits prod.splits)

section \<open>The information of a host\<close>

text \<open>What a host collects is well formed: every machine stands under its UUID, belongs to this
  host, carries the time stamp of the host and has a run state that exists.\<close>

definition system_info_ok :: "string \<Rightarrow> SystemInfo \<Rightarrow> bool" where
  "system_info_ok machine si \<longleftrightarrow>
     (\<forall>u vm. si_Vms si u = Some vm \<longrightarrow> described machine (hf_ts (hinfo_fields (si_Host si))) u vm)"

text \<open>C37: whatever libvirt and the host answer, a collection that succeeds is well formed, so the
  messages sent from it name the machine they are about and the host they come from.\<close>

theorem system_info_typed:
  assumes "system_info_get sy hv w = (Inr si, w')"
  shows "system_info_ok (he_machine (sy_he sy)) si"
proof -
  obtain doms t w1 where c: "collect_vms sy hv (si_imm si) (he_now (sy_he sy) w) doms Map.empty no_totals w
      = (Inr (si_Vms si, t), w1)" and "hf_ts (hinfo_fields (si_Host si)) = he_now (sy_he sy) w"
    by (rule system_info_get_cases[OF assms])
  with collect_described[OF c] show ?thesis by (simp add: system_info_ok_def)
qed

definition balanced :: "Hostresource \<Rightarrow> bool" where
  "balanced r \<longleftrightarrow> hr_Total r = hr_Used r + hr_Free r \<and> hr_Used r = hr_Usedos r + hr_Usedvms r \<and>
     hr_Availablevms r = hr_Free r + hr_Usedvms r - hr_Reservedvms r"

lemma balanced_resources:
  "balanced (hp_resource imm n t)" "balanced (memory_resource imm k m t)"
  "hr_Availablevms (hp_resource imm n t) = hr_Free (hp_resource imm n t)"
  by (simp_all add: balanced_def hp_resource_def memory_resource_def Let_def)

lemma cpu_balanced:
  "hv = Some old \<Longrightarrow> 0 <s ts - hf_ts (hinfo_fields (si_Host old)) \<Longrightarrow> balanced (cpu_resource sy info hv ts cs t)"
  by (cases cs) (simp add: balanced_def cpu_resource_def Let_def sless_iff_not_sle)


section \<open>Ghosts\<close>

definition deletion :: "string \<Rightarrow> i64 \<Rightarrow> string \<Rightarrow> VmEvent" where
  "deletion machine ts u = \<lparr>ve_uuid = u, ve_host = machine, ve_runstate = RUNSTATE_DELETED, ve_ts = ts\<rparr>"

definition apply_events :: "VmEvent list \<Rightarrow> Inventory \<Rightarrow> Inventory" where
  "apply_events es iv = fold (\<lambda>e i. fst (Update_vm_state e i)) es iv"

lemma listed_placed: "inventory_ok iv \<Longrightarrow> lists iv h u \<Longrightarrow> \<exists>v. vms iv u = Some v \<and> ve_host v = h"
  by (simp add: inventory_ok_def placed_def)

lemma deletion_effect:
  assumes "inventory_ok iv" "\<And>v. vms iv u = Some v \<Longrightarrow> ve_ts v \<le>s ts \<and> ve_host v = machine"
  shows "vms (apply_events [deletion machine ts u] iv) = (vms iv)(u := None)"
    and "lists (apply_events [deletion machine ts u] iv) h u' \<longleftrightarrow> lists iv h u' \<and> u' \<noteq> u"
    and "inventory_ok (apply_events [deletion machine ts u] iv)"
proof -
  have here: "h = machine" if "lists iv h u" "vms iv u \<noteq> None"
    using listed_old_host[OF assms(1) that(1)] that(2) assms(2) by (auto simp: old_host_def)
  have gone: "\<not> lists iv h u" if "vms iv u = None" for h
    using listed_placed[OF assms(1)] that by fastforce
  show "vms (apply_events [deletion machine ts u] iv) = (vms iv)(u := None)"
    and "lists (apply_events [deletion machine ts u] iv) h u' \<longleftrightarrow> lists iv h u' \<and> u' \<noteq> u"
    using assms(2) here gone
    by (auto simp: apply_events_def deletion_def Update_vm_state_def update_vm_state_eq inv_simps
        sless_iff_not_sle split: option.splits)
  show "inventory_ok (apply_events [deletion machine ts u] iv)"
    using assms(1) by (simp add: apply_events_def Update_vm_state_def update_vm_state_ok)
qed

lemma deletions_effect:
  assumes "inventory_ok iv"
    and "\<And>u v. u \<in> set us \<Longrightarrow> vms iv u = Some v \<Longrightarrow> ve_ts v \<le>s ts \<and> ve_host v = machine"
  shows "(\<forall>u. vms (apply_events (map (deletion machine ts) us) iv) u = (if u \<in> set us then None else vms iv u)) \<and>
    (\<forall>h u. lists (apply_events (map (deletion machine ts) us) iv) h u \<longleftrightarrow> lists iv h u \<and> u \<notin> set us)"
  using assms
proof (induction us arbitrary: iv)
  case Nil
  then show ?case by (simp add: apply_events_def)
next
  case (Cons u us)
  let ?iv = "apply_events [deletion machine ts u] iv"
  have "ve_ts v \<le>s ts \<and> ve_host v = machine" if "vms iv u = Some v" for v using Cons.prems(2)[of u v] that by simp
  note one = deletion_effect[OF Cons.prems(1) this]
  have "(\<forall>x. vms (apply_events (map (deletion machine ts) us) ?iv) x = (if x \<in> set us then None else vms ?iv x)) \<and>
    (\<forall>h x. lists (apply_events (map (deletion machine ts) us) ?iv) h x \<longleftrightarrow> lists ?iv h x \<and> x \<notin> set us)"
  proof (rule Cons.IH[OF one(3)])
    show "ve_ts v \<le>s ts \<and> ve_host v = machine" if "x \<in> set us" "vms ?iv x = Some v" for x v
      using Cons.prems(2)[of x v] that by (simp add: one(1) split: if_splits)
  qed
  moreover have "apply_events (map (deletion machine ts) us) ?iv = apply_events (map (deletion machine ts) (u # us)) iv"
    by (simp add: apply_events_def)
  ultimately show ?case by (auto simp: one(1,2))
qed

text \<open>Once the events of \<open>delete_ghosts\<close> are applied, this host lists exactly the machines it
  listed that libvirt knows, the others have no entry in the inventory any more, and no other
  machine and no other host's list changes. This needs the host's time stamp to be no older than
  the entries of the ghosts, since older events are ignored.\<close>

theorem ghosts_deleted:
  assumes "inventory_ok iv" "\<forall>u. lists iv machine u \<longrightarrow> u \<in> set order"
    and "\<And>u v. lists iv machine u \<Longrightarrow> found u = None \<Longrightarrow> vms iv u = Some v \<Longrightarrow> ve_ts v \<le>s ts"
  shows "(\<forall>h u. lists (apply_events (delete_ghosts machine order iv found ts) iv) h u \<longleftrightarrow>
            lists iv h u \<and> (h = machine \<longrightarrow> found u \<noteq> None)) \<and>
     (\<forall>u. vms (apply_events (delete_ghosts machine order iv found ts) iv) u =
            (if lists iv machine u \<and> found u = None then None else vms iv u))"
proof -
  let ?us = "filter (\<lambda>u. lists iv machine u \<and> found u = None) order"
  have ev: "delete_ghosts machine order iv found ts = map (deletion machine ts) ?us"
    by (auto simp: delete_ghosts_def deletion_def Get_hostdata_def lists_def split: option.splits intro!: filter_cong)
  have us: "u \<in> set ?us \<longleftrightarrow> lists iv machine u \<and> found u = None" for u using assms(2) by auto
  have "ve_ts v \<le>s ts \<and> ve_host v = machine" if "u \<in> set ?us" "vms iv u = Some v" for u v
    using that assms(3) listed_placed[OF assms(1), of machine u] unfolding us by auto
  from deletions_effect[OF assms(1) this] have
    "(\<forall>u. vms (apply_events (map (deletion machine ts) ?us) iv) u = (if u \<in> set ?us then None else vms iv u)) \<and>
     (\<forall>h u. lists (apply_events (map (deletion machine ts) ?us) iv) h u \<longleftrightarrow> lists iv h u \<and> u \<notin> set ?us)" .
  moreover have "lists iv h u \<and> u \<notin> set ?us \<longleftrightarrow> lists iv h u \<and> (h = machine \<longrightarrow> found u \<noteq> None)" for h u
    unfolding us using listed_old_host[OF assms(1), of h u] listed_old_host[OF assms(1), of machine u] by auto
  ultimately show ?thesis unfolding ev us by presburger
qed

section \<open>Witnesses\<close>

definition sample_meminfo :: string where
  "sample_meminfo = ''Hugepagesize: 2048 kB'' @ [CHR 0x0A] @ ''HugePages_Total: 8'' @ [CHR 0x0A] @ ''HugePages_Free: 3''"

definition sample_domain :: LvDomain where
  "sample_domain = \<lparr>ld_conn = LIBVIRT_URI, ld_uuid = ''v''\<rparr>"

text \<open>A host with 16 GiB and one machine of 2 GiB that is running.\<close>

definition sample_sy :: "meta_world sys_env" where
  "sample_sy = \<lparr>sy_he = sample_he DOMAIN_RUNNING, sy_GetHostname = (\<lambda>w. Inr ''node1''),
     sy_ListAllDomains = (\<lambda>w. Inr [sample_domain]), sy_GetFreeMemory = (\<lambda>w. Inr 0x300000000),
     sy_GetCPUStats = (\<lambda>w. Inr (0, 10, 20, 30)),
     sy_GetCapabilities = (\<lambda>w. Inr \<lparr>cp_UUID = ''A'', cp_Arch = ''x86_64'', cp_Vendor = ''AMD'', cp_Model = ''EPYC'', cp_Counter = None\<rparr>),
     sy_GetSysinfo = (\<lambda>w. Inr []),
     sy_GetNodeInfo = (\<lambda>w. Inr \<lparr>ni_Memory = 0x1000000, ni_MHz = 3000, ni_Nodes = 1, ni_Sockets = 1, ni_Cores = 8, ni_Threads = 2\<rparr>),
     sy_ReadFile = (\<lambda>p w. if p = ''/proc/meminfo'' then Inr sample_meminfo else Inl NotExist),
     sy_xml = (\<lambda>x. Inr \<lparr>xm_MemoryBacking = False, xm_Disks = [], xm_Interfaces = []\<rparr>),
     sy_GetBlockInfo = (\<lambda>d p w. Inl NotExist), sy_InterfaceStats = (\<lambda>d p w. Inl NotExist),
     sy_GetInfo = (\<lambda>d w. Inr (2, 1000, 0x200000)), sy_MemoryStats = (\<lambda>d w. Inr [(True, 0x100000)]),
     sy_reserved = (\<lambda>n. ucast (n div 4)), sy_used = (\<lambda>d i m. 100)\<rparr>"

lemma sample_lines:
  "map Fields (scan_lines sample_meminfo) =
     [[''Hugepagesize:'', ''2048'', ''kB''], [''HugePages_Total:'', ''8''], [''HugePages_Free:'', ''3'']]"
  by (simp add: sample_meminfo_def scan_lines_def Let_def trim_cr_def Fields_def is_space_def is_blank_def)

lemma sample_sy_meminfo:
  "get_meminfo sample_sy ''Hugepagesize'' w = Inr 2048" "get_meminfo sample_sy ''HugePages_Total'' w = Inr 8"
  "get_meminfo sample_sy ''HugePages_Free'' w = Inr 3"
proof -
  obtain l1 l2 l3 where l: "scan_lines sample_meminfo = [l1, l2, l3]" "Fields l1 = [''Hugepagesize:'', ''2048'', ''kB'']"
    "Fields l2 = [''HugePages_Total:'', ''8'']" "Fields l3 = [''HugePages_Free:'', ''3'']"
    using sample_lines by auto
  have "sy_ReadFile sample_sy ''/proc/meminfo'' w = Inr sample_meminfo" by (simp add: sample_sy_def)
  then show "get_meminfo sample_sy ''Hugepagesize'' w = Inr 2048" "get_meminfo sample_sy ''HugePages_Total'' w = Inr 8"
    "get_meminfo sample_sy ''HugePages_Free'' w = Inr 3"
    by (simp_all add: get_meminfo_def rbind_def l ParseUint_def is_digit_def dec_nat_def digit_num_def)
qed

lemma sample_sy_simps:
  "sy_he sample_sy = sample_he DOMAIN_RUNNING" "sy_GetHostname sample_sy w = Inr ''node1''"
  "sy_ListAllDomains sample_sy w = Inr [sample_domain]" "sy_GetFreeMemory sample_sy w = Inr 0x300000000"
  "sy_GetCPUStats sample_sy w = Inr (0, 10, 20, 30)" "sy_GetSysinfo sample_sy w = Inr []"
  "sy_xml sample_sy x = Inr \<lparr>xm_MemoryBacking = False, xm_Disks = [], xm_Interfaces = []\<rparr>"
  "sy_GetInfo sample_sy d w = Inr (2, 1000, 0x200000)" "sy_MemoryStats sample_sy d w = Inr [(True, 0x100000)]"
  by (simp_all add: sample_sy_def)

lemma sample_sy_immutable:
  "\<exists>imm. system_info_get_immutable sample_sy w = Inr imm \<and> im_hp_total imm = 16384 \<and> im_hp_size imm = 2048 \<and>
     im_caps imm = \<lparr>cp_UUID = ''A'', cp_Arch = ''x86_64'', cp_Vendor = ''AMD'', cp_Model = ''EPYC'', cp_Counter = None\<rparr> \<and>
     im_os_id imm = '''' \<and> im_os_version imm = ''''"
  unfolding system_info_get_immutable_def sample_sy_meminfo sample_sy_simps
  by (simp add: rbind_def Let_def get_os_version_def MAX_FREQ_PATH_def) (simp add: sample_sy_def)

definition sample_machine :: VmInfo where
  "sample_machine = \<lparr>ve_uuid = ''v'', ve_host = ''A'', ve_runstate = RUNSTATE_RUNNING, ve_ts = 7, vmi_name = ''name'',
     vmi_vlanid = 0, vmi_custom = [], vmi_vcpus = 2\<rparr>"

lemma sample_sy_collect:
  "\<exists>vm w'. collect_vms sample_sy None imm 7 [sample_domain] Map.empty no_totals w =
     (Inr ([''v'' \<mapsto> vm], add_totals (ni_MHz (im_info imm)) vm no_totals), w') \<and>
     \<not> sv_hp vm \<and> vs_MemoryCapacity (sv_stats vm) = 2048 \<and> VmInfo.truncate vm = sample_machine"
  by (simp add: sample_sy_simps get_domain_info_def sample_lv_def shutdown_seen_def get_domain_stats_def
      rbind_def sample_domain_def new_vm_def memory_used_def no_stats_def Let_def)
    (intro exI conjI, rule refl, rule refl,
      simp_all add: VmInfo.truncate_def sample_machine_def runstate_of_def)

lemma sample_sy_get:
  "\<exists>si w'. system_info_get sample_sy None w = (Inr si, w') \<and>
     (\<exists>vm. si_Vms si = [''v'' \<mapsto> vm] \<and> VmInfo.truncate vm = sample_machine) \<and>
     (\<exists>imm mem hp. si_Host si = host_info_of imm ''node1'' 7 mem hp \<and> cp_UUID (im_caps imm) = ''A'' \<and>
        cp_Arch (im_caps imm) = ''x86_64'' \<and> cp_Vendor (im_caps imm) = ''AMD'' \<and> cp_Model (im_caps imm) = ''EPYC'' \<and>
        im_os_id imm = '''' \<and> im_os_version imm = '''') \<and>
     hr_Reservedvms (hrs_Memory (si_res si)) = 2048 \<and> hr_Free (hrs_Hp (si_res si)) = 6"
proof -
  obtain imm where imm: "system_info_get_immutable sample_sy w = Inr imm" "im_hp_total imm = 16384" "im_hp_size imm = 2048"
    "im_caps imm = \<lparr>cp_UUID = ''A'', cp_Arch = ''x86_64'', cp_Vendor = ''AMD'', cp_Model = ''EPYC'', cp_Counter = None\<rparr>"
    "im_os_id imm = ''''" "im_os_version imm = ''''"
    using sample_sy_immutable by blast
  obtain vm w' where vm: "collect_vms sample_sy None imm 7 [sample_domain] Map.empty no_totals w =
     (Inr ([''v'' \<mapsto> vm], add_totals (ni_MHz (im_info imm)) vm no_totals), w')"
     "\<not> sv_hp vm" "vs_MemoryCapacity (sv_stats vm) = 2048" "VmInfo.truncate vm = sample_machine" using sample_sy_collect by blast
  show ?thesis
    unfolding system_info_get_def option.case imm(1) sample_sy_simps sum.case Let_def sample_he_simps vm(1)
      prod.case sample_sy_meminfo rbind_def
    by (simp add: imm(2,3) vm(2-4) add_totals_def no_totals_def hp_resource_def memory_resource_def Let_def)
      (intro exI[of _ imm] exI conjI, rule refl, simp_all add: imm vm(4))
qed

theorem system_info_typed_witness:
  "\<exists>si w'. system_info_get sample_sy None (\<lambda>d. Map.empty) = (Inr si, w') \<and> system_info_ok ''A'' si \<and> si_Vms si ''v'' \<noteq> None"
proof -
  obtain si w' where s: "system_info_get sample_sy None (\<lambda>d. Map.empty) = (Inr si, w')" "si_Vms si ''v'' \<noteq> None"
    using sample_sy_get[of "\<lambda>d. Map.empty"] by auto
  from system_info_typed[OF s(1)] s show ?thesis by (auto simp: sample_sy_def)
qed


theorem ghosts_deleted_witness:
  "delete_ghosts ''A'' [''v''] sample_inventory Map.empty 11 \<noteq> [] \<and>
   vms (apply_events (delete_ghosts ''A'' [''v''] sample_inventory Map.empty 11) sample_inventory) ''v'' = None"
proof -
  have "lists sample_inventory ''A'' u \<longleftrightarrow> u = ''v''" for u by (auto simp: lists_def sample_hosts)
  moreover have "ve_ts v \<le>s 11" if "vms sample_inventory u = Some v" for u v
    using that by (auto simp: sample_vms sample_vm_def word_sle_eq split: if_splits)
  ultimately show ?thesis
    using ghosts_deleted[OF sample_ok, of "''A''" "[''v'']" Map.empty 11]
    by (auto simp: delete_ghosts_def Get_hostdata_def sample_hosts)
qed

end
