(* ===== verification/Hypervisor_Props.thy ===== *)
theory Hypervisor_Props
  imports Hypervisor Systeminfo_Props
begin

text \<open>
  What the connection, the callback, the rounds and the check of the registry achieve, down to the
  inventory that the messages they send end up in.
\<close>

section \<open>One registered callback\<close>

text \<open>What libvirt keeps of callbacks: registering adds at most the identifier it gives, which is
  not negative when it succeeds, and deregistering removes that one.\<close>

definition callback_laws :: "'w conn_env \<Rightarrow> ('w \<Rightarrow> int set) \<Rightarrow> bool" where
  "callback_laws cn registered \<longleftrightarrow>
     (\<forall>w i e w'. cn_Register cn w = (i, e, w') \<longrightarrow>
        (e = None \<longrightarrow> 0 \<le> i \<and> registered w' = insert i (registered w)) \<and> (e \<noteq> None \<longrightarrow> registered w' = registered w)) \<and>
     (\<forall>i w. registered (cn_Deregister cn i w) = registered w - {i}) \<and>
     (\<forall>w. registered (cn_Close cn w) \<subseteq> registered w)"

datatype conn_op = DoConnect | DoShutdown

fun conn_perform :: "'w conn_env \<Rightarrow> conn_op \<Rightarrow> Hypervisor \<times> 'w \<Rightarrow> Hypervisor \<times> 'w" where
  "conn_perform cn DoConnect (hv, w) = snd (Connect cn hv w)"
| "conn_perform cn DoShutdown (hv, w) = (case Shutdown cn hv w of Inl e \<Rightarrow> (hv, w) | Inr s \<Rightarrow> s)"

definition one_callback :: "'w conn_env \<Rightarrow> ('w \<Rightarrow> int set) \<Rightarrow> Hypervisor \<times> 'w \<Rightarrow> bool" where
  "one_callback cn registered s \<longleftrightarrow> callback_laws cn registered \<and>
     (case s of (hv, w) \<Rightarrow> registered w \<subseteq> (if hv_lifecycle_id hv < 0 then {} else {hv_lifecycle_id hv}) \<and>
        (hv_conn hv = None \<longrightarrow> hv_lifecycle_id hv < 0) \<and>
        (hv_is_connected hv \<and> hv_channels hv \<longrightarrow> hv_conn hv = Some True))"

lemma stop_listening_none:
  assumes "one_callback cn registered (hv, w)" "stop_listening cn hv w = (hv', w')"
  shows "registered w' = {}" "hv_lifecycle_id hv' < 0" "hv_conn hv' = hv_conn hv"
    "hv_channels hv' = hv_channels hv" "hv_is_connected hv' = hv_is_connected hv"
  using assms by (auto simp: one_callback_def callback_laws_def stop_listening_def split: if_splits)

lemma Connect_one_callback:
  assumes "one_callback cn registered (hv, w)"
  shows "one_callback cn registered (snd (Connect cn hv w))"
proof -
  have laws: "callback_laws cn registered" using assms by (simp add: one_callback_def)
  obtain hv1 w1 where s: "stop_listening cn hv w = (hv1, w1)" by fastforce
  note stopped = stop_listening_none[OF assms s]
  have closed: "registered (cn_Close cn w1) = {}"
    using laws stopped(1) unfolding callback_laws_def by (metis subset_empty)
  have conn: "hv_conn hv = None \<longrightarrow> \<not> (hv_is_connected hv \<and> hv_channels hv)" "hv_conn hv = None \<longrightarrow> registered w = {}"
    "hv_conn hv = None \<longrightarrow> hv_lifecycle_id hv < 0"
    using assms by (auto simp: one_callback_def)
  define st where "st = (case hv_conn hv of None \<Rightarrow> (hv, w)
     | Some opened \<Rightarrow> (hv1\<lparr>hv_conn := Some False, hv_is_connected := False\<rparr>, cn_Close cn w1))"
  obtain hv2 w2 where st: "st = (hv2, w2)" by fastforce
  have w2: "registered w2 = {}" "hv_lifecycle_id hv2 < 0" "hv_conn hv2 = None \<longrightarrow> \<not> (hv_is_connected hv2 \<and> hv_channels hv2)"
    "hv_conn hv2 \<noteq> None \<longrightarrow> \<not> hv_is_connected hv2"
    using stopped closed conn st by (auto simp: st_def split: option.splits)
  have C: "Connect cn hv w = (case cn_NewConnect cn w2 of Some e \<Rightarrow> (Some e, hv2, w2)
      | None \<Rightarrow> start_listening cn (hv2\<lparr>hv_conn := Some True, hv_is_connected := True\<rparr>) w2)"
    unfolding Connect_def s prod.case using st by (simp add: st_def)
  obtain i e w3 where r: "cn_Register cn w2 = (i, e, w3)" by (metis prod_cases3)
  have "registered w3 \<subseteq> (if i < 0 then {} else {i})"
    using laws r w2(1) unfolding callback_laws_def by (cases e) (fastforce, auto)
  then show ?thesis
    using laws w2 r unfolding C
    by (auto simp: one_callback_def start_listening_def split: option.splits)
qed

lemma Shutdown_one_callback:
  assumes "one_callback cn registered (hv, w)" "Shutdown cn hv w = Inr (hv', w')"
  shows "one_callback cn registered (hv', w')"
proof -
  have laws: "callback_laws cn registered" using assms(1) by (simp add: one_callback_def)
  obtain hv1 w1 where s: "stop_listening cn hv w = (hv1, w1)" by fastforce
  have closed: "registered (cn_Close cn w1) = {}"
    using laws stop_listening_none(1)[OF assms(1) s] unfolding callback_laws_def by (metis subset_empty)
  then show ?thesis using assms(2) laws s by (auto simp: Shutdown_def one_callback_def split: if_splits)
qed

interpretation connection: invariant_system "conn_perform cn" "one_callback cn registered" for cn registered
proof
  show "one_callback cn registered (conn_perform cn op s)" if "one_callback cn registered s" for op s
    using that Shutdown_one_callback
    by (cases s; cases op) (auto simp: Connect_one_callback split: sum.split)
qed

text \<open>However often the program connects, reconnects after an error and shuts down, at most one
  callback is registered with libvirt, the one whose identifier is kept, and while there are
  channels \<open>is_connected\<close> is only set with an open connection; so no event is reported twice.\<close>

theorem one_callback_registered:
  assumes "callback_laws cn registered" "registered w = {}"
    and "fold (conn_perform cn) ops (init_hypervisor, w) = (hv, w')"
  shows "registered w' \<subseteq> {hv_lifecycle_id hv} \<and> (hv_lifecycle_id hv < 0 \<longrightarrow> registered w' = {}) \<and>
    (hv_is_connected hv \<and> hv_channels hv \<longrightarrow> hv_conn hv = Some True)"
proof -
  have "one_callback cn registered (init_hypervisor, w)"
    using assms(1,2) by (simp add: one_callback_def init_hypervisor_def)
  from connection.run_inv[OF this, of ops] assms(3) show ?thesis
    by (auto simp: one_callback_def split: if_splits)
qed

section \<open>The check of the registry\<close>

lemma check_hosts_passed:
  assumes "check_hosts re machine u s hs = (None, ws)" "host \<in> set hs"
  shows "host \<noteq> machine \<Longrightarrow> Access (re_access re host u) host u s = Some NotExist"
    and "host = machine \<Longrightarrow> Access (re_access re host u) host u s \<noteq> None \<Longrightarrow>
      unregistered machine u \<in> set ws"
  using assms
  by (induction hs arbitrary: ws) (auto simp: Let_def split: if_splits prod.splits)

lemma check_domains_passed:
  assumes "check_domains re machine s us = (None, ws)" "u \<in> set us" "Hosts (re_hosts re) = Inr hs"
  shows "\<exists>ws'. check_hosts re machine u s hs = (None, ws') \<and> set ws' \<subseteq> set ws"
  using assms(1,2)
proof (induction us arbitrary: ws)
  case (Cons v us)
  then obtain ws1 ws2 where "check_hosts re machine v s hs = (None, ws1)" "check_domains re machine s us = (None, ws2)"
    "ws = ws1 @ ws2" using assms(3) by (auto split: prod.splits option.splits)
  with Cons.IH[of ws2] Cons.prems(2) show ?case by fastforce
qed simp

text \<open>When the program does not end in the check of the registry, no machine of this host is
  registered under another host, and one that is not accessible under this host is reported:
  so the same machine is not started by two hosts from the registry.\<close>

theorem check_vmreg_passed:
  assumes "check_vmreg he re machine order w s = (None, ws)" "u \<in> set order"
    and "Hosts (re_hosts re) = Inr hs" "host \<in> set hs" "re_access re host u = None"
  shows "if host = machine
     then fs_file s (path_segs (reg_file host u)) \<noteq> None \<or>
       path_segs (reg_file host u) \<in> insert (path_segs (reg_dir machine)) (fs_dir s) \<or>
       unregistered machine u \<in> set ws
     else fs_file s (path_segs (reg_file host u)) = None"
proof -
  let ?s = "s\<lparr>fs_dir := insert (path_segs (reg_dir machine)) (fs_dir s)\<rparr>"
  obtain ws1 where d: "check_domains re machine ?s order = (None, ws1)" "set ws1 \<subseteq> set ws"
    using assms(1) by (auto simp: check_vmreg_def Let_def split: option.splits prod.splits sum.splits)
  obtain ws2 where h: "check_hosts re machine u ?s hs = (None, ws2)" "set ws2 \<subseteq> set ws1"
    using check_domains_passed[OF d(1) assms(2,3)] by blast
  have a: "Access (re_access re host u) host u ?s =
      (if fs_file s (path_segs (reg_file host u)) \<noteq> None \<or>
          path_segs (reg_file host u) \<in> insert (path_segs (reg_dir machine)) (fs_dir s) then None else Some NotExist)"
    using assms(5) by (simp add: Access_def os_Stat_def)
  show ?thesis
  proof (cases "host = machine")
    case True
    with check_hosts_passed(2)[OF h(1) assms(4)] a h(2) d(2) show ?thesis by (auto split: if_splits)
  next
    case False
    with check_hosts_passed(1)[OF h(1) assms(4)] a show ?thesis by (auto split: if_splits)
  qed
qed

section \<open>From libvirt to the inventory\<close>

text \<open>The operations of a round, as they may arrive in any order: the machines found, all of this
  host and with its time stamp, and the deletions of machines not found.\<close>

definition round_op :: "string \<Rightarrow> i64 \<Rightarrow> (string \<rightharpoonup> VmInfo) \<Rightarrow> string set \<Rightarrow> inventory_op \<Rightarrow> bool" where
  "round_op machine ts found gone op =
     (case op of
        OpHost hi \<Rightarrow> hinfo_uuid hi = machine
      | OpHostState u st \<Rightarrow> False
      | OpVmEvent e \<Rightarrow> (\<exists>u \<in> gone. e = deletion machine ts u)
      | OpVm v \<Rightarrow> found (ve_uuid v) = Some v \<and> ve_host v = machine \<and> ve_ts v = ts)"

definition round_state :: "string \<Rightarrow> i64 \<Rightarrow> (string \<rightharpoonup> VmInfo) \<Rightarrow> string set \<Rightarrow> Inventory \<Rightarrow> bool" where
  "round_state machine ts found gone iv \<longleftrightarrow> inventory_ok iv \<and> hosts iv machine \<noteq> None \<and>
     (\<forall>u v. vms iv u = Some v \<and> (u \<in> gone \<or> found u \<noteq> None) \<longrightarrow> ve_ts v \<le>s ts \<and> (u \<in> gone \<longrightarrow> ve_host v = machine))"

fun found_in :: "inventory_op list \<Rightarrow> string set" where
  "found_in [] = {}"
| "found_in (OpVm v # ops) = insert (ve_uuid v) (found_in ops)"
| "found_in (_ # ops) = found_in ops"

fun gone_in :: "inventory_op list \<Rightarrow> string set" where
  "gone_in [] = {}"
| "gone_in (OpVmEvent e # ops) = insert (ve_uuid e) (gone_in ops)"
| "gone_in (_ # ops) = gone_in ops"

lemma perform_deletion: "perform (OpVmEvent (deletion machine ts u)) iv = apply_events [deletion machine ts u] iv"
  by (simp add: apply_events_def)

lemma hosts_events: "hosts (perform (OpVmEvent e) iv) h = None \<longleftrightarrow> hosts iv h = None"
  by (simp add: Update_vm_state_def update_vm_state_eq inv_simps split: option.split)

lemma round_step:
  assumes "round_state machine ts found gone iv" "round_op machine ts found gone op" "gone \<inter> dom found = {}"
  shows "round_state machine ts found gone (perform op iv)"
    and "lists (perform op iv) machine u \<longleftrightarrow> u \<in> found_in [op] \<or> (lists iv machine u \<and> u \<notin> gone_in [op])"
    and "vms (perform op iv) u = (if u \<in> found_in [op] then found u else if u \<in> gone_in [op] then None else vms iv u)"
proof -
  have ok: "inventory_ok (perform op iv)" using assms(1) by (simp add: round_state_def perform_ok)
  have known: "hosts iv machine \<noteq> None" using assms(1) by (simp add: round_state_def)
  have "round_state machine ts found gone (perform op iv) \<and>
    (lists (perform op iv) machine u \<longleftrightarrow> u \<in> found_in [op] \<or> (lists iv machine u \<and> u \<notin> gone_in [op])) \<and>
    (vms (perform op iv) u = (if u \<in> found_in [op] then found u else if u \<in> gone_in [op] then None else vms iv u))" for u
  proof (cases op)
    case (OpHost hi)
    then show ?thesis using assms(1) ok by (simp add: round_state_def update_host_views)
  next
    case (OpHostState h st)
    then show ?thesis using assms(2) by (simp add: round_op_def)
  next
    case (OpVmEvent e)
    then obtain g where g: "g \<in> gone" "e = deletion machine ts g" using assms(2) by (auto simp: round_op_def)
    have "ve_ts v \<le>s ts \<and> ve_host v = machine" if "vms iv g = Some v" for v
      using assms(1) g(1) that by (auto simp: round_state_def)
    note one = deletion_effect[OF _ this, of iv]
    have del: "perform op iv = apply_events [deletion machine ts g] iv"
      using OpVmEvent g(2) perform_deletion by simp
    have "vms (perform op iv) = (vms iv)(g := None)" "\<And>u'. lists (perform op iv) machine u' \<longleftrightarrow> lists iv machine u' \<and> u' \<noteq> g"
      using one assms(1) unfolding del by (simp_all add: round_state_def)
    then show ?thesis
      using assms(1) ok known OpVmEvent g(2) hosts_events[of e iv machine]
      by (auto simp: round_state_def deletion_def)
  next
    case (OpVm v)
    have v: "found (ve_uuid v) = Some v" "ve_host v = machine" "ve_ts v = ts"
      using assms(2) OpVm by (simp_all add: round_op_def)
    have "\<not> (\<exists>old. vms iv (ve_uuid v) = Some old \<and> ve_ts v <s ve_ts old)"
      using assms(1) v by (auto simp: round_state_def sless_iff_not_sle)
    then have p: "perform op iv = place_vm (ve_uuid v) v iv" using OpVm by (auto simp: update_vm_eq)
    have "ve_uuid v \<notin> gone" using assms(3) v(1) by auto
    then show ?thesis
      using assms(1) ok known v OpVm unfolding p by (auto simp: round_state_def inv_simps word_sle_eq)
  qed
  then show "round_state machine ts found gone (perform op iv)"
    "lists (perform op iv) machine u \<longleftrightarrow> u \<in> found_in [op] \<or> (lists iv machine u \<and> u \<notin> gone_in [op])"
    "vms (perform op iv) u = (if u \<in> found_in [op] then found u else if u \<in> gone_in [op] then None else vms iv u)"
    by blast+
qed

lemma round_run:
  assumes "round_state machine ts found gone iv" "list_all (round_op machine ts found gone) ops" "gone \<inter> dom found = {}"
  shows "(\<forall>u. lists (fold perform ops iv) machine u \<longleftrightarrow>
            u \<in> found_in ops \<or> (lists iv machine u \<and> u \<notin> gone_in ops)) \<and>
    (\<forall>u. vms (fold perform ops iv) u = (if u \<in> found_in ops then found u else if u \<in> gone_in ops then None else vms iv u))"
  using assms(1,2)
proof (induction ops arbitrary: iv)
  case (Cons op ops)
  have op: "round_op machine ts found gone op" and rest: "list_all (round_op machine ts found gone) ops"
    using Cons.prems(2) by simp_all
  have sets: "found_in (op # ops) = found_in [op] \<union> found_in ops" "gone_in (op # ops) = gone_in [op] \<union> gone_in ops"
    by (cases op; simp)+
  have "found_in ops \<subseteq> dom found \<and> gone_in ops \<subseteq> gone" if "list_all (round_op machine ts found gone) ops" for ops
    using that by (induction ops rule: found_in.induct) (auto simp: round_op_def deletion_def)
  from this[OF rest] this[of "[op]"] op assms(3)
  have "u \<in> found_in [op] \<Longrightarrow> u \<notin> gone_in ops" "u \<in> gone_in [op] \<Longrightarrow> u \<notin> found_in ops" for u by auto
  with Cons.IH[OF round_step(1)[OF Cons.prems(1) op assms(3)] rest] round_step(2,3)[OF Cons.prems(1) op assms(3)]
  show ?case unfolding sets by auto
qed simp

lemma ops_sets:
  "found_in ops = {ve_uuid v | v. OpVm v \<in> set ops}" "gone_in ops = {ve_uuid e | e. OpVmEvent e \<in> set ops}"
  by (induction ops rule: found_in.induct) auto

definition machine_infos :: "(string \<rightharpoonup> SystemInfoVm) \<Rightarrow> string \<rightharpoonup> VmInfo" where
  "machine_infos found u = map_option VmInfo.truncate (found u)"

lemma round_arrives:
  assumes "inventory_ok iv" "hinfo_uuid host = machine" "machine \<noteq> ''''"
    and "\<And>u v. vms iv u = Some v \<Longrightarrow> lists iv machine u \<or> found u \<noteq> None \<Longrightarrow> ve_ts v \<le>s hinfo_ts host"
    and typed: "\<And>u v. found u = Some v \<Longrightarrow> ve_uuid v = u \<and> ve_host v = machine \<and> ve_ts v = hinfo_ts host"
    and vmlist: "\<And>v. v \<in> set vmlist \<longleftrightarrow> found (ve_uuid v) = Some v"
    and events: "\<And>e. e \<in> set events \<longleftrightarrow> (\<exists>u. lists iv machine u \<and> found u = None \<and> e = deletion machine (hinfo_ts host) u)"
    and ops: "ops \<in> shuffles (OpHost host # map OpVm vmlist) (map OpVmEvent events)"
  shows "(\<forall>u. lists (fold perform ops iv) machine u \<longleftrightarrow> found u \<noteq> None) \<and>
     (\<forall>u v. found u = Some v \<longrightarrow> vms (fold perform ops iv) u = Some v)"
proof -
  let ?gone = "{u. lists iv machine u \<and> found u = None}" and ?ts = "hinfo_ts host"
  have set: "set ops = insert (OpHost host) (OpVm ` set vmlist \<union> OpVmEvent ` set events)"
    using ops by (simp add: set_shuffles)
  have all: "list_all (round_op machine ?ts found ?gone) ops"
  proof -
    have "round_op machine ?ts found ?gone (OpVm v)" if "v \<in> set vmlist" for v
      using typed[of "ve_uuid v" v] that[unfolded vmlist] by (simp add: round_op_def)
    moreover have "round_op machine ?ts found ?gone (OpVmEvent e)" if "e \<in> set events" for e
      using that[unfolded events] by (auto simp: round_op_def)
    moreover have "round_op machine ?ts found ?gone (OpHost host)" by (simp add: round_op_def assms(2))
    ultimately show ?thesis unfolding list_all_iff set by blast
  qed
  have found: "found_in ops = dom found"
  proof -
    have "u \<in> found_in ops \<longleftrightarrow> (\<exists>v. v \<in> set vmlist \<and> ve_uuid v = u)" for u
      unfolding ops_sets set by auto
    moreover have "(\<exists>v. v \<in> set vmlist \<and> ve_uuid v = u) \<longleftrightarrow> u \<in> dom found" for u
      unfolding vmlist by (metis domD domI typed)
    ultimately show ?thesis by blast
  qed
  have gone: "gone_in ops = ?gone"
  proof -
    have "u \<in> gone_in ops \<longleftrightarrow> (\<exists>e. e \<in> set events \<and> ve_uuid e = u)" for u
      unfolding ops_sets set by auto
    moreover have "ve_uuid (deletion machine ?ts u) = u" for u by (simp add: deletion_def)
    ultimately show ?thesis unfolding events by fastforce
  qed
  have state: "round_state machine ?ts found ?gone iv'"
    if "inventory_ok iv'" "hosts iv' machine \<noteq> None" "vms iv' = vms iv" for iv'
    using that assms(4) listed_placed[OF assms(1), of machine] by (fastforce simp: round_state_def)
  have apart: "?gone \<inter> dom found = {}" by auto
  show ?thesis
  proof (cases "hosts iv machine = None")
    case False
    from round_run[OF state[OF assms(1) False refl] all apart] show ?thesis
      unfolding found gone by auto
  next
    case True
    then have none: "\<not> lists iv machine u" for u by (simp add: lists_def)
    then have "events = []" using events by (metis list.set_intros(1) neq_Nil_conv)
    with ops have o': "ops = OpHost host # map OpVm vmlist" by simp
    let ?iv = "update_host host iv"
    have "round_state machine ?ts found ?gone ?iv"
      by (rule state) (use assms(1,2) in \<open>simp_all add: update_host_ok update_host_views\<close>)
    moreover have "list_all (round_op machine ?ts found ?gone) (map OpVm vmlist)" using all o' by simp
    moreover have "found_in (map OpVm vmlist) = dom found" "gone_in (map OpVm vmlist) = ?gone"
      using found gone o' by simp_all
    ultimately show ?thesis
      using round_run[of machine ?ts found ?gone ?iv "map OpVm vmlist"] apart none
      by (auto simp: o' update_host_views)
  qed
qed


section \<open>Events of domains\<close>

lemma one_event:
  "vms (apply_events [e] iv) u =
     (if u = ve_uuid e
      then (case vms iv u of
              None \<Rightarrow> None
            | Some v \<Rightarrow> if ve_ts e <s ve_ts v then Some v
                        else if ve_runstate e = RUNSTATE_DELETED then None
                        else Some (v\<lparr>ve_host := ve_host e, ve_runstate := ve_runstate e\<rparr>))
      else vms iv u)"
  by (auto simp: apply_events_def Update_vm_state_def update_vm_state_eq inv_simps split: option.split)


section \<open>Witnesses\<close>

text \<open>A libvirt whose only state is the set of registered callbacks.\<close>

definition sample_cn :: "int set conn_env" where
  "sample_cn = \<lparr>cn_NewConnect = (\<lambda>w. None), cn_Register = (\<lambda>w. (5, None, insert 5 w)),
     cn_Deregister = (\<lambda>i w. w - {i}), cn_Close = (\<lambda>w. w)\<rparr>"

theorem one_callback_registered_witness:
  "\<exists>hv. fold (conn_perform sample_cn) [DoConnect, DoConnect] (init_hypervisor, {}) = (hv, {5}) \<and> {5} \<subseteq> {hv_lifecycle_id hv}"
proof -
  obtain hv w' where f: "fold (conn_perform sample_cn) [DoConnect, DoConnect] (init_hypervisor, {}) = (hv, w')"
    by fastforce
  have "w' = {5}"
    using f by (auto simp: sample_cn_def Connect_def start_listening_def stop_listening_def init_hypervisor_def)
  moreover have "callback_laws sample_cn id" by (auto simp: callback_laws_def sample_cn_def)
  ultimately show ?thesis using one_callback_registered[of sample_cn id "{}", OF _ _ f] f by simp
qed

definition sample_re :: reg_env where
  "sample_re = \<lparr>re_MkdirAll = None, re_hosts = Inr [(replicate 36 (CHR ''B''), True)], re_uuids = Inr [],
     re_access = (\<lambda>h u. None)\<rparr>"

theorem check_vmreg_passed_witness:
  "check_vmreg (sample_he DOMAIN_RUNNING) sample_re ''A'' [''v''] (\<lambda>d. Map.empty) \<lparr>fs_file = Map.empty, fs_dir = {}\<rparr> = (None, []) \<and>
   fs_file \<lparr>fs_file = Map.empty, fs_dir = {}\<rparr> (path_segs (reg_file (replicate 36 (CHR ''B'')) ''v'')) = None"
proof -
  have hosts: "Hosts (re_hosts sample_re) = Inr [replicate 36 (CHR ''B'')]"
    by (simp add: sample_re_def Hosts_def)
  have "plain (replicate 36 (CHR ''B''))" "plain ''A''" "plain ''v''" by (simp_all add: plain_def numeral_eq_Suc)
  then have "path_segs (reg_file (replicate 36 (CHR ''B'')) ''v'') \<noteq> path_segs (reg_dir ''A'')"
    by (simp add: reg_file_segs reg_dir_segs reg_path_def)
  then have c: "check_vmreg (sample_he DOMAIN_RUNNING) sample_re ''A'' [''v''] (\<lambda>d. Map.empty) \<lparr>fs_file = Map.empty, fs_dir = {}\<rparr>
      = (None, [])"
    unfolding check_vmreg_def check_domains.simps hosts
    by (simp add: sample_re_def Access_def os_Stat_def Uuids_def sample_lv_def Let_def numeral_eq_Suc)
  from check_vmreg_passed[OF c _ hosts, of "''v''"] c show ?thesis by (simp add: sample_re_def)
qed

text \<open>An inventory that lists a machine of host A that does not exist any more.\<close>

definition ghost_inventory :: Inventory where
  "ghost_inventory = fold perform [OpHost (sample_host ''A'' 5), OpVm (sample_vm ''g'' ''A'' 5)] init_inventory"

lemma ghost_vms: "vms ghost_inventory = [''g'' \<mapsto> sample_vm ''g'' ''A'' 5]"
  by (simp add: ghost_inventory_def update_vm_eq update_host_views inv_simps) (simp add: sample_defs)

lemma ghost_hosts: "hosts ghost_inventory = [''A'' \<mapsto> \<lparr>hd_info = sample_host ''A'' 5, hd_vms = {''g''}\<rparr>]"
  by (simp add: ghost_inventory_def update_vm_def update_host_def update_hostdata_vm_def
      add_host_vm_def Let_def sample_defs)

lemma ghost_ok: "inventory_ok ghost_inventory"
  unfolding ghost_inventory_def by (rule inventory.run_inv[OF init_ok])


lemma append_shuffles: "xs @ ys \<in> shuffles xs ys"
proof (induction xs)
  case (Cons x xs)
  then show ?case by (cases ys) auto
qed simp


end
