(* ===== verification/Vmdef_Xml_Props.thy ===== *)
theory Vmdef_Xml_Props
  imports Vmdef_Xml
begin

text \<open>
  Correctness of the translation between definitions and libvirt domains: disks and whole
  definitions survive the way to a domain and back, device names, controllers and I/O threads
  are not given out twice, leases are those of the managed disks, and the memory fits the
  address space of the virtual CPU.
\<close>

section \<open>One disk\<close>

lemma alias_fields_alias:
  assumes "CHR ''_'' \<notin> set (DiskManMode_String (disk_man d))" "CHR ''_'' \<notin> set (DiskProvMode_String (disk_prov d))"
    and "CHR ''_'' \<notin> set t" "CHR ''_'' \<notin> set m"
  shows "alias_fields (disk_alias d t m n) =
     [DiskManMode_String (disk_man d), DiskProvMode_String (disk_prov d), t, m, nat_dec n]"
proof -
  have five: "(5 :: nat) = Suc (Suc (Suc (Suc (Suc 0))))" by simp
  show ?thesis
    using split_n_piece[OF assms(1)] split_n_piece[OF assms(2)] split_n_piece[OF assms(3)] split_n_piece[OF assms(4)]
    by (simp add: alias_fields_def disk_alias_def five)
qed

lemma bus_ctrl_kinds:
  assumes "disk_valid d" "bus_ctrl (disk_bus d) = (pre, t, m, io)"
  shows "(pre, t, m, io) \<in> {(''sd'', ''scsi'', ''lsilogic'', False), (''sd'', ''scsi'', ''virtio-scsi'', True),
           (''sd'', ''sata'', '''', False), (''vd'', ''virtio'', '''', True)}"
    and "DiskBus_Parse t m = Inr (disk_bus d)"
  using assms by (auto simp: disk_valid_def bus_ctrl_def DiskBus_Parse_def split: if_splits)

lemma mode_strings:
  assumes "disk_valid d"
  shows "\<exists>c. DiskManMode_String (disk_man d) = [c] \<and> c \<noteq> CHR ''_'' \<and> DiskManMode_Parse c = Inr (disk_man d)"
    and "\<exists>c. DiskProvMode_String (disk_prov d) = [c] \<and> c \<noteq> CHR ''_'' \<and> DiskProvMode_Parse c = Inr (disk_prov d)"
  using assms
  by (auto simp: disk_valid_def DiskManMode_String_def DiskManMode_Parse_def DiskProvMode_String_def
      DiskProvMode_Parse_def split: if_splits)

lemma disk_back:
  assumes "disk_valid d" "bus_ctrl (disk_bus d) = (pre, t, m, io)"
    and "dd_device dd = DiskDevice_String (disk_device d)"
    and "dd_source dd = Some (if disk_device d = DEVICE_LUN then (Some (disk_path d), None) else (None, Some (disk_path d)))"
    and "dd_target dd \<noteq> None" "dd_alias dd = Some (disk_alias d t m n)"
  shows "vmdef_disk_from_xml dd = Inr (d\<lparr>disk_size := 0\<rparr>)"
proof -
  obtain a b where a: "DiskManMode_String (disk_man d) = [a]" "a \<noteq> CHR ''_''" "DiskManMode_Parse a = Inr (disk_man d)"
    and b: "DiskProvMode_String (disk_prov d) = [b]" "b \<noteq> CHR ''_''" "DiskProvMode_Parse b = Inr (disk_prov d)"
    using mode_strings[OF assms(1)] by blast
  note kinds = bus_ctrl_kinds[OF assms(1,2)]
  then have us: "CHR ''_'' \<notin> set t" "CHR ''_'' \<notin> set m" by auto
  have f: "alias_fields (disk_alias d t m n) = [[a], [b], t, m, nat_dec n]"
    using alias_fields_alias[of d t m n] a b us by simp
  have l: "\<not> length (disk_alias d t m n) < 5" by (simp add: disk_alias_def a b)
  have dev: "DiskDevice_Parse (DiskDevice_String (disk_device d)) = Inr (disk_device d)"
    using assms(1) by (intro device_codec.parse_shown) (auto simp: disk_valid_def AllowedDiskDevice_def)
  obtain tg where "dd_target dd = Some tg" using assms(5) by auto
  then show ?thesis
    by (simp add: vmdef_disk_from_xml_def rbind_def need_def assms(3,4,6) dev f l a b kinds(2) first_byte_def)
qed

text \<open>What one call does: its effect on the state, and the disk it adds.\<close>

definition disk_letter_no :: "Disk \<Rightarrow> disk_st \<Rightarrow> nat" where
  "disk_letter_no d st =
     (if disk_bus d = BUS_VIRTIO_BLK then st_count st ''virtio'' else st_count st ''scsi'' + st_count st ''sata'')"

lemma Disk_to_xml_step:
  assumes "disk_valid d" "bus_ctrl (disk_bus d) = (pre, t, m, io)"
  shows "\<exists>dd. Disk_to_xml md5 d lease order st =
      (\<lparr>st_count = (st_count st)(t := st_count st t + 1),
        st_iothreads = st_iothreads st + (if io then 1 else 0),
        st_disks = st_disks st @ [dd],
        st_leases = st_leases st @ (if lease then [vmdef_lease md5 d] else []),
        st_ctrls = st_ctrls st @ (if m = '''' then []
          else [\<lparr>dc_type = t, dc_index = st_count st t, dc_model = m,
                 dc_iothread = (if io then Some (st_iothreads st + 1) else None)\<rparr>])\<rparr>, None) \<and>
     vmdef_disk_from_xml dd = Inr (d\<lparr>disk_size := 0\<rparr>) \<and>
     dd_boot dd = (if order \<le> 0 then None else Some (nat order)) \<and>
     dd_target dd = Some (pre @ device_letter (disk_letter_no d st), t) \<and>
     dd_iothread dd = (if t = ''virtio'' then Some (st_iothreads st + 1) else None) \<and>
     dd_address dd = (if m = '''' then None else Some (st_count st t))"
proof -
  have p: "Validate_disk_path (disk_path d) \<noteq> ''''" using assms(1) by (simp add: disk_valid_def)
  note kinds = bus_ctrl_kinds(1)[OF assms]
  have no: "disk_letter_no d st = (if t = ''virtio'' then st_count st t else st_count st ''scsi'' + st_count st ''sata'')"
    using assms by (auto simp: disk_letter_no_def disk_valid_def bus_ctrl_def split: if_splits)
  let ?dd = "domain_disk_of d (Validate_disk_path (disk_path d)) t m (pre @ device_letter (disk_letter_no d st))
     (st_count st t) (if t = ''virtio'' then Some (st_iothreads st + 1) else None) order"
  have read_back: "vmdef_disk_from_xml ?dd = Inr (d\<lparr>disk_size := 0\<rparr>)"
    by (rule disk_back[OF assms]) (simp_all add: domain_disk_of_def Let_def)
  have fields: "dd_boot ?dd = (if order \<le> 0 then None else Some (nat order))"
     "dd_target ?dd = Some (pre @ device_letter (disk_letter_no d st), t)"
     "dd_iothread ?dd = (if t = ''virtio'' then Some (st_iothreads st + 1) else None)"
     "dd_address ?dd = (if m = '''' then None else Some (st_count st t))"
    by (simp_all add: domain_disk_of_def Let_def)
  have state: "Disk_to_xml md5 d lease order st =
      (\<lparr>st_count = (st_count st)(t := st_count st t + 1),
        st_iothreads = st_iothreads st + (if io then 1 else 0),
        st_disks = st_disks st @ [?dd],
        st_leases = st_leases st @ (if lease then [vmdef_lease md5 d] else []),
        st_ctrls = st_ctrls st @ (if m = '''' then []
          else [\<lparr>dc_type = t, dc_index = st_count st t, dc_model = m,
                 dc_iothread = (if io then Some (st_iothreads st + 1) else None)\<rparr>])\<rparr>, None)"
    unfolding Disk_to_xml_def Let_def assms(2) no
    using p kinds by (auto simp: domain_controller_of_def disk_iothread_def)
  show ?thesis
    by (intro exI[of _ ?dd] conjI state read_back fields)
qed

text \<open>A valid disk put into a domain is read back with its path, device, bus, management and
  provisioning mode; its size is not part of the domain.\<close>

theorem disk_roundtrip:
  assumes "vmdef_validate_disk d = None"
  shows "\<exists>st' dd. Disk_to_xml md5 d lease order st = (st', None) \<and> st_disks st' = st_disks st @ [dd] \<and>
           vmdef_disk_from_xml dd = Inr (d\<lparr>disk_size := 0\<rparr>)"
proof -
  obtain pre t m io where b: "bus_ctrl (disk_bus d) = (pre, t, m, io)" by (metis prod_cases4)
  from assms have "disk_valid d" by (simp add: disk_valid_iff)
  from Disk_to_xml_step[OF this b, of md5 lease order st] show ?thesis by auto
qed

text \<open>An alias with an empty first or second field is not an error value but a panic of the
  program: the length is checked, the fields are not.\<close>

theorem alias_panics:
  assumes "dd_device dd = ''disk''" "dd_source dd = Some (b, Some path)" "dd_target dd \<noteq> None"
    and "dd_alias dd = Some (''ua-_'' @ rest)" "length (split_n 4 (CHR ''_'') rest) = 4"
  shows "vmdef_disk_from_xml dd = Inl (Panic ''index out of range'')"
proof -
  have "alias_fields (''ua-_'' @ rest) = split_n (Suc (Suc 3)) (CHR ''_'') ('''' @ CHR ''_'' # rest)"
    by (simp add: alias_fields_def eval_nat_numeral)
  also have "\<dots> = '''' # split_n (Suc 3) (CHR ''_'') rest"
    by (rule split_n_piece) simp
  finally have f: "alias_fields (''ua-_'' @ rest) = '''' # split_n 4 (CHR ''_'') rest"
    by (simp add: eval_nat_numeral)
  have "rest \<noteq> ''''" using assms(5) by (auto simp: numeral_eq_Suc)
  then have "\<not> length (''ua-_'' @ rest) < 5" by (cases rest) auto
  moreover obtain tg where "dd_target dd = Some tg" using assms(3) by auto
  ultimately show ?thesis
    using assms f by (simp add: vmdef_disk_from_xml_def rbind_def need_def DiskDevice_Parse_def first_byte_def Let_def)
qed

text \<open>A managed disk comes back, and an alias that \<open>fmt.Sprintf\<close> would give for empty modes panics.\<close>

theorem disk_roundtrip_witness:
  "\<exists>st' dd. Disk_to_xml id sample_disk True 1 init_st = (st', None) \<and> st_disks st' = st_disks init_st @ [dd] \<and>
     vmdef_disk_from_xml dd = Inr (sample_disk\<lparr>disk_size := 0\<rparr>)"
  by (rule disk_roundtrip) (simp add: disk_valid_iff sample_disk_valid)

definition sample_domain_disk :: DomainDisk where
  "sample_domain_disk =
     \<lparr>dd_device = ''disk'', dd_rawio = '''', dd_driver_type = ''raw'', dd_cache = ''none'', dd_iothread = None,
      dd_source = Some (None, Some ''/vms/ds/a.raw''), dd_reservations = '''', dd_target = Some (''sdb'', ''sata''),
      dd_readonly = False, dd_boot = Some 1, dd_alias = Some ''ua-_T_sata__1'', dd_address = None\<rparr>"

theorem alias_panics_witness:
  "vmdef_disk_from_xml sample_domain_disk = Inl (Panic ''index out of range'')"
proof (rule alias_panics[of _ None "''/vms/ds/a.raw''" "''T_sata__1''"])
  show "length (split_n 4 (CHR ''_'') ''T_sata__1'') = 4" by code_simp
qed (simp_all add: sample_domain_disk_def)

section \<open>All disks of a definition\<close>

lemma disks_loop_disks:
  assumes "\<forall>d\<in>set ds. disk_valid d"
  shows "\<exists>st' dds. disks_loop md5 k ds st = (st', None) \<and> st_disks st' = st_disks st @ dds \<and>
      list_all2 (\<lambda>d dd. vmdef_disk_from_xml dd = Inr (d\<lparr>disk_size := 0\<rparr>)) ds dds \<and>
      st_leases st' = st_leases st @ map (vmdef_lease md5) (filter (\<lambda>d. disk_man d \<noteq> DISK_MAN_UNMANAGED) ds) \<and>
      (1 < k \<longrightarrow> (\<forall>dd\<in>set dds. dd_boot dd \<noteq> Some 1))"
  using assms
proof (induction ds arbitrary: k st)
  case Nil
  then show ?case by simp
next
  case (Cons d ds)
  let ?boots = "k = 1 \<or> disk_device d = DEVICE_CDROM"
  let ?lease = "disk_man d \<noteq> DISK_MAN_UNMANAGED"
  obtain pre t m io where "bus_ctrl (disk_bus d) = (pre, t, m, io)" by (metis prod_cases4)
  from Disk_to_xml_step[OF _ this, of md5 ?lease "if ?boots then int k else - 1" st] Cons.prems
  obtain st1 dd where one: "Disk_to_xml md5 d ?lease (if ?boots then int k else - 1) st = (st1, None)"
      "st_disks st1 = st_disks st @ [dd]" "st_leases st1 = st_leases st @ (if ?lease then [vmdef_lease md5 d] else [])"
      "vmdef_disk_from_xml dd = Inr (d\<lparr>disk_size := 0\<rparr>)"
      "dd_boot dd = (if (if ?boots then int k else - 1) \<le> 0 then None else Some (nat (if ?boots then int k else - 1)))"
    by fastforce
  obtain st' dds where rest: "disks_loop md5 (if ?boots then k + 1 else k) ds st1 = (st', None)"
      "st_disks st' = st_disks st1 @ dds"
      "list_all2 (\<lambda>d dd. vmdef_disk_from_xml dd = Inr (d\<lparr>disk_size := 0\<rparr>)) ds dds"
      "st_leases st' = st_leases st1 @ map (vmdef_lease md5) (filter (\<lambda>d. disk_man d \<noteq> DISK_MAN_UNMANAGED) ds)"
      "1 < (if ?boots then k + 1 else k) \<longrightarrow> (\<forall>dd\<in>set dds. dd_boot dd \<noteq> Some 1)"
    using Cons.IH[of "if ?boots then k + 1 else k" st1] Cons.prems by auto
  have "1 < k \<longrightarrow> (\<forall>x\<in>set (dd # dds). dd_boot x \<noteq> Some 1)"
    using one(5) rest(5) by (auto split: if_splits)
  with one rest show ?case
    by (intro exI[of _ st'] exI[of _ "dd # dds"]) (simp add: Let_def)
qed

text \<open>The first disk boots first, so it is the one found again as the OS disk.\<close>

lemma disks_loop_first:
  assumes "disk_valid d"
  shows "\<exists>st1 dd. disks_loop md5 1 (d # ds) st = disks_loop md5 2 ds st1 \<and>
      st_disks st1 = st_disks st @ [dd] \<and> vmdef_disk_from_xml dd = Inr (d\<lparr>disk_size := 0\<rparr>) \<and> dd_boot dd = Some 1 \<and>
      st_leases st1 = st_leases st @ (if disk_man d \<noteq> DISK_MAN_UNMANAGED then [vmdef_lease md5 d] else [])"
proof -
  obtain pre t m io where "bus_ctrl (disk_bus d) = (pre, t, m, io)" by (metis prod_cases4)
  from Disk_to_xml_step[OF assms this, of md5 "disk_man d \<noteq> DISK_MAN_UNMANAGED" 1 st] show ?thesis
    by (auto simp: Let_def numeral_2_eq_2)
qed

lemma disks_from_others:
  assumes "list_all2 (\<lambda>d dd. vmdef_disk_from_xml dd = Inr (d\<lparr>disk_size := 0\<rparr>)) ds dds"
    and "\<forall>dd\<in>set dds. dd_boot dd \<noteq> Some 1"
  shows "disks_from dds os acc = Inr (os, acc @ map (disk_size_update (\<lambda>_. 0)) ds)"
  using assms by (induction arbitrary: acc rule: list_all2_induct) (auto simp: rbind_def)

lemma disks_there_and_back:
  assumes "\<forall>d\<in>set (Disks vm). disk_valid d"
  shows "\<exists>st. disks_loop md5 1 (Disks vm) init_st = (st, None) \<and>
      disks_from (st_disks st) os [] =
        Inr ((vm_osdisk vm)\<lparr>disk_size := 0\<rparr>, map (disk_size_update (\<lambda>_. 0)) (vm_disks vm)) \<and>
      st_leases st = map (vmdef_lease md5) (filter (\<lambda>d. disk_man d \<noteq> DISK_MAN_UNMANAGED) (Disks vm)) \<and>
      (\<exists>first others. st_disks st = first # others \<and> dd_boot first = Some 1 \<and>
         (\<forall>dd\<in>set others. dd_boot dd \<noteq> Some 1))"
proof -
  from disks_loop_first[of "vm_osdisk vm" md5 "vm_disks vm" init_st] assms
  obtain st1 dd where first: "disks_loop md5 1 (Disks vm) init_st = disks_loop md5 2 (vm_disks vm) st1"
      "st_disks st1 = [dd]" "vmdef_disk_from_xml dd = Inr ((vm_osdisk vm)\<lparr>disk_size := 0\<rparr>)" "dd_boot dd = Some 1"
      "st_leases st1 = (if disk_man (vm_osdisk vm) \<noteq> DISK_MAN_UNMANAGED then [vmdef_lease md5 (vm_osdisk vm)] else [])"
    by (auto simp: Disks_def init_st_def)
  from disks_loop_disks[of "vm_disks vm" md5 2 st1] assms
  obtain st dds where rest: "disks_loop md5 2 (vm_disks vm) st1 = (st, None)" "st_disks st = st_disks st1 @ dds"
      "list_all2 (\<lambda>d dd. vmdef_disk_from_xml dd = Inr (d\<lparr>disk_size := 0\<rparr>)) (vm_disks vm) dds"
      "st_leases st = st_leases st1 @ map (vmdef_lease md5) (filter (\<lambda>d. disk_man d \<noteq> DISK_MAN_UNMANAGED) (vm_disks vm))"
      "\<forall>dd\<in>set dds. dd_boot dd \<noteq> Some 1"
    by (auto simp: Disks_def)
  show ?thesis
    using first rest disks_from_others[OF rest(3,5), of "(vm_osdisk vm)\<lparr>disk_size := 0\<rparr>" "[]"]
    by (intro exI[of _ st]) (simp add: Disks_def rbind_def)
qed

section \<open>Whole definitions\<close>

text \<open>What libvirt shows of a domain it was given, as its documentation of the format has it: the same
  elements, except that the memory is in KiB, a CPU model without a mode has the mode \<open>custom\<close>, an
  interface without an address gets a generated one, and an empty generation id becomes a generated one.
  The parts that the code does not read may be anything.\<close>

definition disk_shown :: "DomainDisk \<Rightarrow> DomainDisk \<Rightarrow> bool" where
  "disk_shown dd dd' \<longleftrightarrow> dd_device dd' = dd_device dd \<and> dd_source dd' = dd_source dd \<and> dd_target dd' = dd_target dd \<and>
     dd_alias dd' = dd_alias dd \<and> dd_boot dd' = dd_boot dd"

definition interface_shown :: "DomainInterface \<Rightarrow> DomainInterface \<Rightarrow> bool" where
  "interface_shown di di' \<longleftrightarrow> di_source di' = di_source di \<and> di_vlan di' = di_vlan di \<and> di_model di' = di_model di \<and>
     (case di_mac di of Some m \<Rightarrow> di_mac di' = Some m | None \<Rightarrow> di_mac di' \<noteq> None)"

definition cpu_shown :: "DomainCPU \<Rightarrow> DomainCPU \<Rightarrow> bool" where
  "cpu_shown c c' \<longleftrightarrow> cpu_topology c' = cpu_topology c \<and> cpu_model c' = cpu_model c \<and>
     (cpu_mode c' = cpu_mode c \<or> cpu_mode c = '''' \<and> cpu_mode c' = ''custom'')"

definition libvirt_shows :: "Domain \<Rightarrow> Domain \<Rightarrow> bool" where
  "libvirt_shows d d' \<longleftrightarrow>
     dom_title d' = dom_title d \<and> dom_metadata d' = dom_metadata d \<and> dom_os d' = dom_os d \<and>
     dom_memory d' = map_option (\<lambda>(v, unit). (v * KiB, ''KiB'')) (dom_memory d) \<and>
     (dom_backing d' = None \<longleftrightarrow> dom_backing d = None) \<and> (dom_numatune d' = None \<longleftrightarrow> dom_numatune d = None) \<and>
     rel_option cpu_shown (dom_cpu d) (dom_cpu d') \<and>
     rel_option (\<lambda>g g'. g \<noteq> '''' \<longrightarrow> g' = g) (dom_genid d) (dom_genid d') \<and>
     rel_option (\<lambda>v v'. list_all2 disk_shown (dv_disks v) (dv_disks v') \<and>
        list_all2 interface_shown (dv_interfaces v) (dv_interfaces v')) (dom_devices d) (dom_devices d')"

text \<open>What is found again of a definition: the parts a domain has no place for are at their zero values, and
  what was left to libvirt is what it generated.\<close>

definition net_again :: "Net \<Rightarrow> Net \<Rightarrow> bool" where
  "net_again n n' \<longleftrightarrow> n' = n \<or> net_mac n = '''' \<and> n' = n\<lparr>net_mac := net_mac n'\<rparr>"

definition found_again :: "Vmdef \<Rightarrow> Vmdef \<Rightarrow> bool" where
  "found_again vm vm' \<longleftrightarrow>
     vm_name vm' = vm_name vm \<and> vm_cpudef vm' = (vm_cpudef vm)\<lparr>cd_nodes := 0\<rparr> \<and> vm_memory vm' = vm_memory vm \<and>
     vm_numa vm' = vm_numa vm \<and> vm_osdisk vm' = (vm_osdisk vm)\<lparr>disk_size := 0\<rparr> \<and>
     vm_disks vm' = map (disk_size_update (\<lambda>_. 0)) (vm_disks vm) \<and> list_all2 net_again (vm_nets vm) (vm_nets vm') \<and>
     vm_vlanid vm' = (if vm_nets vm = [] then 0 else vm_vlanid vm) \<and> vm_firmware vm' = vm_firmware vm \<and>
     (vm_genid vm \<noteq> ''auto'' \<longrightarrow> vm_genid vm' = vm_genid vm) \<and>
     vm_custom vm' = filter (\<lambda>c. cf_name c \<noteq> '''') (vm_custom vm)"

lemma disk_shown_from: "disk_shown dd dd' \<Longrightarrow> vmdef_disk_from_xml dd' = vmdef_disk_from_xml dd"
  by (simp add: disk_shown_def vmdef_disk_from_xml_def)

lemma disks_shown_from:
  "list_all2 disk_shown dds dds' \<Longrightarrow> disks_from dds' os acc = disks_from dds os acc"
proof (induction dds dds' arbitrary: os acc rule: list_all2_induct)
  case (Cons dd dds dd' dds')
  from Cons(1) have "dd_boot dd' = dd_boot dd" by (simp add: disk_shown_def)
  then show ?case unfolding disks_from.simps disk_shown_from[OF Cons(1)] Cons.IH by simp
qed simp

lemma unat_scast_nonneg:
  fixes w :: "'a::len word"
  assumes "0 \<le>s w" "LENGTH('a) \<le> LENGTH('b::len)"
  shows "unat (scast w :: 'b word) = nat (sint w)" "(word_of_nat (nat (sint w)) :: 'a word) = w"
proof -
  from assms have p: "0 \<le> sint w" by (simp add: word_sle_eq)
  have "sint w < 2 ^ (LENGTH('a) - 1)" using sint_range_size[of w] by (simp add: word_size)
  also have "(2 :: int) ^ (LENGTH('a) - 1) \<le> 2 ^ LENGTH('b)" using assms(2) by (intro power_increasing) simp_all
  finally have "take_bit LENGTH('b) (sint w) = sint w" using p by (simp add: take_bit_int_eq_self)
  then have "uint (scast w :: 'b word) = sint w" by (simp only: scast_eq uint_word_of_int_eq)
  then show "unat (scast w :: 'b word) = nat (sint w)" by (simp only: unat_eq_nat_uint)
  have "(word_of_nat (nat (sint w)) :: 'a word) = word_of_int (sint w)"
    using p by (metis of_int_of_nat_eq int_nat_eq)
  then show "(word_of_nat (nat (sint w)) :: 'a word) = w" by simp
qed

lemma net_there_and_back:
  assumes "net_nettype n \<in> {NET_BRIDGE, NET_LIBVIRT}"
    and "net_model n \<in> {NET_MODEL_VIRTIO, NET_MODEL_E1000E, NET_MODEL_E1000}" "0 \<le>s vm_vlanid vm"
    and "interface_shown (domain_interface vm n) di"
  shows "\<exists>n'. net_from di = Inr (n', vm_vlanid vm) \<and> net_again n n'"
proof -
  have model: "NetModel_Parse (NetModel_String (net_model n)) = Inr (net_model n)"
    using assms(2) by (auto simp: NetModel_Parse_def NetModel_String_def)
  have "(case di_vlan (domain_interface vm n) of Some (t # ts) \<Rightarrow> word_of_nat t | _ \<Rightarrow> 0) = vm_vlanid vm"
  proof (cases "0 <s vm_vlanid vm")
    case True
    then show ?thesis
      using unat_scast_nonneg[OF assms(3), where 'b = 64] by (simp add: domain_interface_def)
  next
    case False
    then have "sint (vm_vlanid vm) = sint (0 :: i16)" using assms(3) by (simp add: word_sless_alt word_sle_eq)
    then show ?thesis using False by (simp add: domain_interface_def signed_word_eqI)
  qed
  then have vlan: "(case di_vlan di of Some (t # ts) \<Rightarrow> word_of_nat t | _ \<Rightarrow> 0) = vm_vlanid vm"
    using assms(4) by (simp add: interface_shown_def)
  let ?mac = "case di_mac di of None \<Rightarrow> '''' | Some a \<Rightarrow> a"
  have mac: "net_mac n \<noteq> '''' \<Longrightarrow> ?mac = net_mac n"
    using assms(4) by (simp add: interface_shown_def domain_interface_def)
  have "net_from di = Inr (n\<lparr>net_mac := ?mac\<rparr>, vm_vlanid vm)"
    using assms(1,4) model
    unfolding net_from_def vlan Let_def
    by (auto simp: interface_shown_def domain_interface_def rbind_def need_def)
  moreover have "net_again n (n\<lparr>net_mac := ?mac\<rparr>)" using mac by (cases "net_mac n = ''''") (simp_all add: net_again_def)
  ultimately show ?thesis by blast
qed

lemma nets_there_and_back:
  assumes "\<forall>n\<in>set ns. net_nettype n \<in> {NET_BRIDGE, NET_LIBVIRT} \<and>
       net_model n \<in> {NET_MODEL_VIRTIO, NET_MODEL_E1000E, NET_MODEL_E1000}" "0 \<le>s vm_vlanid vm"
    and "list_all2 interface_shown (map (domain_interface vm) ns) dis"
  shows "\<exists>ns'. nets_from dis acc v = Inr (acc @ ns', if ns = [] then v else vm_vlanid vm) \<and> list_all2 net_again ns ns'"
  using assms(1,3)
proof (induction ns arbitrary: acc v dis)
  case (Cons n ns)
  then obtain di rest where dis: "dis = di # rest" "interface_shown (domain_interface vm n) di"
    "list_all2 interface_shown (map (domain_interface vm) ns) rest" by (auto simp: list_all2_Cons1)
  obtain n' where n: "net_from di = Inr (n', vm_vlanid vm)" "net_again n n'"
    using net_there_and_back[OF _ _ assms(2) dis(2)] Cons.prems(1) by auto
  obtain ns' where "nets_from rest (acc @ [n']) (vm_vlanid vm) = Inr ((acc @ [n']) @ ns', vm_vlanid vm)" "list_all2 net_again ns ns'"
    using Cons.IH[of rest "acc @ [n']" "vm_vlanid vm"] dis(3) Cons.prems(1) by (auto split: if_splits)
  with n dis(1) show ?case by (intro exI[of _ "n' # ns'"]) (simp add: rbind_def)
qed simp

lemma cpu_there_and_back:
  "cpu_shown (domain_cpu vm) c \<Longrightarrow> cpu_from (Some c) old = Inr ((vm_cpudef vm)\<lparr>cd_nodes := cd_nodes old\<rparr>)"
  by (auto simp: cpu_shown_def cpu_from_def domain_cpu_def rbind_def need_def Let_def cpu_named_mode_def)

lemma meta_fields_filter: "meta_fields cs = map (\<lambda>c. (cf_name c, cf_value c)) (filter (\<lambda>c. cf_name c \<noteq> '''') cs)"
  by (induction cs) simp_all

lemma meta_there_and_back:
  assumes "marshal (meta_fields cs) = Inr x" "unmarshal x = Inr (meta_fields cs)"
  shows "Vm_From_xml unmarshal x [] = Inr (filter (\<lambda>c. cf_name c \<noteq> '''') cs)"
proof -
  have id: "\<lparr>cf_name = cf_name c, cf_value = cf_value c\<rparr> = c" for c :: CustomField by simp
  have "map (\<lambda>(n, v). \<lparr>cf_name = n, cf_value = v\<rparr>) (meta_fields cs) = filter (\<lambda>c. cf_name c \<noteq> '''') cs"
    by (simp add: meta_fields_filter comp_def id)
  with assms show ?thesis by (simp add: Vm_From_xml_def rbind_def)
qed

lemma firmware_there_and_back:
  "vm_firmware vm \<in> {FIRMWARE_BIOS, FIRMWARE_UEFI} \<Longrightarrow> firmware_from (domain_os vm) = vm_firmware vm"
  by (auto simp: firmware_from_def domain_os_def FirmwareType_Parse_def FirmwareType_String_def)

lemma memory_there_and_back:
  assumes "1 \<le>s (m :: i32)"
  shows "(word_of_nat (unat (scast m :: u64) * KiB div KiB) :: i32) = m"
proof -
  have "0 \<le>s m" using assms by (simp add: word_sle_eq)
  then show ?thesis using unat_scast_nonneg[of m, where 'b = 64] by simp
qed

lemma to_domain_valid:
  assumes "vmdef_valid vm" "domain_features arch = Some features" "marshal (meta_fields (vm_custom vm)) = Inr x"
  shows "\<exists>d st. to_domain md5 arch marshal vm uuid = Inr d \<and>
      disks_loop md5 1 (Disks vm) init_st = (st, None) \<and>
      dom_iothreads d = st_iothreads st + length (vm_nets vm) \<and>
      dom_devices d = Some \<lparr>dv_disks = st_disks st, dv_controllers = st_ctrls st, dv_leases = st_leases st,
        dv_interfaces = map (domain_interface vm) (vm_nets vm), dv_fixed = fixed_devices\<rparr> \<and>
      dom_title d = vm_name vm \<and> dom_cpu d = Some (domain_cpu vm) \<and> dom_os d = Some (domain_os vm) \<and>
      dom_memory d = Some (unat (scast (mem_total (vm_memory vm)) :: u64), ''MiB'') \<and>
      (dom_backing d \<noteq> None \<longleftrightarrow> mem_hp (vm_memory vm)) \<and> (dom_numatune d \<noteq> None \<longleftrightarrow> numa_placement (vm_numa vm)) \<and>
      dom_genid d = (if vm_genid vm = '''' then None else if vm_genid vm = ''auto'' then Some '''' else Some (vm_genid vm)) \<and>
      dom_metadata d = Some x"
proof -
  have "\<forall>d\<in>set (Disks vm). disk_valid d" using assms(1) by (simp add: vmdef_valid_def)
  from disks_there_and_back[OF this, of md5 undefined] obtain st
    where st: "disks_loop md5 1 (Disks vm) init_st = (st, None)" by blast
  show ?thesis
    using assms(2,3) by (simp add: to_domain_def st rbind_def Vm_To_xml_def Let_def del: One_nat_def)
qed

lemma zero_vmdef_simps:
  "cd_nodes (vm_cpudef zero_vmdef) = 0" "mem_hp (vm_memory zero_vmdef) = False" "vm_vlanid zero_vmdef = 0"
  "numa_placement (vm_numa zero_vmdef) = False" "vm_custom zero_vmdef = []"
  by (simp_all add: zero_vmdef_def)

text \<open>The definition of a domain that libvirt shows.\<close>

lemma from_shown_domain:
  assumes v: "vmdef_valid vm" and arch: "domain_features arch = Some features"
    and nets: "\<forall>n\<in>set (vm_nets vm). net_nettype n \<in> {NET_BRIDGE, NET_LIBVIRT}"
    and fw: "vm_firmware vm \<in> {FIRMWARE_BIOS, FIRMWARE_UEFI}"
    and meta: "marshal (meta_fields (vm_custom vm)) = Inr x" "unmarshal x = Inr (meta_fields (vm_custom vm))"
    and d: "to_domain md5 arch marshal vm uuid = Inr d" and shown: "libvirt_shows d d'"
  shows "\<exists>vm'. from_domain unmarshal d' zero_vmdef = Inr vm' \<and> found_again vm vm'"
proof -
  from to_domain_valid[where marshal = marshal, OF v arch meta(1), of md5 uuid] d obtain st
    where p: "disks_loop md5 1 (Disks vm) init_st = (st, None)"
      "dom_devices d = Some \<lparr>dv_disks = st_disks st, dv_controllers = st_ctrls st, dv_leases = st_leases st,
        dv_interfaces = map (domain_interface vm) (vm_nets vm), dv_fixed = fixed_devices\<rparr>"
      "dom_title d = vm_name vm" "dom_cpu d = Some (domain_cpu vm)" "dom_os d = Some (domain_os vm)"
      "dom_memory d = Some (unat (scast (mem_total (vm_memory vm)) :: u64), ''MiB'')"
      "dom_backing d \<noteq> None \<longleftrightarrow> mem_hp (vm_memory vm)" "dom_numatune d \<noteq> None \<longleftrightarrow> numa_placement (vm_numa vm)"
      "dom_genid d = (if vm_genid vm = '''' then None else if vm_genid vm = ''auto'' then Some '''' else Some (vm_genid vm))"
      "dom_metadata d = Some x"
    by (elim exE conjE) (metis sum.inject(2))
  note s = shown[unfolded libvirt_shows_def]
  obtain dv where dv: "dom_devices d' = Some dv" "list_all2 disk_shown (st_disks st) (dv_disks dv)"
    "list_all2 interface_shown (map (domain_interface vm) (vm_nets vm)) (dv_interfaces dv)"
    using s p(2) by (auto simp: option_rel_Some1)
  obtain c where c: "dom_cpu d' = Some c" "cpu_shown (domain_cpu vm) c" using s p(4) by (auto simp: option_rel_Some1)
  have disks: "disks_from (dv_disks dv) os [] =
      Inr ((vm_osdisk vm)\<lparr>disk_size := 0\<rparr>, map (disk_size_update (\<lambda>_. 0)) (vm_disks vm))" for os
    unfolding disks_shown_from[OF dv(2)] using disks_there_and_back[of vm md5 os] v p(1) by (auto simp: vmdef_valid_def)
  obtain ns' where ns: "nets_from (dv_interfaces dv) [] 0 = Inr (ns', if vm_nets vm = [] then 0 else vm_vlanid vm)"
    "list_all2 net_again (vm_nets vm) ns'"
    using nets_there_and_back[OF _ _ dv(3), of "[]" 0] v nets by (auto simp: vmdef_valid_def)
  have mem: "(word_of_nat (unat (scast (mem_total (vm_memory vm)) :: u64) * KiB div KiB) :: i32) = mem_total (vm_memory vm)"
    using v by (intro memory_there_and_back) (simp add: vmdef_valid_def)
  have gen: "vm_genid vm \<noteq> ''auto'' \<Longrightarrow> (case dom_genid d' of None \<Rightarrow> vm_genid zero_vmdef | Some g \<Rightarrow> g) = vm_genid vm"
    using s p(9) by (auto simp: option_rel_Some1 zero_vmdef_def split: if_splits)
  have same: "dom_title d' = vm_name vm" "dom_os d' = Some (domain_os vm)" "dom_metadata d' = Some x"
    "dom_memory d' = Some (unat (scast (mem_total (vm_memory vm)) :: u64) * KiB, ''KiB'')"
    "dom_backing d' \<noteq> None \<longleftrightarrow> mem_hp (vm_memory vm)" "dom_numatune d' \<noteq> None \<longleftrightarrow> numa_placement (vm_numa vm)"
    using s p by simp_all
  show ?thesis
    using same gen mem ns(2)
    by (simp add: from_domain_def zero_vmdef_simps dv(1) c(1) cpu_there_and_back[OF c(2)] disks ns(1) found_again_def
        meta_there_and_back[where marshal = marshal and unmarshal = unmarshal, OF meta] firmware_there_and_back[OF fw] rbind_def need_def)
qed


lemma found_again_paths: "found_again vm vm' \<Longrightarrow> map disk_path (Disks vm') = map disk_path (Disks vm)"
  by (simp add: found_again_def Disks_def comp_def)

text \<open>A libvirt that draws fixed values.\<close>

definition sample_view :: "Domain \<Rightarrow> Domain" where
  "sample_view d = d\<lparr>dom_memory := map_option (\<lambda>(v, unit). (v * KiB, ''KiB'')) (dom_memory d),
     dom_genid := map_option (\<lambda>g. if g = '''' then ''3ad1f2c0'' else g) (dom_genid d),
     dom_devices := map_option (\<lambda>v. v\<lparr>dv_interfaces := map (\<lambda>di. di\<lparr>di_mac :=
       (case di_mac di of None \<Rightarrow> Some ''52:54:00:00:00:01'' | Some m \<Rightarrow> Some m)\<rparr>) (dv_interfaces v)\<rparr>) (dom_devices d)\<rparr>"

lemma sample_view_shows: "libvirt_shows d (sample_view d)"
  by (cases "dom_genid d"; cases "dom_devices d"; cases "dom_cpu d")
    (auto simp: libvirt_shows_def sample_view_def list_all2_map2 cpu_shown_def disk_shown_def interface_shown_def
      intro!: list.rel_refl split: option.split)


section \<open>Names, controllers and I/O threads\<close>

definition target_name :: "DomainDisk \<Rightarrow> string option" where
  "target_name dd = map_option fst (dd_target dd)"

definition somes :: "'a option list \<Rightarrow> 'a list" where
  "somes xs = List.map_filter id xs"

lemma somes_simps [simp]:
  "somes [] = []" "somes (None # xs) = somes xs" "somes (Some x # xs) = x # somes xs" "somes (xs @ ys) = somes xs @ somes ys"
  by (simp_all add: somes_def map_filter_def)

definition iothreads_used :: "DomainController list \<Rightarrow> DomainDisk list \<Rightarrow> nat list" where
  "iothreads_used cs dds = somes (map dc_iothread cs) @ somes (map dd_iothread dds)"

text \<open>The counts bound the letters, indices and I/O threads already given out.\<close>

definition names_ok :: "disk_st \<Rightarrow> bool" where
  "names_ok st \<longleftrightarrow>
     st_count st ''scsi'' + st_count st ''sata'' + st_count st ''virtio'' = length (st_disks st) + 1 \<and>
     1 \<le> st_count st ''scsi'' \<and> distinct (map target_name (st_disks st)) \<and>
     (\<forall>dd\<in>set (st_disks st). \<exists>n.
        (target_name dd = Some (''sd'' @ device_letter n) \<and> 1 \<le> n \<and> n < st_count st ''scsi'' + st_count st ''sata'') \<or>
        (target_name dd = Some (''vd'' @ device_letter n) \<and> n < st_count st ''virtio''))"

definition ctrls_ok :: "disk_st \<Rightarrow> bool" where
  "ctrls_ok st \<longleftrightarrow>
     1 \<le> st_count st ''scsi'' \<and> distinct (map dc_index (st_ctrls st)) \<and>
     (\<forall>c\<in>set (st_ctrls st). dc_type c = ''scsi'' \<and> dc_index c < st_count st ''scsi'') \<and>
     (\<forall>dd\<in>set (st_disks st). \<forall>i. dd_address dd = Some i \<longrightarrow>
        1 \<le> i \<and> map_option snd (dd_target dd) = Some ''scsi'' \<and> i \<in> dc_index ` set (st_ctrls st))"

definition ios_ok :: "disk_st \<Rightarrow> bool" where
  "ios_ok st \<longleftrightarrow>
     distinct (iothreads_used (st_ctrls st) (st_disks st)) \<and>
     set (iothreads_used (st_ctrls st) (st_disks st)) \<subseteq> {1 .. st_iothreads st}"

lemma device_letter_inj: "n < 150 \<Longrightarrow> m < 150 \<Longrightarrow> device_letter n = device_letter m \<Longrightarrow> n = m"
proof -
  assume a: "n < 150" "m < 150" and "device_letter n = device_letter m"
  then have "of_char (char_of (97 + n) :: char) = (of_char (char_of (97 + m) :: char) :: nat)"
    by (simp add: device_letter_def)
  with a show "n = m" by (simp add: of_char_of)
qed

lemma init_st_ok: "names_ok init_st" "ctrls_ok init_st" "ios_ok init_st"
  by (simp_all add: init_st_def names_ok_def ctrls_ok_def ios_ok_def iothreads_used_def)

lemma names_new:
  assumes "target_name dd = Some (pre @ device_letter no)" "c' = (c :: string \<Rightarrow> nat)(t := c t + 1)" "1 \<le> c ''scsi''"
    and kind: "pre = ''sd'' \<and> (t = ''scsi'' \<or> t = ''sata'') \<and> no = c ''scsi'' + c ''sata'' \<or>
       pre = ''vd'' \<and> t = ''virtio'' \<and> no = c ''virtio''"
  shows "(target_name dd = Some (''sd'' @ device_letter no) \<and> 1 \<le> no \<and> no < c' ''scsi'' + c' ''sata'') \<or>
       (target_name dd = Some (''vd'' @ device_letter no) \<and> no < c' ''virtio'')"
    and "c' ''scsi'' + c' ''sata'' + c' ''virtio'' = c ''scsi'' + c ''sata'' + c ''virtio'' + 1"
proof -
  from kind consider "pre = ''sd''" "t = ''scsi''" "no = c ''scsi'' + c ''sata''"
    | "pre = ''sd''" "t = ''sata''" "no = c ''scsi'' + c ''sata''" | "pre = ''vd''" "t = ''virtio''" "no = c ''virtio''" by blast
  note cs = this
  show "(target_name dd = Some (''sd'' @ device_letter no) \<and> 1 \<le> no \<and> no < c' ''scsi'' + c' ''sata'') \<or>
       (target_name dd = Some (''vd'' @ device_letter no) \<and> no < c' ''virtio'')"
    by (rule cs) (use assms(3) in \<open>simp_all add: assms(1,2)\<close>)
  show "c' ''scsi'' + c' ''sata'' + c' ''virtio'' = c ''scsi'' + c ''sata'' + c ''virtio'' + 1"
    by (rule cs) (simp_all add: assms(2))
qed

lemma names_old:
  assumes "(target_name x = Some (''sd'' @ device_letter n) \<and> 1 \<le> n \<and> n < c ''scsi'' + c ''sata'') \<or>
       (target_name x = Some (''vd'' @ device_letter n) \<and> n < c ''virtio'')" "\<And>k. c k \<le> c' k"
  shows "(target_name x = Some (''sd'' @ device_letter n) \<and> 1 \<le> n \<and> n < c' ''scsi'' + c' ''sata'') \<or>
       (target_name x = Some (''vd'' @ device_letter n) \<and> n < c' ''virtio'')"
  using assms(1) assms(2)[of "''scsi''"] assms(2)[of "''sata''"] assms(2)[of "''virtio''"]
  by (elim disjE) simp_all

lemma names_step:
  assumes "disk_valid d" "bus_ctrl (disk_bus d) = (pre, t, m, io)" "names_ok st" "length (st_disks st) \<le> 100"
    and "st_count st' = (st_count st)(t := st_count st t + 1)" "st_disks st' = st_disks st @ [dd]"
    and "dd_target dd = Some (pre @ device_letter (disk_letter_no d st), t)"
  shows "names_ok st'"
proof -
  let ?no = "disk_letter_no d st"
  let ?named = "\<lambda>c x n. (target_name x = Some (''sd'' @ device_letter n) \<and> 1 \<le> n \<and> n < c ''scsi'' + c ''sata'') \<or>
        (target_name x = Some (''vd'' @ device_letter n) \<and> n < c ''virtio'')"
  have total: "st_count st ''scsi'' + st_count st ''sata'' + st_count st ''virtio'' = length (st_disks st) + 1"
    and one: "1 \<le> st_count st ''scsi''" and old: "\<And>x. x \<in> set (st_disks st) \<Longrightarrow> \<exists>n. ?named (st_count st) x n"
    and dist: "distinct (map target_name (st_disks st))"
    using assms(3) by (simp_all add: names_ok_def)
  have nm: "target_name dd = Some (pre @ device_letter ?no)" by (simp add: target_name_def assms(7))
  have kind: "pre = ''sd'' \<and> (t = ''scsi'' \<or> t = ''sata'') \<and> ?no = st_count st ''scsi'' + st_count st ''sata'' \<or>
       pre = ''vd'' \<and> t = ''virtio'' \<and> ?no = st_count st ''virtio''"
    using assms(1,2) by (simp add: disk_letter_no_def disk_valid_def bus_ctrl_def split: if_splits)
  note new = names_new[OF nm assms(5) one kind]
  have grow: "st_count st k \<le> st_count st' k" for k by (simp add: assms(5))
  have fresh: "target_name x \<noteq> target_name dd" if x: "x \<in> set (st_disks st)" for x
  proof
    assume same: "target_name x = target_name dd"
    obtain n where "?named (st_count st) x n" using old[OF x] by blast
    then have "device_letter n = device_letter ?no" "n < ?no"
      using kind same nm by auto
    moreover have "?no < 150" using kind total assms(4) by auto
    ultimately show False using device_letter_inj[of n ?no] by simp
  qed
  have "distinct (map target_name (st_disks st'))"
    using dist by (simp add: assms(6)) (metis fresh imageE)
  moreover have "\<exists>n. ?named (st_count st') x n" if "x \<in> set (st_disks st')" for x
  proof (cases "x = dd")
    case True
    with new(1) show ?thesis by blast
  next
    case False
    with that assms(6) have "x \<in> set (st_disks st)" by simp
    then obtain n where "?named (st_count st) x n" using old by blast
    then show ?thesis using names_old[of x n "st_count st" "st_count st'"] grow by blast
  qed
  moreover have "1 \<le> st_count st' ''scsi''" using one grow[of "''scsi''"] by simp
  moreover have "st_count st' ''scsi'' + st_count st' ''sata'' + st_count st' ''virtio'' = length (st_disks st') + 1"
    by (simp add: new(2) total assms(6))
  ultimately show ?thesis unfolding names_ok_def by blast
qed

lemma ctrls_step:
  assumes "disk_valid d" "bus_ctrl (disk_bus d) = (pre, t, m, io)" "ctrls_ok st"
    and "st_count st' = (st_count st)(t := st_count st t + 1)" "st_disks st' = st_disks st @ [dd]"
    and "dd_target dd = Some (nm, t)" "dd_address dd = (if m = '''' then None else Some (st_count st t))"
    and "st_ctrls st' = st_ctrls st @ (if m = '''' then []
          else [\<lparr>dc_type = t, dc_index = st_count st t, dc_model = m, dc_iothread = i\<rparr>])"
  shows "ctrls_ok st'"
proof -
  from bus_ctrl_kinds(1)[OF assms(1,2)] consider "m = ''''" "t \<noteq> ''scsi''" | "m \<noteq> ''''" "t = ''scsi''" by auto
  then show ?thesis
  proof cases
    case 1
    then show ?thesis using assms(3) by (simp add: ctrls_ok_def assms(4-8))
  next
    case 2
    then show ?thesis
      using assms(3) unfolding ctrls_ok_def by (auto simp: assms(4-8) less_Suc_eq)
  qed
qed

lemma ios_step:
  assumes "disk_valid d" "bus_ctrl (disk_bus d) = (pre, t, m, io)" "ios_ok st"
    and "st_iothreads st' = st_iothreads st + (if io then 1 else 0)" "st_disks st' = st_disks st @ [dd]"
    and "dd_iothread dd = (if t = ''virtio'' then Some (st_iothreads st + 1) else None)"
    and "st_ctrls st' = st_ctrls st @ (if m = '''' then []
          else [\<lparr>dc_type = t, dc_index = n, dc_model = m, dc_iothread = (if io then Some (st_iothreads st + 1) else None)\<rparr>])"
  shows "ios_ok st'"
proof -
  have old: "distinct (iothreads_used (st_ctrls st) (st_disks st))"
    "set (iothreads_used (st_ctrls st) (st_disks st)) \<subseteq> {1 .. st_iothreads st}"
    using assms(3) by (simp_all add: ios_ok_def)
  have new: "st_iothreads st + 1 \<notin> set (iothreads_used (st_ctrls st) (st_disks st))" using old(2) by auto
  from bus_ctrl_kinds(1)[OF assms(1,2)]
  consider "\<not> io" "t \<noteq> ''virtio''" | "io" "m \<noteq> ''''" "t \<noteq> ''virtio''" | "io" "m = ''''" "t = ''virtio''" by auto
  then show ?thesis
  proof cases
    case 1
    then show ?thesis using old by (auto simp: ios_ok_def iothreads_used_def assms(4-7))
  next
    case 2
    then show ?thesis using old new by (auto simp: ios_ok_def iothreads_used_def assms(4-7))
  next
    case 3
    then show ?thesis using old new by (auto simp: ios_ok_def iothreads_used_def assms(4-7))
  qed
qed

lemma disks_loop_names:
  assumes "\<forall>d\<in>set ds. disk_valid d" "names_ok st" "ctrls_ok st" "ios_ok st"
    and "length (st_disks st) + length ds \<le> 100" "disks_loop md5 k ds st = (st', None)"
  shows "names_ok st' \<and> ctrls_ok st' \<and> ios_ok st'"
  using assms
proof (induction ds arbitrary: k st)
  case (Cons d ds)
  let ?boots = "k = 1 \<or> disk_device d = DEVICE_CDROM"
  let ?order = "if ?boots then int k else - 1" and ?lease = "disk_man d \<noteq> DISK_MAN_UNMANAGED"
  obtain pre t m io where bus: "bus_ctrl (disk_bus d) = (pre, t, m, io)" by (metis prod_cases4)
  have valid: "disk_valid d" using Cons.prems(1) by simp
  obtain dd where one: "Disk_to_xml md5 d ?lease ?order st =
      (\<lparr>st_count = (st_count st)(t := st_count st t + 1),
        st_iothreads = st_iothreads st + (if io then 1 else 0),
        st_disks = st_disks st @ [dd],
        st_leases = st_leases st @ (if ?lease then [vmdef_lease md5 d] else []),
        st_ctrls = st_ctrls st @ (if m = '''' then []
          else [\<lparr>dc_type = t, dc_index = st_count st t, dc_model = m,
                 dc_iothread = (if io then Some (st_iothreads st + 1) else None)\<rparr>])\<rparr>, None)" (is "_ = (?st1, None)")
     "dd_target dd = Some (pre @ device_letter (disk_letter_no d st), t)"
     "dd_iothread dd = (if t = ''virtio'' then Some (st_iothreads st + 1) else None)"
     "dd_address dd = (if m = '''' then None else Some (st_count st t))"
    using Disk_to_xml_step[OF valid bus, of md5 ?lease ?order st] by (elim exE conjE) metis
  have "names_ok ?st1" by (rule names_step[OF valid bus Cons.prems(2) _ _ _ one(2)]) (use Cons.prems(5) in simp_all)
  moreover have "ctrls_ok ?st1"
    by (rule ctrls_step[OF valid bus Cons.prems(3) _ _ one(2) one(4)]) simp_all
  moreover have "ios_ok ?st1"
    by (rule ios_step[OF valid bus Cons.prems(4) _ _ one(3)]) simp_all
  moreover have "disks_loop md5 (if ?boots then k + 1 else k) ds ?st1 = (st', None)"
    using Cons.prems(6) by (simp only: disks_loop.simps Let_def one(1) prod.case option.case)
  ultimately show ?case
    using Cons.prems(1,5) by (intro Cons.IH[of ?st1]) simp_all
qed simp

lemma bits_Len64_bound: "n < 2 ^ bits_Len64 n"
proof (induction n rule: bits_Len64.induct)
  case (1 n)
  show ?case
  proof (cases "n = 0")
    case False
    then have "n div 2 < 2 ^ bits_Len64 (n div 2)" by (rule "1.IH")
    then have "n < 2 * 2 ^ bits_Len64 (n div 2)" by linarith
    with False show ?thesis by (subst bits_Len64.simps) simp
  qed simp
qed

lemma to_domain_parts:
  assumes "to_domain md5 arch marshal vm uuid = Inr d"
  obtains st where "disks_loop md5 1 (Disks vm) init_st = (st, None)"
    "dom_iothreads d = st_iothreads st + length (vm_nets vm)"
    "dom_devices d = Some \<lparr>dv_disks = st_disks st, dv_controllers = st_ctrls st, dv_leases = st_leases st,
        dv_interfaces = map (domain_interface vm) (vm_nets vm), dv_fixed = fixed_devices\<rparr>"
    "dom_cpu d = Some (domain_cpu vm)"
    "dom_memory d = Some (unat (scast (mem_total (vm_memory vm)) :: u64), ''MiB'')"
proof -
  obtain st e where loop: "disks_loop md5 1 (Disks vm) init_st = (st, e)" by (cases "disks_loop md5 1 (Disks vm) init_st")
  with assms have e: "e = None"
    by (simp add: to_domain_def Let_def del: One_nat_def split: option.splits)
  have "\<exists>features x. domain_features arch = Some features \<and> Vm_To_xml marshal (vm_custom vm) = Inr x"
    using assms loop unfolding e
    by (simp add: to_domain_def Let_def rbind_def del: One_nat_def split: option.splits sum.splits)
  then obtain features x where "domain_features arch = Some features" "Vm_To_xml marshal (vm_custom vm) = Inr x" by blast
  with loop e assms show ?thesis
    by (intro that[of st]) (auto simp: to_domain_def Let_def rbind_def simp del: One_nat_def)
qed

text \<open>C21: in the domain of a valid definition no two disks share a device name and none is
  \<open>sda\<close>, which belongs to the cloud-init CDROM; no two controllers share an index, every disk
  with an address hangs on a controller of its own type other than controller 0; and no I/O
  thread is given out twice or missing from the domain.\<close>

theorem devices_distinct:
  assumes "Validate vm = None" "to_domain md5 arch marshal vm uuid = Inr d" "dom_devices d = Some dv"
  shows "distinct (map target_name (dv_disks dv)) \<and> Some ''sda'' \<notin> target_name ` set (dv_disks dv) \<and>
     distinct (map dc_index (dv_controllers dv)) \<and>
     (\<forall>dd\<in>set (dv_disks dv). \<forall>i. dd_address dd = Some i \<longrightarrow>
        1 \<le> i \<and> map_option snd (dd_target dd) = Some ''scsi'' \<and> i \<in> dc_index ` set (dv_controllers dv)) \<and>
     distinct (iothreads_used (dv_controllers dv) (dv_disks dv)) \<and>
     set (iothreads_used (dv_controllers dv) (dv_disks dv)) \<subseteq> {1 .. dom_iothreads d}"
proof -
  have v: "vmdef_valid vm" using assms(1) by (simp add: Validate_valid)
  from to_domain_parts[OF assms(2)] obtain st where st: "disks_loop md5 1 (Disks vm) init_st = (st, None)"
    "dom_iothreads d = st_iothreads st + length (vm_nets vm)"
    "dv_disks dv = st_disks st" "dv_controllers dv = st_ctrls st"
    using assms(3) by (metis DomainDevices.select_convs(1,2) option.inject)
  have "length (st_disks init_st) + length (Disks vm) \<le> 100"
    using v by (simp add: init_st_def Disks_def vmdef_valid_def)
  moreover have "\<forall>d\<in>set (Disks vm). disk_valid d" using v by (simp add: vmdef_valid_def)
  ultimately have ok: "names_ok st" "ctrls_ok st" "ios_ok st"
    using disks_loop_names[OF _ init_st_ok _ st(1)] by blast+
  have few: "length (st_disks st) \<le> 21"
    using disks_loop_disks[of "Disks vm" md5 1 init_st] st(1) v
    by (auto simp: vmdef_valid_def init_st_def Disks_def dest: list_all2_lengthD simp del: One_nat_def)
  have "Some ''sda'' \<notin> target_name ` set (st_disks st)"
  proof
    assume "Some ''sda'' \<in> target_name ` set (st_disks st)"
    then obtain n where n: "''sda'' = ''sd'' @ device_letter n" "1 \<le> n" "n < st_count st ''scsi'' + st_count st ''sata''"
      using ok(1) by (auto simp: names_ok_def)
    have "device_letter 0 = ''a''" by code_simp
    with n(1) have "device_letter n = device_letter 0" by simp
    moreover have "n < 150" using n(3) few ok(1) by (simp add: names_ok_def)
    ultimately show False using device_letter_inj[of n 0] n(2) by simp
  qed
  moreover have "set (iothreads_used (st_ctrls st) (st_disks st)) \<subseteq> {1 .. dom_iothreads d}"
    using ok(3) st(2) by (fastforce simp: ios_ok_def)
  ultimately show ?thesis
    using ok by (simp add: st names_ok_def ctrls_ok_def ios_ok_def)
qed

text \<open>In the domain of a valid definition exactly the first disk, the OS disk, boots first, and
  the leases are those of the managed disks, in order.\<close>

theorem boot_and_leases:
  assumes "Validate vm = None" "to_domain md5 arch marshal vm uuid = Inr d" "dom_devices d = Some dv"
  shows "(\<exists>first others. dv_disks dv = first # others \<and> dd_boot first = Some 1 \<and>
            vmdef_disk_from_xml first = Inr ((vm_osdisk vm)\<lparr>disk_size := 0\<rparr>) \<and>
            (\<forall>dd\<in>set others. dd_boot dd \<noteq> Some 1)) \<and>
     dv_leases dv = map (vmdef_lease md5) (filter (\<lambda>d. disk_man d = DISK_MAN_MANAGED) (Disks vm))"
proof -
  have v: "\<forall>d\<in>set (Disks vm). disk_valid d" using assms(1) by (simp add: Validate_valid vmdef_valid_def)
  from to_domain_parts[OF assms(2)] obtain st where st: "disks_loop md5 1 (Disks vm) init_st = (st, None)"
    "dv_disks dv = st_disks st" "dv_leases dv = st_leases st"
    using assms(3) by (metis DomainDevices.select_convs(1,3) option.inject)
  from disks_there_and_back[OF v, of md5 "vm_osdisk vm"] st(1) obtain first others
    where f: "st_disks st = first # others" "dd_boot first = Some 1" "\<forall>dd\<in>set others. dd_boot dd \<noteq> Some 1"
      and back_again: "disks_from (st_disks st) (vm_osdisk vm) [] =
        Inr ((vm_osdisk vm)\<lparr>disk_size := 0\<rparr>, map (disk_size_update (\<lambda>_. 0)) (vm_disks vm))"
      and leases: "st_leases st = map (vmdef_lease md5) (filter (\<lambda>d. disk_man d \<noteq> DISK_MAN_UNMANAGED) (Disks vm))"
    by auto
  from disks_loop_first[of "vm_osdisk vm" md5 "vm_disks vm" init_st] v st(1) obtain st1 dd
    where "disks_loop md5 2 (vm_disks vm) st1 = (st, None)" "st_disks st1 = [dd]"
      and dd: "vmdef_disk_from_xml dd = Inr ((vm_osdisk vm)\<lparr>disk_size := 0\<rparr>)"
    by (auto simp: Disks_def init_st_def)
  then have "first = dd" using disks_loop_disks[of "vm_disks vm" md5 2 st1] v f(1) by (auto simp: Disks_def)
  moreover have "filter (\<lambda>d. disk_man d \<noteq> DISK_MAN_UNMANAGED) (Disks vm) = filter (\<lambda>d. disk_man d = DISK_MAN_MANAGED) (Disks vm)"
    using v by (intro filter_cong) (auto simp: disk_valid_def)
  ultimately show ?thesis using f dd leases by (simp add: st)
qed

text \<open>The memory given to a domain, in MiB, can be addressed with the physical address bits
  its CPU is limited to, and these are never fewer than 36.\<close>

theorem memory_addressable:
  assumes "to_domain md5 arch marshal vm uuid = Inr d" "dom_cpu d = Some c" "dom_memory d = Some (mib, unit)"
  shows "mib * 2 ^ 20 < 2 ^ cpu_phys_bits c \<and> 36 \<le> cpu_phys_bits c"
proof -
  let ?n = "unat (scast (mem_total (vm_memory vm)) :: u64)"
  from to_domain_parts[OF assms(1)] have c: "c = domain_cpu vm" and m: "mib = ?n"
    using assms(2,3) by (metis option.inject, metis option.inject prod.inject)
  have "?n * 2 ^ 20 < 2 ^ (bits_Len64 ?n + 20)"
    using bits_Len64_bound[of ?n] by (simp add: power_add)
  also have "(2 :: nat) ^ (bits_Len64 ?n + 20) \<le> 2 ^ cpu_phys_bits c"
    by (rule power_increasing) (simp_all add: c domain_cpu_def Let_def)
  finally have "mib * 2 ^ 20 < 2 ^ cpu_phys_bits c" unfolding m .
  moreover have "36 \<le> cpu_phys_bits c" by (simp add: c domain_cpu_def Let_def)
  ultimately show ?thesis by blast
qed

section \<open>Witnesses\<close>

lemma sample_domain_exists:
  "Validate (sample_vmdef 2 2) = None \<and>
   (\<exists>d dv. to_domain id ''x86_64'' (\<lambda>_. Inr ''m'') (sample_vmdef 2 2) ''u'' = Inr d \<and> dom_devices d = Some dv \<and>
      dom_cpu d = Some (domain_cpu (sample_vmdef 2 2)) \<and> dom_memory d = Some (2048, ''MiB''))"
proof -
  have v: "vmdef_valid (sample_vmdef 2 2)" by (rule sample_vmdef_valid) (simp_all add: word_sle_eq)
  have f: "domain_features ''x86_64'' = Some [(''acpi'', ''''), (''apic-eoi'', ''on''), (''vmport'', ''off''), (''ioapic'', '''')]"
    by (simp add: domain_features_def)
  have m: "unat (scast (mem_total (vm_memory (sample_vmdef 2 2))) :: u64) = 2048" by (simp add: sample_vmdef_def)
  have x: "(\<lambda>_. Inr ''m'') (meta_fields (vm_custom (sample_vmdef 2 2))) = Inr ''m''" by simp
  from to_domain_valid[of _ _ _ "\<lambda>_. Inr ''m''" "''m''" id "''u''", OF v f x] m v
  show ?thesis unfolding Validate_valid by auto
qed

theorem devices_distinct_witness:
  "\<exists>d dv. to_domain id ''x86_64'' (\<lambda>_. Inr ''m'') (sample_vmdef 2 2) ''u'' = Inr d \<and> dom_devices d = Some dv \<and>
     Some ''sda'' \<notin> target_name ` set (dv_disks dv)"
proof -
  obtain d dv where "to_domain id ''x86_64'' (\<lambda>_. Inr ''m'') (sample_vmdef 2 2) ''u'' = Inr d" "dom_devices d = Some dv"
    and v: "Validate (sample_vmdef 2 2) = None" using sample_domain_exists by blast
  with devices_distinct[OF v this(1,2)] show ?thesis by blast
qed

theorem boot_and_leases_witness:
  "\<exists>d dv. to_domain id ''x86_64'' (\<lambda>_. Inr ''m'') (sample_vmdef 2 2) ''u'' = Inr d \<and> dom_devices d = Some dv \<and>
     dv_leases dv = [vmdef_lease id sample_disk]"
proof -
  obtain d dv where d: "to_domain id ''x86_64'' (\<lambda>_. Inr ''m'') (sample_vmdef 2 2) ''u'' = Inr d" "dom_devices d = Some dv"
    and v: "Validate (sample_vmdef 2 2) = None" using sample_domain_exists by blast
  have "Disks (sample_vmdef 2 2) = [sample_disk]" "disk_man sample_disk = DISK_MAN_MANAGED"
    by (simp_all add: sample_vmdef_def Disks_def sample_disk_def)
  with boot_and_leases[OF v d] d show ?thesis by auto
qed

theorem memory_addressable_witness:
  "\<exists>d. to_domain id ''x86_64'' (\<lambda>_. Inr ''m'') (sample_vmdef 2 2) ''u'' = Inr d \<and>
     2048 * 2 ^ 20 < (2 :: nat) ^ cpu_phys_bits (domain_cpu (sample_vmdef 2 2))"
proof -
  obtain d where d: "to_domain id ''x86_64'' (\<lambda>_. Inr ''m'') (sample_vmdef 2 2) ''u'' = Inr d"
    "dom_cpu d = Some (domain_cpu (sample_vmdef 2 2))" "dom_memory d = Some (2048, ''MiB'')"
    using sample_domain_exists by blast
  with memory_addressable[OF d] show ?thesis by blast
qed

end
