(* ===== verification/Json.thy ===== *)
theory Json
  imports Prelude
begin

text \<open>
  What the sources use of package \<open>encoding/json\<close>: \<open>Encoder.Encode\<close> and \<open>Decoder.Decode\<close> on structs of
  booleans, integers, strings, slices and types with their own \<open>UnmarshalJSON\<close>. A text is scanned
  into a value of JSON, and that value is stored into a Go value under its type; both ways are
  here, and \<open>Json_Props\<close> shows that decoding reads back what was encoded.
\<close>

datatype jval = JNull | JBool bool | JNum string | JStr string | JArr "jval list" | JObj "(string \<times> jval) list"

section \<open>UTF-8\<close>

definition code :: "char \<Rightarrow> nat" where
  "code c = of_char c"

definition cont :: "char \<Rightarrow> bool" where
  "cont c \<longleftrightarrow> 0x80 \<le> code c \<and> code c \<le> 0xBF"

text \<open>The bytes of the rune at the front when its first byte is not ASCII, 0 when they are no rune
  (\<open>utf8.DecodeRune\<close>).\<close>

fun rune_len :: "string \<Rightarrow> nat" where
  "rune_len (a # b # s) =
     (if 0xC2 \<le> code a \<and> code a \<le> 0xDF then (if cont b then 2 else 0)
      else (case s of
        [] \<Rightarrow> 0
      | c # s' \<Rightarrow>
          if 0xE0 \<le> code a \<and> code a \<le> 0xEF
          then (if cont b \<and> cont c \<and> (code a = 0xE0 \<longrightarrow> 0xA0 \<le> code b) \<and> (code a = 0xED \<longrightarrow> code b \<le> 0x9F) then 3 else 0)
          else (case s' of
            [] \<Rightarrow> 0
          | d # _ \<Rightarrow>
              if 0xF0 \<le> code a \<and> code a \<le> 0xF4 \<and> cont b \<and> cont c \<and> cont d \<and>
                 (code a = 0xF0 \<longrightarrow> 0x90 \<le> code b) \<and> (code a = 0xF4 \<longrightarrow> code b \<le> 0x8F) then 4 else 0)))"
| "rune_len s = 0"

text \<open>\<open>utf8.AppendRune\<close>.\<close>

definition utf8 :: "nat \<Rightarrow> string" where
  "utf8 r = map char_of
     (if r < 0x80 then [r]
      else if r < 0x800 then [0xC0 + r div 64, 0x80 + r mod 64]
      else if r < 0x10000 then [0xE0 + r div 4096, 0x80 + r div 64 mod 64, 0x80 + r mod 64]
      else [0xF0 + r div 262144, 0x80 + r div 4096 mod 64, 0x80 + r div 64 mod 64, 0x80 + r mod 64])"

abbreviation rune_error :: string where
  "rune_error \<equiv> [CHR 0xEF, CHR 0xBF, CHR 0xBD]"

text \<open>The strings that are UTF-8.\<close>

function valid_utf8 :: "string \<Rightarrow> bool" where
  "valid_utf8 [] \<longleftrightarrow> True"
| "valid_utf8 (c # s) \<longleftrightarrow>
     (if code c < 0x80 then valid_utf8 s else rune_len (c # s) \<noteq> 0 \<and> valid_utf8 (drop (rune_len (c # s) - 1) s))"
  by pat_completeness auto
termination by (relation "measure length") auto

section \<open>Strings\<close>

definition hex_char :: "nat \<Rightarrow> char" where
  "hex_char n = char_of (if n < 10 then 48 + n else 87 + n)"

definition hex_value :: "char \<Rightarrow> nat option" where
  "hex_value c =
     (if 48 \<le> code c \<and> code c \<le> 57 then Some (code c - 48)
      else if 97 \<le> code c \<and> code c \<le> 102 then Some (code c - 87)
      else if 65 \<le> code c \<and> code c \<le> 70 then Some (code c - 55)
      else None)"

fun hex4 :: "string \<Rightarrow> nat option" where
  "hex4 (a # b # c # d # s) =
     (case (hex_value a, hex_value b, hex_value c, hex_value d) of
        (Some w, Some x, Some y, Some z) \<Rightarrow> Some (((w * 16 + x) * 16 + y) * 16 + z)
      | _ \<Rightarrow> None)"
| "hex4 s = None"

text \<open>\<open>appendString\<close>: HTML characters and the two line separators are escaped, and every byte that is
  not UTF-8 becomes the replacement rune.\<close>

definition quote_ascii :: "char \<Rightarrow> string" where
  "quote_ascii c =
     (if c = CHR 0x22 \<or> c = CHR 0x5C then [CHR 0x5C, c]
      else if c = CHR 0x08 then [CHR 0x5C, CHR ''b'']
      else if c = CHR 0x0C then [CHR 0x5C, CHR ''f'']
      else if c = CHR 0x0A then [CHR 0x5C, CHR ''n'']
      else if c = CHR 0x0D then [CHR 0x5C, CHR ''r'']
      else if c = CHR 0x09 then [CHR 0x5C, CHR ''t'']
      else if code c < 0x20 \<or> c = CHR ''<'' \<or> c = CHR ''>'' \<or> c = CHR ''&''
        then [CHR 0x5C, CHR ''u'', CHR ''0'', CHR ''0'', hex_char (code c div 16), hex_char (code c mod 16)]
      else [c])"

definition quote_rune :: "string \<Rightarrow> string" where
  "quote_rune r =
     (if r = [CHR 0xE2, CHR 0x80, CHR 0xA8] then CHR 0x5C # ''u2028''
      else if r = [CHR 0xE2, CHR 0x80, CHR 0xA9] then CHR 0x5C # ''u2029''
      else r)"

function quote_body :: "string \<Rightarrow> string" where
  "quote_body [] = []"
| "quote_body (c # s) =
     (if code c < 0x80 then quote_ascii c @ quote_body s
      else let n = rune_len (c # s) in
        if n = 0 then (CHR 0x5C # ''ufffd'') @ quote_body s
        else quote_rune (take n (c # s)) @ quote_body (drop (n - 1) s))"
  by pat_completeness auto
termination by (relation "measure length") auto

definition quote :: "string \<Rightarrow> string" where
  "quote s = CHR 0x22 # quote_body s @ [CHR 0x22]"

text \<open>Reading: the scanner's \<open>stateInString\<close> and \<open>unquote\<close> in one pass, after the opening quote; the
  result is the string and what follows the closing quote.\<close>

definition simple_escape :: "char \<Rightarrow> char option" where
  "simple_escape e =
     (if e = CHR 0x22 \<or> e = CHR 0x5C \<or> e = CHR ''/'' then Some e
      else if e = CHR ''b'' then Some (CHR 0x08)
      else if e = CHR ''f'' then Some (CHR 0x0C)
      else if e = CHR ''n'' then Some (CHR 0x0A)
      else if e = CHR ''r'' then Some (CHR 0x0D)
      else if e = CHR ''t'' then Some (CHR 0x09)
      else None)"

definition emit :: "string \<Rightarrow> (string \<times> string) option \<Rightarrow> (string \<times> string) option" where
  "emit p x = map_option (\<lambda>(s, rest). (p @ s, rest)) x"

text \<open>The rune of an escape \<open>\u\<close>, given what follows the \<open>u\<close>, and the bytes it takes from there.\<close>

definition escaped_rune :: "string \<Rightarrow> (string \<times> nat) option" where
  "escaped_rune t =
     (case hex4 t of
        None \<Rightarrow> None
      | Some r \<Rightarrow>
          if 0xD800 \<le> r \<and> r < 0xE000
          then (case if take 2 (drop 4 t) = [CHR 0x5C, CHR ''u''] then hex4 (drop 6 t) else None of
                  Some r2 \<Rightarrow>
                    if r < 0xDC00 \<and> 0xDC00 \<le> r2 \<and> r2 < 0xE000
                    then Some (utf8 ((r - 0xD800) * 1024 + (r2 - 0xDC00) + 0x10000), 10)
                    else Some (rune_error, 4)
                | None \<Rightarrow> Some (rune_error, 4))
          else Some (utf8 r, 4))"

function unquote :: "string \<Rightarrow> (string \<times> string) option" where
  "unquote [] = None"
| "unquote (c # s) =
     (if c = CHR 0x22 then Some ([], s)
      else if c = CHR 0x5C then
        (case s of
           [] \<Rightarrow> None
         | e # t \<Rightarrow>
             if e = CHR ''u''
             then (case escaped_rune t of None \<Rightarrow> None | Some (r, n) \<Rightarrow> emit r (unquote (drop n t)))
             else (case simple_escape e of None \<Rightarrow> None | Some b \<Rightarrow> emit [b] (unquote t)))
      else if code c < 0x20 then None
      else if code c < 0x80 then emit [c] (unquote s)
      else let n = rune_len (c # s) in
        if n = 0 then emit rune_error (unquote s) else emit (take n (c # s)) (unquote (drop (n - 1) s)))"
  by pat_completeness auto
termination by (relation "measure length") auto

section \<open>The scanner\<close>

definition is_space :: "char \<Rightarrow> bool" where
  "is_space c \<longleftrightarrow> c = CHR '' '' \<or> c = CHR 0x09 \<or> c = CHR 0x0A \<or> c = CHR 0x0D"

definition skip_space :: "string \<Rightarrow> string" where
  "skip_space s = dropWhile is_space s"

definition digits :: "string \<Rightarrow> string" where
  "digits s = takeWhile is_digit s"

text \<open>A number: an optional sign, 0 or digits without a leading 0, a fraction and an exponent.\<close>

definition scan_fraction :: "string \<Rightarrow> (string \<times> string) option" where
  "scan_fraction s =
     (case s of
        c # r \<Rightarrow> if c = CHR ''.'' then if digits r = [] then None else Some (c # digits r, dropWhile is_digit r) else Some ([], s)
      | [] \<Rightarrow> Some ([], s))"

definition scan_exponent :: "string \<Rightarrow> (string \<times> string) option" where
  "scan_exponent s =
     (case s of
        c # r \<Rightarrow>
          if c = CHR ''e'' \<or> c = CHR ''E''
          then let sign = takeWhile (\<lambda>x. x = CHR ''+'' \<or> x = CHR ''-'') (take 1 r); r' = drop (length sign) r in
            if digits r' = [] then None else Some (c # sign @ digits r', dropWhile is_digit r')
          else Some ([], s)
      | [] \<Rightarrow> Some ([], s))"

definition scan_natural :: "string \<Rightarrow> (string \<times> string) option" where
  "scan_natural s =
     (case s of
        [] \<Rightarrow> None
      | c # r \<Rightarrow> if c = CHR ''0'' then Some ([c], r)
                else if is_digit c then Some (c # digits r, dropWhile is_digit r) else None)"

definition scan_number :: "string \<Rightarrow> (string \<times> string) option" where
  "scan_number s =
     (let sign = takeWhile (\<lambda>x. x = CHR ''-'') (take 1 s) in
      case scan_natural (drop (length sign) s) of
        None \<Rightarrow> None
      | Some (n, s1) \<Rightarrow>
          (case scan_fraction s1 of
             None \<Rightarrow> None
           | Some (f, s2) \<Rightarrow>
               (case scan_exponent s2 of None \<Rightarrow> None | Some (e, s3) \<Rightarrow> Some (sign @ n @ f @ e, s3))))"

text \<open>The rest of an array or object, with the scanner of one value; every turn takes something.\<close>

function scan_elems :: "(string \<Rightarrow> (jval \<times> string) option) \<Rightarrow> string \<Rightarrow> (jval list \<times> string) option" where
  "scan_elems p s =
     (case p s of
        None \<Rightarrow> None
      | Some (v, s1) \<Rightarrow>
          (case skip_space s1 of
             [] \<Rightarrow> None
           | c # s2 \<Rightarrow>
               if c = CHR '']'' then Some ([v], s2)
               else if c = CHR '','' \<and> length s2 < length s
               then map_option (\<lambda>(vs, r). (v # vs, r)) (scan_elems p s2)
               else None))"
  by pat_completeness auto
termination by (relation "measure (length \<circ> snd)") auto

definition scan_key :: "string \<Rightarrow> (string \<times> string) option" where
  "scan_key s =
     (case skip_space s of
        [] \<Rightarrow> None
      | c # s1 \<Rightarrow>
          if c = CHR 0x22
          then (case unquote s1 of
                  None \<Rightarrow> None
                | Some (k, s2) \<Rightarrow> (case skip_space s2 of [] \<Rightarrow> None | d # s3 \<Rightarrow> if d = CHR '':'' then Some (k, s3) else None))
          else None)"

function scan_members :: "(string \<Rightarrow> (jval \<times> string) option) \<Rightarrow> string \<Rightarrow> ((string \<times> jval) list \<times> string) option" where
  "scan_members p s =
     (case scan_key s of
        None \<Rightarrow> None
      | Some (k, s0) \<Rightarrow>
          (case p s0 of
             None \<Rightarrow> None
           | Some (v, s1) \<Rightarrow>
               (case skip_space s1 of
                  [] \<Rightarrow> None
                | c # s2 \<Rightarrow>
                    if c = CHR ''}'' then Some ([(k, v)], s2)
                    else if c = CHR '','' \<and> length s2 < length s
                    then map_option (\<lambda>(kvs, r). ((k, v) # kvs, r)) (scan_members p s2)
                    else None)))"
  by pat_completeness auto
termination by (relation "measure (length \<circ> snd)") auto

declare scan_elems.simps [simp del] scan_members.simps [simp del]

text \<open>A value, under the number of levels it may still open (\<open>maxNestingDepth\<close>).\<close>

fun scan_value :: "nat \<Rightarrow> string \<Rightarrow> (jval \<times> string) option" where
  "scan_value d s =
     (case skip_space s of
        [] \<Rightarrow> None
      | c # r \<Rightarrow>
          if c = CHR 0x22 then map_option (\<lambda>(x, r'). (JStr x, r')) (unquote r)
          else if c = CHR ''['' then
            (if d = 0 then None
             else case skip_space r of
               [] \<Rightarrow> None
             | e # r' \<Rightarrow> if e = CHR '']'' then Some (JArr [], r')
                        else map_option (\<lambda>(vs, t). (JArr vs, t)) (scan_elems (scan_value (d - 1)) r))
          else if c = CHR ''{'' then
            (if d = 0 then None
             else case skip_space r of
               [] \<Rightarrow> None
             | e # r' \<Rightarrow> if e = CHR ''}'' then Some (JObj [], r')
                        else map_option (\<lambda>(kvs, t). (JObj kvs, t)) (scan_members (scan_value (d - 1)) r))
          else if has_prefix (c # r) ''null'' then Some (JNull, drop 3 r)
          else if has_prefix (c # r) ''true'' then Some (JBool True, drop 3 r)
          else if has_prefix (c # r) ''false'' then Some (JBool False, drop 4 r)
          else map_option (\<lambda>(n, t). (JNum n, t)) (scan_number (c # r)))"

declare scan_value.simps [simp del]

definition maxNestingDepth :: nat where
  "maxNestingDepth = 10000"

section \<open>Writing\<close>

fun json_text :: "jval \<Rightarrow> string" and elems_text :: "jval list \<Rightarrow> string" and members_text :: "(string \<times> jval) list \<Rightarrow> string" where
  "json_text JNull = ''null''"
| "json_text (JBool b) = (if b then ''true'' else ''false'')"
| "json_text (JNum n) = n"
| "json_text (JStr s) = quote s"
| "json_text (JArr vs) = CHR ''['' # elems_text vs @ '']''"
| "json_text (JObj kvs) = CHR ''{'' # members_text kvs @ ''}''"
| "elems_text [] = []"
| "elems_text (v # vs) = json_text v @ (if vs = [] then [] else CHR '','' # elems_text vs)"
| "members_text [] = []"
| "members_text ((k, v) # kvs) = quote k @ CHR '':'' # json_text v @ (if kvs = [] then [] else CHR '','' # members_text kvs)"

section \<open>Types and values of Go\<close>

text \<open>A type as the package sees it: an integer of a number of bits, a type with the generated method
  \<open>UnmarshalJSON\<close> and its allowed values, a struct with the names of its tags. A slice has its
  memory, which reaches to its capacity and reads as zero beyond, and its length.\<close>

datatype jty = TBool | TInt nat | TEnum "i16 list" | TStr | TStruct "(string \<times> jty) list" | TSlice jty

datatype jgo = GBool bool | GInt int | GStr string | GStruct "jgo list" | GSlice "jgo list" nat

primrec zero_of :: "jty \<Rightarrow> jgo" where
  "zero_of TBool = GBool False"
| "zero_of (TInt n) = GInt 0"
| "zero_of (TEnum vs) = GInt 0"
| "zero_of TStr = GStr []"
| "zero_of (TStruct fs) = GStruct (map snd (map (map_prod id zero_of) fs))"
| "zero_of (TSlice t) = GSlice [] 0"

section \<open>Encoding a value\<close>

text \<open>A list of the model does not tell a \<open>nil\<close> slice from an empty one: \<open>nils\<close> says for the fields
  whose empty slice is \<open>nil\<close>, by their names.\<close>

fun marshal :: "(string \<Rightarrow> bool) \<Rightarrow> string \<Rightarrow> jty \<Rightarrow> jgo \<Rightarrow> jval" and
  marshal_fields :: "(string \<Rightarrow> bool) \<Rightarrow> (string \<times> jty) list \<Rightarrow> jgo list \<Rightarrow> (string \<times> jval) list" and
  marshal_elems :: "(string \<Rightarrow> bool) \<Rightarrow> jty \<Rightarrow> jgo list \<Rightarrow> jval list" where
  "marshal nils name (TStruct fs) (GStruct xs) = JObj (marshal_fields nils fs xs)"
| "marshal nils name (TSlice t) (GSlice m n) = (if n = 0 \<and> nils name then JNull else JArr (marshal_elems nils t (take n m)))"
| "marshal nils name t (GBool b) = JBool b"
| "marshal nils name t (GInt i) = JNum (int_dec i)"
| "marshal nils name t (GStr s) = JStr s"
| "marshal nils name t x = JNull"
| "marshal_fields nils ((k, t) # fs) (x # xs) = (k, marshal nils k t x) # marshal_fields nils fs xs"
| "marshal_fields nils fs xs = []"
| "marshal_elems nils t [] = []"
| "marshal_elems nils t (x # xs) = marshal nils [] t x # marshal_elems nils t xs"

section \<open>Decoding a value\<close>

text \<open>\<open>strconv.ParseInt\<close> on the text of a number, and the check against the width.\<close>

definition ParseInt64 :: "string \<Rightarrow> int option" where
  "ParseInt64 s =
     (let neg = has_prefix s ''-''; ds = trim_prefix s ''-''; n = (if neg then - int (dec_nat ds) else int (dec_nat ds)) in
      if ds = [] \<or> \<not> list_all is_digit ds \<or> n < - (2 ^ 63) \<or> 2 ^ 63 \<le> n then None else Some n)"

definition fits :: "nat \<Rightarrow> int \<Rightarrow> bool" where
  "fits w n \<longleftrightarrow> - (2 ^ (w - 1)) \<le> n \<and> n < 2 ^ (w - 1)"

definition unmarshal_int :: "nat \<Rightarrow> int \<Rightarrow> jval \<Rightarrow> int option" where
  "unmarshal_int w old v =
     (case v of
        JNull \<Rightarrow> Some old
      | JNum n \<Rightarrow> (case ParseInt64 n of Some i \<Rightarrow> if fits w i then Some i else None | None \<Rightarrow> None)
      | _ \<Rightarrow> None)"

text \<open>The generated \<open>UnmarshalJSON\<close> of an enumeration: an \<open>int16\<close>, then a search in the table.\<close>

definition UnmarshalJSON_enum :: "i16 list \<Rightarrow> jval \<Rightarrow> i16 option" where
  "UnmarshalJSON_enum allowed src =
     (case unmarshal_int 16 0 src of
        None \<Rightarrow> None
      | Some value \<Rightarrow> (let v = word_of_int value in if v \<in> set allowed then Some v else None))"

text \<open>A key finds the field of exactly its name, or else the first whose name is equal up to case.\<close>

fun fold_name :: "string \<Rightarrow> string" where
  "fold_name [] = []"
| "fold_name (c # s) =
     (if c = CHR 0xC5 \<and> take 1 s = [CHR 0xBF] then CHR ''S'' # fold_name (drop 1 s)
      else if c = CHR 0xE2 \<and> take 2 s = [CHR 0x84, CHR 0xAA] then CHR ''K'' # fold_name (drop 2 s)
      else if 97 \<le> code c \<and> code c \<le> 122 then char_of (code c - 32) # fold_name s
      else c # fold_name s)"

fun index_of :: "(string \<Rightarrow> bool) \<Rightarrow> (string \<times> jty) list \<Rightarrow> nat option" where
  "index_of P [] = None"
| "index_of P ((k, t) # fs) = (if P k then Some 0 else map_option Suc (index_of P fs))"

definition field_index :: "(string \<times> jty) list \<Rightarrow> string \<Rightarrow> nat option" where
  "field_index fs key =
     (case index_of (\<lambda>k. k = key) fs of
        Some i \<Rightarrow> Some i
      | None \<Rightarrow> index_of (\<lambda>k. fold_name k = fold_name key) fs)"

text \<open>Storing a JSON value into a Go value, which is \<open>None\<close> when the call returns an error: \<open>null\<close> leaves
  what is no slice as it is, a key that is given again is stored over the first, and elements are
  stored over what the memory of the slice holds.\<close>

fun unmarshal :: "jty \<Rightarrow> jval \<Rightarrow> jgo \<Rightarrow> jgo option" and
  unmarshal_fields :: "(string \<times> jty) list \<Rightarrow> (string \<times> jval) list \<Rightarrow> jgo list \<Rightarrow> jgo list option" and
  unmarshal_elems :: "jty \<Rightarrow> jval list \<Rightarrow> jgo list \<Rightarrow> jgo list option" where
  "unmarshal (TSlice t) JNull x = Some (GSlice [] 0)"
| "unmarshal (TEnum vs) v x = map_option (\<lambda>e. GInt (sint e)) (UnmarshalJSON_enum vs v)"
| "unmarshal t JNull x = Some x"
| "unmarshal TBool (JBool b) x = Some (GBool b)"
| "unmarshal TStr (JStr s) x = Some (GStr s)"
| "unmarshal (TInt w) (JNum n) x = map_option GInt (unmarshal_int w 0 (JNum n))"
| "unmarshal (TStruct fs) (JObj kvs) (GStruct xs) = map_option GStruct (unmarshal_fields fs kvs xs)"
| "unmarshal (TSlice t) (JArr vs) (GSlice m n) =
     (if vs = [] then Some (GSlice [] 0) else map_option (\<lambda>m'. GSlice m' (length vs)) (unmarshal_elems t vs m))"
| "unmarshal t v x = None"
| "unmarshal_fields fs [] xs = Some xs"
| "unmarshal_fields fs ((k, v) # kvs) xs =
     (case field_index fs k of
        None \<Rightarrow> unmarshal_fields fs kvs xs
      | Some i \<Rightarrow>
          (case unmarshal (snd (fs ! i)) v (xs ! i) of
             None \<Rightarrow> None
           | Some x \<Rightarrow> unmarshal_fields fs kvs (xs[i := x])))"
| "unmarshal_elems t [] m = Some m"
| "unmarshal_elems t (v # vs) m =
     (case unmarshal t v (case m of [] \<Rightarrow> zero_of t | x # _ \<Rightarrow> x) of
        None \<Rightarrow> None
      | Some x \<Rightarrow> map_option (Cons x) (unmarshal_elems t vs (drop 1 m)))"

text \<open>\<open>NewEncoder(&buf).Encode(x)\<close> and \<open>NewDecoder(r).Decode(&x)\<close> on a zero \<open>x\<close>. The decoder takes the first
  value of the text and leaves the rest.\<close>

definition Encode_json :: "(string \<Rightarrow> bool) \<Rightarrow> jty \<Rightarrow> jgo \<Rightarrow> string" where
  "Encode_json nils t x = json_text (marshal nils [] t x) @ [CHR 0x0A]"

definition Decode_json :: "jty \<Rightarrow> string \<Rightarrow> jgo option" where
  "Decode_json t s =
     (case scan_value maxNestingDepth s of None \<Rightarrow> None | Some (v, rest) \<Rightarrow> unmarshal t v (zero_of t))"

end
