(* ===== verification/Json_Props.thy ===== *)
theory Json_Props
  imports Json
begin

text \<open>
  Decoding reads back what encoding wrote: for the text of a JSON value, whatever follows it, and for a
  Go value under its type, if its strings are UTF-8. What is decoded has its type whatever the text
  is; in particular an enumeration then has one of its values.
\<close>

section \<open>Strings\<close>

lemma code_less: "code c < 256"
  unfolding code_def by (rule of_char_less)

lemma char_of_code [simp]: "char_of (code c) = c"
  by (simp add: code_def)

lemma code_char_of: "n < 256 \<Longrightarrow> code (char_of n) = n"
  by (simp add: code_def)

lemma code_eq: "c = d \<longleftrightarrow> code c = code d"
  by (metis char_of_code)

lemma char_codes: "char_of (226 :: nat) = CHR 0xE2" "char_of (128 :: nat) = CHR 0x80" "char_of (168 :: nat) = CHR 0xA8" "char_of (169 :: nat) = CHR 0xA9"
  by (simp_all add: code_eq code_char_of) (simp_all add: code_def)

lemma hex_value_char: "n < 16 \<Longrightarrow> hex_value (hex_char n) = Some n"
  by (auto simp: hex_value_def hex_char_def code_char_of)

lemma utf8_ascii: "code c < 0x80 \<Longrightarrow> utf8 (code c) = [c]"
  by (simp add: utf8_def)

lemma emit_simps [simp]: "emit p None = None" "emit p (Some (s, r)) = Some (p @ s, r)"
  by (simp_all add: emit_def)

text \<open>The rune at the front is the same when its bytes are followed by others.\<close>

lemma rune_len_take:
  assumes "rune_len s = n" "n \<noteq> 0"
  shows "rune_len (take n s @ x) = n"
proof -
  obtain a b t where s: "s = a # b # t"
    using assms by (cases s rule: rune_len.cases) auto
  show ?thesis
  proof (cases t)
    case Nil
    with assms s show ?thesis by (auto split: if_splits)
  next
    case c: (Cons c t')
    show ?thesis
    proof (cases t')
      case Nil
      with assms s c show ?thesis by (auto simp: numeral_3_eq_3 numeral_2_eq_2 split: if_splits)
    next
      case (Cons d u)
      with assms s c show ?thesis by (auto simp: numeral_eq_Suc split: if_splits)
    qed
  qed
qed

lemma rune_len_bounds: "rune_len s \<noteq> 0 \<Longrightarrow> 2 \<le> rune_len s \<and> rune_len s \<le> length s"
  by (cases s rule: rune_len.cases) (auto split: list.splits if_splits)

lemma unquote_escape:
  assumes "escaped_rune (t @ rest) = Some (r, length t)"
  shows "unquote (CHR 0x5C # CHR ''u'' # t @ rest) = emit r (unquote rest)"
  using assms by simp

lemma unquote_ascii:
  assumes "code c < 0x80"
  shows "unquote (quote_ascii c @ rest) = emit [c] (unquote rest)"
proof -
  have d: "code c div 16 < 16" "code c mod 16 < 16" "code c div 16 * 16 + code c mod 16 = code c" using assms by auto
  have z: "hex_value (CHR ''0'') = Some 0" by (simp add: hex_value_def code_def)
  let ?t = "[CHR ''0'', CHR ''0'', hex_char (code c div 16), hex_char (code c mod 16)]"
  have "escaped_rune (?t @ rest) = Some ([c], length ?t)"
    using assms by (simp add: escaped_rune_def z hex_value_char d utf8_ascii)
  from unquote_escape[OF this] show ?thesis
    using assms by (auto simp: quote_ascii_def simple_escape_def)
qed

lemma unquote_rune:
  assumes "rune_len s = n" "n \<noteq> 0" "\<not> code (hd s) < 0x80"
  shows "unquote (quote_rune (take n s) @ rest) = emit (take n s) (unquote rest)"
proof -
  obtain c t where s: "s = c # t" using assms(1,2) by (cases s) auto
  obtain m where n: "n = Suc m" using assms(2) by (cases n) auto
  have h: "hex_value (CHR ''2'') = Some 2" "hex_value (CHR ''0'') = Some 0" "hex_value (CHR ''8'') = Some 8" "hex_value (CHR ''9'') = Some 9"
    by (simp_all add: hex_value_def code_def)
  have "c \<noteq> CHR 0x22" "c \<noteq> CHR 0x5C" using assms(3) s by (auto simp: code_def)
  moreover have "rune_len (c # take m t @ rest) = Suc m" using rune_len_take[OF assms(1,2), of rest] by (simp add: s n)
  moreover have "m \<le> length t" using rune_len_bounds[of s] assms(1,2) by (simp add: s n)
  ultimately have plain: "unquote (take n s @ rest) = emit (take n s) (unquote rest)"
    using assms(3) by (simp add: s n)
  have "escaped_rune (''2028'' @ rest) = Some ([CHR 0xE2, CHR 0x80, CHR 0xA8], length ''2028'')"
    "escaped_rune (''2029'' @ rest) = Some ([CHR 0xE2, CHR 0x80, CHR 0xA9], length ''2029'')"
    by (simp_all add: escaped_rune_def h utf8_def char_codes)
  from this[THEN unquote_escape] plain show ?thesis by (simp add: quote_rune_def)
qed

lemma unquote_quote_body: "valid_utf8 s \<Longrightarrow> unquote (quote_body s @ CHR 0x22 # rest) = Some (s, rest)"
proof (induction s rule: quote_body.induct)
  case 1
  then show ?case by simp
next
  case (2 c s)
  show ?case
  proof (cases "code c < 0x80")
    case True
    with 2 show ?thesis by (simp del: unquote.simps add: unquote_ascii)
  next
    case False
    define n where "n = rune_len (c # s)"
    have n: "n \<noteq> 0" "valid_utf8 (drop (n - 1) s)" using 2(4) False by (simp_all add: n_def)
    have "quote_body (c # s) = quote_rune (take n (c # s)) @ quote_body (drop (n - 1) s)"
      using False n(1) by (simp add: n_def Let_def)
    moreover have "unquote (quote_rune (take n (c # s)) @ r) = emit (take n (c # s)) (unquote r)" for r
      using unquote_rune[OF n_def[symmetric] n(1)] False by simp
    moreover have "take n (c # s) @ drop (n - 1) s = c # s" using n(1) by (cases n) simp_all
    ultimately show ?thesis using 2(3)[OF False n_def] n by simp
  qed
qed

section \<open>Numbers\<close>

definition stops :: "string \<Rightarrow> bool" where
  "stops s \<longleftrightarrow> (case s of [] \<Rightarrow> True | c # _ \<Rightarrow> \<not> is_digit c \<and> c \<noteq> CHR ''.'' \<and> c \<noteq> CHR ''e'' \<and> c \<noteq> CHR ''E'')"

lemma stops_simps [simp]: "stops []" "stops (CHR '','' # s)" "stops (CHR '']'' # s)" "stops (CHR ''}'' # s)" "stops (CHR 0x0A # s)"
  by (simp_all add: stops_def is_digit_def)

lemma nat_dec_hd: "0 < n \<Longrightarrow> hd (nat_dec n) \<noteq> CHR ''0''"
proof (induction n rule: nat_dec.induct)
  case (1 n)
  show ?case
  proof (cases "n < 10")
    case True
    then have "code (digit_char n) = 48 + n" by (simp add: digit_char_def code_char_of)
    with 1 True show ?thesis by (subst nat_dec.simps) (auto simp: code_eq code_def)
  next
    case False
    then have "0 < n div 10" by simp
    with 1 False show ?thesis by (subst nat_dec.simps) simp
  qed
qed

lemma scan_natural_dec: "stops rest \<Longrightarrow> scan_natural (nat_dec n @ rest) = Some (nat_dec n, rest)"
proof -
  assume rest: "stops rest"
  obtain c ds where n: "nat_dec n = c # ds" using nat_dec_nonempty by (cases "nat_dec n") auto
  have "\<forall>x\<in>set (c # ds). is_digit x" using nat_dec_digits[of n] n by simp
  moreover from this rest have "takeWhile is_digit (ds @ rest) = ds" "dropWhile is_digit (ds @ rest) = rest"
    by (auto simp: stops_def takeWhile_append dropWhile_append takeWhile_eq_Nil_iff split: list.splits)
  moreover have "n = 0 \<Longrightarrow> ds = []" "n \<noteq> 0 \<Longrightarrow> c \<noteq> CHR ''0''"
    using n nat_dec_hd[of n] by (auto simp: nat_dec.simps[of 0])
  moreover have "c = CHR ''0'' \<Longrightarrow> n = 0" using calculation by blast
  ultimately show ?thesis by (auto simp: scan_natural_def n digits_def)
qed

lemma scan_number_int: "stops rest \<Longrightarrow> scan_number (int_dec i @ rest) = Some (int_dec i, rest)"
proof -
  assume rest: "stops rest"
  have tail: "scan_fraction rest = Some ([], rest)" "scan_exponent rest = Some ([], rest)"
    using rest by (auto simp: scan_fraction_def scan_exponent_def stops_def split: list.splits)
  obtain c ds where c: "nat_dec (nat i) = c # ds" using nat_dec_nonempty by (cases "nat_dec (nat i)") auto
  have "c \<noteq> CHR ''-''" using nat_dec_digits[of "nat i"] c by (auto simp: is_digit_def)
  with scan_natural_dec[OF rest, of "nat (- i)"] scan_natural_dec[OF rest, of "nat i"] c show ?thesis
    by (simp add: scan_number_def int_dec_def tail)
qed

lemma int_dec_start: "\<exists>c t. int_dec i = c # t \<and> (is_digit c \<or> c = CHR ''-'')"
  using nat_dec_digits[of "nat i"] nat_dec_nonempty[of "nat i"] by (cases "nat_dec (nat i)") (auto simp: int_dec_def)

lemma ParseInt64_dec: "- (2 ^ 63) \<le> i \<Longrightarrow> i < 2 ^ 63 \<Longrightarrow> ParseInt64 (int_dec i) = Some i"
proof -
  assume i: "- (2 ^ 63) \<le> i" "i < 2 ^ 63"
  obtain c t where c: "nat_dec (nat i) = c # t" using nat_dec_nonempty by (cases "nat_dec (nat i)") auto
  have "c \<noteq> CHR ''-''" using nat_dec_digits[of "nat i"] c by (auto simp: is_digit_def)
  then have "\<not> has_prefix (nat_dec (nat i)) ''-''" by (simp add: c has_prefix_def)
  moreover have "list_all is_digit (nat_dec n)" for n using nat_dec_digits by (simp add: list_all_iff)
  ultimately show ?thesis
    using i by (auto simp: ParseInt64_def int_dec_def Let_def trim_prefix_def has_prefix_def[of "CHR ''-'' # _"])
qed

section \<open>The text of a JSON value\<close>

text \<open>What can be written and read back: integers, strings of UTF-8, and at most \<open>d\<close> levels.\<close>

fun clean :: "nat \<Rightarrow> jval \<Rightarrow> bool" where
  "clean d JNull \<longleftrightarrow> True"
| "clean d (JBool b) \<longleftrightarrow> True"
| "clean d (JNum n) \<longleftrightarrow> (\<exists>i. n = int_dec i)"
| "clean d (JStr s) \<longleftrightarrow> valid_utf8 s"
| "clean d (JArr vs) \<longleftrightarrow> d \<noteq> 0 \<and> (\<forall>v\<in>set vs. clean (d - 1) v)"
| "clean d (JObj kvs) \<longleftrightarrow> d \<noteq> 0 \<and> (\<forall>(k, v)\<in>set kvs. valid_utf8 k \<and> clean (d - 1) v)"

lemma skip_space_at [simp]: "\<not> is_space c \<Longrightarrow> skip_space (c # s) = c # s"
  by (simp add: skip_space_def)

lemma space_facts [simp]: "\<not> is_space (CHR 0x22)" "\<not> is_space (CHR '','')" "\<not> is_space (CHR '']'')" "\<not> is_space (CHR ''}'')"
  "\<not> is_space (CHR '':'')" "\<not> is_space (CHR ''['')" "\<not> is_space (CHR ''{'')"
  by (simp_all add: is_space_def)

lemma text_start:
  assumes "clean d v"
  shows "\<exists>c t. json_text v = c # t \<and> \<not> is_space c \<and> c \<noteq> CHR '']''"
  using assms
proof (cases v)
  case (JNum n)
  then obtain i where "n = int_dec i" using assms by auto
  with int_dec_start[of i] JNum show ?thesis by (auto simp: is_digit_def is_space_def)
qed (auto simp: quote_def is_space_def)

lemma scan_key_quote: "valid_utf8 k \<Longrightarrow> scan_key (quote k @ CHR '':'' # rest) = Some (k, rest)"
  by (simp add: scan_key_def quote_def unquote_quote_body del: unquote.simps)

text \<open>Arrays and objects, given that their values are scanned.\<close>

lemma scan_elems_text:
  assumes "\<And>v x. v \<in> set vs \<Longrightarrow> stops x \<Longrightarrow> p (json_text v @ x) = Some (v, x)" "vs \<noteq> []"
  shows "scan_elems p (elems_text vs @ CHR '']'' # rest) = Some (vs, rest)"
  using assms
proof (induction vs)
  case (Cons v vs)
  show ?case
  proof (cases "vs = []")
    case True
    with Cons.prems(1)[of v "CHR '']'' # rest"] show ?thesis by (subst scan_elems.simps) simp
  next
    case False
    with Cons.prems(1)[of v "CHR '','' # elems_text vs @ CHR '']'' # rest"] Cons.IH Cons.prems(1)
    show ?thesis by (subst scan_elems.simps) simp
  qed
qed simp

lemma scan_members_text:
  assumes "\<And>k v x. (k, v) \<in> set kvs \<Longrightarrow> stops x \<Longrightarrow> p (json_text v @ x) = Some (v, x)"
    and "\<forall>kv\<in>set kvs. valid_utf8 (fst kv)" "kvs \<noteq> []"
  shows "scan_members p (members_text kvs @ CHR ''}'' # rest) = Some (kvs, rest)"
  using assms
proof (induction kvs)
  case (Cons kv kvs)
  obtain k v where kv: "kv = (k, v)" by (cases kv)
  have k: "valid_utf8 k" using Cons.prems(2) by (simp add: kv)
  show ?case
  proof (cases "kvs = []")
    case True
    with Cons.prems(1)[of k v "CHR ''}'' # rest"] scan_key_quote[OF k, of "json_text v @ CHR ''}'' # rest"] kv
    show ?thesis by (subst scan_members.simps) simp
  next
    case False
    then have ih: "scan_members p (members_text kvs @ CHR ''}'' # rest) = Some (kvs, rest)"
      using Cons.prems(1,2) by (intro Cons.IH) auto
    with False Cons.prems(1)[of k v "CHR '','' # members_text kvs @ CHR ''}'' # rest"] kv
      scan_key_quote[OF k, of "json_text v @ CHR '','' # members_text kvs @ CHR ''}'' # rest"]
    show ?thesis by (subst scan_members.simps) simp
  qed
qed simp

lemma scan_json_text: "clean d v \<Longrightarrow> stops rest \<Longrightarrow> scan_value d (json_text v @ rest) = Some (v, rest)"
proof (induction d v arbitrary: rest rule: clean.induct)
  case (1 d)
  show ?case by (simp add: scan_value.simps is_space_def has_prefix_def)
next
  case (2 d b)
  show ?case by (simp add: scan_value.simps is_space_def has_prefix_def)
next
  case (3 d n)
  then obtain i where i: "n = int_dec i" by auto
  obtain c t where c: "int_dec i = c # t" "is_digit c \<or> c = CHR ''-''" using int_dec_start by blast
  then have "\<not> is_space c" "c \<noteq> CHR 0x22" "c \<noteq> CHR ''[''" "c \<noteq> CHR ''{''" "c \<noteq> CHR ''n''" "c \<noteq> CHR ''t''" "c \<noteq> CHR ''f''"
    by (auto simp: is_digit_def is_space_def)
  with scan_number_int[OF 3(2), of i] c(1) i show ?case by (simp add: scan_value.simps has_prefix_def)
next
  case (4 d s)
  then show ?case by (simp add: scan_value.simps quote_def unquote_quote_body del: unquote.simps)
next
  case (5 d vs)
  show ?case
  proof (cases vs)
    case Nil
    with 5 show ?thesis by (simp add: scan_value.simps[of _ "CHR ''['' # _"])
  next
    case (Cons v ws)
    obtain c t where "json_text v = c # t" "\<not> is_space c" "c \<noteq> CHR '']''"
      using text_start[of "d - 1" v] 5(2) Cons by auto
    then obtain u where u: "elems_text vs @ CHR '']'' # rest = c # u" "\<not> is_space c" "c \<noteq> CHR '']''"
      by (simp add: Cons)
    have "scan_elems (scan_value (d - 1)) (elems_text vs @ CHR '']'' # rest) = Some (vs, rest)"
      using 5 Cons by (intro scan_elems_text) auto
    with u 5(2) show ?thesis by (simp add: scan_value.simps[of _ "CHR ''['' # _"])
  qed
next
  case (6 d kvs)
  show ?case
  proof (cases kvs)
    case Nil
    with 6 show ?thesis by (simp add: scan_value.simps[of _ "CHR ''{'' # _"])
  next
    case (Cons kv ws)
    then obtain u where u: "members_text kvs @ CHR ''}'' # rest = CHR 0x22 # u"
      by (cases kv) (simp add: quote_def)
    have "scan_value (d - 1) (json_text v @ x) = Some (v, x)" if "(k, v) \<in> set kvs" "stops x" for k v x
      using 6(1)[OF that(1) HOL.refl _ that(2)] 6(2) that(1) by auto
    then have "scan_members (scan_value (d - 1)) (members_text kvs @ CHR ''}'' # rest) = Some (kvs, rest)"
      using 6(2) Cons by (intro scan_members_text) auto
    with u 6(2) show ?thesis by (simp add: scan_value.simps[of _ "CHR ''{'' # _"])
  qed
qed


section \<open>Types\<close>

text \<open>The types of the sources: names of fields are ASCII and distinct, 0 is a value of every enumeration.\<close>

fun wf_ty :: "jty \<Rightarrow> bool" and wf_fields :: "(string \<times> jty) list \<Rightarrow> bool" where
  "wf_ty TBool \<longleftrightarrow> True"
| "wf_ty (TInt w) \<longleftrightarrow> 0 < w \<and> w \<le> 64"
| "wf_ty (TEnum vs) \<longleftrightarrow> 0 \<in> set vs"
| "wf_ty TStr \<longleftrightarrow> True"
| "wf_ty (TStruct fs) \<longleftrightarrow> distinct (map fst fs) \<and> wf_fields fs"
| "wf_ty (TSlice t) \<longleftrightarrow> wf_ty t"
| "wf_fields [] \<longleftrightarrow> True"
| "wf_fields ((k, t) # fs) \<longleftrightarrow> valid_utf8 k \<and> wf_ty t \<and> wf_fields fs"

fun levels :: "jty \<Rightarrow> nat" and levels_fields :: "(string \<times> jty) list \<Rightarrow> nat" where
  "levels TBool = 0"
| "levels (TInt w) = 0"
| "levels (TEnum vs) = 0"
| "levels TStr = 0"
| "levels (TStruct fs) = Suc (levels_fields fs)"
| "levels (TSlice t) = Suc (levels t)"
| "levels_fields [] = 0"
| "levels_fields ((k, t) # fs) = max (levels t) (levels_fields fs)"

text \<open>A value of a type.\<close>

fun has_type :: "jty \<Rightarrow> jgo \<Rightarrow> bool" and have_types :: "(string \<times> jty) list \<Rightarrow> jgo list \<Rightarrow> bool" and all_of_type :: "jty \<Rightarrow> jgo list \<Rightarrow> bool" where
  "has_type TBool (GBool b) \<longleftrightarrow> True"
| "has_type (TInt w) (GInt i) \<longleftrightarrow> fits w i"
| "has_type (TEnum vs) (GInt i) \<longleftrightarrow> i \<in> sint ` set vs"
| "has_type TStr (GStr s) \<longleftrightarrow> True"
| "has_type (TStruct fs) (GStruct xs) \<longleftrightarrow> have_types fs xs"
| "has_type (TSlice t) (GSlice m n) \<longleftrightarrow> n \<le> length m \<and> all_of_type t m"
| "has_type t x \<longleftrightarrow> False"
| "have_types [] [] \<longleftrightarrow> True"
| "have_types ((k, t) # fs) (x # xs) \<longleftrightarrow> has_type t x \<and> have_types fs xs"
| "have_types fs xs \<longleftrightarrow> False"
| "all_of_type t [] \<longleftrightarrow> True"
| "all_of_type t (x # xs) \<longleftrightarrow> has_type t x \<and> all_of_type t xs"

lemma have_types_iff: "have_types fs xs \<longleftrightarrow> length fs = length xs \<and> (\<forall>i<length fs. has_type (snd (fs ! i)) (xs ! i))"
proof (induction fs arbitrary: xs)
  case Nil
  then show ?case by (cases xs) simp_all
next
  case (Cons f fs)
  then show ?case by (cases f; cases xs) (auto simp: All_less_Suc2)
qed

lemma all_of_type_iff: "all_of_type t xs \<longleftrightarrow> (\<forall>x\<in>set xs. has_type t x)"
  by (induction xs) simp_all

lemma zero_fields: "map snd (map (map_prod id zero_of) fs) = map (zero_of \<circ> snd) fs"
  by (induction fs) auto

lemma zero_typed: "wf_ty t \<Longrightarrow> has_type t (zero_of t)"
  and "wf_fields fs \<Longrightarrow> have_types fs (map (zero_of \<circ> snd) fs)"
  by (induction t and fs rule: wf_ty_wf_fields.induct)
    (auto simp: fits_def image_iff zero_fields simp del: map_map intro: bexI[where x = 0])

lemma index_of_Some: "index_of P fs = Some i \<Longrightarrow> i < length fs \<and> P (fst (fs ! i))"
  by (induction fs arbitrary: i) (auto split: if_splits)

lemma field_index_less: "field_index fs k = Some i \<Longrightarrow> i < length fs"
  by (auto simp: field_index_def split: option.splits dest: index_of_Some)

lemma field_index_at:
  "distinct (map fst (fs @ (k, t) # gs)) \<Longrightarrow> field_index (fs @ (k, t) # gs) k = Some (length fs)"
proof -
  assume "distinct (map fst (fs @ (k, t) # gs))"
  then have "index_of (\<lambda>n. n = k) (fs @ (k, t) # gs) = Some (length fs)"
    by (induction fs) auto
  then show ?thesis by (simp add: field_index_def)
qed

text \<open>Whatever the JSON value, what is stored has the type.\<close>

lemma fits_sint: "fits 16 (sint (v :: i16))"
  using sint_range_size[of v] by (simp add: fits_def word_size)

lemma UnmarshalJSON_enum_listed: "UnmarshalJSON_enum vs v = Some e \<Longrightarrow> e \<in> set vs"
  by (auto simp: UnmarshalJSON_enum_def Let_def split: option.splits if_splits)

lemma unmarshal_int_fits: "unmarshal_int w 0 (JNum n) = Some i \<Longrightarrow> fits w i"
  by (auto simp: unmarshal_int_def split: option.splits if_splits)

lemma field_at:
  assumes "have_types fs xs" "wf_fields fs" "field_index fs k = Some i"
  shows "has_type (snd (fs ! i)) (xs ! i)" "wf_ty (snd (fs ! i))"
    "has_type (snd (fs ! i)) x \<Longrightarrow> have_types fs (xs[i := x])"
proof -
  have i: "i < length fs" using assms(3) by (rule field_index_less)
  have "wf_fields fs \<longleftrightarrow> (\<forall>f\<in>set fs. valid_utf8 (fst f) \<and> wf_ty (snd f))" for fs by (induction fs) auto
  with i assms show "has_type (snd (fs ! i)) (xs ! i)" "wf_ty (snd (fs ! i))" by (auto simp: have_types_iff)
  show "have_types fs (xs[i := x])" if "has_type (snd (fs ! i)) x"
    using that assms(1) i by (auto simp: have_types_iff nth_list_update)
qed

lemma unmarshal_typed:
  "unmarshal t v x = Some y \<Longrightarrow> wf_ty t \<Longrightarrow> has_type t x \<Longrightarrow> has_type t y"
  "unmarshal_fields fs kvs xs = Some ys \<Longrightarrow> wf_fields fs \<Longrightarrow> have_types fs xs \<Longrightarrow> have_types fs ys"
  "unmarshal_elems t vs m = Some m' \<Longrightarrow> wf_ty t \<Longrightarrow> all_of_type t m \<Longrightarrow> all_of_type t m' \<and> length vs \<le> length m'"
proof (induction t v x and fs kvs xs and t vs m arbitrary: y and ys and m' rule: unmarshal_unmarshal_fields_unmarshal_elems.induct)
  fix fs k v kvs xs ys
  assume ih: "\<And>i y. field_index fs k = Some i \<Longrightarrow> unmarshal (snd (fs ! i)) v (xs ! i) = Some y \<Longrightarrow> wf_ty (snd (fs ! i)) \<Longrightarrow>
      has_type (snd (fs ! i)) (xs ! i) \<Longrightarrow> has_type (snd (fs ! i)) y"
    and rest: "\<And>ys. field_index fs k = None \<Longrightarrow> unmarshal_fields fs kvs xs = Some ys \<Longrightarrow> wf_fields fs \<Longrightarrow> have_types fs xs \<Longrightarrow> have_types fs ys"
      "\<And>i x ys. field_index fs k = Some i \<Longrightarrow> unmarshal (snd (fs ! i)) v (xs ! i) = Some x \<Longrightarrow>
        unmarshal_fields fs kvs (xs[i := x]) = Some ys \<Longrightarrow> wf_fields fs \<Longrightarrow> have_types fs (xs[i := x]) \<Longrightarrow> have_types fs ys"
    and u: "unmarshal_fields fs ((k, v) # kvs) xs = Some ys" "wf_fields fs" "have_types fs xs"
  show "have_types fs ys"
  proof (cases "field_index fs k")
    case None
    with rest(1) u show ?thesis by simp
  next
    case (Some i)
    with u(1) obtain x where x: "unmarshal (snd (fs ! i)) v (xs ! i) = Some x" "unmarshal_fields fs kvs (xs[i := x]) = Some ys"
      by (auto split: option.splits)
    note at = field_at[OF u(3,2) Some]
    from ih[OF Some x(1) at(2,1)] show ?thesis by (intro rest(2)[OF Some x u(2)] at(3))
  qed
qed (auto simp: zero_typed split: option.splits if_splits list.splits dest: UnmarshalJSON_enum_listed unmarshal_int_fits)


section \<open>The round trip of a value\<close>

text \<open>A value as the sources build it: strings of UTF-8, and slices without hidden memory.\<close>

fun storable :: "jty \<Rightarrow> jgo \<Rightarrow> bool" and storables :: "(string \<times> jty) list \<Rightarrow> jgo list \<Rightarrow> bool" and all_storable :: "jty \<Rightarrow> jgo list \<Rightarrow> bool" where
  "storable TBool (GBool b) \<longleftrightarrow> True"
| "storable (TInt w) (GInt i) \<longleftrightarrow> fits w i"
| "storable (TEnum vs) (GInt i) \<longleftrightarrow> i \<in> sint ` set vs"
| "storable TStr (GStr s) \<longleftrightarrow> valid_utf8 s"
| "storable (TStruct fs) (GStruct xs) \<longleftrightarrow> storables fs xs"
| "storable (TSlice t) (GSlice m n) \<longleftrightarrow> n = length m \<and> all_storable t m"
| "storable t x \<longleftrightarrow> False"
| "storables [] [] \<longleftrightarrow> True"
| "storables ((k, t) # fs) (x # xs) \<longleftrightarrow> storable t x \<and> storables fs xs"
| "storables fs xs \<longleftrightarrow> False"
| "all_storable t [] \<longleftrightarrow> True"
| "all_storable t (x # xs) \<longleftrightarrow> storable t x \<and> all_storable t xs"

lemma all_storable_iff: "all_storable t xs \<longleftrightarrow> (\<forall>x\<in>set xs. storable t x)"
  by (induction xs) simp_all

lemma fits_64: "fits w i \<Longrightarrow> 0 < w \<Longrightarrow> w \<le> 64 \<Longrightarrow> - (2 ^ 63) \<le> i \<and> i < 2 ^ 63"
proof -
  assume i: "fits w i" "0 < w" "w \<le> 64"
  then have "(2 :: int) ^ (w - 1) \<le> 2 ^ 63" by (intro power_increasing) auto
  with i(1) show ?thesis by (auto simp: fits_def)
qed

lemma unmarshal_int_dec: "fits w i \<Longrightarrow> 0 < w \<Longrightarrow> w \<le> 64 \<Longrightarrow> unmarshal_int w old (JNum (int_dec i)) = Some i"
  using fits_64[of w i] by (simp add: unmarshal_int_def ParseInt64_dec)

lemma unmarshal_enum_dec: "e \<in> set vs \<Longrightarrow> UnmarshalJSON_enum vs (JNum (int_dec (sint e))) = Some e"
  by (simp add: UnmarshalJSON_enum_def unmarshal_int_dec fits_sint)

lemma marshal_elems_map [simp]: "marshal_elems nils t xs = map (marshal nils [] t) xs"
  by (induction xs) simp_all

lemma unmarshal_marshal:
  "storable t x \<Longrightarrow> wf_ty t \<Longrightarrow> unmarshal t (marshal nils name t x) (zero_of t) = Some x"
  "storables fs ys \<Longrightarrow> wf_fields fs \<Longrightarrow> distinct (map fst (gs @ fs)) \<Longrightarrow> length gs = length xs \<Longrightarrow>
     unmarshal_fields (gs @ fs) (marshal_fields nils fs ys) (xs @ map (zero_of \<circ> snd) fs) = Some (xs @ ys)"
  "all_storable t ys \<Longrightarrow> wf_ty t \<Longrightarrow> unmarshal_elems t (marshal_elems nils t ys) [] = Some ys"
proof (induction t x and fs ys and t ys arbitrary: name and gs xs rule: storable_storables_all_storable.induct)
  case (5 fs xs)
  from 5(1)[of "[]" "[]"] 5(2,3) show ?case by (simp add: zero_fields comp_def del: map_map)
next
  case (6 t m n)
  then show ?case by (cases m) auto
next
  fix k t fs x ys gs and xs :: "jgo list"
  assume ih: "\<And>name. storable t x \<Longrightarrow> wf_ty t \<Longrightarrow> unmarshal t (marshal nils name t x) (zero_of t) = Some x"
      "\<And>gs xs. storables fs ys \<Longrightarrow> wf_fields fs \<Longrightarrow> distinct (map fst (gs @ fs)) \<Longrightarrow> length gs = length xs \<Longrightarrow>
         unmarshal_fields (gs @ fs) (marshal_fields nils fs ys) (xs @ map (zero_of \<circ> snd) fs) = Some (xs @ ys)"
    and ok: "storables ((k, t) # fs) (x # ys)" "wf_fields ((k, t) # fs)" "distinct (map fst (gs @ (k, t) # fs))" "length gs = length xs"
  have "field_index (gs @ (k, t) # fs) k = Some (length xs)"
    using field_index_at[OF ok(3)] ok(4) by simp
  moreover have "unmarshal t (marshal nils k t x) (zero_of t) = Some x" using ih(1) ok(1,2) by simp
  moreover have "unmarshal_fields ((gs @ [(k, t)]) @ fs) (marshal_fields nils fs ys) ((xs @ [x]) @ map (zero_of \<circ> snd) fs) = Some ((xs @ [x]) @ ys)"
    using ok by (intro ih(2)) auto
  ultimately show "unmarshal_fields (gs @ (k, t) # fs) (marshal_fields nils ((k, t) # fs) (x # ys)) (xs @ map (zero_of \<circ> snd) ((k, t) # fs)) =
      Some (xs @ x # ys)"
    using ok(4) by (simp add: nth_append)
qed (auto simp: unmarshal_int_dec unmarshal_enum_dec zero_fields simp del: map_map)


lemma clean_marshal:
  "storable t x \<Longrightarrow> wf_ty t \<Longrightarrow> levels t \<le> d \<Longrightarrow> clean d (marshal nils name t x)"
  "storables fs ys \<Longrightarrow> wf_fields fs \<Longrightarrow> levels_fields fs \<le> d \<Longrightarrow>
     \<forall>(k, v)\<in>set (marshal_fields nils fs ys). valid_utf8 k \<and> clean d v"
  "all_storable t ys \<Longrightarrow> wf_ty t \<Longrightarrow> levels t \<le> d \<Longrightarrow> \<forall>y\<in>set ys. clean d (marshal nils [] t y)"
proof (induction t x and fs ys and t ys arbitrary: name d and d and d rule: storable_storables_all_storable.induct)
  case (5 fs xs)
  from 5(1)[of "d - 1"] 5(2-4) show ?case by auto
next
  case (6 t m n)
  from 6(1)[of "d - 1"] 6(2-4) show ?case by auto
qed auto

lemma Decode_Encode_json:
  assumes "storable t x" "wf_ty t" "levels t \<le> maxNestingDepth"
  shows "Decode_json t (Encode_json nils t x) = Some x"
  using scan_json_text[OF clean_marshal(1)[OF assms], of "[CHR 0x0A]" nils "[]"] unmarshal_marshal(1)[OF assms(1,2)]
  by (simp add: Decode_json_def Encode_json_def)

lemma Encode_json_nonempty [simp]: "Encode_json nils t x \<noteq> []"
  by (simp add: Encode_json_def)

lemma Decode_json_typed: "Decode_json t s = Some x \<Longrightarrow> wf_ty t \<Longrightarrow> has_type t x"
  by (auto simp: Decode_json_def split: option.splits dest: unmarshal_typed(1) zero_typed(1))

section \<open>Every turn of the scanner takes something\<close>

text \<open>So the test that makes the two loops end is never what ends them.\<close>

lemma unquote_shorter: "unquote s = Some (x, r) \<Longrightarrow> length r < length s"
proof (induction s arbitrary: x rule: unquote.induct)
  case (2 c s)
  then show ?case
    by (auto simp: emit_def Let_def escaped_rune_def split: if_splits list.splits option.splits) fastforce+
qed simp


lemma skip_space_le: "length (skip_space s) \<le> length s"
  by (simp add: skip_space_def length_dropWhile_le)

lemma drop_digits_le: "length (dropWhile is_digit (drop n s)) \<le> length s"
  by (rule order_trans[OF length_dropWhile_le]) simp

lemma scan_number_shorter: "scan_number s = Some (n, r) \<Longrightarrow> length r < length s"
proof -
  have nat: "scan_natural t = Some (x, t') \<Longrightarrow> length t' < length t" for t x t'
    using drop_digits_le[of 0] by (auto simp: scan_natural_def less_Suc_eq_le split: list.splits if_splits)
  have frac: "scan_fraction t = Some (x, t') \<Longrightarrow> length t' \<le> length t" for t x t'
    using drop_digits_le[of 0] by (auto simp: scan_fraction_def le_SucI split: list.splits if_splits)
  have expo: "scan_exponent t = Some (x, t') \<Longrightarrow> length t' \<le> length t" for t x t'
    by (auto simp: scan_exponent_def Let_def le_SucI[OF drop_digits_le] split: list.splits if_splits)
  assume "scan_number s = Some (n, r)"
  then obtain d x1 s1 x2 s2 x3 where "scan_natural (drop d s) = Some (x1, s1)" "scan_fraction s1 = Some (x2, s2)" "scan_exponent s2 = Some (x3, r)"
    by (auto simp: scan_number_def Let_def split: option.splits)
  from nat[OF this(1)] frac[OF this(2)] expo[OF this(3)] show ?thesis by simp
qed

lemma skip_space_Cons: "skip_space s = c # t \<Longrightarrow> length t < length s"
  using skip_space_le[of s] by simp

lemma scan_key_shorter: "scan_key s = Some (k, r) \<Longrightarrow> length r < length s"
  by (fastforce simp: scan_key_def split: list.splits option.splits if_splits dest: skip_space_Cons unquote_shorter)

text \<open>What the two loops rely on: a scanner of values that takes something.\<close>

locale consuming =
  fixes p :: "string \<Rightarrow> (jval \<times> string) option"
  assumes shorter: "p s = Some (v, r) \<Longrightarrow> length r < length s"
begin

lemma after_value: "p s = Some (v, s1) \<Longrightarrow> skip_space s1 = c # s2 \<Longrightarrow> length s2 < length s"
  using shorter skip_space_Cons by fastforce

lemma after_member: "scan_key s = Some (k, s0) \<Longrightarrow> p s0 = Some (v, s1) \<Longrightarrow> skip_space s1 = c # s2 \<Longrightarrow> length s2 < length s"
  using after_value scan_key_shorter by fastforce

lemma elems_unguarded:
  "scan_elems p s =
     (case p s of None \<Rightarrow> None | Some (v, s1) \<Rightarrow>
        (case skip_space s1 of [] \<Rightarrow> None | c # s2 \<Rightarrow>
           if c = CHR '']'' then Some ([v], s2)
           else if c = CHR '','' then map_option (\<lambda>(vs, r). (v # vs, r)) (scan_elems p s2) else None))"
  by (subst scan_elems.simps) (auto split: option.split list.split dest: after_value)

lemma members_unguarded:
  "scan_members p s =
     (case scan_key s of None \<Rightarrow> None | Some (k, s0) \<Rightarrow>
        (case p s0 of None \<Rightarrow> None | Some (v, s1) \<Rightarrow>
           (case skip_space s1 of [] \<Rightarrow> None | c # s2 \<Rightarrow>
              if c = CHR ''}'' then Some ([(k, v)], s2)
              else if c = CHR '','' then map_option (\<lambda>(kvs, r). ((k, v) # kvs, r)) (scan_members p s2) else None)))"
  by (subst scan_members.simps) (auto split: option.split list.split dest: after_member)

lemma elems_shorter: "scan_elems p s = Some (vs, r) \<Longrightarrow> length r < length s"
proof (induction s arbitrary: vs rule: length_induct)
  case (1 s)
  from 1(2) obtain v s1 c s2 where v: "p s = Some (v, s1)" "skip_space s1 = c # s2"
    by (subst (asm) elems_unguarded) (auto split: option.splits list.splits)
  from 1(2) v have "s2 = r \<or> (\<exists>vs'. scan_elems p s2 = Some (vs', r))"
    by (subst (asm) elems_unguarded) (auto split: if_splits)
  with after_value[OF v] 1(1) show ?case by force
qed

lemma members_shorter: "scan_members p s = Some (kvs, r) \<Longrightarrow> length r < length s"
proof (induction s arbitrary: kvs rule: length_induct)
  case (1 s)
  from 1(2) obtain k s0 v s1 c s2 where v: "scan_key s = Some (k, s0)" "p s0 = Some (v, s1)" "skip_space s1 = c # s2"
    by (subst (asm) members_unguarded) (auto split: option.splits list.splits)
  from 1(2) v have "s2 = r \<or> (\<exists>kvs'. scan_members p s2 = Some (kvs', r))"
    by (subst (asm) members_unguarded) (auto split: if_splits)
  with after_member[OF v] 1(1) show ?case by force
qed

end

lemma scan_value_cases:
  assumes "scan_value d s = Some (v, r)"
  obtains c t where "skip_space s = c # t"
    "(\<exists>x. unquote t = Some (x, r)) \<or> (\<exists>vs. d \<noteq> 0 \<and> scan_elems (scan_value (d - 1)) t = Some (vs, r)) \<or>
     (\<exists>kvs. d \<noteq> 0 \<and> scan_members (scan_value (d - 1)) t = Some (kvs, r)) \<or>
     (\<exists>e. skip_space t = e # r) \<or> (\<exists>n. r = drop n t) \<or> (\<exists>n. scan_number (c # t) = Some (n, r))"
proof (cases "skip_space s")
  case Nil
  with assms show thesis by (simp add: scan_value.simps)
next
  case (Cons c t)
  show thesis
  proof (rule that[OF Cons])
    have step: "scan_value d s = (if c = CHR 0x22 then map_option (\<lambda>(x, r'). (JStr x, r')) (unquote t)
      else if c = CHR ''['' then
        (if d = 0 then None else case skip_space t of [] \<Rightarrow> None | e # r' \<Rightarrow>
           if e = CHR '']'' then Some (JArr [], r') else map_option (\<lambda>(vs, u). (JArr vs, u)) (scan_elems (scan_value (d - 1)) t))
      else if c = CHR ''{'' then
        (if d = 0 then None else case skip_space t of [] \<Rightarrow> None | e # r' \<Rightarrow>
           if e = CHR ''}'' then Some (JObj [], r') else map_option (\<lambda>(kvs, u). (JObj kvs, u)) (scan_members (scan_value (d - 1)) t))
      else if has_prefix (c # t) ''null'' then Some (JNull, drop 3 t)
      else if has_prefix (c # t) ''true'' then Some (JBool True, drop 3 t)
      else if has_prefix (c # t) ''false'' then Some (JBool False, drop 4 t)
      else map_option (\<lambda>(n, u). (JNum n, u)) (scan_number (c # t)))" (is "_ = ?rhs")
      by (simp only: scan_value.simps[of d s] Cons list.case)
    then have "?rhs = Some (v, r)" using assms by simp
    then show "(\<exists>x. unquote t = Some (x, r)) \<or> (\<exists>vs. d \<noteq> 0 \<and> scan_elems (scan_value (d - 1)) t = Some (vs, r)) \<or>
     (\<exists>kvs. d \<noteq> 0 \<and> scan_members (scan_value (d - 1)) t = Some (kvs, r)) \<or>
     (\<exists>e. skip_space t = e # r) \<or> (\<exists>n. r = drop n t) \<or> (\<exists>n. scan_number (c # t) = Some (n, r))"
      by (auto simp del: unquote.simps split: if_split_asm list.split_asm)
  qed
qed

lemma scan_value_shorter: "scan_value d s = Some (v, r) \<Longrightarrow> length r < length s"
proof (induction d arbitrary: s v r rule: less_induct)
  case (less d)
  from less(2) obtain c t where s: "skip_space s = c # t" and r:
    "(\<exists>x. unquote t = Some (x, r)) \<or> (\<exists>vs. d \<noteq> 0 \<and> scan_elems (scan_value (d - 1)) t = Some (vs, r)) \<or>
     (\<exists>kvs. d \<noteq> 0 \<and> scan_members (scan_value (d - 1)) t = Some (kvs, r)) \<or>
     (\<exists>e. skip_space t = e # r) \<or> (\<exists>n. r = drop n t) \<or> (\<exists>n. scan_number (c # t) = Some (n, r))"
    by (rule scan_value_cases)
  have ih: "consuming (scan_value (d - 1))" if "d \<noteq> 0"
    by unfold_locales (rule less(1)[of "d - 1"], use that in simp_all)
  have "length r \<le> length t"
    using r unquote_shorter[of t _ r] consuming.elems_shorter[OF ih, of t _ r] consuming.members_shorter[OF ih, of t _ r]
      skip_space_Cons[of t _ r] scan_number_shorter[of "c # t" _ r] by fastforce
  with skip_space_Cons[OF s] show ?case by simp
qed

interpretation value_scanner: consuming "scan_value d" for d
  by unfold_locales (rule scan_value_shorter)

end
