(* ===== verification/Httpx.thy ===== *)
theory Httpx
  imports Model
begin

text \<open>
  Package \<open>httpx\<close>: reading the bodies of requests and answers, forwarding a request to another
  host and answering. A request and an answer are values; what is on the wire, and \<open>client.Do\<close>, is
  the network. Header names are in canonical form, as \<open>net/http\<close> stores them.
\<close>

section \<open>Requests and answers\<close>

type_synonym Header = "string \<rightharpoonup> string list"

definition header_Get :: "string \<Rightarrow> Header \<Rightarrow> string" where
  "header_Get k h = (case h k of Some (v # vs) \<Rightarrow> v | _ \<Rightarrow> '''')"

definition header_Set :: "string \<Rightarrow> string \<Rightarrow> Header \<Rightarrow> Header" where
  "header_Set k v h = h(k \<mapsto> [v])"

record HttpRequest =
  rq_Method :: string
  rq_Host :: string
  rq_TLS :: bool
  rq_Path :: string
  rq_Header :: Header
  rq_RemoteAddr :: string
  rq_ContentLength :: int
  rq_Body :: "string result"  \<comment> \<open>what \<open>io.ReadAll\<close> gives\<close>

record HttpResponse =
  rs_Status :: int
  rs_Header :: Header
  rs_ContentLength :: int
  rs_Body :: "string result"

record Request =
  vr_r :: HttpRequest
  vr_body :: string

text \<open>\<open>http.Error\<close>.\<close>

definition http_Error :: "string \<Rightarrow> int \<Rightarrow> HttpResponse" where
  "http_Error msg code = \<lparr>rs_Status = code,
     rs_Header = [''Content-Type'' \<mapsto> [''text/plain; charset=utf-8''], ''X-Content-Type-Options'' \<mapsto> [''nosniff'']],
     rs_ContentLength = int (length msg) + 1, rs_Body = Inr (msg @ [CHR 0x0A])\<rparr>"

section \<open>Bodies\<close>

text \<open>\<open>io.LimitReader\<close> cuts at the maximum.\<close>

definition read_body :: "int \<Rightarrow> string result \<Rightarrow> string result" where
  "read_body content_length body =
     (if content_length \<le> 0 then Inl (Msg ''Body expected but not found'')
      else if content_length \<ge> HTTP_MAX_BODY_LEN then Inl (Msg ''content-length exceeded'')
      else (case body of
              Inl e \<Rightarrow> Inl (Msg ''failed to read body'')
            | Inr b \<Rightarrow> (let data = take (nat HTTP_MAX_BODY_LEN) b in
                        if int (length data) > content_length then Inl (Msg ''body len exceeds content-length'')
                        else Inr data)))"

text \<open>\<open>None\<close> is the call with a nil argument, which reads nothing. \<open>decode\<close> is the JSON decoder for the
  type of the argument.\<close>

definition Decode_request_body :: "(string \<Rightarrow> 'a result) option \<Rightarrow> HttpRequest \<Rightarrow> (Request \<times> 'a option) result" where
  "Decode_request_body arg r =
     (case arg of
        None \<Rightarrow> Inr (\<lparr>vr_r = r, vr_body = ''''\<rparr>, None)
      | Some decode \<Rightarrow>
          rbind (read_body (rq_ContentLength r) (rq_Body r)) (\<lambda>body.
          rbind (decode body) (\<lambda>v. Inr (\<lparr>vr_r = r, vr_body = body\<rparr>, Some v))))"

text \<open>An answer that is not a success is not decoded; the result is then left as it was.\<close>

definition Decode_response_body :: "(string \<Rightarrow> 'a result) option \<Rightarrow> HttpResponse \<Rightarrow> 'a option result" where
  "Decode_response_body arg r =
     (case arg of
        None \<Rightarrow> Inr None
      | Some decode \<Rightarrow>
          if rs_ContentLength r \<le> 0 then Inl (Msg ''Body expected but not found'')
          else if rs_ContentLength r \<ge> HTTP_MAX_BODY_LEN then Inl (Msg ''content-length exceeded'')
          else if 200 \<le> rs_Status r \<and> rs_Status r \<le> 299
          then rbind (read_body (rs_ContentLength r) (rs_Body r)) (\<lambda>body. rbind (decode body) (\<lambda>v. Inr (Some v)))
          else Inr None)"

section \<open>Sending\<close>

text \<open>The network: whether \<open>http.NewRequest\<close> accepts method and URL, and \<open>client.Do\<close>.\<close>

record 'n http_net =
  hn_NewRequest :: "string \<Rightarrow> string \<Rightarrow> string \<Rightarrow> gerr option"  \<comment> \<open>method, host and path\<close>
  hn_Do :: "HttpRequest \<Rightarrow> 'n \<Rightarrow> HttpResponse result \<times> 'n"

text \<open>A new request of a client has no remote address yet.\<close>

definition new_request :: "string \<Rightarrow> string \<Rightarrow> bool \<Rightarrow> string \<Rightarrow> Header \<Rightarrow> string \<Rightarrow> HttpRequest" where
  "new_request meth host tls path header body =
     \<lparr>rq_Method = meth, rq_Host = host, rq_TLS = tls, rq_Path = path, rq_Header = header, rq_RemoteAddr = '''',
      rq_ContentLength = int (length body), rq_Body = Inr body\<rparr>"

definition make_request :: "'n http_net \<Rightarrow> string \<Rightarrow> string \<Rightarrow> string \<Rightarrow> string result \<Rightarrow> HttpRequest result" where
  "make_request net api_server meth path encoded =
     rbind encoded (\<lambda>body.
     case hn_NewRequest net meth (api_server @ '':8080'') path of
       Some e \<Rightarrow> Inl e
     | None \<Rightarrow> Inr (new_request meth (api_server @ '':8080'') False path
                      (header_Set ''Content-Type'' ''application/json'' Map.empty) body))"

definition Do_request ::
  "'n http_net \<Rightarrow> string \<Rightarrow> string \<Rightarrow> string \<Rightarrow> string result \<Rightarrow> 'n \<Rightarrow> HttpResponse result \<times> 'n" where
  "Do_request net api_server meth path encoded n =
     (case make_request net api_server meth path encoded of
        Inl e \<Rightarrow> (Inl e, n)
      | Inr req \<Rightarrow> hn_Do net req n)"

text \<open>\<open>net.SplitHostPort\<close>: the host. The last colon separates the port; a host in brackets may hold
  colons.\<close>

definition SplitHostPort :: "string \<Rightarrow> string result" where
  "SplitHostPort s =
     (let port = rev (takeWhile (\<lambda>c. c \<noteq> CHR '':'') (rev s)); i = length s - length port in
      if CHR '':'' \<notin> set s then Inl (Msg ''missing port in address'')
      else if hd s = CHR 0x5B then
        (let host = takeWhile (\<lambda>c. c \<noteq> CHR 0x5D) (tl s); j = length host + 2 in
         if CHR 0x5D \<notin> set (tl s) then Inl (Msg ''missing bracket in address'')
         else if j + 1 \<noteq> i then Inl (Msg ''invalid port in address'')
         else if CHR 0x5B \<in> set (tl s) \<or> CHR 0x5D \<in> set port then Inl (Msg ''unexpected bracket in address'')
         else Inr host)
      else
        (let host = take (i - 1) s in
         if CHR '':'' \<in> set host then Inl (Msg ''too many colons in address'')
         else if CHR 0x5B \<in> set s \<or> CHR 0x5D \<in> set s then Inl (Msg ''unexpected bracket in address'')
         else Inr host))"

abbreviation (input) loop_header :: string where
  "loop_header \<equiv> ''X-Virtx-Loop''"

abbreviation (input) forwarded_header :: string where
  "forwarded_header \<equiv> ''X-Forwarded-For''"

text \<open>\<open>Proxy_request\<close> answers itself or sends a request to the other host and hands on its answer.\<close>

datatype proxied = Answer HttpResponse | Forward HttpRequest

definition proxy_headers :: "string \<Rightarrow> Header \<Rightarrow> Header" where
  "proxy_headers client_ip h =
     (let xff = header_Get forwarded_header h in
      header_Set loop_header ''1''
        (header_Set forwarded_header (if xff \<noteq> '''' then xff @ '', '' @ client_ip else client_ip) h))"

definition proxy_prepare :: "'n http_net \<Rightarrow> string \<Rightarrow> Request \<Rightarrow> proxied" where
  "proxy_prepare net api_server vr =
     (let r = vr_r vr in
      if header_Get loop_header (rq_Header r) \<noteq> '''' then Answer (http_Error ''loop detected'' 508)
      else
        (case hn_NewRequest net (rq_Method r) (api_server @ '':8080'') (rq_Path r) of
           Some e \<Rightarrow> Answer (http_Error ''failed to forward request'' 502)
         | None \<Rightarrow>
             (case SplitHostPort (rq_RemoteAddr r) of
                Inl e \<Rightarrow> Answer (http_Error ''failed to forward request'' 502)
              | Inr client_ip \<Rightarrow>
                  Forward (new_request (rq_Method r) (api_server @ '':8080'') (rq_TLS r) (rq_Path r)
                             (proxy_headers client_ip (rq_Header r)) (vr_body vr)))))"

definition proxy_finish :: "HttpResponse result \<Rightarrow> HttpResponse" where
  "proxy_finish resp = (case resp of Inl e \<Rightarrow> http_Error ''failed to forward request'' 502 | Inr r \<Rightarrow> r)"

definition Proxy_request :: "'n http_net \<Rightarrow> string \<Rightarrow> Request \<Rightarrow> 'n \<Rightarrow> HttpResponse \<times> 'n" where
  "Proxy_request net api_server vr n =
     (case proxy_prepare net api_server vr of
        Answer r \<Rightarrow> (r, n)
      | Forward req \<Rightarrow> (case hn_Do net req n of (resp, n1) \<Rightarrow> (proxy_finish resp, n1)))"

text \<open>The header may already hold a warning.\<close>

definition Do_response :: "Header \<Rightarrow> int \<Rightarrow> string option \<Rightarrow> HttpResponse" where
  "Do_response h status buf =
     (case buf of
        Some b \<Rightarrow> \<lparr>rs_Status = status,
           rs_Header = header_Set ''Content-Length'' (int_dec (int (length b))) (header_Set ''Content-Type'' ''application/json'' h),
           rs_ContentLength = int (length b), rs_Body = Inr b\<rparr>
      | None \<Rightarrow> \<lparr>rs_Status = status, rs_Header = header_Set ''Content-Length'' ''0'' h,
           rs_ContentLength = 0, rs_Body = Inr ''''\<rparr>)"

end
