(* ===== verification/Virtx.thy ===== *)
theory Virtx
  imports Httpx Hypervisor
begin

text \<open>
  Package \<open>virtx\<close>: the handlers of the service, in the order of the route table. A handler gets the
  request and the state of its host and answers or forwards; the inventory and \<open>hv.si\<close> are only
  read. JSON, libvirt, the network and the generator of UUIDs are parameters.
\<close>

section \<open>Options and answers\<close>

record VmCreateOptions =
  co_Vmdef :: Vmdef
  co_Host :: string

record VmUpdateOptions =
  uo_Vmdef :: Vmdef
  uo_Deletestorage :: bool

record VmDeleteOptions =
  dl_Deletestorage :: bool

record VmBootOptions =
  bo_CloudInit :: "CloudInitOption list"

record VmShutdownOptions =
  so_Force :: i16

record VmMigrateOptions =
  mo_Host :: string
  mo_MigrationType :: MigrationType

record VmRegisterOptions =
  ro_Host :: string

record VmListOptions =
  vlo_Filter :: VmListFields

record HostListOptions =
  hlo_Filter :: HostListFields

record Vmruninfo =
  ri_Runstate :: Vmrunstate
  ri_Host :: string

record Vm =
  v_Uuid :: string
  v_Def :: Vmdef
  v_Runinfo :: Vmruninfo
  v_Stats :: Vmstats
  v_Ts :: i64

text \<open>The JSON decoders and encoders of these types; a list is the items of its struct.\<close>

record json =
  js_get_create :: "string \<Rightarrow> VmCreateOptions result"
  js_get_update :: "string \<Rightarrow> VmUpdateOptions result"
  js_get_delete :: "string \<Rightarrow> VmDeleteOptions result"
  js_get_boot :: "string \<Rightarrow> VmBootOptions result"
  js_get_shutdown :: "string \<Rightarrow> VmShutdownOptions result"
  js_get_migrate :: "string \<Rightarrow> VmMigrateOptions result"
  js_get_register :: "string \<Rightarrow> VmRegisterOptions result"
  js_get_vm_list :: "string \<Rightarrow> VmListOptions result"
  js_get_host_list :: "string \<Rightarrow> HostListOptions result"
  js_string :: "string \<Rightarrow> string result"
  js_vm :: "Vm \<Rightarrow> string result"
  js_runinfo :: "Vmruninfo \<Rightarrow> string result"
  js_migration :: "MigrationInfo \<Rightarrow> string result"
  js_host :: "Host \<Rightarrow> string result"
  js_vms :: "VmListItem list \<Rightarrow> string result"
  js_hosts :: "HostListItem list \<Rightarrow> string result"

section \<open>The state of a host\<close>

text \<open>A migration runs in its own goroutine: the handler leaves a job.\<close>

record job =
  jb_hostname :: string
  jb_host_uuid :: string
  jb_host_old :: string
  jb_uuid :: string
  jb_live :: bool
  jb_vcpus :: int

record 'w server =
  ss_inv :: Inventory
  ss_si :: "SystemInfo option"
  ss_world :: 'w
  ss_fs :: fs
  ss_jobs :: "job list"

record 'w srv_env =
  sv_he :: "'w hv_env"
  sv_net :: "'w http_net"
  sv_json :: json
  sv_uuid :: "'w \<Rightarrow> string"  \<comment> \<open>\<open>g_uuid.NewRandom\<close>; empty when it fails\<close>
  sv_arch :: string
  sv_lockid :: u16
  sv_marshal_vm :: "(string \<times> string) list \<Rightarrow> string result"
  sv_marshal_domain :: "Domain \<Rightarrow> string result"
  sv_unmarshal_domain :: "string \<Rightarrow> Domain result"
  sv_unmarshal_vm :: "string \<Rightarrow> (string \<times> string) list result"
  sv_load :: "fs \<Rightarrow> fault"
  sv_host_order :: "Inventory \<Rightarrow> string list"  \<comment> \<open>of \<open>range\<close> over a map\<close>
  sv_vm_order :: "Inventory \<Rightarrow> string list"

abbreviation sv_storage :: "'w srv_env \<Rightarrow> 'w storage_env" where
  "sv_storage sv \<equiv> ce_storage (he_ce (sv_he sv))"

abbreviation sv_machine :: "'w srv_env \<Rightarrow> string" where
  "sv_machine sv \<equiv> he_machine (sv_he sv)"

definition sv_To_xml :: "'w srv_env \<Rightarrow> Vmdef \<Rightarrow> string \<Rightarrow> string result" where
  "sv_To_xml sv = To_xml (se_md5 (sv_storage sv)) (sv_arch sv) (sv_marshal_vm sv) (sv_marshal_domain sv)"

definition sv_From_xml :: "'w srv_env \<Rightarrow> string \<Rightarrow> Vmdef result" where
  "sv_From_xml sv = From_xml (sv_unmarshal_domain sv) (sv_unmarshal_vm sv) zero_vmdef"

section \<open>Common steps\<close>

type_synonym 'w handled = "proxied \<times> 'w server"

definition http_host_is_remote :: "string \<Rightarrow> string \<Rightarrow> bool" where
  "http_host_is_remote machine uuid \<longleftrightarrow> uuid \<noteq> '''' \<and> uuid \<noteq> machine"

definition http_proxy_request :: "'n http_net \<Rightarrow> Inventory \<Rightarrow> string \<Rightarrow> Request \<Rightarrow> proxied" where
  "http_proxy_request net iv uuid vr =
     (case Get_hostinfo uuid iv of
        Inl e \<Rightarrow> Answer (http_Error ''unknown host'' 503)
      | Inr hostinfo \<Rightarrow>
          if hf_cstate (hinfo_fields hostinfo) \<noteq> CSTATE_ACTIVE then Answer (http_Error ''inactive host'' 503)
          else proxy_prepare net (hf_name (hinfo_fields hostinfo)) vr)"

definition refuse :: "string \<Rightarrow> int \<Rightarrow> 'w server \<Rightarrow> 'w handled" where
  "refuse msg code ss = (Answer (http_Error msg code), ss)"

definition respond :: "int \<Rightarrow> string option \<Rightarrow> 'w server \<Rightarrow> 'w handled" where
  "respond status buf ss = (Answer (Do_response Map.empty status buf), ss)"

text \<open>An answer with a JSON body, or the error of the encoder.\<close>

definition respond_json :: "string result \<Rightarrow> 'w server \<Rightarrow> 'w handled" where
  "respond_json encoded ss = (case encoded of
     Inl e \<Rightarrow> refuse ''Failed to encode JSON'' 500 ss | Inr b \<Rightarrow> respond 200 (Some b) ss)"

text \<open>A failing step that stops a handler, and the steps most handlers begin with.\<close>

definition or_fail :: "string \<Rightarrow> int \<Rightarrow> 'w server \<Rightarrow> 'a result \<Rightarrow> ('a \<Rightarrow> 'w handled) \<Rightarrow> 'w handled" where
  "or_fail msg code ss x k = (case x of Inl e \<Rightarrow> refuse msg code ss | Inr v \<Rightarrow> k v)"

definition with_body ::
  "(string \<Rightarrow> 'a result) option \<Rightarrow> HttpRequest \<Rightarrow> 'w server \<Rightarrow> (Request \<Rightarrow> 'a option \<Rightarrow> 'w handled) \<Rightarrow> 'w handled" where
  "with_body arg r ss k = or_fail ''failed to decode body'' 400 ss (Decode_request_body arg r) (\<lambda>(vr, o'). k vr o')"

definition with_uuid :: "string \<Rightarrow> 'w server \<Rightarrow> 'w handled \<Rightarrow> 'w handled" where
  "with_uuid uuid ss h = (if uuid = '''' then refuse ''could not get uuid'' 400 ss else h)"

definition with_vm :: "string \<Rightarrow> 'w server \<Rightarrow> (VmInfo \<Rightarrow> 'w handled) \<Rightarrow> 'w handled" where
  "with_vm uuid ss k = or_fail ''unknown uuid'' 404 ss (Get_vminfo uuid (ss_inv ss)) k"

definition or_proxy :: "'w srv_env \<Rightarrow> string \<Rightarrow> Request \<Rightarrow> 'w server \<Rightarrow> 'w handled \<Rightarrow> 'w handled" where
  "or_proxy sv host vr ss h =
     (if http_host_is_remote (sv_machine sv) host then (http_proxy_request (sv_net sv) (ss_inv ss) host vr, ss) else h)"

definition is_off :: "Vmrunstate \<Rightarrow> bool" where
  "is_off state \<longleftrightarrow> state = RUNSTATE_POWEROFF \<or> state = RUNSTATE_CRASHED"

definition warning_header :: "string \<Rightarrow> Header" where
  "warning_header msg = header_Set ''Warning'' (''299 VirtX '' @ [CHR 0x22] @ msg @ [CHR 0x22]) Map.empty"

section \<open>Creating, updating and deleting\<close>

definition define_vm :: "'w srv_env \<Rightarrow> string \<Rightarrow> string \<Rightarrow> 'w server \<Rightarrow> gerr option \<times> 'w server" where
  "define_vm sv xml uuid ss =
     (case Define_domain (sv_he sv) xml uuid (ss_world ss) (ss_fs ss) of
        (e, w, s) \<Rightarrow> (e, ss\<lparr>ss_world := w, ss_fs := s\<rparr>))"

definition rolled_back :: "'w srv_env \<Rightarrow> created \<Rightarrow> string \<Rightarrow> 'w server \<Rightarrow> 'w server" where
  "rolled_back sv created uuid ss = ss\<lparr>ss_world := Rollback (sv_storage sv) created uuid (ss_world ss)\<rparr>"

definition create_vm :: "'w srv_env \<Rightarrow> Vmdef \<Rightarrow> string \<Rightarrow> 'w server \<Rightarrow> 'w handled" where
  "create_vm sv vmdef uuid ss =
     (case storage_Create (sv_storage sv) vmdef None uuid (ss_world ss) of
        (vmdef1, created, Some e, w1) \<Rightarrow>
          refuse ''storage creation failed'' 507 (rolled_back sv created uuid (ss\<lparr>ss_world := w1\<rparr>))
      | (vmdef1, created, None, w1) \<Rightarrow>
          (let ss1 = ss\<lparr>ss_world := w1\<rparr> in
           case sv_To_xml sv vmdef1 uuid of
             Inl e \<Rightarrow> refuse ''invalid parameters'' 400 (rolled_back sv created uuid ss1)
           | Inr xml \<Rightarrow>
               (case define_vm sv xml uuid ss1 of
                  (Some e, ss2) \<Rightarrow> refuse ''could not define VM'' 424 (rolled_back sv created uuid ss2)
                | (None, ss2) \<Rightarrow>
                    (case js_string (sv_json sv) uuid of
                       Inl e \<Rightarrow> (Answer (Do_response (warning_header ''failed to encode JSON'') 201 (Some '''')), ss2)
                     | Inr b \<Rightarrow> respond 201 (Some b) ss2))))"

definition vm_create :: "'w srv_env \<Rightarrow> HttpRequest \<Rightarrow> 'w server \<Rightarrow> 'w handled" where
  "vm_create sv r ss =
     with_body (Some (js_get_create (sv_json sv))) r ss (\<lambda>vr o'.
       let opts = the o' in
       or_proxy sv (co_Host opts) vr ss
         (if Validate (co_Vmdef opts) \<noteq> None then refuse ''invalid parameters'' 400 ss
          else (let uuid = sv_uuid sv (ss_world ss) in
                if uuid = '''' then refuse ''failed'' 500 ss else create_vm sv (co_Vmdef opts) uuid ss)))"

definition finish_storage :: "gerr option \<times> 'w \<Rightarrow> 'w server \<Rightarrow> 'w handled" where
  "finish_storage deleted ss =
     (case deleted of
        (Some e, w) \<Rightarrow>
          (Answer (Do_response (warning_header ''some resources could not be deleted'') 200 None), ss\<lparr>ss_world := w\<rparr>)
      | (None, w) \<Rightarrow> respond 204 None (ss\<lparr>ss_world := w\<rparr>))"

definition update_vm_storage :: "'w srv_env \<Rightarrow> Vmdef \<Rightarrow> Vmdef \<Rightarrow> bool \<Rightarrow> string \<Rightarrow> 'w server \<Rightarrow> 'w handled" where
  "update_vm_storage sv vmdef old del uuid ss =
     (case storage_Create (sv_storage sv) vmdef (Some old) uuid (ss_world ss) of
        (vmdef1, created, Some e, w1) \<Rightarrow>
          refuse ''storage update failed'' 507 (rolled_back sv created uuid (ss\<lparr>ss_world := w1\<rparr>))
      | (vmdef1, created, None, w1) \<Rightarrow>
          (let ss1 = ss\<lparr>ss_world := w1\<rparr> in
           case sv_To_xml sv vmdef1 uuid of
             Inl e \<Rightarrow> refuse ''invalid parameters'' 400 (rolled_back sv created uuid ss1)
           | Inr xml \<Rightarrow>
               (case define_vm sv xml uuid ss1 of
                  (Some e, ss2) \<Rightarrow> refuse ''could not define VM'' 424 (rolled_back sv created uuid ss2)
                | (None, ss2) \<Rightarrow>
                    finish_storage (storage_Delete (sv_storage sv) old (Some vmdef1) uuid del (ss_world ss2)) ss2)))"

definition vm_update :: "'w srv_env \<Rightarrow> string \<Rightarrow> HttpRequest \<Rightarrow> 'w server \<Rightarrow> 'w handled" where
  "vm_update sv uuid r ss =
     with_body (Some (js_get_update (sv_json sv))) r ss (\<lambda>vr o'.
     with_uuid uuid ss (
     with_vm uuid ss (\<lambda>vminfo.
     or_proxy sv (ve_host vminfo) vr ss (
       let opts = the o' in
       if \<not> is_off (ve_runstate vminfo) then refuse ''VM is not powered off'' 422 ss
       else if Validate (uo_Vmdef opts) \<noteq> None then refuse ''invalid parameters'' 400 ss
       else
         or_fail ''could not Load VM'' 500 ss (Load (sv_load sv (ss_fs ss)) (ve_host vminfo) uuid (ss_fs ss)) (\<lambda>xml.
         or_fail ''invalid VM data'' 500 ss (sv_From_xml sv xml) (\<lambda>old.
           update_vm_storage sv (uo_Vmdef opts) old (uo_Deletestorage opts) uuid ss))))))"

definition vm_delete :: "'w srv_env \<Rightarrow> string \<Rightarrow> HttpRequest \<Rightarrow> 'w server \<Rightarrow> 'w handled" where
  "vm_delete sv uuid r ss =
     with_body (Some (js_get_delete (sv_json sv))) r ss (\<lambda>vr o'.
     with_uuid uuid ss (
     with_vm uuid ss (\<lambda>vminfo.
     or_proxy sv (ve_host vminfo) vr ss (
       if \<not> is_off (ve_runstate vminfo) then refuse ''VM is not powered off'' 422 ss
       else
         or_fail ''could not Get VM XML'' 424 ss (Dumpxml (sv_he sv) uuid (ss_world ss)) (\<lambda>xml.
         or_fail ''invalid VM data'' 500 ss (sv_From_xml sv xml) (\<lambda>vm.
           (case Delete_domain (sv_he sv) uuid (ss_world ss) (ss_fs ss) of
              (Some e, w, s) \<Rightarrow> refuse ''Failed to delete VM'' 424 (ss\<lparr>ss_world := w, ss_fs := s\<rparr>)
            | (None, w, s) \<Rightarrow>
                finish_storage (storage_Delete (sv_storage sv) vm None uuid (dl_Deletestorage (the o')) w)
                  (ss\<lparr>ss_world := w, ss_fs := s\<rparr>))))))))"

section \<open>Looking\<close>

definition vm_get :: "'w srv_env \<Rightarrow> string \<Rightarrow> HttpRequest \<Rightarrow> 'w server \<Rightarrow> 'w handled" where
  "vm_get sv uuid r ss =
     with_body (None :: (string \<Rightarrow> unit result) option) r ss (\<lambda>vr o'.
     with_uuid uuid ss (
     with_vm uuid ss (\<lambda>vminfo.
     or_proxy sv (ve_host vminfo) vr ss (
       or_fail ''could not get VM'' 424 ss (Dumpxml (sv_he sv) uuid (ss_world ss)) (\<lambda>xml.
       or_fail ''invalid VM data'' 500 ss (sv_From_xml sv xml) (\<lambda>vm.
       or_fail ''could not get VM stats'' 404 ss (Get_Vmstats (sv_he sv) (ss_si ss) uuid (ss_world ss)) (\<lambda>stats.
         respond_json (js_vm (sv_json sv)
           \<lparr>v_Uuid = uuid, v_Def = vm, v_Runinfo = \<lparr>ri_Runstate = ve_runstate vminfo, ri_Host = ve_host vminfo\<rparr>,
            v_Stats = stats, v_Ts = ve_ts vminfo\<rparr>) ss)))))))"

definition vm_list :: "'w srv_env \<Rightarrow> HttpRequest \<Rightarrow> 'w server \<Rightarrow> 'w handled" where
  "vm_list sv r ss =
     with_body (Some (js_get_vm_list (sv_json sv))) r ss (\<lambda>vr o'.
       respond_json (js_vms (sv_json sv) (Search_vms (vlo_Filter (the o')) (sv_vm_order sv (ss_inv ss)) (ss_inv ss))) ss)"

definition vm_runstate_get :: "'w srv_env \<Rightarrow> string \<Rightarrow> HttpRequest \<Rightarrow> 'w server \<Rightarrow> 'w handled" where
  "vm_runstate_get sv uuid r ss =
     with_body (None :: (string \<Rightarrow> unit result) option) r ss (\<lambda>vr o'.
       if uuid = '''' then refuse ''vm_runstate_get: Failed to decode parameters'' 400 ss
       else
         or_fail ''vm_runstate_get: No such VM'' 404 ss (Get_vminfo uuid (ss_inv ss)) (\<lambda>vminfo.
           respond_json (js_runinfo (sv_json sv) \<lparr>ri_Runstate = ve_runstate vminfo, ri_Host = ve_host vminfo\<rparr>) ss))"

definition host_list :: "'w srv_env \<Rightarrow> HttpRequest \<Rightarrow> 'w server \<Rightarrow> 'w handled" where
  "host_list sv r ss =
     with_body (Some (js_get_host_list (sv_json sv))) r ss (\<lambda>vr o'.
       respond_json (js_hosts (sv_json sv) (Search_hosts (hlo_Filter (the o')) (sv_host_order sv (ss_inv ss)) (ss_inv ss))) ss)"

text \<open>Without \<open>hv.si\<close> the handler panics, and the server closes the connection without an answer:
  a status of 0 here.\<close>

definition host_get :: "'w srv_env \<Rightarrow> string \<Rightarrow> HttpRequest \<Rightarrow> 'w server \<Rightarrow> 'w handled" where
  "host_get sv uuid r ss =
     with_body (None :: (string \<Rightarrow> unit result) option) r ss (\<lambda>vr o'.
     with_uuid uuid ss (
       or_fail ''unknown uuid'' 404 ss (Get_hostinfo uuid (ss_inv ss)) (\<lambda>hostinfo.
       or_proxy sv (hinfo_uuid hostinfo) vr ss (
         case ss_si ss of
           None \<Rightarrow> refuse '''' 0 ss
         | Some si \<Rightarrow> respond_json (js_host (sv_json sv) (system_info_get_host (sv_machine sv) (sv_lockid sv) si)) ss))))"

section \<open>Running\<close>

text \<open>An operation on a domain that only tells whether it failed.\<close>

definition run_op :: "(gerr option \<times> 'w) \<Rightarrow> string \<Rightarrow> int \<Rightarrow> 'w server \<Rightarrow> 'w handled" where
  "run_op result msg status ss =
     (case result of
        (Some e, w) \<Rightarrow> refuse msg 424 (ss\<lparr>ss_world := w\<rparr>)
      | (None, w) \<Rightarrow> respond status None (ss\<lparr>ss_world := w\<rparr>))"

definition vm_boot :: "'w srv_env \<Rightarrow> string \<Rightarrow> HttpRequest \<Rightarrow> 'w server \<Rightarrow> 'w handled" where
  "vm_boot sv uuid r ss =
     with_body (Some (js_get_boot (sv_json sv))) r ss (\<lambda>vr o'.
     with_uuid uuid ss (
     with_vm uuid ss (\<lambda>vminfo.
     or_proxy sv (ve_host vminfo) vr ss (
       run_op (Boot_domain (sv_he sv) uuid (bo_CloudInit (the o')) (ss_world ss)) ''could not start VM'' 204 ss))))"

definition vm_shutdown :: "'w srv_env \<Rightarrow> string \<Rightarrow> HttpRequest \<Rightarrow> 'w server \<Rightarrow> 'w handled" where
  "vm_shutdown sv uuid r ss =
     with_body (Some (js_get_shutdown (sv_json sv))) r ss (\<lambda>vr o'.
     with_uuid uuid ss (
       let force = so_Force (the o') in
       if force <s 0 \<or> 2 <s force then refuse ''invalid force field'' 400 ss
       else
         with_vm uuid ss (\<lambda>vminfo.
         or_proxy sv (ve_host vminfo) vr ss (
           run_op (Shutdown_domain (sv_he sv) uuid force (ss_world ss)) ''could not shutdown VM''
             (if force = 0 then 202 else 204) ss))))"

definition vm_pause :: "'w srv_env \<Rightarrow> string \<Rightarrow> HttpRequest \<Rightarrow> 'w server \<Rightarrow> 'w handled" where
  "vm_pause sv uuid r ss =
     with_body (None :: (string \<Rightarrow> unit result) option) r ss (\<lambda>vr o'.
     with_uuid uuid ss (
     with_vm uuid ss (\<lambda>vminfo.
     or_proxy sv (ve_host vminfo) vr ss (
       run_op (Pause_domain (sv_he sv) uuid (ss_world ss)) ''could not pause VM'' 204 ss))))"

definition vm_resume :: "'w srv_env \<Rightarrow> string \<Rightarrow> HttpRequest \<Rightarrow> 'w server \<Rightarrow> 'w handled" where
  "vm_resume sv uuid r ss =
     with_body (None :: (string \<Rightarrow> unit result) option) r ss (\<lambda>vr o'.
     with_uuid uuid ss (
     with_vm uuid ss (\<lambda>vminfo.
     or_proxy sv (ve_host vminfo) vr ss (
       run_op (Resume_domain (sv_he sv) uuid (ss_world ss)) ''could not unpause VM'' 204 ss))))"

section \<open>Migrating\<close>

definition vm_migrate :: "'w srv_env \<Rightarrow> string \<Rightarrow> HttpRequest \<Rightarrow> 'w server \<Rightarrow> 'w handled" where
  "vm_migrate sv uuid r ss =
     with_body (Some (js_get_migrate (sv_json sv))) r ss (\<lambda>vr o'.
     with_uuid uuid ss (
     with_vm uuid ss (\<lambda>vminfo.
       let opts = the o'; state = ve_runstate vminfo in
       if mo_Host opts = '''' then refuse ''Not implemented'' 501 ss
       else if mo_Host opts = ve_host vminfo then refuse ''Cannot migrate to the same host'' 422 ss
       else
         or_proxy sv (ve_host vminfo) vr ss (
           if mo_MigrationType opts = MIGRATION_COLD \<and> \<not> is_off state then refuse ''VM is not powered off'' 422 ss
           else if mo_MigrationType opts = MIGRATION_LIVE \<and> state \<noteq> RUNSTATE_RUNNING \<and> state \<noteq> RUNSTATE_PAUSED
             then refuse ''VM is not running or paused'' 422 ss
           else if mo_MigrationType opts \<noteq> MIGRATION_COLD \<and> mo_MigrationType opts \<noteq> MIGRATION_LIVE
             then refuse ''invalid migration type'' 400 ss
           else
             or_fail ''failed to get host'' 500 ss (Get_hostinfo (mo_Host opts) (ss_inv ss)) (\<lambda>host_new.
               respond 202 None (ss\<lparr>ss_jobs := ss_jobs ss @
                 [\<lparr>jb_hostname = hf_name (hinfo_fields host_new), jb_host_uuid = mo_Host opts, jb_host_old = ve_host vminfo,
                   jb_uuid = uuid, jb_live = (mo_MigrationType opts = MIGRATION_LIVE), jb_vcpus = sint (vmi_vcpus vminfo)\<rparr>]\<rparr>))))))"

text \<open>What the goroutine of a job does; its result is only logged.\<close>

definition run_job :: "'w srv_env \<Rightarrow> job \<Rightarrow> 'w server \<Rightarrow> 'w server" where
  "run_job sv jb ss =
     (case Migrate_domain (sv_he sv) (jb_hostname jb) (jb_host_uuid jb) (jb_host_old jb) (jb_uuid jb) (jb_live jb)
             (jb_vcpus jb) (ss_world ss) (ss_fs ss) of
        (e, w, s) \<Rightarrow> ss\<lparr>ss_world := w, ss_fs := s\<rparr>)"

definition vm_migrate_get :: "'w srv_env \<Rightarrow> string \<Rightarrow> HttpRequest \<Rightarrow> 'w server \<Rightarrow> 'w handled" where
  "vm_migrate_get sv uuid r ss =
     with_body (None :: (string \<Rightarrow> unit result) option) r ss (\<lambda>vr o'.
     with_uuid uuid ss (
     with_vm uuid ss (\<lambda>vminfo.
     or_proxy sv (ve_host vminfo) vr ss (
       (case Get_migration_info (sv_he sv) uuid (ss_world ss) of
          (Inl e, w) \<Rightarrow> refuse ''could not get migration info'' 424 (ss\<lparr>ss_world := w\<rparr>)
        | (Inr info, w) \<Rightarrow> respond_json (js_migration (sv_json sv) info) (ss\<lparr>ss_world := w\<rparr>))))))"

definition vm_migrate_abort :: "'w srv_env \<Rightarrow> string \<Rightarrow> HttpRequest \<Rightarrow> 'w server \<Rightarrow> 'w handled" where
  "vm_migrate_abort sv uuid r ss =
     with_body (None :: (string \<Rightarrow> unit result) option) r ss (\<lambda>vr o'.
     with_uuid uuid ss (
     with_vm uuid ss (\<lambda>vminfo.
     or_proxy sv (ve_host vminfo) vr ss (
       run_op (Abort_migration (sv_he sv) uuid (ss_world ss)) ''could not abort migration'' 204 ss))))"

section \<open>Registering\<close>

definition vm_register_vmreg :: "'w srv_env \<Rightarrow> string \<Rightarrow> string \<Rightarrow> 'w server \<Rightarrow> gerr option \<times> 'w server" where
  "vm_register_vmreg sv host_uuid uuid ss =
     (case rbind (Dumpxml (sv_he sv) uuid (ss_world ss)) (\<lambda>xml. rbind (sv_From_xml sv xml) (\<lambda>vm. Inr (xml, vm))) of
        Inl e \<Rightarrow> (Some e, ss)
      | Inr (xml, vm) \<Rightarrow>
          (case Validate vm of
             Some e \<Rightarrow> (Some e, ss)
           | None \<Rightarrow>
               (case he_save (sv_he sv) (ss_fs ss) of
                  (f, rnd) \<Rightarrow>
                    (case Save f rnd host_uuid uuid xml (ss_fs ss) of (s, e) \<Rightarrow> (e, ss\<lparr>ss_fs := s\<rparr>)))))"

definition vm_register_libvirt :: "'w srv_env \<Rightarrow> string \<Rightarrow> string \<Rightarrow> 'w server \<Rightarrow> gerr option \<times> 'w server" where
  "vm_register_libvirt sv host_uuid uuid ss =
     (case rbind (Load (sv_load sv (ss_fs ss)) host_uuid uuid (ss_fs ss))
             (\<lambda>xml. rbind (sv_From_xml sv xml) (\<lambda>vm. Inr (xml, vm))) of
        Inl e \<Rightarrow> (Some e, ss)
      | Inr (xml, vm) \<Rightarrow>
          (case Validate vm of
             Some e \<Rightarrow> (Some e, ss)
           | None \<Rightarrow> define_vm sv xml uuid ss))"

definition vm_register :: "'w srv_env \<Rightarrow> string \<Rightarrow> HttpRequest \<Rightarrow> 'w server \<Rightarrow> 'w handled" where
  "vm_register sv uuid r ss =
     with_body (Some (js_get_register (sv_json sv))) r ss (\<lambda>vr o'.
     with_uuid uuid ss (
       let host = ro_Host (the o') in
       or_proxy sv host vr ss (
         case Get_vminfo uuid (ss_inv ss) of
           Inr vminfo \<Rightarrow>
             if ve_host vminfo \<noteq> host \<or> ve_host vminfo \<noteq> sv_machine sv
             then refuse ''invalid host for this VM'' 422 ss
             else
               (case vm_register_vmreg sv host uuid ss of
                  (Some e, ss1) \<Rightarrow> refuse ''failed to register uuid'' 424 ss1
                | (None, ss1) \<Rightarrow> respond 200 None ss1)
         | Inl e \<Rightarrow>
             (case vm_register_libvirt sv host uuid ss of
                (Some e, ss1) \<Rightarrow> refuse ''failed to register uuid'' 424 ss1
              | (None, ss1) \<Rightarrow> respond 201 None ss1))))"

section \<open>The route table\<close>

text \<open>A pattern of \<open>ServeMux\<close> as its method and segments; a wildcard takes one segment that is not
  empty. A pattern for GET also takes HEAD.\<close>

datatype handler = VmCreate | VmList | VmUpdate | VmGet | VmDelete | VmRunstateGet | VmBoot | VmShutdown
  | VmPause | VmResume | VmMigrate | VmMigrateGet | VmMigrateAbort | VmRegister | HostList | HostGet

datatype segment = Lit string | Wild

definition routes :: "(string \<times> segment list \<times> handler) list" where
  "routes =
     [(''POST'', [Lit ''vms''], VmCreate),
      (''GET'', [Lit ''vms''], VmList),
      (''PUT'', [Lit ''vms'', Wild], VmUpdate),
      (''GET'', [Lit ''vms'', Wild], VmGet),
      (''DELETE'', [Lit ''vms'', Wild], VmDelete),
      (''GET'', [Lit ''vms'', Wild, Lit ''runstate''], VmRunstateGet),
      (''POST'', [Lit ''vms'', Wild, Lit ''runstate'', Lit ''boot''], VmBoot),
      (''DELETE'', [Lit ''vms'', Wild, Lit ''runstate'', Lit ''boot''], VmShutdown),
      (''POST'', [Lit ''vms'', Wild, Lit ''runstate'', Lit ''pause''], VmPause),
      (''DELETE'', [Lit ''vms'', Wild, Lit ''runstate'', Lit ''pause''], VmResume),
      (''POST'', [Lit ''vms'', Wild, Lit ''runstate'', Lit ''migrate''], VmMigrate),
      (''GET'', [Lit ''vms'', Wild, Lit ''runstate'', Lit ''migrate''], VmMigrateGet),
      (''DELETE'', [Lit ''vms'', Wild, Lit ''runstate'', Lit ''migrate''], VmMigrateAbort),
      (''PUT'', [Lit ''vms'', Wild, Lit ''register''], VmRegister),
      (''GET'', [Lit ''hosts''], HostList),
      (''GET'', [Lit ''hosts'', Wild], HostGet)]"

fun segments_match :: "segment list \<Rightarrow> string list \<Rightarrow> string option" where
  "segments_match [] [] = Some ''''"
| "segments_match (Lit l # ps) (s # ss) = (if l = s then segments_match ps ss else None)"
| "segments_match (Wild # ps) (s # ss) = (if s = '''' then None else map_option (\<lambda>_. s) (segments_match ps ss))"
| "segments_match _ _ = None"

text \<open>A path that is not clean is redirected by the library. The result is the value of \<open>uuid\<close> in
  the path and the handler.\<close>

datatype routed = Handler string handler | Redirect | NotAllowed | NotFound

definition clean_segments :: "string list \<Rightarrow> bool" where
  "clean_segments segs \<longleftrightarrow> (\<forall>s \<in> set (butlast segs). s \<noteq> '''' \<and> s \<noteq> ''.'' \<and> s \<noteq> ''..'') \<and>
     (segs \<noteq> [] \<longrightarrow> last segs \<noteq> ''.'' \<and> last segs \<noteq> ''..'')"

fun first_route :: "string \<Rightarrow> string list \<Rightarrow> (string \<times> segment list \<times> handler) list \<Rightarrow> routed" where
  "first_route meth segs [] = NotFound"
| "first_route meth segs ((m, ps, h) # rs) =
     (case segments_match ps segs of
        None \<Rightarrow> first_route meth segs rs
      | Some u \<Rightarrow> if m = meth \<or> (m = ''GET'' \<and> meth = ''HEAD'') then Handler u h
                  else (case first_route meth segs rs of Handler u' h' \<Rightarrow> Handler u' h' | _ \<Rightarrow> NotAllowed))"

definition route :: "string \<Rightarrow> string \<Rightarrow> routed" where
  "route meth path =
     (case split_on (CHR ''/'') path of
        [] # segs \<Rightarrow> if clean_segments segs then first_route meth segs routes else Redirect
      | _ \<Rightarrow> Redirect)"

definition run_handler :: "'w srv_env \<Rightarrow> handler \<Rightarrow> string \<Rightarrow> HttpRequest \<Rightarrow> 'w server \<Rightarrow> 'w handled" where
  "run_handler sv h uuid = (case h of
     VmCreate \<Rightarrow> vm_create sv | VmList \<Rightarrow> vm_list sv | VmUpdate \<Rightarrow> vm_update sv uuid | VmGet \<Rightarrow> vm_get sv uuid
   | VmDelete \<Rightarrow> vm_delete sv uuid | VmRunstateGet \<Rightarrow> vm_runstate_get sv uuid | VmBoot \<Rightarrow> vm_boot sv uuid
   | VmShutdown \<Rightarrow> vm_shutdown sv uuid | VmPause \<Rightarrow> vm_pause sv uuid | VmResume \<Rightarrow> vm_resume sv uuid
   | VmMigrate \<Rightarrow> vm_migrate sv uuid | VmMigrateGet \<Rightarrow> vm_migrate_get sv uuid
   | VmMigrateAbort \<Rightarrow> vm_migrate_abort sv uuid | VmRegister \<Rightarrow> vm_register sv uuid | HostList \<Rightarrow> host_list sv
   | HostGet \<Rightarrow> host_get sv uuid)"

text \<open>What the library answers by itself.\<close>

definition serve :: "'w srv_env \<Rightarrow> HttpRequest \<Rightarrow> 'w server \<Rightarrow> 'w handled" where
  "serve sv r ss = (case route (rq_Method r) (rq_Path r) of
     Handler uuid h \<Rightarrow> run_handler sv h uuid r ss
   | Redirect \<Rightarrow> refuse '''' 301 ss
   | NotAllowed \<Rightarrow> refuse ''Method Not Allowed'' 405 ss
   | NotFound \<Rightarrow> refuse ''404 page not found'' 404 ss)"

end
