(* ===== verification/Client.thy ===== *)
theory Client
  imports Virtx
begin

text \<open>
  The command line client \<open>virtx\<close>: its commands and flags, the request each makes and what \<open>main\<close>
  does with the answer. Cobra parses the command line: it finds the command by its words, checks the
  number of arguments, sets the variables of the flags and calls \<open>Run\<close>. The tables the client
  prints are not modelled, only which result is shown.
\<close>

section \<open>The client\<close>

text \<open>\<open>virtx.arg\<close> and \<open>virtx.result\<close>, which the source declares as \<open>any\<close>.\<close>

datatype request_arg = NoArg | ArgHostList HostListOptions | ArgVmList VmListOptions | ArgVmCreate VmCreateOptions
  | ArgVmUpdate VmUpdateOptions | ArgVmDelete VmDeleteOptions | ArgVmBoot VmBootOptions
  | ArgVmShutdown VmShutdownOptions | ArgVmMigrate VmMigrateOptions | ArgVmRegister VmRegisterOptions

datatype result_kind = NoResult | ResHost | ResHostList | ResVm | ResVmList | ResRuninfo | ResMigration | ResString

record VirtxClient =
  vc_api_server :: string
  vc_path :: string
  vc_method :: string
  vc_ok :: bool
  vc_force :: int
  vc_disk :: bool
  vc_net :: bool
  vc_stat_disk :: bool
  vc_stat_net :: bool
  vc_stat_cpu :: bool
  vc_stat_mem :: bool
  vc_debug :: bool
  vc_live :: bool
  vc_host_list :: HostListOptions
  vc_vm_list :: VmListOptions
  vc_vm_create :: VmCreateOptions
  vc_vm_update :: VmUpdateOptions
  vc_vm_shutdown :: VmShutdownOptions
  vc_vm_delete :: VmDeleteOptions
  vc_vm_migrate :: VmMigrateOptions
  vc_vm_register :: VmRegisterOptions
  vc_vm_boot :: VmBootOptions
  vc_arg :: request_arg
  vc_result :: result_kind

text \<open>Files and JSON: the file reader, the decoder of a definition and the encoder of an argument,
  where \<open>nil\<close> encodes too.\<close>

record client_env =
  xe_ReadFile :: "string \<Rightarrow> string result"
  xe_vmdef :: "string \<Rightarrow> Vmdef result"
  xe_encode :: "request_arg \<Rightarrow> string result"

definition new_client :: "string \<Rightarrow> VirtxClient" where
  "new_client api_server =
     \<lparr>vc_api_server = api_server, vc_path = '''', vc_method = '''', vc_ok = False, vc_force = 0, vc_disk = False,
      vc_net = False, vc_stat_disk = False, vc_stat_net = False, vc_stat_cpu = False, vc_stat_mem = False,
      vc_debug = False, vc_live = False,
      vc_host_list = \<lparr>hlo_Filter = \<lparr>hf_name = '''', hf_cpuarch = \<lparr>ca_arch = '''', ca_vendor = ''''\<rparr>,
        hf_cpudef = \<lparr>cd_model = '''', cd_nodes = 0, cd_sockets = 0, cd_cores = 0, cd_threads = 0\<rparr>, hf_cstate = 0,
        hf_memoryavailable = 0, hf_hpavailable = 0, hf_osid = '''', hf_osv = '''', hf_ts = 0\<rparr>\<rparr>,
      vc_vm_list = \<lparr>vlo_Filter = \<lparr>vf_name = '''', vf_host = '''', vf_runstate = 0, vf_vlanid = 0,
        vf_custom = \<lparr>cf_name = '''', cf_value = ''''\<rparr>, vf_ts = 0\<rparr>\<rparr>,
      vc_vm_create = \<lparr>co_Vmdef = zero_vmdef, co_Host = ''''\<rparr>,
      vc_vm_update = \<lparr>uo_Vmdef = zero_vmdef, uo_Deletestorage = False\<rparr>, vc_vm_shutdown = \<lparr>so_Force = 0\<rparr>,
      vc_vm_delete = \<lparr>dl_Deletestorage = False\<rparr>, vc_vm_migrate = \<lparr>mo_Host = '''', mo_MigrationType = 0\<rparr>,
      vc_vm_register = \<lparr>ro_Host = ''''\<rparr>, vc_vm_boot = \<lparr>bo_CloudInit = []\<rparr>, vc_arg = NoArg, vc_result = NoResult\<rparr>"

section \<open>The requests\<close>

text \<open>\<open>Inl\<close> is the end of the process with status 1.\<close>

definition read_json :: "client_env \<Rightarrow> string \<Rightarrow> Vmdef result" where
  "read_json env filename = rbind (xe_ReadFile env filename) (xe_vmdef env)"

definition prepare :: "string \<Rightarrow> string \<Rightarrow> request_arg \<Rightarrow> result_kind \<Rightarrow> VirtxClient \<Rightarrow> VirtxClient" where
  "prepare path meth arg res c = c\<lparr>vc_path := path, vc_method := meth, vc_arg := arg, vc_result := res\<rparr>"

definition host_get_req :: "string \<Rightarrow> VirtxClient \<Rightarrow> VirtxClient" where
  "host_get_req arg = prepare (''/hosts/'' @ arg) ''GET'' NoArg ResHost"

definition host_list_req :: "VirtxClient \<Rightarrow> VirtxClient" where
  "host_list_req c = prepare ''/hosts'' ''GET'' (ArgHostList (vc_host_list c)) ResHostList c"

definition read_opt :: "client_env \<Rightarrow> string \<Rightarrow> string \<Rightarrow> VirtxClient \<Rightarrow> VirtxClient result" where
  "read_opt env name path c =
     (if path = '''' then Inr c
      else rbind (xe_ReadFile env path) (\<lambda>data.
        Inr (c\<lparr>vc_vm_boot := \<lparr>bo_CloudInit = bo_CloudInit (vc_vm_boot c) @ [\<lparr>ci_name = name, ci_value = data\<rparr>]\<rparr>\<rparr>)))"

text \<open>The argument is a pointer to the options, so the files read later are in it.\<close>

definition vm_boot_req :: "client_env \<Rightarrow> string \<Rightarrow> string \<Rightarrow> string \<Rightarrow> string \<Rightarrow> VirtxClient \<Rightarrow> VirtxClient result" where
  "vm_boot_req env arg ud_path md_path nc_path c =
     rbind (read_opt env ''ci-userdata'' ud_path c) (\<lambda>c1.
     rbind (read_opt env ''ci-metadata'' md_path c1) (\<lambda>c2.
     rbind (read_opt env ''ci-networkconfig'' nc_path c2) (\<lambda>c3.
     Inr (prepare (''/vms/'' @ arg @ ''/runstate/boot'') ''POST'' (ArgVmBoot (vc_vm_boot c3)) NoResult c3))))"

definition vm_create_req :: "client_env \<Rightarrow> string \<Rightarrow> VirtxClient \<Rightarrow> VirtxClient result" where
  "vm_create_req env arg c =
     rbind (read_json env arg) (\<lambda>vmdef.
     let opts = (vc_vm_create c)\<lparr>co_Vmdef := vmdef\<rparr> in
     Inr (prepare ''/vms'' ''POST'' (ArgVmCreate opts) ResString (c\<lparr>vc_vm_create := opts\<rparr>)))"

definition vm_delete_req :: "string \<Rightarrow> VirtxClient \<Rightarrow> VirtxClient" where
  "vm_delete_req arg c = prepare (''/vms/'' @ arg) ''DELETE'' (ArgVmDelete (vc_vm_delete c)) NoResult c"

definition vm_get_req :: "string \<Rightarrow> VirtxClient \<Rightarrow> VirtxClient" where
  "vm_get_req arg = prepare (''/vms/'' @ arg) ''GET'' NoArg ResVm"

definition vm_list_req :: "VirtxClient \<Rightarrow> VirtxClient" where
  "vm_list_req c = prepare ''/vms'' ''GET'' (ArgVmList (vc_vm_list c)) ResVmList c"

definition vm_migrate_req :: "string \<Rightarrow> VirtxClient \<Rightarrow> VirtxClient" where
  "vm_migrate_req arg c =
     (let opts = (vc_vm_migrate c)\<lparr>mo_MigrationType := (if vc_live c then MIGRATION_LIVE else MIGRATION_COLD)\<rparr> in
      prepare (''/vms/'' @ arg @ ''/runstate/migrate'') ''POST'' (ArgVmMigrate opts) NoResult (c\<lparr>vc_vm_migrate := opts\<rparr>))"

definition vm_migrate_abort_req :: "string \<Rightarrow> VirtxClient \<Rightarrow> VirtxClient" where
  "vm_migrate_abort_req arg = prepare (''/vms/'' @ arg @ ''/runstate/migrate'') ''DELETE'' NoArg NoResult"

definition vm_migrate_get_req :: "string \<Rightarrow> VirtxClient \<Rightarrow> VirtxClient" where
  "vm_migrate_get_req arg = prepare (''/vms/'' @ arg @ ''/runstate/migrate'') ''GET'' NoArg ResMigration"

definition vm_pause_req :: "string \<Rightarrow> VirtxClient \<Rightarrow> VirtxClient" where
  "vm_pause_req arg = prepare (''/vms/'' @ arg @ ''/runstate/pause'') ''POST'' NoArg NoResult"

definition vm_register_req :: "string \<Rightarrow> VirtxClient \<Rightarrow> VirtxClient" where
  "vm_register_req arg c = prepare (''/vms/'' @ arg @ ''/register'') ''PUT'' (ArgVmRegister (vc_vm_register c)) NoResult c"

definition vm_resume_req :: "string \<Rightarrow> VirtxClient \<Rightarrow> VirtxClient" where
  "vm_resume_req arg = prepare (''/vms/'' @ arg @ ''/runstate/pause'') ''DELETE'' NoArg NoResult"

definition vm_runstate_get_req :: "string \<Rightarrow> VirtxClient \<Rightarrow> VirtxClient" where
  "vm_runstate_get_req arg = prepare (''/vms/'' @ arg @ ''/runstate'') ''GET'' NoArg ResRuninfo"

definition vm_shutdown_req :: "string \<Rightarrow> VirtxClient \<Rightarrow> VirtxClient" where
  "vm_shutdown_req arg c =
     (let opts = \<lparr>so_Force = word_of_int (vc_force c)\<rparr> in
      prepare (''/vms/'' @ arg @ ''/runstate/boot'') ''DELETE'' (ArgVmShutdown opts) NoResult (c\<lparr>vc_vm_shutdown := opts\<rparr>))"

definition vm_update_req :: "client_env \<Rightarrow> string \<Rightarrow> string \<Rightarrow> VirtxClient \<Rightarrow> VirtxClient result" where
  "vm_update_req env arg0 arg1 c =
     rbind (read_json env arg1) (\<lambda>vmdef.
     let opts = (vc_vm_update c)\<lparr>uo_Vmdef := vmdef\<rparr> in
     Inr (prepare (''/vms/'' @ arg0) ''PUT'' (ArgVmUpdate opts) NoResult (c\<lparr>vc_vm_update := opts\<rparr>)))"
section \<open>Commands and flags\<close>

text \<open>A flag is bound to a variable of the client, or kept by cobra under its name.\<close>

datatype flag_var = StringVar "string \<Rightarrow> VirtxClient \<Rightarrow> VirtxClient" | Int16Var "i16 \<Rightarrow> VirtxClient \<Rightarrow> VirtxClient"
  | Int32Var "i32 \<Rightarrow> VirtxClient \<Rightarrow> VirtxClient" | BoolVar "bool \<Rightarrow> VirtxClient \<Rightarrow> VirtxClient"
  | CountVar "VirtxClient \<Rightarrow> VirtxClient" | Local

datatype flag_value = VString string | VInt16 i16 | VInt32 i32 | VBool bool | VCount

record flag =
  fg_var :: flag_var
  fg_long :: string
  fg_short :: char

datatype arg_count = AnyArgs | ExactArgs nat | MinimumNArgs nat

text \<open>\<open>cm_shows\<close> is the type to which \<open>Run\<close> asserts the result before it prints it.\<close>

record command =
  cm_use :: string
  cm_args :: arg_count
  cm_flags :: "flag list"
  cm_required :: "string list"
  cm_req :: "client_env \<Rightarrow> string list \<Rightarrow> (string \<Rightarrow> string) \<Rightarrow> VirtxClient \<Rightarrow> VirtxClient result"
  cm_shows :: "result_kind option"

definition flag_of :: "flag_var \<Rightarrow> string \<Rightarrow> char \<Rightarrow> flag" where
  "flag_of var long short = \<lparr>fg_var = var, fg_long = long, fg_short = short\<rparr>"

abbreviation host_filter :: "(HostListFields \<Rightarrow> HostListFields) \<Rightarrow> VirtxClient \<Rightarrow> VirtxClient" where
  "host_filter f c \<equiv> c\<lparr>vc_host_list := (vc_host_list c)\<lparr>hlo_Filter := f (hlo_Filter (vc_host_list c))\<rparr>\<rparr>"

abbreviation vm_filter :: "(VmListFields \<Rightarrow> VmListFields) \<Rightarrow> VirtxClient \<Rightarrow> VirtxClient" where
  "vm_filter f c \<equiv> c\<lparr>vc_vm_list := (vc_vm_list c)\<lparr>vlo_Filter := f (vlo_Filter (vc_vm_list c))\<rparr>\<rparr>"

definition persistent_flags :: "flag list" where
  "persistent_flags =
     [flag_of (StringVar (\<lambda>v c. c\<lparr>vc_api_server := v\<rparr>)) ''api-server'' (CHR ''A''),
      flag_of (BoolVar (\<lambda>v c. c\<lparr>vc_debug := v\<rparr>)) ''debug'' (CHR ''D''),
      flag_of Local ''help'' (CHR ''?'')]"

definition cmd_list_host :: command where
  "cmd_list_host = \<lparr>cm_use = ''host'', cm_args = AnyArgs,
     cm_flags =
       [flag_of (StringVar (\<lambda>v. host_filter (\<lambda>f. f\<lparr>hf_name := v\<rparr>))) ''name'' (CHR ''n''),
        flag_of (StringVar (\<lambda>v. host_filter (\<lambda>f. f\<lparr>hf_cpuarch := (hf_cpuarch f)\<lparr>ca_arch := v\<rparr>\<rparr>))) ''arch'' (CHR ''a''),
        flag_of (StringVar (\<lambda>v. host_filter (\<lambda>f. f\<lparr>hf_cpuarch := (hf_cpuarch f)\<lparr>ca_vendor := v\<rparr>\<rparr>))) ''vendor'' (CHR ''v''),
        flag_of (Int16Var (\<lambda>v. host_filter (\<lambda>f. f\<lparr>hf_cstate := v\<rparr>))) ''state'' (CHR ''s''),
        flag_of (Int32Var (\<lambda>v. host_filter (\<lambda>f. f\<lparr>hf_memoryavailable := v\<rparr>))) ''memory'' (CHR ''m''),
        flag_of (Int32Var (\<lambda>v. host_filter (\<lambda>f. f\<lparr>hf_hpavailable := v\<rparr>))) ''hp'' (CHR ''H'')],
     cm_required = [], cm_req = (\<lambda>env args loc c. Inr (host_list_req c)), cm_shows = Some ResHostList\<rparr>"

definition cmd_list_vm :: command where
  "cmd_list_vm = \<lparr>cm_use = ''vm'', cm_args = AnyArgs,
     cm_flags =
       [flag_of (StringVar (\<lambda>v. vm_filter (\<lambda>f. f\<lparr>vf_name := v\<rparr>))) ''name'' (CHR ''n''),
        flag_of (StringVar (\<lambda>v. vm_filter (\<lambda>f. f\<lparr>vf_host := v\<rparr>))) ''host'' (CHR ''h''),
        flag_of (Int16Var (\<lambda>v. vm_filter (\<lambda>f. f\<lparr>vf_runstate := v\<rparr>))) ''state'' (CHR ''s''),
        flag_of (Int16Var (\<lambda>v. vm_filter (\<lambda>f. f\<lparr>vf_vlanid := v\<rparr>))) ''vlanid'' (CHR ''v''),
        flag_of (StringVar (\<lambda>v. vm_filter (\<lambda>f. f\<lparr>vf_custom := (vf_custom f)\<lparr>cf_name := v\<rparr>\<rparr>))) ''custom-name'' (CHR ''N''),
        flag_of (StringVar (\<lambda>v. vm_filter (\<lambda>f. f\<lparr>vf_custom := (vf_custom f)\<lparr>cf_value := v\<rparr>\<rparr>))) ''custom-value'' (CHR ''V'')],
     cm_required = [], cm_req = (\<lambda>env args loc c. Inr (vm_list_req c)), cm_shows = Some ResVmList\<rparr>"

definition cmd_get_host :: command where
  "cmd_get_host = \<lparr>cm_use = ''host UUID'', cm_args = ExactArgs 1,
     cm_flags =
       [flag_of (BoolVar (\<lambda>v c. c\<lparr>vc_stat_cpu := v\<rparr>)) ''stat-cpu'' (CHR ''C''),
        flag_of (BoolVar (\<lambda>v c. c\<lparr>vc_stat_mem := v\<rparr>)) ''stat-mem'' (CHR ''M'')],
     cm_required = [], cm_req = (\<lambda>env args loc c. Inr (host_get_req (args ! 0) c)), cm_shows = Some ResHost\<rparr>"

definition cmd_get_vm :: command where
  "cmd_get_vm = \<lparr>cm_use = ''vm UUID'', cm_args = ExactArgs 1,
     cm_flags =
       [flag_of (BoolVar (\<lambda>v c. c\<lparr>vc_disk := v\<rparr>)) ''disk'' (CHR ''k''),
        flag_of (BoolVar (\<lambda>v c. c\<lparr>vc_net := v\<rparr>)) ''net'' (CHR ''n''),
        flag_of (BoolVar (\<lambda>v c. c\<lparr>vc_stat_disk := v\<rparr>)) ''stat-disk'' (CHR ''K''),
        flag_of (BoolVar (\<lambda>v c. c\<lparr>vc_stat_net := v\<rparr>)) ''stat-net'' (CHR ''N''),
        flag_of (BoolVar (\<lambda>v c. c\<lparr>vc_stat_cpu := v\<rparr>)) ''stat-cpu'' (CHR ''C''),
        flag_of (BoolVar (\<lambda>v c. c\<lparr>vc_stat_mem := v\<rparr>)) ''stat-mem'' (CHR ''M'')],
     cm_required = [], cm_req = (\<lambda>env args loc c. Inr (vm_get_req (args ! 0) c)), cm_shows = Some ResVm\<rparr>"

definition cmd_get_runstate_vm :: command where
  "cmd_get_runstate_vm = \<lparr>cm_use = ''vm UUID'', cm_args = ExactArgs 1, cm_flags = [], cm_required = [],
     cm_req = (\<lambda>env args loc c. Inr (vm_runstate_get_req (args ! 0) c)), cm_shows = Some ResRuninfo\<rparr>"

definition cmd_get_migrate_vm :: command where
  "cmd_get_migrate_vm = \<lparr>cm_use = ''vm UUID'', cm_args = ExactArgs 1, cm_flags = [], cm_required = [],
     cm_req = (\<lambda>env args loc c. Inr (vm_migrate_get_req (args ! 0) c)), cm_shows = Some ResMigration\<rparr>"

definition cmd_create_vm :: command where
  "cmd_create_vm = \<lparr>cm_use = ''vm FILENAME'', cm_args = ExactArgs 1,
     cm_flags = [flag_of (StringVar (\<lambda>v c. c\<lparr>vc_vm_create := (vc_vm_create c)\<lparr>co_Host := v\<rparr>\<rparr>)) ''host'' (CHR ''h'')],
     cm_required = [], cm_req = (\<lambda>env args loc c. vm_create_req env (args ! 0) c), cm_shows = Some ResString\<rparr>"

definition cmd_update_vm :: command where
  "cmd_update_vm = \<lparr>cm_use = ''vm UUID FILENAME'', cm_args = ExactArgs 2,
     cm_flags = [flag_of (BoolVar (\<lambda>v c. c\<lparr>vc_vm_update := (vc_vm_update c)\<lparr>uo_Deletestorage := v\<rparr>\<rparr>)) ''storage'' (CHR ''s'')],
     cm_required = [], cm_req = (\<lambda>env args loc c. vm_update_req env (args ! 0) (args ! 1) c), cm_shows = None\<rparr>"

definition cmd_delete_vm :: command where
  "cmd_delete_vm = \<lparr>cm_use = ''vm UUID'', cm_args = ExactArgs 1,
     cm_flags = [flag_of (BoolVar (\<lambda>v c. c\<lparr>vc_vm_delete := \<lparr>dl_Deletestorage = v\<rparr>\<rparr>)) ''storage'' (CHR ''s'')],
     cm_required = [], cm_req = (\<lambda>env args loc c. Inr (vm_delete_req (args ! 0) c)), cm_shows = None\<rparr>"

definition cmd_boot_vm :: command where
  "cmd_boot_vm = \<lparr>cm_use = ''vm UUID'', cm_args = ExactArgs 1,
     cm_flags = [flag_of Local ''ci-userdata'' (CHR ''u''), flag_of Local ''ci-metadata'' (CHR ''m''),
                 flag_of Local ''ci-networkconfig'' (CHR ''c'')],
     cm_required = [],
     cm_req = (\<lambda>env args loc c. vm_boot_req env (args ! 0) (loc ''ci-userdata'') (loc ''ci-metadata'') (loc ''ci-networkconfig'') c),
     cm_shows = None\<rparr>"

definition cmd_shutdown_vm :: command where
  "cmd_shutdown_vm = \<lparr>cm_use = ''vm UUID'', cm_args = ExactArgs 1,
     cm_flags = [flag_of (CountVar (\<lambda>c. c\<lparr>vc_force := vc_force c + 1\<rparr>)) ''force'' (CHR ''f'')],
     cm_required = [], cm_req = (\<lambda>env args loc c. Inr (vm_shutdown_req (args ! 0) c)), cm_shows = None\<rparr>"

definition cmd_pause_vm :: command where
  "cmd_pause_vm = \<lparr>cm_use = ''vm UUID'', cm_args = ExactArgs 1, cm_flags = [], cm_required = [],
     cm_req = (\<lambda>env args loc c. Inr (vm_pause_req (args ! 0) c)), cm_shows = None\<rparr>"

definition cmd_resume_vm :: command where
  "cmd_resume_vm = \<lparr>cm_use = ''vm UUID'', cm_args = ExactArgs 1, cm_flags = [], cm_required = [],
     cm_req = (\<lambda>env args loc c. Inr (vm_resume_req (args ! 0) c)), cm_shows = None\<rparr>"

definition cmd_migrate_vm :: command where
  "cmd_migrate_vm = \<lparr>cm_use = ''vm UUID'', cm_args = MinimumNArgs 1,
     cm_flags =
       [flag_of (BoolVar (\<lambda>v c. c\<lparr>vc_live := v\<rparr>)) ''live'' (CHR ''l''),
        flag_of (StringVar (\<lambda>v c. c\<lparr>vc_vm_migrate := (vc_vm_migrate c)\<lparr>mo_Host := v\<rparr>\<rparr>)) ''host'' (CHR ''h'')],
     cm_required = [], cm_req = (\<lambda>env args loc c. Inr (vm_migrate_req (args ! 0) c)), cm_shows = None\<rparr>"

definition cmd_abort_migrate_vm :: command where
  "cmd_abort_migrate_vm = \<lparr>cm_use = ''vm UUID'', cm_args = ExactArgs 1, cm_flags = [], cm_required = [],
     cm_req = (\<lambda>env args loc c. Inr (vm_migrate_abort_req (args ! 0) c)), cm_shows = None\<rparr>"

definition cmd_register_vm :: command where
  "cmd_register_vm = \<lparr>cm_use = ''vm --host HOST_UUID VM_UUID'', cm_args = ExactArgs 1,
     cm_flags = [flag_of (StringVar (\<lambda>v c. c\<lparr>vc_vm_register := \<lparr>ro_Host = v\<rparr>\<rparr>)) ''host'' (CHR ''h'')],
     cm_required = [''host''], cm_req = (\<lambda>env args loc c. Inr (vm_register_req (args ! 0) c)), cm_shows = None\<rparr>"
section \<open>The command line\<close>

text \<open>The commands as \<open>AddCommand\<close> puts them together; a group has no \<open>Run\<close>.\<close>

datatype cmd_tree = Group string "cmd_tree list" | Leaf command

definition commands :: "cmd_tree list" where
  "commands =
     [Group ''list'' [Leaf cmd_list_host, Leaf cmd_list_vm],
      Group ''get'' [Leaf cmd_get_host, Leaf cmd_get_vm, Group ''runstate'' [Leaf cmd_get_runstate_vm],
                     Group ''migrate'' [Leaf cmd_get_migrate_vm]],
      Group ''create'' [Leaf cmd_create_vm],
      Group ''update'' [Leaf cmd_update_vm],
      Group ''delete'' [Leaf cmd_delete_vm],
      Group ''boot'' [Leaf cmd_boot_vm],
      Group ''shutdown'' [Leaf cmd_shutdown_vm],
      Group ''pause'' [Leaf cmd_pause_vm],
      Group ''resume'' [Leaf cmd_resume_vm],
      Group ''migrate'' [Leaf cmd_migrate_vm],
      Group ''abort'' [Group ''migrate'' [Leaf cmd_abort_migrate_vm]],
      Group ''register'' [Leaf cmd_register_vm]]"

text \<open>What cobra does with the words of the command line that are not flags: the name of a command is
  the first word of its \<open>Use\<close>; a group without a matching command prints its help, only the
  outermost one calls that an error.\<close>

datatype found = Found command "string list" | Help | Unknown

definition cmd_name :: "cmd_tree \<Rightarrow> string" where
  "cmd_name t = takeWhile (\<lambda>ch. ch \<noteq> CHR '' '') (case t of Group n ts \<Rightarrow> n | Leaf cm \<Rightarrow> cm_use cm)"

fun find_command :: "found \<Rightarrow> string list \<Rightarrow> cmd_tree list \<Rightarrow> found" where
  "find_command missing [] ts = Help"
| "find_command missing (w # ws) [] = missing"
| "find_command missing (w # ws) (Leaf cm # ts) =
     (if cmd_name (Leaf cm) = w then Found cm ws else find_command missing (w # ws) ts)"
| "find_command missing (w # ws) (Group n sub # ts) =
     (if cmd_name (Group n sub) = w then find_command Help ws sub else find_command missing (w # ws) ts)"

definition args_ok :: "arg_count \<Rightarrow> nat \<Rightarrow> bool" where
  "args_ok ac n = (case ac of AnyArgs \<Rightarrow> True | ExactArgs m \<Rightarrow> n = m | MinimumNArgs m \<Rightarrow> m \<le> n)"

definition set_flag :: "flag list \<Rightarrow> string \<times> flag_value \<Rightarrow> VirtxClient \<Rightarrow> VirtxClient result" where
  "set_flag flags given c =
     (case find (\<lambda>f. fg_long f = fst given) flags of
        None \<Rightarrow> Inl (Msg ''unknown flag'')
      | Some f \<Rightarrow>
          (case (fg_var f, snd given) of
             (StringVar s, VString v) \<Rightarrow> Inr (s v c)
           | (Int16Var s, VInt16 v) \<Rightarrow> Inr (s v c)
           | (Int32Var s, VInt32 v) \<Rightarrow> Inr (s v c)
           | (BoolVar s, VBool v) \<Rightarrow> Inr (s v c)
           | (CountVar s, VCount) \<Rightarrow> Inr (s c)
           | (Local, VString v) \<Rightarrow> Inr c
           | _ \<Rightarrow> Inl (Msg ''invalid argument'')))"

fun set_flags :: "flag list \<Rightarrow> (string \<times> flag_value) list \<Rightarrow> VirtxClient \<Rightarrow> VirtxClient result" where
  "set_flags flags [] c = Inr c"
| "set_flags flags (g # gs) c = rbind (set_flag flags g c) (set_flags flags gs)"

definition local_flag :: "(string \<times> flag_value) list \<Rightarrow> string \<Rightarrow> string" where
  "local_flag given name = (case map_of (rev given) name of Some (VString v) \<Rightarrow> v | _ \<Rightarrow> '''')"

text \<open>A run of the commands. The second run, with \<open>ok\<close> set, prints: the result is the type to which it
  is asserted, where there is one.\<close>

datatype ran = Prepared VirtxClient | Print "result_kind option"

definition cmd_exec :: "client_env \<Rightarrow> string list \<Rightarrow> (string \<times> flag_value) list \<Rightarrow> VirtxClient \<Rightarrow> ran result" where
  "cmd_exec env words given c =
     (case find_command Unknown words commands of
        Unknown \<Rightarrow> Inl (Msg ''unknown command'')
      | Help \<Rightarrow> Inr (Prepared c)
      | Found cm args \<Rightarrow>
          rbind (set_flags (cm_flags cm @ persistent_flags) given c) (\<lambda>c1.
          if \<not> args_ok (cm_args cm) (length args) then Inl (Msg ''wrong number of args'')
          else if \<not> set (cm_required cm) \<subseteq> fst ` set given then Inl (Msg ''required flag not set'')
          else if vc_ok c1 then Inr (Print (if vc_result c1 = NoResult then None else cm_shows cm))
          else rbind (cm_req cm env args (local_flag given) c1) (\<lambda>c2. Inr (Prepared c2))))"

section \<open>The program\<close>

text \<open>\<open>api_server\<close> is the variable \<open>VIRTX_API_SERVER\<close>. How the program ends: an error and status 1, nothing to send, the result printed, a success
  without one, the text of a status that is no success, or a type assertion that fails.\<close>

datatype 'v outcome = ExitError | NothingToSend | Printed result_kind 'v | Succeeded | Failed int | Panic

definition client_main ::
  "client_env \<Rightarrow> 'n http_net \<Rightarrow> (result_kind \<Rightarrow> string \<Rightarrow> 'v result) \<Rightarrow> string list \<Rightarrow> (string \<times> flag_value) list \<Rightarrow>
     string \<Rightarrow> 'n \<Rightarrow> 'v outcome \<times> 'n" where
  "client_main env net decode words given api_server n =
     (case cmd_exec env words given (new_client api_server) of
        Inl e \<Rightarrow> (ExitError, n)
      | Inr (Print k) \<Rightarrow> (Succeeded, n)
      | Inr (Prepared c1) \<Rightarrow>
          if vc_path c1 = '''' then (NothingToSend, n)
          else
            (case Do_request net (vc_api_server c1) (vc_method c1) (vc_path c1) (xe_encode env (vc_arg c1)) n of
               (Inl e, n1) \<Rightarrow> (ExitError, n1)
             | (Inr response, n1) \<Rightarrow>
                 (case (if vc_result c1 = NoResult then Inr None else Decode_response_body (Some (decode (vc_result c1))) response) of
                    Inl e \<Rightarrow> (ExitError, n1)
                  | Inr result \<Rightarrow>
                      if 200 \<le> rs_Status response \<and> rs_Status response \<le> 299 then
                        (case (cmd_exec env words given (c1\<lparr>vc_ok := True\<rparr>), result) of
                           (Inr (Print (Some k)), Some v) \<Rightarrow> (if k = vc_result c1 then Printed k v else Panic, n1)
                         | _ \<Rightarrow> (Succeeded, n1))
                      else (Failed (rs_Status response), n1))))"

end
