(* ===== verification/Json_Model.thy ===== *)
theory Json_Model
  imports Json_Props Client
begin

text \<open>
  The structs of \<open>pkg/model\<close> as package \<open>encoding/json\<close> sees them: their types with the names of the
  tags and the generated \<open>UnmarshalJSON\<close> of the enumerations, the values of the records of the model,
  and from these the decoders and encoders of the handlers and of the client.
\<close>

section \<open>Enumerations\<close>

definition AllowedNetType :: "NetType list" where
  "AllowedNetType = [0, 1]"
definition AllowedCstate :: "Cstate list" where
  "AllowedCstate = [0, 1, 2, 3]"
definition AllowedVmrunstate :: "Vmrunstate list" where
  "AllowedVmrunstate = [0, 1, 2, 3, 4, 5, 6, 7, 8, 9]"
definition AllowedMigrationType :: "MigrationType list" where
  "AllowedMigrationType = [0, 1]"

text \<open>Each has the same method \<open>UnmarshalJSON\<close>, a search in its table.\<close>

definition ty_DiskDevice :: jty where
  "ty_DiskDevice = TEnum AllowedDiskDevice"
definition ty_DiskBus :: jty where
  "ty_DiskBus = TEnum AllowedDiskBus"
definition ty_DiskManMode :: jty where
  "ty_DiskManMode = TEnum AllowedDiskManMode"
definition ty_DiskProvMode :: jty where
  "ty_DiskProvMode = TEnum AllowedDiskProvMode"
definition ty_NetType :: jty where
  "ty_NetType = TEnum AllowedNetType"
definition ty_NetModel :: jty where
  "ty_NetModel = TEnum AllowedNetModel"
definition ty_FirmwareType :: jty where
  "ty_FirmwareType = TEnum AllowedFirmwareType"
definition ty_Cstate :: jty where
  "ty_Cstate = TEnum AllowedCstate"
definition ty_Vmrunstate :: jty where
  "ty_Vmrunstate = TEnum AllowedVmrunstate"
definition ty_MigrationType :: jty where
  "ty_MigrationType = TEnum AllowedMigrationType"
definition ty_MigrationState :: jty where
  "ty_MigrationState = TEnum AllowedMigrationState"

section \<open>Structs\<close>

definition ty_CustomField :: jty where
  "ty_CustomField = TStruct
     [(''name'', TStr), (''value'', TStr)]"

definition ty_Disk :: jty where
  "ty_Disk = TStruct
     [(''path'', TStr), (''device'', ty_DiskDevice), (''bus'', ty_DiskBus), (''man'', ty_DiskManMode),
      (''prov'', ty_DiskProvMode), (''size'', TInt 32)]"

definition ty_Net :: jty where
  "ty_Net = TStruct
     [(''name'', TStr), (''nettype'', ty_NetType), (''model'', ty_NetModel), (''mac'', TStr)]"

definition ty_Cpuarch :: jty where
  "ty_Cpuarch = TStruct
     [(''arch'', TStr), (''vendor'', TStr)]"

definition ty_Cpudef :: jty where
  "ty_Cpudef = TStruct
     [(''model'', TStr), (''nodes'', TInt 16), (''sockets'', TInt 16), (''cores'', TInt 16), (''threads'', TInt 16)]"

definition ty_VmdefMemory :: jty where
  "ty_VmdefMemory = TStruct
     [(''total'', TInt 32), (''hp'', TBool)]"

definition ty_Numa :: jty where
  "ty_Numa = TStruct
     [(''placement'', TBool)]"

definition ty_Vmdef :: jty where
  "ty_Vmdef = TStruct
     [(''name'', TStr), (''cpudef'', ty_Cpudef), (''memory'', ty_VmdefMemory), (''numa'', ty_Numa),
      (''osdisk'', ty_Disk), (''disks'', TSlice ty_Disk), (''nets'', TSlice ty_Net), (''vlanid'', TInt 16),
      (''firmware'', ty_FirmwareType), (''genid'', TStr), (''custom'', TSlice ty_CustomField)]"

definition ty_CloudInitOption :: jty where
  "ty_CloudInitOption = TStruct
     [(''name'', TStr), (''value'', TStr)]"

definition ty_HostListFields :: jty where
  "ty_HostListFields = TStruct
     [(''name'', TStr), (''cpuarch'', ty_Cpuarch), (''cpudef'', ty_Cpudef), (''cstate'', ty_Cstate),
      (''memoryavailable'', TInt 32), (''hpavailable'', TInt 32), (''osid'', TStr), (''osv'', TStr),
      (''ts'', TInt 64)]"

definition ty_HostListItem :: jty where
  "ty_HostListItem = TStruct
     [(''uuid'', TStr), (''fields'', ty_HostListFields)]"

definition ty_VmListFields :: jty where
  "ty_VmListFields = TStruct
     [(''name'', TStr), (''host'', TStr), (''runstate'', ty_Vmrunstate), (''vlanid'', TInt 16),
      (''custom'', ty_CustomField), (''ts'', TInt 64)]"

definition ty_VmListItem :: jty where
  "ty_VmListItem = TStruct
     [(''uuid'', TStr), (''fields'', ty_VmListFields)]"

definition ty_HostListOptions :: jty where
  "ty_HostListOptions = TStruct
     [(''filter'', ty_HostListFields)]"

definition ty_VmListOptions :: jty where
  "ty_VmListOptions = TStruct
     [(''filter'', ty_VmListFields)]"

definition ty_VmCreateOptions :: jty where
  "ty_VmCreateOptions = TStruct
     [(''vmdef'', ty_Vmdef), (''host'', TStr)]"

definition ty_VmUpdateOptions :: jty where
  "ty_VmUpdateOptions = TStruct
     [(''vmdef'', ty_Vmdef), (''deletestorage'', TBool)]"

definition ty_VmDeleteOptions :: jty where
  "ty_VmDeleteOptions = TStruct
     [(''deletestorage'', TBool)]"

definition ty_VmBootOptions :: jty where
  "ty_VmBootOptions = TStruct
     [(''cloud_init'', TSlice ty_CloudInitOption)]"

definition ty_VmShutdownOptions :: jty where
  "ty_VmShutdownOptions = TStruct
     [(''force'', TInt 16)]"

definition ty_VmMigrateOptions :: jty where
  "ty_VmMigrateOptions = TStruct
     [(''host'', TStr), (''migration_type'', ty_MigrationType)]"

definition ty_VmRegisterOptions :: jty where
  "ty_VmRegisterOptions = TStruct
     [(''host'', TStr)]"

definition ty_HostList :: jty where
  "ty_HostList = TStruct
     [(''items'', TSlice ty_HostListItem)]"

definition ty_VmList :: jty where
  "ty_VmList = TStruct
     [(''items'', TSlice ty_VmListItem)]"

definition ty_Vmruninfo :: jty where
  "ty_Vmruninfo = TStruct
     [(''runstate'', ty_Vmrunstate), (''host'', TStr)]"

definition ty_OplogItem :: jty where
  "ty_OplogItem = TStruct
     [(''op'', TStr), (''ts'', TInt 64), (''te'', TInt 64), (''status'', TStr), (''msg'', TStr)]"

definition ty_OplogList :: jty where
  "ty_OplogList = TStruct
     [(''items'', TSlice ty_OplogItem)]"

definition ty_Vmstats :: jty where
  "ty_Vmstats = TStruct
     [(''cpu_utilization'', TInt 32), (''mhz_used'', TInt 32), (''memory_capacity'', TInt 64),
      (''memory_used'', TInt 64), (''disk_capacity'', TInt 64), (''disk_allocation'', TInt 64),
      (''disk_physical'', TInt 64), (''net_rx_bw'', TInt 32), (''net_tx_bw'', TInt 32), (''oplog'', ty_OplogList)]"

definition ty_Vm :: jty where
  "ty_Vm = TStruct
     [(''uuid'', TStr), (''def'', ty_Vmdef), (''runinfo'', ty_Vmruninfo), (''stats'', ty_Vmstats), (''ts'', TInt 64)]"

definition ty_HostdefSysinfo :: jty where
  "ty_HostdefSysinfo = TStruct
     [(''version'', TStr), (''date'', TStr)]"

definition ty_Hostdef :: jty where
  "ty_Hostdef = TStruct
     [(''name'', TStr), (''cpuarch'', ty_Cpuarch), (''cpudef'', ty_Cpudef), (''tscfreq'', TInt 64),
      (''sysinfo'', ty_HostdefSysinfo), (''osid'', TStr), (''osv'', TStr)]"

definition ty_Hostresource :: jty where
  "ty_Hostresource = TStruct
     [(''total'', TInt 32), (''used'', TInt 32), (''free'', TInt 32), (''usedos'', TInt 32),
      (''reservedvms'', TInt 32), (''usedvms'', TInt 32), (''availablevms'', TInt 32)]"

definition ty_Hostresources :: jty where
  "ty_Hostresources = TStruct
     [(''memory'', ty_Hostresource), (''hp'', ty_Hostresource), (''cpu'', ty_Hostresource)]"

definition ty_Host :: jty where
  "ty_Host = TStruct
     [(''uuid'', TStr), (''def'', ty_Hostdef), (''cstate'', ty_Cstate), (''lockid'', TInt 16),
      (''resources'', ty_Hostresources), (''ts'', TInt 64)]"

lemmas ty_defs =
  ty_DiskDevice_def ty_DiskBus_def ty_DiskManMode_def ty_DiskProvMode_def ty_NetType_def ty_NetModel_def
  ty_FirmwareType_def ty_Cstate_def ty_Vmrunstate_def ty_MigrationType_def ty_MigrationState_def
  ty_CustomField_def ty_Disk_def ty_Net_def ty_Cpuarch_def ty_Cpudef_def ty_VmdefMemory_def ty_Numa_def
  ty_Vmdef_def ty_CloudInitOption_def ty_HostListFields_def ty_HostListItem_def ty_VmListFields_def
  ty_VmListItem_def ty_HostListOptions_def ty_VmListOptions_def ty_VmCreateOptions_def
  ty_VmUpdateOptions_def ty_VmDeleteOptions_def ty_VmBootOptions_def ty_VmShutdownOptions_def
  ty_VmMigrateOptions_def ty_VmRegisterOptions_def ty_HostList_def ty_VmList_def ty_Vmruninfo_def
  ty_OplogItem_def ty_OplogList_def ty_Vmstats_def ty_Vm_def ty_HostdefSysinfo_def ty_Hostdef_def
  ty_Hostresource_def ty_Hostresources_def ty_Host_def
  AllowedDiskDevice_def AllowedDiskBus_def AllowedDiskManMode_def AllowedDiskProvMode_def AllowedNetType_def
  AllowedNetModel_def
  AllowedFirmwareType_def AllowedCstate_def AllowedVmrunstate_def AllowedMigrationType_def AllowedMigrationState_def

section \<open>Values\<close>

definition go_slice :: "('a \<Rightarrow> jgo) \<Rightarrow> 'a list \<Rightarrow> jgo" where
  "go_slice f xs = GSlice (map f xs) (length xs)"

definition go_CustomField :: "CustomField \<Rightarrow> jgo" where
  "go_CustomField r = GStruct
     [GStr (cf_name r), GStr (cf_value r)]"

definition go_Disk :: "Disk \<Rightarrow> jgo" where
  "go_Disk r = GStruct
     [GStr (disk_path r), GInt (sint (disk_device r)), GInt (sint (disk_bus r)), GInt (sint (disk_man r)),
      GInt (sint (disk_prov r)), GInt (sint (disk_size r))]"

definition go_Net :: "Net \<Rightarrow> jgo" where
  "go_Net r = GStruct
     [GStr (net_name r), GInt (sint (net_nettype r)), GInt (sint (net_model r)), GStr (net_mac r)]"

definition go_Cpuarch :: "Cpuarch \<Rightarrow> jgo" where
  "go_Cpuarch r = GStruct
     [GStr (ca_arch r), GStr (ca_vendor r)]"

definition go_Cpudef :: "Cpudef \<Rightarrow> jgo" where
  "go_Cpudef r = GStruct
     [GStr (cd_model r), GInt (sint (cd_nodes r)), GInt (sint (cd_sockets r)), GInt (sint (cd_cores r)),
      GInt (sint (cd_threads r))]"

definition go_VmdefMemory :: "VmdefMemory \<Rightarrow> jgo" where
  "go_VmdefMemory r = GStruct
     [GInt (sint (mem_total r)), GBool (mem_hp r)]"

definition go_Numa :: "Numa \<Rightarrow> jgo" where
  "go_Numa r = GStruct
     [GBool (numa_placement r)]"

definition go_Vmdef :: "Vmdef \<Rightarrow> jgo" where
  "go_Vmdef r = GStruct
     [GStr (vm_name r), go_Cpudef (vm_cpudef r), go_VmdefMemory (vm_memory r), go_Numa (vm_numa r),
      go_Disk (vm_osdisk r), go_slice go_Disk (vm_disks r), go_slice go_Net (vm_nets r), GInt (sint (vm_vlanid r)),
      GInt (sint (vm_firmware r)), GStr (vm_genid r), go_slice go_CustomField (vm_custom r)]"

definition go_CloudInitOption :: "CloudInitOption \<Rightarrow> jgo" where
  "go_CloudInitOption r = GStruct
     [GStr (ci_name r), GStr (ci_value r)]"

definition go_HostListFields :: "HostListFields \<Rightarrow> jgo" where
  "go_HostListFields r = GStruct
     [GStr (hf_name r), go_Cpuarch (hf_cpuarch r), go_Cpudef (hf_cpudef r), GInt (sint (hf_cstate r)),
      GInt (sint (hf_memoryavailable r)), GInt (sint (hf_hpavailable r)), GStr (hf_osid r), GStr (hf_osv r),
      GInt (sint (hf_ts r))]"

definition go_HostListItem :: "HostListItem \<Rightarrow> jgo" where
  "go_HostListItem r = GStruct
     [GStr (hi_uuid r), go_HostListFields (hi_fields r)]"

definition go_VmListFields :: "VmListFields \<Rightarrow> jgo" where
  "go_VmListFields r = GStruct
     [GStr (vf_name r), GStr (vf_host r), GInt (sint (vf_runstate r)), GInt (sint (vf_vlanid r)),
      go_CustomField (vf_custom r), GInt (sint (vf_ts r))]"

definition go_VmListItem :: "VmListItem \<Rightarrow> jgo" where
  "go_VmListItem r = GStruct
     [GStr (vi_uuid r), go_VmListFields (vi_fields r)]"

definition go_HostListOptions :: "HostListOptions \<Rightarrow> jgo" where
  "go_HostListOptions r = GStruct
     [go_HostListFields (hlo_Filter r)]"

definition go_VmListOptions :: "VmListOptions \<Rightarrow> jgo" where
  "go_VmListOptions r = GStruct
     [go_VmListFields (vlo_Filter r)]"

definition go_VmCreateOptions :: "VmCreateOptions \<Rightarrow> jgo" where
  "go_VmCreateOptions r = GStruct
     [go_Vmdef (co_Vmdef r), GStr (co_Host r)]"

definition go_VmUpdateOptions :: "VmUpdateOptions \<Rightarrow> jgo" where
  "go_VmUpdateOptions r = GStruct
     [go_Vmdef (uo_Vmdef r), GBool (uo_Deletestorage r)]"

definition go_VmDeleteOptions :: "VmDeleteOptions \<Rightarrow> jgo" where
  "go_VmDeleteOptions r = GStruct
     [GBool (dl_Deletestorage r)]"

definition go_VmBootOptions :: "VmBootOptions \<Rightarrow> jgo" where
  "go_VmBootOptions r = GStruct
     [go_slice go_CloudInitOption (bo_CloudInit r)]"

definition go_VmShutdownOptions :: "VmShutdownOptions \<Rightarrow> jgo" where
  "go_VmShutdownOptions r = GStruct
     [GInt (sint (so_Force r))]"

definition go_VmMigrateOptions :: "VmMigrateOptions \<Rightarrow> jgo" where
  "go_VmMigrateOptions r = GStruct
     [GStr (mo_Host r), GInt (sint (mo_MigrationType r))]"

definition go_VmRegisterOptions :: "VmRegisterOptions \<Rightarrow> jgo" where
  "go_VmRegisterOptions r = GStruct
     [GStr (ro_Host r)]"

definition go_Vmruninfo :: "Vmruninfo \<Rightarrow> jgo" where
  "go_Vmruninfo r = GStruct
     [GInt (sint (ri_Runstate r)), GStr (ri_Host r)]"

definition go_OplogItem :: "OplogItem \<Rightarrow> jgo" where
  "go_OplogItem r = GStruct
     [GStr (oi_Op r), GInt (sint (oi_Ts r)), GInt (sint (oi_Te r)), GStr (oi_Status r), GStr (oi_Msg r)]"

definition go_Vmstats :: "Vmstats \<Rightarrow> jgo" where
  "go_Vmstats r = GStruct
     [GInt (sint (vs_CpuUtilization r)), GInt (sint (vs_MhzUsed r)), GInt (sint (vs_MemoryCapacity r)),
      GInt (sint (vs_MemoryUsed r)), GInt (sint (vs_DiskCapacity r)), GInt (sint (vs_DiskAllocation r)),
      GInt (sint (vs_DiskPhysical r)), GInt (sint (vs_NetRxBw r)), GInt (sint (vs_NetTxBw r)),
      GStruct [go_slice go_OplogItem (vs_Oplog r)]]"

definition go_Vm :: "Vm \<Rightarrow> jgo" where
  "go_Vm r = GStruct
     [GStr (v_Uuid r), go_Vmdef (v_Def r), go_Vmruninfo (v_Runinfo r), go_Vmstats (v_Stats r), GInt (sint (v_Ts r))]"

definition go_Hostresource :: "Hostresource \<Rightarrow> jgo" where
  "go_Hostresource r = GStruct
     [GInt (sint (hr_Total r)), GInt (sint (hr_Used r)), GInt (sint (hr_Free r)), GInt (sint (hr_Usedos r)),
      GInt (sint (hr_Reservedvms r)), GInt (sint (hr_Usedvms r)), GInt (sint (hr_Availablevms r))]"

definition go_Hostresources :: "Hostresources \<Rightarrow> jgo" where
  "go_Hostresources r = GStruct
     [go_Hostresource (hrs_Memory r), go_Hostresource (hrs_Hp r), go_Hostresource (hrs_Cpu r)]"

definition go_Host :: "Host \<Rightarrow> jgo" where
  "go_Host r = GStruct
     [GStr (ho_Uuid r),
      GStruct [GStr (ho_Name r), go_Cpuarch (ho_Cpuarch r), go_Cpudef (ho_Cpudef r), GInt (sint (ho_Tscfreq r)),
        GStruct [GStr (fst (ho_Sysinfo r)), GStr (snd (ho_Sysinfo r))], GStr (ho_Osid r), GStr (ho_Osv r)],
      GInt (sint (ho_Cstate r)), GInt (sint (ho_Lockid r)), go_Hostresources (ho_Resources r), GInt (sint (ho_Ts r))]"

lemmas go_defs = go_slice_def go_Host_def
  go_CustomField_def go_Disk_def go_Net_def go_Cpuarch_def go_Cpudef_def go_VmdefMemory_def go_Numa_def
  go_Vmdef_def go_CloudInitOption_def go_HostListFields_def go_HostListItem_def go_VmListFields_def
  go_VmListItem_def go_HostListOptions_def go_VmListOptions_def go_VmCreateOptions_def
  go_VmUpdateOptions_def go_VmDeleteOptions_def go_VmBootOptions_def go_VmShutdownOptions_def
  go_VmMigrateOptions_def go_VmRegisterOptions_def go_Vmruninfo_def go_OplogItem_def go_Vmstats_def
  go_Vm_def go_Hostresource_def go_Hostresources_def

text \<open>Reading the fields of a value back into the record.\<close>

fun bool_field :: "jgo \<Rightarrow> bool" where "bool_field (GBool b) = b" | "bool_field x = False"
fun int_field :: "jgo \<Rightarrow> int" where "int_field (GInt i) = i" | "int_field x = 0"
fun str_field :: "jgo \<Rightarrow> string" where "str_field (GStr s) = s" | "str_field x = []"
fun field :: "jgo \<Rightarrow> nat \<Rightarrow> jgo" where "field (GStruct xs) i = xs ! i" | "field x i = GStr []"
fun slice_of :: "(jgo \<Rightarrow> 'a) \<Rightarrow> jgo \<Rightarrow> 'a list" where "slice_of f (GSlice m n) = map f (take n m)" | "slice_of f x = []"

lemma slice_of_go [simp]: "(\<And>x. f (g x) = x) \<Longrightarrow> slice_of f (go_slice g xs) = xs"
  by (simp add: go_slice_def map_idI)

definition of_CustomField :: "jgo \<Rightarrow> CustomField" where
  "of_CustomField x =
     \<lparr>cf_name = str_field (field x 0), cf_value = str_field (field x 1)\<rparr>"

definition of_Disk :: "jgo \<Rightarrow> Disk" where
  "of_Disk x =
     \<lparr>disk_path = str_field (field x 0), disk_device = word_of_int (int_field (field x 1)),
      disk_bus = word_of_int (int_field (field x 2)), disk_man = word_of_int (int_field (field x 3)),
      disk_prov = word_of_int (int_field (field x 4)), disk_size = word_of_int (int_field (field x 5))\<rparr>"

definition of_Net :: "jgo \<Rightarrow> Net" where
  "of_Net x =
     \<lparr>net_name = str_field (field x 0), net_nettype = word_of_int (int_field (field x 1)),
      net_model = word_of_int (int_field (field x 2)), net_mac = str_field (field x 3)\<rparr>"

definition of_Cpuarch :: "jgo \<Rightarrow> Cpuarch" where
  "of_Cpuarch x =
     \<lparr>ca_arch = str_field (field x 0), ca_vendor = str_field (field x 1)\<rparr>"

definition of_Cpudef :: "jgo \<Rightarrow> Cpudef" where
  "of_Cpudef x =
     \<lparr>cd_model = str_field (field x 0), cd_nodes = word_of_int (int_field (field x 1)),
      cd_sockets = word_of_int (int_field (field x 2)), cd_cores = word_of_int (int_field (field x 3)),
      cd_threads = word_of_int (int_field (field x 4))\<rparr>"

definition of_VmdefMemory :: "jgo \<Rightarrow> VmdefMemory" where
  "of_VmdefMemory x =
     \<lparr>mem_total = word_of_int (int_field (field x 0)), mem_hp = bool_field (field x 1)\<rparr>"

definition of_Numa :: "jgo \<Rightarrow> Numa" where
  "of_Numa x =
     \<lparr>numa_placement = bool_field (field x 0)\<rparr>"

definition of_Vmdef :: "jgo \<Rightarrow> Vmdef" where
  "of_Vmdef x =
     \<lparr>vm_name = str_field (field x 0), vm_cpudef = of_Cpudef (field x 1), vm_memory = of_VmdefMemory (field x 2),
      vm_numa = of_Numa (field x 3), vm_osdisk = of_Disk (field x 4), vm_disks = slice_of of_Disk (field x 5),
      vm_nets = slice_of of_Net (field x 6), vm_vlanid = word_of_int (int_field (field x 7)),
      vm_firmware = word_of_int (int_field (field x 8)), vm_genid = str_field (field x 9),
      vm_custom = slice_of of_CustomField (field x 10)\<rparr>"

definition of_CloudInitOption :: "jgo \<Rightarrow> CloudInitOption" where
  "of_CloudInitOption x =
     \<lparr>ci_name = str_field (field x 0), ci_value = str_field (field x 1)\<rparr>"

definition of_HostListFields :: "jgo \<Rightarrow> HostListFields" where
  "of_HostListFields x =
     \<lparr>hf_name = str_field (field x 0), hf_cpuarch = of_Cpuarch (field x 1), hf_cpudef = of_Cpudef (field x 2),
      hf_cstate = word_of_int (int_field (field x 3)), hf_memoryavailable = word_of_int (int_field (field x 4)),
      hf_hpavailable = word_of_int (int_field (field x 5)), hf_osid = str_field (field x 6), hf_osv = str_field (field x 7),
      hf_ts = word_of_int (int_field (field x 8))\<rparr>"

definition of_VmListFields :: "jgo \<Rightarrow> VmListFields" where
  "of_VmListFields x =
     \<lparr>vf_name = str_field (field x 0), vf_host = str_field (field x 1), vf_runstate = word_of_int (int_field (field x 2)),
      vf_vlanid = word_of_int (int_field (field x 3)), vf_custom = of_CustomField (field x 4),
      vf_ts = word_of_int (int_field (field x 5))\<rparr>"

definition of_HostListOptions :: "jgo \<Rightarrow> HostListOptions" where
  "of_HostListOptions x =
     \<lparr>hlo_Filter = of_HostListFields (field x 0)\<rparr>"

definition of_VmListOptions :: "jgo \<Rightarrow> VmListOptions" where
  "of_VmListOptions x =
     \<lparr>vlo_Filter = of_VmListFields (field x 0)\<rparr>"

definition of_VmCreateOptions :: "jgo \<Rightarrow> VmCreateOptions" where
  "of_VmCreateOptions x =
     \<lparr>co_Vmdef = of_Vmdef (field x 0), co_Host = str_field (field x 1)\<rparr>"

definition of_VmUpdateOptions :: "jgo \<Rightarrow> VmUpdateOptions" where
  "of_VmUpdateOptions x =
     \<lparr>uo_Vmdef = of_Vmdef (field x 0), uo_Deletestorage = bool_field (field x 1)\<rparr>"

definition of_VmDeleteOptions :: "jgo \<Rightarrow> VmDeleteOptions" where
  "of_VmDeleteOptions x =
     \<lparr>dl_Deletestorage = bool_field (field x 0)\<rparr>"

definition of_VmBootOptions :: "jgo \<Rightarrow> VmBootOptions" where
  "of_VmBootOptions x =
     \<lparr>bo_CloudInit = slice_of of_CloudInitOption (field x 0)\<rparr>"

definition of_VmShutdownOptions :: "jgo \<Rightarrow> VmShutdownOptions" where
  "of_VmShutdownOptions x =
     \<lparr>so_Force = word_of_int (int_field (field x 0))\<rparr>"

definition of_VmMigrateOptions :: "jgo \<Rightarrow> VmMigrateOptions" where
  "of_VmMigrateOptions x =
     \<lparr>mo_Host = str_field (field x 0), mo_MigrationType = word_of_int (int_field (field x 1))\<rparr>"

definition of_VmRegisterOptions :: "jgo \<Rightarrow> VmRegisterOptions" where
  "of_VmRegisterOptions x =
     \<lparr>ro_Host = str_field (field x 0)\<rparr>"

text \<open>The two are inverse.\<close>

lemma of_go_CustomField [simp]: "of_CustomField (go_CustomField r) = r"
  by (simp add: of_CustomField_def go_CustomField_def)

lemma of_go_Disk [simp]: "of_Disk (go_Disk r) = r"
  by (simp add: of_Disk_def go_Disk_def)

lemma of_go_Net [simp]: "of_Net (go_Net r) = r"
  by (simp add: of_Net_def go_Net_def)

lemma of_go_Cpuarch [simp]: "of_Cpuarch (go_Cpuarch r) = r"
  by (simp add: of_Cpuarch_def go_Cpuarch_def)

lemma of_go_Cpudef [simp]: "of_Cpudef (go_Cpudef r) = r"
  by (simp add: of_Cpudef_def go_Cpudef_def)

lemma of_go_VmdefMemory [simp]: "of_VmdefMemory (go_VmdefMemory r) = r"
  by (simp add: of_VmdefMemory_def go_VmdefMemory_def)

lemma of_go_Numa [simp]: "of_Numa (go_Numa r) = r"
  by (simp add: of_Numa_def go_Numa_def)

lemma of_go_Vmdef [simp]: "of_Vmdef (go_Vmdef r) = r"
  by (simp add: of_Vmdef_def go_Vmdef_def)

lemma of_go_CloudInitOption [simp]: "of_CloudInitOption (go_CloudInitOption r) = r"
  by (simp add: of_CloudInitOption_def go_CloudInitOption_def)

lemma of_go_HostListFields [simp]: "of_HostListFields (go_HostListFields r) = r"
  by (simp add: of_HostListFields_def go_HostListFields_def)

lemma of_go_VmListFields [simp]: "of_VmListFields (go_VmListFields r) = r"
  by (simp add: of_VmListFields_def go_VmListFields_def)

lemma of_go_HostListOptions [simp]: "of_HostListOptions (go_HostListOptions r) = r"
  by (simp add: of_HostListOptions_def go_HostListOptions_def)

lemma of_go_VmListOptions [simp]: "of_VmListOptions (go_VmListOptions r) = r"
  by (simp add: of_VmListOptions_def go_VmListOptions_def)

lemma of_go_VmCreateOptions [simp]: "of_VmCreateOptions (go_VmCreateOptions r) = r"
  by (simp add: of_VmCreateOptions_def go_VmCreateOptions_def)

lemma of_go_VmUpdateOptions [simp]: "of_VmUpdateOptions (go_VmUpdateOptions r) = r"
  by (simp add: of_VmUpdateOptions_def go_VmUpdateOptions_def)

lemma of_go_VmDeleteOptions [simp]: "of_VmDeleteOptions (go_VmDeleteOptions r) = r"
  by (simp add: of_VmDeleteOptions_def go_VmDeleteOptions_def)

lemma of_go_VmBootOptions [simp]: "of_VmBootOptions (go_VmBootOptions r) = r"
  by (simp add: of_VmBootOptions_def go_VmBootOptions_def)

lemma of_go_VmShutdownOptions [simp]: "of_VmShutdownOptions (go_VmShutdownOptions r) = r"
  by (simp add: of_VmShutdownOptions_def go_VmShutdownOptions_def)

lemma of_go_VmMigrateOptions [simp]: "of_VmMigrateOptions (go_VmMigrateOptions r) = r"
  by (simp add: of_VmMigrateOptions_def go_VmMigrateOptions_def)

lemma of_go_VmRegisterOptions [simp]: "of_VmRegisterOptions (go_VmRegisterOptions r) = r"
  by (simp add: of_VmRegisterOptions_def go_VmRegisterOptions_def)

section \<open>Decoders and encoders\<close>

definition decode_as :: "jty \<Rightarrow> (jgo \<Rightarrow> 'a) \<Rightarrow> string \<Rightarrow> 'a result" where
  "decode_as t f s = (case Decode_json t s of None \<Rightarrow> Inl (Msg ''cannot decode JSON'') | Some x \<Rightarrow> Inr (f x))"

text \<open>The one number that is no integer, the rate of a migration, is printed by \<open>fmt_rate\<close>, which fails
  when it is infinite or not a number.\<close>

definition migration_json :: "(u32 \<Rightarrow> string result) \<Rightarrow> MigrationInfo \<Rightarrow> jval result" where
  "migration_json fmt_rate i =
     rbind (fmt_rate (mi_Rate i)) (\<lambda>rate.
     Inr (JObj [(''state'', JNum (int_dec (sint (mi_State i)))),
                (''progress'', JObj [(''total'', JNum (int_dec (sint (mi_Total i)))),
                  (''transferred'', JNum (int_dec (sint (mi_Transferred i)))),
                  (''remaining'', JNum (int_dec (sint (mi_Remaining i)))), (''rate'', JNum rate)])]))"

text \<open>What the handlers decode and encode.\<close>

definition model_json :: "(u32 \<Rightarrow> string result) \<Rightarrow> (string \<Rightarrow> bool) \<Rightarrow> json" where
  "model_json fmt_rate nils =
     \<lparr>js_get_create = decode_as ty_VmCreateOptions of_VmCreateOptions,
      js_get_update = decode_as ty_VmUpdateOptions of_VmUpdateOptions,
      js_get_delete = decode_as ty_VmDeleteOptions of_VmDeleteOptions,
      js_get_boot = decode_as ty_VmBootOptions of_VmBootOptions,
      js_get_shutdown = decode_as ty_VmShutdownOptions of_VmShutdownOptions,
      js_get_migrate = decode_as ty_VmMigrateOptions of_VmMigrateOptions,
      js_get_register = decode_as ty_VmRegisterOptions of_VmRegisterOptions,
      js_get_vm_list = decode_as ty_VmListOptions of_VmListOptions,
      js_get_host_list = decode_as ty_HostListOptions of_HostListOptions,
      js_string = (\<lambda>s. Inr (Encode_json nils TStr (GStr s))),
      js_vm = (\<lambda>v. Inr (Encode_json nils ty_Vm (go_Vm v))),
      js_runinfo = (\<lambda>i. Inr (Encode_json nils ty_Vmruninfo (go_Vmruninfo i))),
      js_migration = (\<lambda>i. rbind (migration_json fmt_rate i) (\<lambda>v. Inr (json_text v @ [CHR 0x0A]))),
      js_host = (\<lambda>h. Inr (Encode_json nils ty_Host (go_Host h))),
      js_vms = (\<lambda>vs. Inr (Encode_json nils ty_VmList (GStruct [go_slice go_VmListItem vs]))),
      js_hosts = (\<lambda>hs. Inr (Encode_json nils ty_HostList (GStruct [go_slice go_HostListItem hs])))\<rparr>"

text \<open>What the client decodes and encodes. The argument \<open>nil\<close> is \<open>null\<close>.\<close>

definition arg_value :: "request_arg \<Rightarrow> (jty \<times> jgo) option" where
  "arg_value a =
     (case a of
        NoArg \<Rightarrow> None
      | ArgHostList x \<Rightarrow> Some (ty_HostListOptions, go_HostListOptions x)
      | ArgVmList x \<Rightarrow> Some (ty_VmListOptions, go_VmListOptions x)
      | ArgVmCreate x \<Rightarrow> Some (ty_VmCreateOptions, go_VmCreateOptions x)
      | ArgVmUpdate x \<Rightarrow> Some (ty_VmUpdateOptions, go_VmUpdateOptions x)
      | ArgVmDelete x \<Rightarrow> Some (ty_VmDeleteOptions, go_VmDeleteOptions x)
      | ArgVmBoot x \<Rightarrow> Some (ty_VmBootOptions, go_VmBootOptions x)
      | ArgVmShutdown x \<Rightarrow> Some (ty_VmShutdownOptions, go_VmShutdownOptions x)
      | ArgVmMigrate x \<Rightarrow> Some (ty_VmMigrateOptions, go_VmMigrateOptions x)
      | ArgVmRegister x \<Rightarrow> Some (ty_VmRegisterOptions, go_VmRegisterOptions x))"

definition encode_arg :: "(string \<Rightarrow> bool) \<Rightarrow> request_arg \<Rightarrow> string" where
  "encode_arg nils a =
     (case arg_value a of None \<Rightarrow> json_text JNull @ [CHR 0x0A] | Some (t, x) \<Rightarrow> Encode_json nils t x)"

definition model_client :: "(string \<Rightarrow> string result) \<Rightarrow> (string \<Rightarrow> bool) \<Rightarrow> client_env" where
  "model_client read_file nils =
     \<lparr>xe_ReadFile = read_file, xe_vmdef = decode_as ty_Vmdef of_Vmdef, xe_encode = (\<lambda>a. Inr (encode_arg nils a))\<rparr>"

section \<open>What is sent is received\<close>

text \<open>An argument whose strings are UTF-8 and whose enumerations have one of their values.\<close>

definition arg_storable :: "request_arg \<Rightarrow> bool" where
  "arg_storable a \<longleftrightarrow> (case arg_value a of None \<Rightarrow> True | Some (t, x) \<Rightarrow> storable t x)"

lemma types_ok:
  "wf_ty ty_HostListOptions" "wf_ty ty_VmListOptions" "wf_ty ty_VmCreateOptions" "wf_ty ty_VmUpdateOptions"
  "wf_ty ty_VmDeleteOptions" "wf_ty ty_VmBootOptions" "wf_ty ty_VmShutdownOptions" "wf_ty ty_VmMigrateOptions"
  "wf_ty ty_VmRegisterOptions" "wf_ty ty_Vmdef" "wf_ty ty_Vm" "wf_ty ty_Host" "wf_ty ty_VmList" "wf_ty ty_HostList" "wf_ty ty_Vmruninfo"
  by (simp_all add: ty_defs code_def)

lemma levels_ok:
  "levels ty_HostListOptions = 3" "levels ty_VmListOptions = 3" "levels ty_VmCreateOptions = 4" "levels ty_VmUpdateOptions = 4"
  "levels ty_VmDeleteOptions = 1" "levels ty_VmBootOptions = 3" "levels ty_VmShutdownOptions = 1" "levels ty_VmMigrateOptions = 1"
  "levels ty_VmRegisterOptions = 1" "levels ty_Vmdef = 3" "levels ty_Vm = 5" "levels ty_Host = 3" "levels ty_VmList = 5"
  "levels ty_HostList = 5" "levels ty_Vmruninfo = 1"
  by (simp_all add: ty_defs)

lemma decode_as_back:
  assumes "storable t (g x)" "wf_ty t" "levels t \<le> maxNestingDepth" "\<And>x. f (g x) = x"
  shows "decode_as t f (Encode_json nils t (g x)) = Inr x"
  using assms by (simp add: decode_as_def Decode_Encode_json)

text \<open>The text \<open>b\<close> is decoded to the argument \<open>a\<close> by the handler of its kind.\<close>

definition arg_sent :: "json \<Rightarrow> request_arg \<Rightarrow> string \<Rightarrow> bool" where
  "arg_sent js a b \<longleftrightarrow> (case a of
     NoArg \<Rightarrow> True | ArgHostList x \<Rightarrow> js_get_host_list js b = Inr x | ArgVmList x \<Rightarrow> js_get_vm_list js b = Inr x
   | ArgVmCreate x \<Rightarrow> js_get_create js b = Inr x | ArgVmUpdate x \<Rightarrow> js_get_update js b = Inr x
   | ArgVmDelete x \<Rightarrow> js_get_delete js b = Inr x | ArgVmBoot x \<Rightarrow> js_get_boot js b = Inr x
   | ArgVmShutdown x \<Rightarrow> js_get_shutdown js b = Inr x | ArgVmMigrate x \<Rightarrow> js_get_migrate js b = Inr x
   | ArgVmRegister x \<Rightarrow> js_get_register js b = Inr x)"

lemma arg_sent_back:
  assumes "arg_storable a"
  shows "arg_sent (model_json fmt_rate nils') a (encode_arg nils a)"
proof -
  have m: "n \<le> maxNestingDepth" if "n \<le> 5" for n using that by (simp add: maxNestingDepth_def)
  show ?thesis
    using assms
    by (cases a) (simp_all add: arg_sent_def encode_arg_def arg_storable_def arg_value_def model_json_def decode_as_back types_ok levels_ok m)
qed

lemma encode_arg_nonempty [simp]: "encode_arg nils a \<noteq> []"
  by (simp add: encode_arg_def split: option.split)

section \<open>What a body can say\<close>

text \<open>The enumerations of a definition.\<close>

definition disk_listed :: "Disk \<Rightarrow> bool" where
  "disk_listed d \<longleftrightarrow> DiskDevice_IsValid (disk_device d) \<and> DiskBus_IsValid (disk_bus d) \<and>
     DiskManMode_IsValid (disk_man d) \<and> DiskProvMode_IsValid (disk_prov d)"

definition vmdef_listed :: "Vmdef \<Rightarrow> bool" where
  "vmdef_listed v \<longleftrightarrow> list_all disk_listed (vm_osdisk v # vm_disks v) \<and>
     list_all (\<lambda>n. net_nettype n \<in> set AllowedNetType \<and> NetModel_IsValid (net_model n)) (vm_nets v) \<and>
     vm_firmware v \<in> set AllowedFirmwareType"

lemma word_of_listed: "i \<in> sint ` set vs \<Longrightarrow> (word_of_int i :: i16) \<in> set vs"
  by auto

lemma struct_at:
  assumes "has_type (TStruct fs) x" "i < length fs"
  shows "has_type (snd (fs ! i)) (field x i)"
proof -
  obtain xs where "x = GStruct xs" using assms(1) by (cases x) auto
  with assms show ?thesis by (simp add: have_types_iff)
qed

lemma first_at: "has_type (TStruct ((k, t) # fs)) x \<Longrightarrow> has_type t (field x 0)"
  using struct_at[of "(k, t) # fs" x 0] by simp

lemma enum_at: "has_type (TEnum vs) x \<Longrightarrow> word_of_int (int_field x) \<in> set vs"
  by (cases x) (auto intro: word_of_listed)

lemma slice_at: "has_type (TSlice t) x \<Longrightarrow> (\<And>y. has_type t y \<Longrightarrow> P (f y)) \<Longrightarrow> list_all P (slice_of f x)"
  by (cases x) (auto simp: list_all_iff all_of_type_iff dest: in_set_takeD)

lemma disk_decoded: "has_type ty_Disk x \<Longrightarrow> disk_listed (of_Disk x)"
proof -
  assume "has_type ty_Disk x"
  note at = struct_at[OF this[unfolded ty_Disk_def]]
  have "has_type (TEnum AllowedDiskDevice) (field x 1)" "has_type (TEnum AllowedDiskBus) (field x 2)"
    "has_type (TEnum AllowedDiskManMode) (field x 3)" "has_type (TEnum AllowedDiskProvMode) (field x 4)"
    using at[of 1] at[of 2] at[of 3] at[of 4] by (simp_all add: ty_DiskDevice_def ty_DiskBus_def ty_DiskManMode_def ty_DiskProvMode_def)
  from this[THEN enum_at] show ?thesis
    by (simp add: of_Disk_def disk_listed_def DiskDevice_IsValid_def DiskBus_IsValid_def DiskManMode_IsValid_def
        DiskProvMode_IsValid_def enum_listed_iff)
qed

lemma net_decoded: "has_type ty_Net x \<Longrightarrow> net_nettype (of_Net x) \<in> set AllowedNetType \<and> NetModel_IsValid (net_model (of_Net x))"
proof -
  assume "has_type ty_Net x"
  note at = struct_at[OF this[unfolded ty_Net_def]]
  have "has_type (TEnum AllowedNetType) (field x 1)" "has_type (TEnum AllowedNetModel) (field x 2)"
    using at[of 1] at[of 2] by (simp_all add: ty_NetType_def ty_NetModel_def)
  from this[THEN enum_at] show ?thesis by (simp add: of_Net_def NetModel_IsValid_def enum_listed_iff)
qed

lemma vmdef_decoded:
  assumes "has_type ty_Vmdef x"
  shows "vmdef_listed (of_Vmdef x)"
proof -
  note at = struct_at[OF assms[unfolded ty_Vmdef_def]]
  have "has_type ty_Disk (field x 4)" "has_type (TSlice ty_Disk) (field x 5)" "has_type (TSlice ty_Net) (field x 6)"
    "has_type (TEnum AllowedFirmwareType) (field x 8)"
    using at[of 4] at[of 5] at[of 6] at[of 8] by (simp_all add: ty_FirmwareType_def)
  from disk_decoded[OF this(1)] slice_at[OF this(2), of disk_listed, OF disk_decoded]
    slice_at[OF this(3), of "\<lambda>n. net_nettype n \<in> set AllowedNetType \<and> NetModel_IsValid (net_model n)", OF net_decoded]
    enum_at[OF this(4)]
  show ?thesis by (simp add: vmdef_listed_def of_Vmdef_def)
qed

lemma decode_as_typed: "decode_as t f s = Inr y \<Longrightarrow> wf_ty t \<Longrightarrow> \<exists>x. has_type t x \<and> y = f x"
  by (auto simp: decode_as_def split: option.splits dest: Decode_json_typed)

text \<open>C18: Whatever a request body or a file says, the enumerations of a decoded definition have one of their values:
  a body with a number outside the tables is an error.\<close>

theorem decoded_definition_listed:
  "(js_get_create (model_json fmt_rate nils) body = Inr c \<longrightarrow> vmdef_listed (co_Vmdef c)) \<and>
   (js_get_update (model_json fmt_rate nils) body = Inr u \<longrightarrow> vmdef_listed (uo_Vmdef u)) \<and>
   (xe_vmdef (model_client read_file nils) body = Inr v \<longrightarrow> vmdef_listed v)"
proof (intro conjI impI)
  assume "js_get_create (model_json fmt_rate nils) body = Inr c"
  then obtain x where "has_type ty_VmCreateOptions x" "c = of_VmCreateOptions x"
    by (auto simp: model_json_def dest: decode_as_typed[OF _ types_ok(3)])
  then show "vmdef_listed (co_Vmdef c)"
    by (simp add: ty_VmCreateOptions_def of_VmCreateOptions_def vmdef_decoded first_at)
next
  assume "js_get_update (model_json fmt_rate nils) body = Inr u"
  then obtain x where "has_type ty_VmUpdateOptions x" "u = of_VmUpdateOptions x"
    by (auto simp: model_json_def dest: decode_as_typed[OF _ types_ok(4)])
  then show "vmdef_listed (uo_Vmdef u)"
    by (simp add: ty_VmUpdateOptions_def of_VmUpdateOptions_def vmdef_decoded first_at)
next
  assume "xe_vmdef (model_client read_file nils) body = Inr v"
  then show "vmdef_listed v"
    by (auto simp: model_client_def vmdef_decoded dest: decode_as_typed[OF _ types_ok(10)])
qed

text \<open>A body as a client may write it, with other capitals and the quotes as accents.\<close>

definition quoted :: "string \<Rightarrow> string" where
  "quoted s = map (\<lambda>c. if c = CHR 0x60 then CHR 0x22 else c) s"

definition sample_body :: "nat \<Rightarrow> string" where
  "sample_body bus = quoted (''{ `VMdef`: { `name`: `a`, `osdisk`: { `path`: `/vms/a.qcow2`, `bus`: '' @ nat_dec bus @ '' } }, `host`: null }'')"

definition sample_create :: VmCreateOptions where
  "sample_create = \<lparr>co_Vmdef = zero_vmdef\<lparr>vm_name := ''a'', vm_osdisk := (vm_osdisk zero_vmdef)\<lparr>disk_path := ''/vms/a.qcow2'', disk_bus := BUS_SCSI\<rparr>\<rparr>,
     co_Host = ''''\<rparr>"

lemma sample_decoded_json:
  "Decode_json ty_VmCreateOptions (sample_body 3) = Some (go_VmCreateOptions sample_create)"
  "Decode_json ty_VmCreateOptions (sample_body 4) = None"
  by code_simp+

theorem decoded_definition_listed_witness:
  "vmdef_listed (co_Vmdef sample_create) \<and> js_get_create (model_json (\<lambda>_. Inr ''0'') (\<lambda>_. True)) (sample_body 3) = Inr sample_create"
proof -
  have d: "js_get_create (model_json (\<lambda>_. Inr ''0'') (\<lambda>_. True)) (sample_body 3) = Inr sample_create"
    by (simp add: model_json_def decode_as_def sample_decoded_json)
  with decoded_definition_listed[of "\<lambda>_. Inr ''0''" "\<lambda>_. True" "sample_body 3" sample_create] show ?thesis by blast
qed

end
