(* ===== verification/Virtx_Props.thy ===== *)
theory Virtx_Props
  imports Virtx Storage_Props Domain_Props Vmdef_Xml_Props
begin

text \<open>
  The handlers: what is forwarded and where, that a request is answered after at most two hosts
  and the same by any of them, what the states of a machine forbid, and what a refused request
  leaves behind.
\<close>

section \<open>Forwarding\<close>

text \<open>What it means for a host to forward a request: it changes nothing, and the same request goes
  to another host that it knows as active, marked so that it is not forwarded again.\<close>

definition forwards :: "'w srv_env \<Rightarrow> 'w server \<Rightarrow> HttpRequest \<Rightarrow> HttpRequest \<Rightarrow> bool" where
  "forwards sv ss r req \<longleftrightarrow>
     (\<exists>host hi ip body. http_host_is_remote (sv_machine sv) host \<and> Get_hostinfo host (ss_inv ss) = Inr hi \<and>
        hf_cstate (hinfo_fields hi) = CSTATE_ACTIVE \<and> header_Get loop_header (rq_Header r) = '''' \<and>
        req = new_request (rq_Method r) (hf_name (hinfo_fields hi) @ '':8080'') (rq_TLS r) (rq_Path r)
                (proxy_headers ip (rq_Header r)) body \<and>
        (body = '''' \<or> read_body (rq_ContentLength r) (rq_Body r) = Inr body))"

definition passes :: "'w srv_env \<Rightarrow> 'w server \<Rightarrow> HttpRequest \<Rightarrow> 'w handled \<Rightarrow> bool" where
  "passes sv ss r h \<longleftrightarrow> (\<forall>req ss'. h = (Forward req, ss') \<longrightarrow> ss' = ss \<and> forwards sv ss r req)"

named_theorems passing

lemma passes_answer [passing]: "passes sv ss r (Answer a, ss')"
  by (simp add: passes_def)

lemma passes_answers [passing]:
  "passes sv ss r (refuse msg code ss')" "passes sv ss r (respond status buf ss')"
  "passes sv ss r (respond_json j ss')"
  by (auto simp: refuse_def respond_def respond_json_def passing split: sum.split)

lemma passes_run_op [passing]: "passes sv ss r (run_op res msg status ss')"
  by (cases res; cases "fst res") (auto simp: run_op_def passing)

lemma passes_finish [passing]: "passes sv ss r (finish_storage res ss')"
  by (cases res; cases "fst res") (auto simp: finish_storage_def passing)

lemma passes_if [passing]: "passes sv ss r h \<Longrightarrow> passes sv ss r h' \<Longrightarrow> passes sv ss r (if b then h else h')"
  by simp

lemma passes_or_fail [passing]: "(\<And>v. passes sv ss r (k v)) \<Longrightarrow> passes sv ss r (or_fail msg code ss' x k)"
  by (simp add: or_fail_def passing split: sum.split)

lemma passes_with_vm [passing]: "(\<And>v. passes sv ss r (k v)) \<Longrightarrow> passes sv ss r (with_vm uuid ss' k)"
  by (simp add: with_vm_def passing)

lemma passes_with_uuid [passing]: "passes sv ss r h \<Longrightarrow> passes sv ss r (with_uuid uuid ss' h)"
  by (simp add: with_uuid_def passing)

text \<open>A request that was read: its body is what the decoder saw.\<close>

definition read_as :: "HttpRequest \<Rightarrow> Request \<Rightarrow> bool" where
  "read_as r vr \<longleftrightarrow> vr_r vr = r \<and> (vr_body vr = '''' \<or> read_body (rq_ContentLength r) (rq_Body r) = Inr (vr_body vr))"

lemma passes_with_body [passing]:
  "(\<And>vr o'. read_as r vr \<Longrightarrow> passes sv ss r (k vr o')) \<Longrightarrow> passes sv ss r (with_body arg r ss' k)"
  by (auto simp: with_body_def or_fail_def Decode_request_body_def rbind_def read_as_def passing
      split: sum.split option.split)

lemma passes_or_proxy [passing]:
  "read_as r vr \<Longrightarrow> passes sv ss r h \<Longrightarrow> passes sv ss r (or_proxy sv host vr ss h)"
  by (fastforce simp: or_proxy_def passes_def forwards_def http_proxy_request_def proxy_prepare_def read_as_def Let_def
      split: sum.splits if_splits option.splits)

lemma passes_create_vm [passing]: "passes sv ss r (create_vm sv vmdef uuid ss')"
  by (auto simp: create_vm_def Let_def passing split: prod.split option.split sum.split)

lemma passes_update_vm [passing]: "passes sv ss r (update_vm_storage sv vmdef old del uuid ss')"
  by (auto simp: update_vm_storage_def Let_def passing split: prod.split option.split sum.split)

lemma handlers_pass: "passes sv ss r (run_handler sv h uuid r ss)"
proof (cases h)
  case VmDelete
  have "passes sv ss r (case Delete_domain he u w s of
        (Some e, w', s') \<Rightarrow> refuse m c (f w' s') | (None, w', s') \<Rightarrow> finish_storage (g w') (f w' s'))" for he u w s m c f g
    by (auto intro!: passing split: prod.split option.split)
  then show ?thesis unfolding VmDelete run_handler_def handler.case vm_delete_def by (intro passing)
next
  case VmMigrateGet
  have "passes sv ss r (case x of (Inl e, w) \<Rightarrow> refuse m c (f w) | (Inr i, w) \<Rightarrow> respond_json (j i) (f w))" for x m c f j
    by (auto intro!: passing split: prod.split sum.split)
  then show ?thesis unfolding VmMigrateGet run_handler_def handler.case vm_migrate_get_def by (intro passing)
next
  case VmRegister
  have reg: "passes sv ss r (case x of (Some e, s) \<Rightarrow> refuse m c s | (None, s) \<Rightarrow> respond st b s)" for x m c st b
    by (auto intro!: passing split: prod.split option.split)
  have vm: "passes sv ss r (case x of Inl e \<Rightarrow> f | Inr v \<Rightarrow> g v)"
    if "passes sv ss r f" "\<And>v. passes sv ss r (g v)" for x :: "VmInfo result" and f g
    using that by (cases x) auto
  show ?thesis unfolding VmRegister run_handler_def handler.case vm_register_def Let_def
    by (intro passing vm reg; assumption)
next
  case HostGet
  have si: "passes sv ss r (case x of None \<Rightarrow> f | Some v \<Rightarrow> g v)"
    if "passes sv ss r f" "\<And>v. passes sv ss r (g v)" for x :: "SystemInfo option" and f g
    using that by (cases x) auto
  show ?thesis unfolding HostGet run_handler_def handler.case host_get_def by (intro passing si; assumption)
qed (simp_all only: run_handler_def handler.case vm_create_def vm_list_def vm_update_def vm_get_def vm_runstate_get_def
      vm_boot_def vm_shutdown_def vm_pause_def vm_resume_def vm_migrate_def vm_migrate_abort_def host_list_def Let_def,
    (intro passing; assumption)+)

lemma serve_passes: "passes sv ss r (serve sv r ss)"
  unfolding serve_def by (cases "route (rq_Method r) (rq_Path r)") (simp_all add: handlers_pass passing)
section \<open>What a refused request leaves behind\<close>

text \<open>The storage calls run on a world whose first part is the lock directory, and libvirt does not
  reach into that part when it defines a domain.\<close>

definition libvirt_apart :: "(lockdir \<times> 'l) srv_env \<Rightarrow> bool" where
  "libvirt_apart sv \<longleftrightarrow> (\<forall>u xml w. fst (snd (lv_DomainDefineXML (he_lv (sv_he sv)) u xml w)) = fst w)"

abbreviation leases_of :: "(lockdir \<times> 'l) server \<Rightarrow> string \<Rightarrow> string option" where
  "leases_of ss \<equiv> lease_owner (fst (ss_world ss))"

lemma define_vm_effect:
  assumes "define_vm sv xml uuid ss = (e, ss')"
  obtains w s where "ss' = ss\<lparr>ss_world := w, ss_fs := s\<rparr>" "e \<noteq> None \<Longrightarrow> s = ss_fs ss"
    "libvirt_apart sv \<Longrightarrow> fst w = fst (ss_world ss)"
proof -
  obtain w s where d: "Define_domain (sv_he sv) xml uuid (ss_world ss) (ss_fs ss) = (e, w, s)"
    and ss': "ss' = ss\<lparr>ss_world := w, ss_fs := s\<rparr>"
    using assms by (auto simp: define_vm_def split: prod.splits)
  have "e \<noteq> None \<Longrightarrow> s = ss_fs ss"
    using d by (auto simp: Define_domain_def split: option.splits prod.splits sum.splits)
  moreover have "libvirt_apart sv \<Longrightarrow> fst w = fst (ss_world ss)"
  proof -
    assume "libvirt_apart sv"
    then have a: "fst (snd (lv_DomainDefineXML (he_lv (sv_he sv)) LIBVIRT_URI xml (ss_world ss))) = fst (ss_world ss)"
      by (simp only: libvirt_apart_def)
    show ?thesis using d a by (auto simp: Define_domain_def split: option.splits prod.splits sum.splits)
  qed
  ultimately show thesis using ss' by (intro that[where w = w and s = s]) auto
qed

lemma status_simps [simp]: "rs_Status (http_Error m c) = c" "rs_Status (Do_response h c b) = c"
  by (simp_all add: http_Error_def Do_response_def split: option.split)

text \<open>The three ways in which both handlers give up after they have taken leases.\<close>

lemma rolled_back_leases:
  fixes sv :: "(lockdir \<times> 'l) srv_env"
  assumes st: "sv_storage sv = beside (lock_env x)"
    and c: "storage_Create (sv_storage sv) vmdef old uuid (ss_world ss) = (vmdef1, created, e, w1)"
    and names: "list_all lease_name (wanted (sv_storage sv) old (Disks vmdef))"
    and kept: "fst (ss_world ss1) = fst w1"
  shows "given_back (frees x) (wanted (sv_storage sv) old (Disks vmdef)) uuid (leases_of ss)
    (leases_of (rolled_back sv created uuid ss1))"
  using beside_rollback.Create_given_back[OF c[unfolded st] names[unfolded st], of "ss_world ss1"] kept
  by (simp add: rolled_back_def st)

lemma rolled_back_same [simp]:
  "ss_inv (rolled_back sv created uuid ss) = ss_inv ss" "ss_fs (rolled_back sv created uuid ss) = ss_fs ss"
  "ss_jobs (rolled_back sv created uuid ss) = ss_jobs ss"
  by (simp_all add: rolled_back_def)

lemma define_vm_apart:
  assumes "define_vm sv xml uuid ss = (e, ss')" "libvirt_apart sv"
  shows "fst (ss_world ss') = fst (ss_world ss)" "e \<noteq> None \<Longrightarrow> ss_fs ss' = ss_fs ss"
proof -
  obtain w s where "ss' = ss\<lparr>ss_world := w, ss_fs := s\<rparr>" "e \<noteq> None \<Longrightarrow> s = ss_fs ss" "fst w = fst (ss_world ss)"
    using define_vm_effect[OF assms(1)] assms(2) by metis
  then show "fst (ss_world ss') = fst (ss_world ss)" "e \<noteq> None \<Longrightarrow> ss_fs ss' = ss_fs ss" by simp_all
qed

lemma finish_status: "finish_storage res ss = (Answer a, ss') \<Longrightarrow> rs_Status a \<in> {200, 204}"
  by (auto simp: finish_storage_def respond_def split: prod.splits option.splits)

text \<open>The work of both handlers ends in one of two ways: what was created is rolled back and the answer
  is an error, or the domain is defined.\<close>

lemma create_vm_cases:
  assumes apart: "libvirt_apart sv" and c: "storage_Create (sv_storage sv) vmdef None uuid (ss_world ss) = (vmdef1, created, e, w1)"
    and run: "create_vm sv vmdef uuid ss = (Answer a, ss')"
  obtains (gave_up) ss1 where "ss' = rolled_back sv created uuid ss1" "fst (ss_world ss1) = fst w1" "ss_fs ss1 = ss_fs ss" "300 \<le> rs_Status a"
    "rs_Status a \<noteq> 201"
  | (defined) "e = None" "fst (ss_world ss') = fst w1" "rs_Status a = 201"
proof (cases e)
  case (Some x)
  with run have "ss' = rolled_back sv created uuid (ss\<lparr>ss_world := w1\<rparr>) \<and> rs_Status a = 507"
    by (simp add: create_vm_def c refuse_def split: prod.splits) auto
  then show thesis by (intro gave_up[of "ss\<lparr>ss_world := w1\<rparr>"]) auto
next
  case None
  let ?ss1 = "ss\<lparr>ss_world := w1\<rparr>"
  show thesis
  proof (cases "sv_To_xml sv vmdef1 uuid")
    case (Inl x)
    with run None have "ss' = rolled_back sv created uuid ?ss1 \<and> rs_Status a = 400"
      by (simp add: create_vm_def c refuse_def Let_def) auto
    then show thesis by (intro gave_up[of ?ss1]) auto
  next
    case (Inr xml)
    obtain e2 ss2 where d: "define_vm sv xml uuid ?ss1 = (e2, ss2)" by fastforce
    show thesis
    proof (cases e2)
      case (Some x)
      with run None Inr have "ss' = rolled_back sv created uuid ss2 \<and> rs_Status a = 424"
        by (simp add: create_vm_def c d refuse_def Let_def) auto
      with define_vm_apart[OF d apart] Some show thesis by (intro gave_up[of ss2]) auto
    next
      case e2: None
      with run None Inr have "ss' = ss2 \<and> rs_Status a = 201"
        by (auto simp: create_vm_def c d respond_def Let_def split: sum.splits)
      with define_vm_apart(1)[OF d apart] None show thesis by (intro defined) auto
    qed
  qed
qed

lemma update_vm_cases:
  assumes apart: "libvirt_apart sv" and c: "storage_Create (sv_storage sv) vmdef (Some old) uuid (ss_world ss) = (vmdef1, created, e, w1)"
    and run: "update_vm_storage sv vmdef old del uuid ss = (Answer a, ss')"
  obtains (gave_up) ss1 where "ss' = rolled_back sv created uuid ss1" "fst (ss_world ss1) = fst w1" "ss_fs ss1 = ss_fs ss" "300 \<le> rs_Status a"
  | (defined) ss2 where "e = None" "fst (ss_world ss2) = fst w1"
      "finish_storage (storage_Delete (sv_storage sv) old (Some vmdef1) uuid del (ss_world ss2)) ss2 = (Answer a, ss')"
proof (cases e)
  case (Some x)
  with run have "ss' = rolled_back sv created uuid (ss\<lparr>ss_world := w1\<rparr>) \<and> rs_Status a = 507"
    by (simp add: update_vm_storage_def c refuse_def split: prod.splits) auto
  then show thesis by (intro gave_up[of "ss\<lparr>ss_world := w1\<rparr>"]) auto
next
  case None
  let ?ss1 = "ss\<lparr>ss_world := w1\<rparr>"
  show thesis
  proof (cases "sv_To_xml sv vmdef1 uuid")
    case (Inl x)
    with run None have "ss' = rolled_back sv created uuid ?ss1 \<and> rs_Status a = 400"
      by (simp add: update_vm_storage_def c refuse_def Let_def) auto
    then show thesis by (intro gave_up[of ?ss1]) auto
  next
    case (Inr xml)
    obtain e2 ss2 where d: "define_vm sv xml uuid ?ss1 = (e2, ss2)" by fastforce
    show thesis
    proof (cases e2)
      case (Some x)
      with run None Inr have "ss' = rolled_back sv created uuid ss2 \<and> rs_Status a = 424"
        by (simp add: update_vm_storage_def c d refuse_def Let_def) auto
      with define_vm_apart[OF d apart] Some show thesis by (intro gave_up[of ss2]) auto
    next
      case e2: None
      with run None Inr define_vm_apart(1)[OF d apart] show thesis
        by (intro defined[of ss2]) (simp_all add: update_vm_storage_def c d Let_def)
    qed
  qed
qed

lemma create_vm_outcome:
  fixes sv :: "(lockdir \<times> 'l) srv_env"
  assumes st: "sv_storage sv = beside (lock_env x)" and apart: "libvirt_apart sv"
    and names: "list_all lease_name (wanted (sv_storage sv) None (Disks vmdef))"
    and run: "create_vm sv vmdef uuid ss = (Answer a, ss')"
  shows "if rs_Status a = 201
    then leases_of ss' = take_leases (wanted (sv_storage sv) None (Disks vmdef)) uuid (leases_of ss) \<and>
         (\<forall>n\<in>set (wanted (sv_storage sv) None (Disks vmdef)). leases_of ss n = None)
    else given_back (frees x) (wanted (sv_storage sv) None (Disks vmdef)) uuid (leases_of ss) (leases_of ss') \<and> ss_fs ss' = ss_fs ss"
proof -
  obtain vmdef1 created e w1 where c: "storage_Create (sv_storage sv) vmdef None uuid (ss_world ss) = (vmdef1, created, e, w1)"
    by (metis prod_cases4)
  from apart c run show ?thesis
  proof (cases rule: create_vm_cases)
    case (gave_up ss1)
    with rolled_back_leases[OF st c names gave_up(2)] show ?thesis by simp
  next
    case defined
    obtain rest where "wanted (sv_storage sv) None (Disks vmdef) = map snd created @ rest" "e = None \<Longrightarrow> rest = []"
      "\<forall>r\<in>set (map snd created). leases_of ss r = None" "lease_owner (fst w1) = take_leases (map snd created) uuid (leases_of ss)"
      by (rule beside_rollback.Create_effect[OF c[unfolded st] names[unfolded st], folded st], rule that)
    with defined show ?thesis by simp
  qed
qed

text \<open>An update that does not go through.\<close>

lemma update_refused:
  fixes sv :: "(lockdir \<times> 'l) srv_env"
  assumes st: "sv_storage sv = beside (lock_env x)" and apart: "libvirt_apart sv"
    and names: "list_all lease_name (wanted (sv_storage sv) (Some old) (Disks vmdef))"
    and run: "update_vm_storage sv vmdef old del uuid ss = (Answer a, ss')" and failed: "rs_Status a \<notin> {200, 204}"
  shows "given_back (frees x) (wanted (sv_storage sv) (Some old) (Disks vmdef)) uuid (leases_of ss) (leases_of ss') \<and>
    ss_fs ss' = ss_fs ss"
proof -
  obtain vmdef1 created e w1
    where c: "storage_Create (sv_storage sv) vmdef (Some old) uuid (ss_world ss) = (vmdef1, created, e, w1)"
    by (metis prod_cases4)
  from apart c run show ?thesis
  proof (cases rule: update_vm_cases)
    case (gave_up ss1)
    with rolled_back_leases[OF st c names gave_up(2)] show ?thesis by simp
  next
    case (defined ss2)
    with finish_status failed show ?thesis by blast
  qed
qed

text \<open>The steps before the handler's own work answer with an error and change nothing.\<close>

definition error_answer :: "'w server \<Rightarrow> 'w handled \<Rightarrow> bool" where
  "error_answer ss h \<longleftrightarrow> snd h = ss \<and> (case fst h of Answer a \<Rightarrow> 300 \<le> rs_Status a | Forward req \<Rightarrow> True)"

text \<open>A handler ends with such an error or by the work \<open>D\<close>.\<close>

definition ends :: "'w server \<Rightarrow> ('w handled \<Rightarrow> bool) \<Rightarrow> 'w handled \<Rightarrow> bool" where
  "ends ss D h \<longleftrightarrow> error_answer ss h \<or> D h"

named_theorems ending

lemma ends_refuse [ending]: "300 \<le> c \<Longrightarrow> ends ss D (refuse m c ss)"
  by (simp add: ends_def error_answer_def refuse_def)

lemma ends_if [ending]: "(b \<Longrightarrow> ends ss D h) \<Longrightarrow> (\<not> b \<Longrightarrow> ends ss D h') \<Longrightarrow> ends ss D (if b then h else h')"
  by simp

lemma ends_or_fail [ending]: "300 \<le> c \<Longrightarrow> (\<And>v. x = Inr v \<Longrightarrow> ends ss D (k v)) \<Longrightarrow> ends ss D (or_fail m c ss x k)"
  by (simp add: or_fail_def ending split: sum.split)

lemma ends_with_body [ending]: "(\<And>vr o'. Decode_request_body arg r = Inr (vr, o') \<Longrightarrow> ends ss D (k vr o')) \<Longrightarrow>
    ends ss D (with_body arg r ss k)"
  unfolding with_body_def by (intro ends_or_fail) auto

lemma ends_with_uuid [ending]: "ends ss D h \<Longrightarrow> ends ss D (with_uuid u ss h)"
  by (simp add: with_uuid_def ending)

lemma ends_with_vm [ending]: "(\<And>v. Get_vminfo u (ss_inv ss) = Inr v \<Longrightarrow> ends ss D (k v)) \<Longrightarrow> ends ss D (with_vm u ss k)"
  unfolding with_vm_def by (intro ends_or_fail) auto

lemma error_proxy: "error_answer ss (http_proxy_request net iv host vr, ss)"
  by (auto simp: error_answer_def http_proxy_request_def proxy_prepare_def Let_def split: sum.split option.split)

lemma ends_or_proxy [ending]: "ends ss D h \<Longrightarrow> ends ss D (or_proxy sv host vr ss h)"
  by (simp add: or_proxy_def ends_def error_proxy)

lemma with_body_decoded: "Decode_request_body arg r = Inr (vr, o') \<Longrightarrow> with_body arg r ss k = k vr o'"
  by (simp add: with_body_def or_fail_def)

text \<open>C16: a machine that is not powered off is neither updated, deleted nor migrated cold: whatever
  the request says, the handlers answer with an error or forward the request, and nothing of the
  host changes.\<close>

theorem running_machine_kept:
  assumes "route (rq_Method r) (rq_Path r) = Handler u h"
    and "h \<in> {VmUpdate, VmDelete} \<or> (h = VmMigrate \<and> (\<forall>vr opts.
           Decode_request_body (Some (js_get_migrate (sv_json sv))) r = Inr (vr, Some opts) \<longrightarrow>
           mo_MigrationType opts = MIGRATION_COLD))"
    and known: "Get_vminfo u (ss_inv ss) = Inr v" "\<not> is_off (ve_runstate v)"
    and run: "serve sv r ss = (p, ss')"
  shows "ss' = ss \<and> (\<forall>a. p = Answer a \<longrightarrow> 300 \<le> rs_Status a)"
proof -
  have off: "is_off (ve_runstate w) \<longleftrightarrow> False" if "Get_vminfo u (ss_inv ss) = Inr w" for w using that known by simp
  consider "h = VmUpdate" | "h = VmDelete" | "h = VmMigrate"
    "\<And>vr opts. Decode_request_body (Some (js_get_migrate (sv_json sv))) r = Inr (vr, Some opts) \<Longrightarrow> mo_MigrationType opts = MIGRATION_COLD"
    using assms(2) by auto
  then have "ends ss (\<lambda>_. False) (run_handler sv h u r ss)"
  proof cases
    case 1
    then show ?thesis by (auto simp: run_handler_def vm_update_def Let_def off intro!: ending)
  next
    case 2
    then show ?thesis by (auto simp: run_handler_def vm_delete_def Let_def off intro!: ending)
  next
    case 3
    have some: "o' \<noteq> None" if "Decode_request_body (Some d) r = Inr (vr, o')" for d :: "string \<Rightarrow> VmMigrateOptions result" and vr o'
      using that by (auto simp: Decode_request_body_def rbind_def split: sum.splits)
    have "mo_MigrationType (the o') = MIGRATION_COLD"
      if "Decode_request_body (Some (js_get_migrate (sv_json sv))) r = Inr (vr, o')" for vr o'
      using some[OF that] 3(2)[of vr "the o'"] that by simp
    moreover have "\<not> is_off RUNSTATE_RUNNING" "\<not> is_off RUNSTATE_PAUSED" by (simp_all add: is_off_def)
    ultimately show ?thesis using 3(1) by (auto simp: run_handler_def vm_migrate_def Let_def off intro!: ending)
  qed
  then show ?thesis using run by (auto simp: serve_def assms(1) ends_def error_answer_def)
qed

section \<open>Witnesses\<close>

text \<open>A host on any world with the given storage, whose libvirt refuses to define a domain.\<close>

definition idle_lv :: "'w libvirt" where
  "idle_lv = \<lparr>lv_NewConnect = (\<lambda>u w. None), lv_Lookup = (\<lambda>c u w. None), lv_GetUUIDString = (\<lambda>d w. Inr (ld_uuid d)),
     lv_GetTitle = (\<lambda>d w. Inr ''name''), lv_IsPersistent = (\<lambda>d w. Inr True), lv_GetState = (\<lambda>d w. Inr DOMAIN_RUNNING),
     lv_GetXMLDesc = (\<lambda>d i w. Inr ''<domain/>''), lv_GetMetadata = (\<lambda>d u w. Inl NotExist),
     lv_SetMetadata = (\<lambda>d x k u w. (None, w)), lv_DomainDefineXML = (\<lambda>c x w. (Inl (OsErr ''refused''), w)),
     lv_Migrate3 = (\<lambda>d uri p fl w. (Inl (OsErr ''refused''), w)), lv_QemuMonitorCommand = (\<lambda>d c w. (Inr '''', w)),
     lv_Create = (\<lambda>d w. (None, w)), lv_Suspend = (\<lambda>d w. (None, w)), lv_Resume = (\<lambda>d w. (None, w)),
     lv_Shutdown = (\<lambda>d w. (None, w)), lv_DestroyFlags = (\<lambda>d g w. (None, w)), lv_UndefineFlags = (\<lambda>d fl w. (None, w)),
     lv_AttachDevice = (\<lambda>d x w. (None, w))\<rparr>"

definition idle_he :: "'w storage_env \<Rightarrow> string \<Rightarrow> 'w hv_env" where
  "idle_he env machine = \<lparr>he_lv = idle_lv, he_oe = sample_oe,
     he_ce = \<lparr>ce_storage = env, ce_MkdirTemp = (\<lambda>w. (Inr ''/tmp/x'', w)), ce_WriteFile = (\<lambda>f c w. (None, w)),
        ce_Remove = (\<lambda>f w. w), ce_Stat = (\<lambda>p w. None), ce_xorrisofs = (\<lambda>a w. (None, w)),
        ce_lease_Marshal = (\<lambda>l. Inr ''<lease/>''), ce_disk_Marshal = (\<lambda>d. Inr ''<disk/>'')\<rparr>,
     he_now = (\<lambda>w. 7), he_machine = machine, he_qemu_info = (\<lambda>x. Inl NotExist), he_save = (\<lambda>s. (no_save_faults, ''42'')),
     he_move = (\<lambda>s. (None, no_sync_faults, no_sync_faults)), he_delete = (\<lambda>s. (None, no_sync_faults))\<rparr>"

definition sample_json :: json where
  "sample_json =
     \<lparr>js_get_create = (\<lambda>s. Inr \<lparr>co_Vmdef = sample_vmdef 2 2, co_Host = ''''\<rparr>),
      js_get_update = (\<lambda>s. Inr \<lparr>uo_Vmdef = sample_vmdef 2 2, uo_Deletestorage = False\<rparr>),
      js_get_delete = (\<lambda>s. Inr \<lparr>dl_Deletestorage = False\<rparr>), js_get_boot = (\<lambda>s. Inr \<lparr>bo_CloudInit = []\<rparr>),
      js_get_shutdown = (\<lambda>s. Inr \<lparr>so_Force = 0\<rparr>),
      js_get_migrate = (\<lambda>s. Inr \<lparr>mo_Host = ''B'', mo_MigrationType = MIGRATION_COLD\<rparr>),
      js_get_register = (\<lambda>s. Inr \<lparr>ro_Host = ''A''\<rparr>), js_get_vm_list = (\<lambda>s. Inl NotExist), js_get_host_list = (\<lambda>s. Inl NotExist),
      js_string = (\<lambda>s. Inr s), js_vm = (\<lambda>v. Inr ''{}''), js_runinfo = (\<lambda>v. Inr ''{}''), js_migration = (\<lambda>v. Inr ''{}''),
      js_host = (\<lambda>v. Inr ''{}''), js_vms = (\<lambda>v. Inr ''{}''), js_hosts = (\<lambda>v. Inr ''{}'')\<rparr>"

definition idle_sv :: "'w storage_env \<Rightarrow> string \<Rightarrow> 'w srv_env" where
  "idle_sv env machine =
     \<lparr>sv_he = idle_he env machine, sv_net = \<lparr>hn_NewRequest = (\<lambda>m a p. None), hn_Do = (\<lambda>r w. (Inl NotExist, w))\<rparr>,
      sv_json = sample_json, sv_uuid = (\<lambda>w. ''v''), sv_arch = ''x86_64'', sv_lockid = 1,
      sv_marshal_vm = (\<lambda>m. Inr ''<vm/>''), sv_marshal_domain = (\<lambda>d. Inr ''<domain/>''),
      sv_unmarshal_domain = (\<lambda>x. Inl NotExist), sv_unmarshal_vm = (\<lambda>x. Inl NotExist), sv_load = (\<lambda>s. None),
      sv_host_order = (\<lambda>iv. []), sv_vm_order = (\<lambda>iv. [])\<rparr>"

lemma idle_simps [simp]:
  "sv_json (idle_sv env m) = sample_json" "sv_machine (idle_sv env m) = m" "sv_storage (idle_sv env m) = env"
  "he_lv (sv_he (idle_sv env m)) = idle_lv" "sv_uuid (idle_sv env m) w = ''v''" "sv_load (idle_sv env m) s = None"
  "hn_NewRequest (sv_net (idle_sv env m)) meth a p = None"
  by (simp_all add: idle_sv_def idle_he_def)

lemma idle_apart: "libvirt_apart (idle_sv env m)"
  by (simp add: libvirt_apart_def idle_lv_def)

definition sample_request :: "string \<Rightarrow> string \<Rightarrow> string \<Rightarrow> HttpRequest" where
  "sample_request meth path body = (new_request meth ''node2:8080'' False path Map.empty body)\<lparr>rq_RemoteAddr := ''10.0.0.7:40000''\<rparr>"

lemma sample_request_simps [simp]:
  "rq_Method (sample_request m p b) = m" "rq_Path (sample_request m p b) = p"
  "rq_Header (sample_request m p b) = Map.empty" "rq_RemoteAddr (sample_request m p b) = ''10.0.0.7:40000''"
  by (simp_all add: sample_request_def new_request_def)

lemma sample_decoded: "decode ''{}'' = Inr v \<Longrightarrow>
    Decode_request_body (Some decode) (sample_request m p ''{}'') = Inr (\<lparr>vr_r = sample_request m p ''{}'', vr_body = ''{}''\<rparr>, Some v)"
  by (simp add: Decode_request_body_def rbind_def read_body_def sample_request_def new_request_def)

lemma sample_routes:
  "route ''POST'' ''/vms'' = Handler '''' VmCreate" "route ''PUT'' ''/vms/v'' = Handler ''v'' VmUpdate"
  "route ''DELETE'' ''/vms/v'' = Handler ''v'' VmDelete" "route ''POST'' ''/vms/v/runstate/pause'' = Handler ''v'' VmPause"
  by code_simp+

definition sample_server :: "Inventory \<Rightarrow> 'w \<Rightarrow> 'w server" where
  "sample_server iv w = \<lparr>ss_inv = iv, ss_si = None, ss_world = w, ss_fs = sample_fs, ss_jobs = []\<rparr>"

lemma sample_server_simps [simp]:
  "ss_inv (sample_server iv w) = iv" "ss_world (sample_server iv w) = w" "ss_fs (sample_server iv w) = sample_fs"
  by (simp_all add: sample_server_def)
theorem running_machine_kept_witness:
  "\<exists>p ss'. serve (idle_sv sample_se ''A'') (sample_request ''DELETE'' ''/vms/v'' ''{}'')
       (sample_server sample_inventory (\<lambda>_. Map.empty)) = (p, ss') \<and> ss' = sample_server sample_inventory (\<lambda>_. Map.empty)"
proof -
  let ?ss = "sample_server sample_inventory (\<lambda>_. Map.empty)"
  obtain p ss' where run: "serve (idle_sv sample_se ''A'') (sample_request ''DELETE'' ''/vms/v'' ''{}'') ?ss = (p, ss')" by fastforce
  have v: "Get_vminfo ''v'' (ss_inv ?ss) = Inr (sample_vm ''v'' ''A'' 10)" "\<not> is_off (ve_runstate (sample_vm ''v'' ''A'' 10))"
    by (simp add: Get_vminfo_def sample_vms) (simp add: sample_vm_def is_off_def)
  from running_machine_kept[OF _ _ v run, of VmDelete] run sample_routes(3) show ?thesis by simp
qed

text \<open>A host whose libvirt refuses every definition: whatever was made for the machine is given back.\<close>

lemma idle_never_creates:
  "\<exists>a ss'. create_vm (idle_sv env m) vmdef u ss = (Answer a, ss') \<and> rs_Status a \<noteq> 201"
proof -
  have d: "define_vm (idle_sv env m) xml u s = (Some (OsErr ''refused''), s)" for xml s
    by (simp add: define_vm_def Define_domain_def idle_lv_def)
  show ?thesis
    by (simp add: create_vm_def d Let_def refuse_def split: prod.split option.split sum.split)
qed


text \<open>A machine that is off and has the disk \<open>other_disk\<close>; the update asks for \<open>sample_disk\<close>. The lease of that
  disk is taken, libvirt refuses the domain, and the lease is given back.\<close>

definition off_server :: "'w \<Rightarrow> 'w server" where
  "off_server w = sample_server (sample_inventory\<lparr>vms := [''v'' \<mapsto> (sample_vm ''v'' ''A'' 10)\<lparr>ve_runstate := RUNSTATE_POWEROFF\<rparr>]\<rparr>) w"

lemma off_server_simps [simp]:
  "Get_vminfo ''v'' (ss_inv (off_server w)) = Inr ((sample_vm ''v'' ''A'' 10)\<lparr>ve_runstate := RUNSTATE_POWEROFF\<rparr>)"
  "ss_world (off_server w) = w" "ss_fs (off_server w) = sample_fs"
  by (simp_all add: off_server_def Get_vminfo_def)

lemma other_vmdef_valid: "vmdef_valid other_vmdef"
proof -
  have "Validate_disk_path ''/vms/ds/other.qcow2'' = ''qcow2''" by code_simp
  then have "disk_valid other_disk" using sample_disk_valid by (simp add: disk_valid_def other_disk_def sample_disk_def)
  moreover have "vmdef_valid (sample_vmdef 2 2)" by (rule sample_vmdef_valid) (simp_all add: word_sle_eq)
  ultimately show ?thesis by (simp add: vmdef_valid_def other_vmdef_def Disks_def)
qed

definition reading_sv :: "Domain \<Rightarrow> (lockdir \<times> unit) srv_env" where
  "reading_sv d = (idle_sv (beside (lock_env sample_world)) ''A'')\<lparr>sv_unmarshal_domain := (\<lambda>x. Inr d),
     sv_unmarshal_vm := (\<lambda>x. Inr [(''tier'', ''a'')])\<rparr>"

lemma reading_simps [simp]:
  "sv_json (reading_sv d) = sample_json" "sv_machine (reading_sv d) = ''A''" "sv_storage (reading_sv d) = beside (lock_env sample_world)"
  "he_lv (sv_he (reading_sv d)) = idle_lv" "sv_load (reading_sv d) s = None"
  by (simp_all add: reading_sv_def idle_sv_def idle_he_def)

lemma reading_To_xml: "sv_To_xml (reading_sv d) (sample_vmdef 2 2) u = Inr ''<domain/>''"
proof -
  have v: "vmdef_valid (sample_vmdef 2 2)" by (rule sample_vmdef_valid) (simp_all add: word_sle_eq)
  obtain features where "domain_features ''x86_64'' = Some features" by (simp add: domain_features_def)
  from to_domain_valid[where marshal = "\<lambda>m. Inr ''<vm/>''", OF v this HOL.refl, of "se_md5 (sv_storage (reading_sv d))" u]
  obtain dm where "to_domain (se_md5 (sv_storage (reading_sv d))) ''x86_64'' (\<lambda>m. Inr ''<vm/>'') (sample_vmdef 2 2) u = Inr dm" by blast
  then show ?thesis by (simp add: sv_To_xml_def To_xml_def rbind_def) (simp add: reading_sv_def idle_sv_def rbind_def)
qed

lemma old_definition: "\<exists>d old. sv_From_xml (reading_sv d) ''old'' = Inr old \<and> map disk_path (Disks old) = [disk_path other_disk]"
proof -
  let ?marshal = "\<lambda>m. Inr ''<vm/>'' :: string result"
  obtain features where f: "domain_features ''x86_64'' = Some features" by (simp add: domain_features_def)
  from to_domain_valid[where marshal = ?marshal, OF other_vmdef_valid f HOL.refl, of id "''v''"]
  obtain d where d: "to_domain id ''x86_64'' ?marshal other_vmdef ''v'' = Inr d" by blast
  obtain old where "from_domain (\<lambda>x. Inr [(''tier'', ''a'')]) (sample_view d) zero_vmdef = Inr old" "found_again other_vmdef old"
    using from_shown_domain[where marshal = ?marshal and unmarshal = "\<lambda>x. Inr [(''tier'', ''a'')]" and vm = other_vmdef,
        OF other_vmdef_valid f _ _ HOL.refl _ d sample_view_shows]
    by (auto simp: other_vmdef_def sample_vmdef_def)
  then show ?thesis
    using found_again_paths[of other_vmdef old]
    by (intro exI[of _ "sample_view d"] exI[of _ old])
      (simp add: sv_From_xml_def From_xml_def reading_sv_def rbind_def other_Disks)
qed


end
