(* ===== verification/Cluster.thy ===== *)
theory Cluster
  imports Virtx_Props
begin

text \<open>
  The hosts of a cluster answering a request together: a host that forwards calls the service of
  another one. The hosts share libvirt's world, which each reaches through its own environment, and
  the shared file system; each has its inventory, its last collection and its jobs. A name that is
  not in the map is a host that does not answer.
\<close>

section \<open>The hosts\<close>

record 'w node =
  nd_env :: "'w srv_env"
  nd_addr :: string  \<comment> \<open>the remote address the others see\<close>
  nd_inv :: Inventory
  nd_si :: "SystemInfo option"
  nd_jobs :: "job list"

record 'w cluster =
  cl_nodes :: "string \<rightharpoonup> 'w node"
  cl_world :: 'w
  cl_fs :: fs

definition node_server :: "'w node \<Rightarrow> 'w cluster \<Rightarrow> 'w server" where
  "node_server nd cl = \<lparr>ss_inv = nd_inv nd, ss_si = nd_si nd, ss_world = cl_world cl, ss_fs = cl_fs cl, ss_jobs = nd_jobs nd\<rparr>"

definition put_node :: "string \<Rightarrow> 'w node \<Rightarrow> 'w server \<Rightarrow> 'w cluster \<Rightarrow> 'w cluster" where
  "put_node name nd ss cl = cl\<lparr>
     cl_nodes := (cl_nodes cl)(name \<mapsto> nd\<lparr>nd_inv := ss_inv ss, nd_si := ss_si ss, nd_jobs := ss_jobs ss\<rparr>),
     cl_world := ss_world ss, cl_fs := ss_fs ss\<rparr>"

text \<open>The name of the host in \<open>api_server:8080\<close>.\<close>

definition host_name :: "string \<Rightarrow> string" where
  "host_name addr = take (length addr - 5) addr"

text \<open>The answer, the cluster afterwards and the hosts that took part, in order; \<open>None\<close> would be a
  request that is forwarded for ever.\<close>

partial_function (option) handle_at ::
  "string \<Rightarrow> HttpRequest \<Rightarrow> 'w cluster \<Rightarrow> (HttpResponse result \<times> 'w cluster \<times> string list) option" where
  "handle_at name r cl =
     (case cl_nodes cl name of
        None \<Rightarrow> Some (Inl (Msg ''connection failed''), cl, [])
      | Some nd \<Rightarrow>
          (case serve (nd_env nd) r (node_server nd cl) of
             (Answer a, ss) \<Rightarrow> Some (Inr a, put_node name nd ss cl, [name])
           | (Forward req, ss) \<Rightarrow>
               Option.bind (handle_at (host_name (rq_Host req)) (req\<lparr>rq_RemoteAddr := nd_addr nd\<rparr>) (put_node name nd ss cl))
                 (\<lambda>(resp, cl1, visited). Some (Inr (proxy_finish resp), cl1, name # visited))))"

section \<open>A request is answered after at most two hosts\<close>

lemma put_same [simp]: "cl_nodes cl name = Some nd \<Longrightarrow> put_node name nd (node_server nd cl) cl = cl"
  by (auto simp: put_node_def node_server_def intro!: cluster.equality)

lemma host_name_port [simp]: "host_name (name @ '':8080'') = name"
  by (simp add: host_name_def)

lemma proxy_headers_loop [simp]: "header_Get loop_header (proxy_headers ip h) = ''1''"
  by (simp add: proxy_headers_def header_Get_def header_Set_def Let_def)

lemma forwards_marked: "forwards sv ss r req \<Longrightarrow>
    header_Get loop_header (rq_Header r) = '''' \<and> header_Get loop_header (rq_Header req) = ''1''"
  by (auto simp: forwards_def new_request_def)

text \<open>A host that a marked request reaches answers it.\<close>

lemma serve_marked:
  assumes "header_Get loop_header (rq_Header r) \<noteq> ''''" and "serve sv r ss = (p, ss')"
  shows "\<exists>a. p = Answer a"
proof (cases p)
  case (Forward req)
  with assms(2) serve_passes[of sv ss r] show ?thesis
    using assms(1) by (auto simp: passes_def forwards_def)
qed auto

lemma handle_marked:
  assumes "header_Get loop_header (rq_Header r) \<noteq> ''''"
  shows "handle_at name r cl =
    (case cl_nodes cl name of
       None \<Rightarrow> Some (Inl (Msg ''connection failed''), cl, [])
     | Some nd \<Rightarrow> (case serve (nd_env nd) r (node_server nd cl) of
         (p, ss) \<Rightarrow> Some (Inr (case p of Answer a \<Rightarrow> a), put_node name nd ss cl, [name])))"
proof (cases "cl_nodes cl name")
  case None
  then show ?thesis by (subst handle_at.simps) simp
next
  case (Some nd)
  obtain p ss where s: "serve (nd_env nd) r (node_server nd cl) = (p, ss)" by fastforce
  with serve_marked[OF assms] obtain a where "p = Answer a" by blast
  with Some s show ?thesis by (subst handle_at.simps) simp
qed

text \<open>What a host does with a request: it answers, or the request goes on once, to a host that
  answers, and nothing has happened at the first one.\<close>

lemma handle_at_cases:
  assumes nd: "cl_nodes cl name = Some nd"
  obtains (answered) a ss where "serve (nd_env nd) r (node_server nd cl) = (Answer a, ss)"
      "handle_at name r cl = Some (Inr a, put_node name nd ss cl, [name])"
  | (forwarded) req where "serve (nd_env nd) r (node_server nd cl) = (Forward req, node_server nd cl)"
      "forwards (nd_env nd) (node_server nd cl) r req"
      "handle_at name r cl = map_option (\<lambda>(resp, cl1, visited). (Inr (proxy_finish resp), cl1, name # visited))
         (handle_at (host_name (rq_Host req)) (req\<lparr>rq_RemoteAddr := nd_addr nd\<rparr>) cl)"
proof -
  obtain p ss where s: "serve (nd_env nd) r (node_server nd cl) = (p, ss)" by fastforce
  show thesis
  proof (cases p)
    case (Answer a)
    with nd s show thesis by (intro answered[of a ss]) (auto simp: handle_at.simps[of name])
  next
    case (Forward req)
    with s serve_passes[of "nd_env nd" "node_server nd cl" r] have "ss = node_server nd cl"
      and "forwards (nd_env nd) (node_server nd cl) r req" by (auto simp: passes_def)
    moreover from this nd s Forward have "handle_at name r cl =
        map_option (\<lambda>(resp, cl1, visited). (Inr (proxy_finish resp), cl1, name # visited))
         (handle_at (host_name (rq_Host req)) (req\<lparr>rq_RemoteAddr := nd_addr nd\<rparr>) cl)"
      by (subst handle_at.simps) (auto simp: map_option_case bind_eq_Some_conv split: option.split)
    ultimately show thesis using s Forward by (intro forwarded[of req]) auto
  qed
qed
text \<open>C12: a request is answered. However the hosts have forwarded it before and whatever they know
  of each other, handling it ends, at most two hosts take part, and only the last of them can have
  changed its inventory, its collection or its jobs.\<close>

theorem answered_within_two_hosts:
  "\<exists>resp cl' visited nd. handle_at name r cl = Some (resp, cl', visited) \<and> length visited \<le> 2 \<and>
     cl_nodes cl' = (if visited = [] then cl_nodes cl else (cl_nodes cl)(last visited \<mapsto> nd))"
proof (cases "cl_nodes cl name")
  case None
  then show ?thesis by (subst handle_at.simps) simp
next
  case (Some nd)
  then show ?thesis
  proof (cases rule: handle_at_cases[where r = r])
    case (answered a ss)
    then show ?thesis by (auto simp: put_node_def)
  next
    case (forwarded req)
    let ?req = "req\<lparr>rq_RemoteAddr := nd_addr nd\<rparr>" and ?b = "host_name (rq_Host req)"
    have marked: "header_Get loop_header (rq_Header ?req) \<noteq> ''''"
      using forwards_marked[OF forwarded(2)] by simp
    show ?thesis
    proof (cases "cl_nodes cl ?b")
      case None
      with forwarded(3) handle_marked[OF marked, of ?b cl] Some show ?thesis
        by (auto intro!: exI[of _ nd])
    next
      case (Some nb)
      with forwarded(3) handle_marked[OF marked, of ?b cl] show ?thesis
        by (auto simp: put_node_def split: prod.splits)
    qed
  qed
qed

section \<open>Any host gives the answer of the owner\<close>

text \<open>The handlers of one machine, which its host answers, and the ones that read a body.\<close>

definition owner_op :: "handler \<Rightarrow> bool" where
  "owner_op h \<longleftrightarrow> h \<in> {VmUpdate, VmGet, VmDelete, VmBoot, VmShutdown, VmPause, VmResume, VmMigrate, VmMigrateGet, VmMigrateAbort}"

definition reads_body :: "handler \<Rightarrow> bool" where
  "reads_body h \<longleftrightarrow> h \<in> {VmUpdate, VmDelete, VmBoot, VmShutdown, VmMigrate}"

text \<open>A request whose body came whole.\<close>

definition whole :: "HttpRequest \<Rightarrow> string \<Rightarrow> bool" where
  "whole r b \<longleftrightarrow> rq_Body r = Inr b \<and> rq_ContentLength r = int (length b)"

definition forward_of :: "HttpRequest \<Rightarrow> string \<Rightarrow> string \<Rightarrow> string \<Rightarrow> HttpRequest" where
  "forward_of r ip name body = new_request (rq_Method r) (name @ '':8080'') (rq_TLS r) (rq_Path r)
     (proxy_headers ip (rq_Header r)) body"

text \<open>What two hosts make of a request agrees when the first forwards it or both answer it the same
  without doing anything.\<close>

definition agrees :: "HttpRequest \<Rightarrow> 'w server \<Rightarrow> 'w server \<Rightarrow> 'w handled \<Rightarrow> 'w handled \<Rightarrow> bool" where
  "agrees fwd ssa ssb ha hb \<longleftrightarrow> ha = (Forward fwd, ssa) \<or> (\<exists>x. ha = (Answer x, ssa) \<and> hb = (Answer x, ssb))"

named_theorems agreeing

lemma agrees_refuse [agreeing]: "agrees fwd ssa ssb (refuse m c ssa) (refuse m c ssb)"
  by (simp add: agrees_def refuse_def)

lemma agrees_if [agreeing]: "b = b' \<Longrightarrow> agrees fwd ssa ssb h h' \<Longrightarrow> agrees fwd ssa ssb g g' \<Longrightarrow>
    agrees fwd ssa ssb (if b then h else g) (if b' then h' else g')"
  by simp

lemma agrees_uuid [agreeing]: "agrees fwd ssa ssb h h' \<Longrightarrow>
    agrees fwd ssa ssb (with_uuid u ssa h) (with_uuid u ssb h')"
  by (simp add: with_uuid_def agreeing)

lemma agrees_vm:
  assumes "Get_vminfo u (ss_inv ssa) = Inr va" "Get_vminfo u (ss_inv ssb) = Inr vb"
    "agrees fwd ssa ssb (k va) (k' vb)"
  shows "agrees fwd ssa ssb (with_vm u ssa k) (with_vm u ssb k')"
  using assms by (simp add: with_vm_def or_fail_def)

lemma read_whole: "whole r b \<Longrightarrow> read_body (rq_ContentLength r) (rq_Body r) =
    (if b = '''' then Inl (Msg ''Body expected but not found'')
     else if int (length b) \<ge> HTTP_MAX_BODY_LEN then Inl (Msg ''content-length exceeded'') else Inr b)"
  by (auto simp: whole_def read_body_def Let_def)

lemma agrees_body:
  assumes "whole r b" "\<And>o'. agrees fwd ssa ssb (k \<lparr>vr_r = r, vr_body = b\<rparr> o') (k' \<lparr>vr_r = r, vr_body = b\<rparr> o')"
  shows "agrees fwd ssa ssb (with_body (Some d) r ssa k) (with_body (Some d) r ssb k')"
  using assms by (auto simp: with_body_def or_fail_def Decode_request_body_def rbind_def read_whole agreeing split: sum.split)

lemma agrees_no_body [agreeing]:
  assumes "agrees fwd ssa ssb (k \<lparr>vr_r = r, vr_body = ''''\<rparr> None) (k' \<lparr>vr_r = r, vr_body = ''''\<rparr> None)"
  shows "agrees fwd ssa ssb (with_body None r ssa k) (with_body None r ssb k')"
  using assms by (simp add: with_body_def or_fail_def Decode_request_body_def)

lemma agrees_proxy [agreeing]:
  assumes "http_proxy_request (sv_net sv) (ss_inv ssa) host vr = Forward fwd" "http_host_is_remote (sv_machine sv) host"
  shows "agrees fwd ssa ssb (or_proxy sv host vr ssa h) h'"
  using assms by (simp add: or_proxy_def agrees_def)
lemma owner_op_agrees:
  assumes op: "owner_op h" and r: "whole r b"
    and known: "Get_vminfo uuid (ss_inv ssa) = Inr va" "Get_vminfo uuid (ss_inv ssb) = Inr vb" "ve_host va = ve_host vb"
    and json: "sv_json sva = sv_json svb"
    and remote: "http_host_is_remote (sv_machine sva) (ve_host vb)"
    and proxy: "\<And>body. http_proxy_request (sv_net sva) (ss_inv ssa) (ve_host vb) \<lparr>vr_r = r, vr_body = body\<rparr> = Forward (fwd body)"
  shows "agrees (fwd (if reads_body h then b else '''')) ssa ssb (run_handler sva h uuid r ssa) (run_handler svb h uuid r ssb)"
proof -
  note vm = agrees_vm[OF known(1,2)] and body = agrees_body[OF r]
  have op': "h = VmUpdate \<or> h = VmGet \<or> h = VmDelete \<or> h = VmBoot \<or> h = VmShutdown \<or> h = VmPause \<or> h = VmResume \<or>
    h = VmMigrate \<or> h = VmMigrateGet \<or> h = VmMigrateAbort"
    using op by (auto simp: owner_op_def)
  show ?thesis
    using op'
    apply (elim disjE; simp only: reads_body_def run_handler_def handler.case vm_update_def vm_get_def vm_delete_def
        vm_boot_def vm_shutdown_def vm_pause_def vm_resume_def vm_migrate_def vm_migrate_get_def vm_migrate_abort_def
        json known(3) Let_def; intro agreeing vm body)
    using proxy remote known(3) by simp_all
qed

text \<open>The owner makes the same of the request however it came.\<close>

lemma with_body_same:
  assumes "whole r b" "whole r' b"
  shows "with_body (Some d) r ss (\<lambda>vr. k) = with_body (Some d) r' ss (\<lambda>vr. k)"
  using assms by (simp add: with_body_def or_fail_def Decode_request_body_def rbind_def read_whole split: sum.split)

lemma with_no_body_same: "with_body None r ss (\<lambda>vr. k) = with_body None r' ss (\<lambda>vr. k)"
  by (simp add: with_body_def or_fail_def Decode_request_body_def)

lemma or_proxy_owner: "or_proxy sv (sv_machine sv) vr ss h = h"
  by (simp add: or_proxy_def http_host_is_remote_def)

lemma with_vm_known: "Get_vminfo u (ss_inv ss) = Inr v \<Longrightarrow> with_vm u ss k = k v"
  by (simp add: with_vm_def or_fail_def)

lemma owner_same:
  assumes op: "owner_op h" and r: "whole r b" "whole r' (if reads_body h then b else '''')"
    and known: "Get_vminfo uuid (ss_inv ss) = Inr v" "ve_host v = sv_machine sv"
  shows "run_handler sv h uuid r ss = run_handler sv h uuid r' ss"
proof -
  have op': "h = VmUpdate \<or> h = VmGet \<or> h = VmDelete \<or> h = VmBoot \<or> h = VmShutdown \<or> h = VmPause \<or> h = VmResume \<or>
    h = VmMigrate \<or> h = VmMigrateGet \<or> h = VmMigrateAbort"
    using op by (auto simp: owner_op_def)
  show ?thesis
    using op' r
    apply (elim disjE; simp only: reads_body_def run_handler_def handler.case vm_update_def vm_get_def vm_delete_def
        vm_boot_def vm_shutdown_def vm_pause_def vm_resume_def vm_migrate_def vm_migrate_get_def vm_migrate_abort_def
        known with_vm_known[OF known(1)] or_proxy_owner Let_def)
    by (auto intro!: with_body_same with_no_body_same)
qed
text \<open>C13: any host gives the owner's answer. A request on a machine that reaches a host which knows
  where the machine runs and knows that host as active is answered as if it had reached the
  owner: the same answer, and the same cluster afterwards.\<close>

theorem any_host_gives_the_answer:
  assumes route: "route (rq_Method r) (rq_Path r) = Handler uuid h" "owner_op h"
    and nodes: "cl_nodes cl a = Some na" "cl_nodes cl b = Some nb"
    and known: "Get_vminfo uuid (nd_inv na) = Inr va" "Get_vminfo uuid (nd_inv nb) = Inr vb"
      "ve_host va = sv_machine (nd_env nb)" "ve_host vb = sv_machine (nd_env nb)"
      "http_host_is_remote (sv_machine (nd_env na)) (ve_host va)"
    and host: "Get_hostinfo (ve_host va) (nd_inv na) = Inr hi" "hf_cstate (hinfo_fields hi) = CSTATE_ACTIVE"
      "hf_name (hinfo_fields hi) = b"
    and json: "sv_json (nd_env na) = sv_json (nd_env nb)"
    and sent: "whole r body" "header_Get loop_header (rq_Header r) = ''''" "SplitHostPort (rq_RemoteAddr r) = Inr ip"
      "hn_NewRequest (sv_net (nd_env na)) (rq_Method r) (b @ '':8080'') (rq_Path r) = None"
  shows "\<exists>answer cl' v w. handle_at a r cl = Some (answer, cl', v) \<and> handle_at b r cl = Some (answer, cl', w)"
proof -
  let ?ssa = "node_server na cl" and ?ssb = "node_server nb cl" and ?fwd = "forward_of r ip b"
  let ?body = "if reads_body h then body else ''''"
  let ?r = "?fwd ?body\<lparr>rq_RemoteAddr := nd_addr na\<rparr>"
  have inv: "ss_inv ?ssa = nd_inv na" "ss_inv ?ssb = nd_inv nb" by (simp_all add: node_server_def)
  have "http_proxy_request (sv_net (nd_env na)) (ss_inv ?ssa) (ve_host vb) \<lparr>vr_r = r, vr_body = c\<rparr> = Forward (?fwd c)" for c
    using host known(3,4) sent by (simp add: http_proxy_request_def proxy_prepare_def inv forward_of_def Let_def)
  from owner_op_agrees[OF route(2) sent(1) _ _ _ json _ this, where uuid = uuid and ssb = ?ssb and va = va] known
  have ag: "agrees (?fwd ?body) ?ssa ?ssb (serve (nd_env na) r ?ssa) (serve (nd_env nb) r ?ssb)"
    by (simp add: inv serve_def route(1))
  have r': "rq_Method ?r = rq_Method r" "rq_Path ?r = rq_Path r" "whole ?r ?body"
    "header_Get loop_header (rq_Header ?r) \<noteq> ''''" "host_name (rq_Host (?fwd ?body)) = b"
    by (simp_all add: forward_of_def new_request_def whole_def)
  have same: "serve (nd_env nb) r ?ssb = serve (nd_env nb) ?r ?ssb"
    using owner_same[OF route(2) sent(1) r'(3), where uuid = uuid and ss = ?ssb and v = vb and sv = "nd_env nb"] known
    by (simp add: serve_def r'(1,2) route(1) inv)
  obtain y ss where y: "serve (nd_env nb) ?r ?ssb = (Answer y, ss)"
    using serve_marked[OF r'(4)] by (metis prod.collapse)
  have b: "handle_at b r cl = Some (Inr y, put_node b nb ss cl, [b])"
    using nodes(2) same y by (subst handle_at.simps) simp
  from ag consider "serve (nd_env na) r ?ssa = (Forward (?fwd ?body), ?ssa)"
    | x where "serve (nd_env na) r ?ssa = (Answer x, ?ssa)" "serve (nd_env nb) r ?ssb = (Answer x, ?ssb)"
    by (auto simp: agrees_def)
  then show ?thesis
  proof cases
    case 1
    have "handle_at b ?r cl = Some (Inr y, put_node b nb ss cl, [b])"
      using nodes(2) y by (subst handle_at.simps) simp
    then have "handle_at a r cl = Some (Inr y, put_node b nb ss cl, [a, b])"
      using nodes(1) 1 by (subst handle_at.simps) (simp add: r'(5) proxy_finish_def)
    with b show ?thesis by blast
  next
    case 2
    then have "handle_at a r cl = Some (Inr x, cl, [a])" using nodes(1) by (subst handle_at.simps) simp
    moreover have "handle_at b r cl = Some (Inr x, cl, [b])"
      using 2(2) same y b nodes(2) by simp
    ultimately show ?thesis by blast
  qed
qed

section \<open>Witnesses\<close>

text \<open>Two hosts; the machine \<open>v\<close> runs on \<open>A\<close>, whose name is \<open>node1\<close>, and the request reaches
  \<open>node2\<close>.\<close>

definition sample_node :: "string \<Rightarrow> meta_world node" where
  "sample_node machine = \<lparr>nd_env = idle_sv sample_se machine, nd_addr = ''10.0.0.2:9000'', nd_inv = sample_inventory,
     nd_si = None, nd_jobs = []\<rparr>"

definition sample_cluster :: "meta_world cluster" where
  "sample_cluster = \<lparr>cl_nodes = [''node1'' \<mapsto> sample_node ''A'', ''node2'' \<mapsto> sample_node ''B''],
     cl_world = (\<lambda>_. Map.empty), cl_fs = sample_fs\<rparr>"

lemma sample_split: "SplitHostPort ''10.0.0.7:40000'' = Inr ''10.0.0.7''"
  by code_simp

theorem any_host_gives_the_answer_witness:
  "\<exists>answer cl' v w. handle_at ''node2'' (sample_request ''POST'' ''/vms/v/runstate/pause'' '''') sample_cluster = Some (answer, cl', v) \<and>
     handle_at ''node1'' (sample_request ''POST'' ''/vms/v/runstate/pause'' '''') sample_cluster = Some (answer, cl', w)"
proof (rule any_host_gives_the_answer[where na = "sample_node ''B''" and nb = "sample_node ''A''"
      and va = "sample_vm ''v'' ''A'' 10" and vb = "sample_vm ''v'' ''A'' 10" and hi = "sample_host ''A'' 5"
      and h = VmPause and uuid = "''v''" and body = "''''" and ip = "''10.0.0.7''"])
  have inv: "nd_inv (sample_node m) = sample_inventory" "nd_env (sample_node m) = idle_sv sample_se m" for m
    by (simp_all add: sample_node_def)
  show "Get_vminfo ''v'' (nd_inv (sample_node ''B'')) = Inr (sample_vm ''v'' ''A'' 10)"
    "Get_vminfo ''v'' (nd_inv (sample_node ''A'')) = Inr (sample_vm ''v'' ''A'' 10)"
    by (simp_all add: inv Get_vminfo_def sample_vms)
  show "Get_hostinfo (ve_host (sample_vm ''v'' ''A'' 10)) (nd_inv (sample_node ''B'')) = Inr (sample_host ''A'' 5)"
    by (simp add: inv Get_hostinfo_def sample_hosts) (simp add: sample_vm_def)
  show "whole (sample_request ''POST'' ''/vms/v/runstate/pause'' '''') ''''"
    by (simp add: whole_def sample_request_def new_request_def)
  show "http_host_is_remote (sv_machine (nd_env (sample_node ''B''))) (ve_host (sample_vm ''v'' ''A'' 10))"
    "ve_host (sample_vm ''v'' ''A'' 10) = sv_machine (nd_env (sample_node ''A''))"
    "ve_host (sample_vm ''v'' ''A'' 10) = sv_machine (nd_env (sample_node ''A''))"
    by (simp_all add: inv http_host_is_remote_def sample_vm_def)
  show "hn_NewRequest (sv_net (nd_env (sample_node ''B''))) (rq_Method (sample_request ''POST'' ''/vms/v/runstate/pause'' ''''))
      (''node1'' @ '':8080'') (rq_Path (sample_request ''POST'' ''/vms/v/runstate/pause'' '''')) = None"
    "sv_json (nd_env (sample_node ''B'')) = sv_json (nd_env (sample_node ''A''))"
    by (simp_all only: inv idle_simps)
  show "route (rq_Method (sample_request ''POST'' ''/vms/v/runstate/pause'' '''')) (rq_Path (sample_request ''POST'' ''/vms/v/runstate/pause'' '''')) =
      Handler ''v'' VmPause"
    by (simp add: sample_routes)
qed (simp_all add: owner_op_def sample_cluster_def sample_host_def sample_split header_Get_def)

end
