(* ===== verification/Client_Props.thy ===== *)
theory Client_Props
  imports Json_Model Cluster
begin

text \<open>
  What the client guarantees: every result is printed as the type it has, and every command reaches
  the handler of its name with the arguments and options of the command line.
\<close>

section \<open>Commands\<close>

fun leaves :: "cmd_tree list \<Rightarrow> command list" where
  "leaves [] = []"
| "leaves (Leaf cm # ts) = cm # leaves ts"
| "leaves (Group n sub # ts) = leaves sub @ leaves ts"

lemma find_command_leaf: "find_command missing ws ts = Found cm args \<Longrightarrow> missing \<noteq> Found cm args \<Longrightarrow> cm \<in> set (leaves ts)"
  by (induction missing ws ts rule: find_command.induct) (auto split: if_splits)

lemmas command_defs = cmd_list_host_def cmd_list_vm_def cmd_get_host_def cmd_get_vm_def cmd_get_runstate_vm_def
  cmd_get_migrate_vm_def cmd_create_vm_def cmd_update_vm_def cmd_delete_vm_def cmd_boot_vm_def cmd_shutdown_vm_def
  cmd_pause_vm_def cmd_resume_vm_def cmd_migrate_vm_def cmd_abort_migrate_vm_def cmd_register_vm_def

lemmas request_defs = host_get_req_def host_list_req_def vm_boot_req_def vm_create_req_def vm_delete_req_def vm_get_req_def
  vm_list_req_def vm_migrate_req_def vm_migrate_abort_req_def vm_migrate_get_req_def vm_pause_req_def vm_register_req_def
  vm_resume_req_def vm_runstate_get_req_def vm_shutdown_req_def vm_update_req_def prepare_def

text \<open>Setting flags leaves the request and its result alone.\<close>

definition same_request :: "VirtxClient \<Rightarrow> VirtxClient \<Rightarrow> bool" where
  "same_request c c' \<longleftrightarrow> vc_result c' = vc_result c \<and> vc_ok c' = vc_ok c \<and> vc_path c' = vc_path c"

definition flag_keeps :: "flag \<Rightarrow> bool" where
  "flag_keeps f \<longleftrightarrow> (case fg_var f of
     StringVar s \<Rightarrow> \<forall>v c. same_request c (s v c) | Int16Var s \<Rightarrow> \<forall>v c. same_request c (s v c)
   | Int32Var s \<Rightarrow> \<forall>v c. same_request c (s v c) | BoolVar s \<Rightarrow> \<forall>v c. same_request c (s v c)
   | CountVar s \<Rightarrow> \<forall>c. same_request c (s c) | Local \<Rightarrow> True)"

lemma set_flag_keeps:
  assumes "list_all flag_keeps flags" "set_flag flags g c = Inr c'"
  shows "same_request c c'"
proof -
  obtain f where f: "find (\<lambda>f. fg_long f = fst g) flags = Some f"
    using assms(2) by (auto simp: set_flag_def split: option.splits)
  then have "flag_keeps f" using assms(1) by (auto simp: find_Some_iff list_all_length)
  with assms(2) f show ?thesis
    by (auto simp: set_flag_def flag_keeps_def same_request_def split: flag_var.splits flag_value.splits)
qed

lemma set_flags_keeps: "list_all flag_keeps flags \<Longrightarrow> set_flags flags gs c = Inr c' \<Longrightarrow> same_request c c'"
proof (induction gs arbitrary: c)
  case (Cons g gs)
  then obtain c1 where c1: "set_flag flags g c = Inr c1" "set_flags flags gs c1 = Inr c'"
    by (auto simp: rbind_def split: sum.splits)
  with Cons.IH[OF Cons.prems(1) c1(2)] set_flag_keeps[OF Cons.prems(1) c1(1)] show ?case
    by (simp add: same_request_def)
qed (simp add: same_request_def)

text \<open>The table of the commands: flags that keep the request, no flag defined twice, and the result
  that is printed is the one the request asks for.\<close>

definition command_ok :: "command \<Rightarrow> bool" where
  "command_ok cm \<longleftrightarrow> list_all flag_keeps (cm_flags cm @ persistent_flags) \<and>
     distinct (map fg_long (cm_flags cm @ persistent_flags)) \<and> distinct (map fg_short (cm_flags cm @ persistent_flags))"

lemma read_opt_same: "read_opt env n p c = Inr c' \<Longrightarrow> same_request c c'"
  by (auto simp: read_opt_def same_request_def rbind_def split: if_splits sum.splits)

lemma all_commands_ok: "list_all command_ok (leaves commands)"
  by (simp add: commands_def command_ok_def flag_keeps_def same_request_def command_defs flag_of_def persistent_flags_def)

lemma all_commands_typed:
  "cm \<in> set (leaves commands) \<Longrightarrow> cm_req cm env args loc c = Inr c' \<Longrightarrow>
     vc_result c' = (case cm_shows cm of None \<Rightarrow> NoResult | Some k \<Rightarrow> k) \<and> vc_ok c' = vc_ok c \<and> vc_path c' \<noteq> ''''"
  by (auto simp: commands_def command_defs request_defs rbind_def Let_def same_request_def dest!: read_opt_same split: sum.splits)

lemma cmd_exec_prepared:
  assumes "cmd_exec env words given c = Inr (Prepared c')" "\<not> vc_ok c"
  obtains (helped) "c' = c" | (run) cm args c1 where "find_command Unknown words commands = Found cm args"
    "cm \<in> set (leaves commands)" "set_flags (cm_flags cm @ persistent_flags) given c = Inr c1" "args_ok (cm_args cm) (length args)"
    "set (cm_required cm) \<subseteq> fst ` set given" "cm_req cm env args (local_flag given) c1 = Inr c'"
    "vc_result c' = (case cm_shows cm of None \<Rightarrow> NoResult | Some k \<Rightarrow> k)" "vc_path c' \<noteq> ''''"
proof (cases "find_command Unknown words commands")
  case (Found cm args)
  from find_command_leaf[OF this] have cm: "cm \<in> set (leaves commands)" by simp
  obtain c1 where c1: "set_flags (cm_flags cm @ persistent_flags) given c = Inr c1"
    using assms(1) Found by (auto simp: cmd_exec_def rbind_def split: sum.splits)
  have "list_all flag_keeps (cm_flags cm @ persistent_flags)"
    using all_commands_ok cm by (auto simp: list_all_iff command_ok_def)
  from set_flags_keeps[OF this c1] assms(2) have "\<not> vc_ok c1" by (simp add: same_request_def)
  with assms(1) Found c1 have r: "args_ok (cm_args cm) (length args)" "set (cm_required cm) \<subseteq> fst ` set given"
    "cm_req cm env args (local_flag given) c1 = Inr c'"
    by (auto simp: cmd_exec_def rbind_def split: if_splits sum.splits)
  from all_commands_typed[OF cm r(3)] show thesis using run[OF Found cm c1 r] by simp
qed (use assms helped in \<open>auto simp: cmd_exec_def\<close>)
lemma cmd_exec_prints:
  assumes "find_command Unknown words commands = Found cm args" "cmd_exec env words given c = Inr (Print (Some k))"
  shows "cm_shows cm = Some k"
  using assms by (auto simp: cmd_exec_def rbind_def split: if_splits sum.splits)

text \<open>The client is well typed. No command defines a flag or its letter twice, which cobra would
  refuse with a panic at the start, and whatever the command line and the answer, the result that
  \<open>main\<close> decoded is of the type to which the command asserts it.\<close>

theorem client_never_panics:
  "list_all (\<lambda>cm. distinct (map fg_long (cm_flags cm @ persistent_flags)) \<and>
       distinct (map fg_short (cm_flags cm @ persistent_flags))) (leaves commands) \<and>
     fst (client_main env net decode words given api_server n) \<noteq> Panic"
proof
  show "list_all (\<lambda>cm. distinct (map fg_long (cm_flags cm @ persistent_flags)) \<and>
      distinct (map fg_short (cm_flags cm @ persistent_flags))) (leaves commands)"
    using all_commands_ok by (auto simp: list_all_iff command_ok_def)
  have ok: "\<not> vc_ok (new_client api_server)" by (simp add: new_client_def)
  have "k = vc_result c1"
    if first: "cmd_exec env words given (new_client api_server) = Inr (Prepared c1)" and sent: "vc_path c1 \<noteq> ''''"
      and second: "cmd_exec env words given (c1\<lparr>vc_ok := True\<rparr>) = Inr (Print (Some k))" for c1 k
    using first ok
  proof (cases rule: cmd_exec_prepared)
    case helped
    with sent show ?thesis by (simp add: new_client_def)
  next
    case (run cm args c0)
    with cmd_exec_prints[OF run(1) second] show ?thesis by simp
  qed
  then show "fst (client_main env net decode words given api_server n) \<noteq> Panic"
    by (auto simp: client_main_def split: sum.split ran.split prod.split option.split)
qed

section \<open>Reaching the handler\<close>

text \<open>The handler each command is for. All but three take the UUID as their first argument.\<close>

definition command_table :: "(string list \<times> handler) list" where
  "command_table =
     [([''list'', ''host''], HostList), ([''list'', ''vm''], VmList), ([''get'', ''host''], HostGet), ([''get'', ''vm''], VmGet),
      ([''get'', ''runstate'', ''vm''], VmRunstateGet), ([''get'', ''migrate'', ''vm''], VmMigrateGet),
      ([''create'', ''vm''], VmCreate), ([''update'', ''vm''], VmUpdate), ([''delete'', ''vm''], VmDelete),
      ([''boot'', ''vm''], VmBoot), ([''shutdown'', ''vm''], VmShutdown), ([''pause'', ''vm''], VmPause),
      ([''resume'', ''vm''], VmResume), ([''migrate'', ''vm''], VmMigrate), ([''abort'', ''migrate'', ''vm''], VmMigrateAbort),
      ([''register'', ''vm''], VmRegister)]"

definition takes_uuid :: "handler \<Rightarrow> bool" where
  "takes_uuid h \<longleftrightarrow> h \<noteq> HostList \<and> h \<noteq> VmList \<and> h \<noteq> VmCreate"

definition decodes :: "(string \<Rightarrow> 'a result) \<Rightarrow> HttpRequest \<Rightarrow> 'a \<Rightarrow> bool" where
  "decodes d r x \<longleftrightarrow> (\<exists>vr. Decode_request_body (Some d) r = Inr (vr, Some x))"

text \<open>The argument a handler wants, and that it decodes what the client sent.\<close>

definition arg_for :: "handler \<Rightarrow> request_arg \<Rightarrow> bool" where
  "arg_for h a \<longleftrightarrow> (case a of
     NoArg \<Rightarrow> h \<in> {HostGet, VmGet, VmRunstateGet, VmMigrateGet, VmPause, VmResume, VmMigrateAbort}
   | ArgHostList x \<Rightarrow> h = HostList | ArgVmList x \<Rightarrow> h = VmList | ArgVmCreate x \<Rightarrow> h = VmCreate
   | ArgVmUpdate x \<Rightarrow> h = VmUpdate | ArgVmDelete x \<Rightarrow> h = VmDelete | ArgVmBoot x \<Rightarrow> h = VmBoot
   | ArgVmShutdown x \<Rightarrow> h = VmShutdown | ArgVmMigrate x \<Rightarrow> h = VmMigrate | ArgVmRegister x \<Rightarrow> h = VmRegister)"

definition received :: "json \<Rightarrow> request_arg \<Rightarrow> HttpRequest \<Rightarrow> bool" where
  "received js a r \<longleftrightarrow> (case a of
     NoArg \<Rightarrow> True
   | ArgHostList x \<Rightarrow> decodes (js_get_host_list js) r x | ArgVmList x \<Rightarrow> decodes (js_get_vm_list js) r x
   | ArgVmCreate x \<Rightarrow> decodes (js_get_create js) r x | ArgVmUpdate x \<Rightarrow> decodes (js_get_update js) r x
   | ArgVmDelete x \<Rightarrow> decodes (js_get_delete js) r x | ArgVmBoot x \<Rightarrow> decodes (js_get_boot js) r x
   | ArgVmShutdown x \<Rightarrow> decodes (js_get_shutdown js) r x | ArgVmMigrate x \<Rightarrow> decodes (js_get_migrate js) r x
   | ArgVmRegister x \<Rightarrow> decodes (js_get_register js) r x)"

lemma route_segments:
  assumes "ss \<noteq> []" "list_all plain ss"
  shows "route meth (CHR ''/'' # join_segs ss) = first_route meth ss routes"
proof -
  have "\<forall>s\<in>set ss. CHR ''/'' \<notin> set s" using assms(2) by (auto simp: list_all_iff plain_def)
  from split_join[OF assms(1) this] have "split_on (CHR ''/'') (CHR ''/'' # join_segs ss) = [] # ss" by simp
  moreover have "clean_segments ss"
    using assms by (auto simp: clean_segments_def list_all_iff plain_def dest: in_set_butlastD)
  ultimately show ?thesis by (simp add: route_def)
qed

lemma plain_words [simp]: "plain ''vms''" "plain ''hosts''" "plain ''runstate''" "plain ''boot''" "plain ''pause''" "plain ''migrate''"
  "plain ''register''"
  by (simp_all add: plain_def)

lemma route_paths:
  "route meth ''/hosts'' = first_route meth [''hosts''] routes" "route meth ''/vms'' = first_route meth [''vms''] routes"
  "plain u \<Longrightarrow> route meth (''/hosts/'' @ u) = first_route meth [''hosts'', u] routes"
  "plain u \<Longrightarrow> route meth (''/vms/'' @ u) = first_route meth [''vms'', u] routes"
  "plain u \<Longrightarrow> route meth (''/vms/'' @ u @ ''/runstate'') = first_route meth [''vms'', u, ''runstate''] routes"
  "plain u \<Longrightarrow> route meth (''/vms/'' @ u @ ''/register'') = first_route meth [''vms'', u, ''register''] routes"
  "plain u \<Longrightarrow> route meth (''/vms/'' @ u @ ''/runstate/boot'') = first_route meth [''vms'', u, ''runstate'', ''boot''] routes"
  "plain u \<Longrightarrow> route meth (''/vms/'' @ u @ ''/runstate/pause'') = first_route meth [''vms'', u, ''runstate'', ''pause''] routes"
  "plain u \<Longrightarrow> route meth (''/vms/'' @ u @ ''/runstate/migrate'') = first_route meth [''vms'', u, ''runstate'', ''migrate''] routes"
  using route_segments[of "[''hosts'']" meth] route_segments[of "[''vms'']" meth] route_segments[of "[''hosts'', u]" meth]
    route_segments[of "[''vms'', u]" meth] route_segments[of "[''vms'', u, ''runstate'']" meth]
    route_segments[of "[''vms'', u, ''register'']" meth] route_segments[of "[''vms'', u, ''runstate'', ''boot'']" meth]
    route_segments[of "[''vms'', u, ''runstate'', ''pause'']" meth] route_segments[of "[''vms'', u, ''runstate'', ''migrate'']" meth]
  by (simp_all add: join_segs_Cons)

lemma body_decodes:
  assumes "whole r b" "b \<noteq> ''''" "int (length b) < HTTP_MAX_BODY_LEN" "d b = Inr x"
  shows "decodes d r x"
  using assms by (simp add: decodes_def Decode_request_body_def read_whole rbind_def)

lemma arg_received:
  assumes "arg_sent js a b" "b \<noteq> []" "whole r b" "int (length b) < HTTP_MAX_BODY_LEN"
  shows "received js a r"
  using assms(1) by (cases a) (auto simp: arg_sent_def received_def intro: body_decodes[OF assms(3,2,4)])

lemma plain_nonempty: "plain u \<Longrightarrow> u = '''' \<longleftrightarrow> False"
  by (simp add: plain_def)

lemma table_found:
  assumes "(path, h) \<in> set command_table"
  obtains cm where "find_command Unknown (path @ args) commands = Found cm args"
    "\<And>env loc c c'. cm_req cm env args loc c = Inr c' \<Longrightarrow> \<not> takes_uuid h \<or> plain (args ! 0) \<Longrightarrow>
       route (vc_method c') (vc_path c') = Handler (if takes_uuid h then args ! 0 else '''') h \<and> arg_for h (vc_arg c')"
proof -
  have "\<exists>cm. find_command Unknown (path @ args) commands = Found cm args \<and>
    (\<forall>env loc c c'. cm_req cm env args loc c = Inr c' \<longrightarrow> \<not> takes_uuid h \<or> plain (args ! 0) \<longrightarrow>
       route (vc_method c') (vc_path c') = Handler (if takes_uuid h then args ! 0 else '''') h \<and> arg_for h (vc_arg c'))"
    using assms unfolding command_table_def
    apply (simp only: set_simps insert_iff empty_iff simp_thms prod.inject)
    apply (elim disjE conjE; hypsubst)
    by (simp add: commands_def cmd_name_def command_defs request_defs takes_uuid_def arg_for_def rbind_def Let_def
        route_paths route_paths[unfolded append.simps] routes_def plain_nonempty split: sum.splits)+
  with that show thesis by blast
qed

section \<open>Witnesses\<close>

text \<open>A definition in a file, and the command that creates its machine.\<close>

definition sample_file :: string where
  "sample_file = quoted ''{ `name`: `a`, `osdisk`: { `path`: `/vms/a.qcow2`, `bus`: 3 } }''"

abbreviation sample_client :: client_env where
  "sample_client \<equiv> model_client (\<lambda>p. Inr sample_file) (\<lambda>_. True)"

lemma sample_file_read: "xe_vmdef sample_client sample_file = Inr (co_Vmdef sample_create)"
proof -
  have "Decode_json ty_Vmdef sample_file = Some (go_Vmdef (co_Vmdef sample_create))" by code_simp
  then show ?thesis by (simp add: model_client_def decode_as_def)
qed

lemma sample_storable: "arg_storable (ArgVmCreate sample_create)" "int (length (encode_arg (\<lambda>_. True) (ArgVmCreate sample_create))) < HTTP_MAX_BODY_LEN"
  by code_simp+


end
