(* ===== verification/Lockdir.thy ===== *)
theory Lockdir
  imports Lockman_Create
begin

text \<open>
  \<open>lm_init_lockdir\<close>: every host that starts makes sure that the lock directory with the lockspace
  file is there. It prepares both in a temporary directory of \<open>/vms\<close> and renames that into place.
  Each system call is one step on the directories; the hosts interleave. A directory is empty, holds
  the new file, or the file initialised by some host.
\<close>

section \<open>The system calls\<close>

datatype 'p ldir = EmptyDir | FileCreated | Initialised 'p

type_synonym 'p ldirs = "string \<rightharpoonup> 'p ldir"

datatype lpc = LGroup | LStat | LMkdir | LChmod string | LChown string | LOpen string | LInit string | LRename string
  | LMove string | LEnded "gerr option"

text \<open>What the removals leave, whose own errors the code ignores: nothing, the directory, or all.\<close>

datatype remains = Removed | LeftDir | LeftAll

definition cleaned :: "remains \<Rightarrow> string \<Rightarrow> 'p ldirs \<Rightarrow> 'p ldirs" where
  "cleaned rem t d = (case rem of Removed \<Rightarrow> d(t := None) | LeftDir \<Rightarrow> d(t \<mapsto> EmptyDir) | LeftAll \<Rightarrow> d)"

abbreviation (input) lock_name :: string where
  "lock_name \<equiv> ''lock''"

text \<open>The group \<open>sanlock\<close> is looked up first and its number parsed.\<close>

definition ld_group :: "gerr option \<Rightarrow> lpc" where
  "ld_group flt = (case flt of Some e \<Rightarrow> LEnded (Some e) | None \<Rightarrow> LStat)"

definition ld_stat :: "gerr option \<Rightarrow> 'p ldirs \<Rightarrow> lpc" where
  "ld_stat flt d = (if flt = None \<and> d lock_name \<noteq> None then LEnded None else LMkdir)"

definition ld_mkdir :: "gerr option \<Rightarrow> string \<Rightarrow> 'p ldirs \<Rightarrow> lpc \<times> 'p ldirs" where
  "ld_mkdir flt tmp d = (case flt of Some e \<Rightarrow> (LEnded (Some e), d) | None \<Rightarrow> (LChmod tmp, d(tmp \<mapsto> EmptyDir)))"

definition ld_attr :: "gerr option \<Rightarrow> remains \<Rightarrow> lpc \<Rightarrow> string \<Rightarrow> 'p ldirs \<Rightarrow> lpc \<times> 'p ldirs" where
  "ld_attr flt rem next t d = (case flt of Some e \<Rightarrow> (LEnded (Some e), cleaned rem t d) | None \<Rightarrow> (next, d))"

text \<open>The two calls of \<open>lm_init_lockspace\<close>, which creates the file and has sanlock initialise it.\<close>

definition lockspace_open :: "gerr option \<Rightarrow> remains \<Rightarrow> string \<Rightarrow> 'p ldirs \<Rightarrow> lpc \<times> 'p ldirs" where
  "lockspace_open flt rem t d =
     (case flt of Some e \<Rightarrow> (LEnded (Some e), cleaned rem t d) | None \<Rightarrow> (LInit t, d(t \<mapsto> FileCreated)))"

definition lockspace_init :: "gerr option \<Rightarrow> remains \<Rightarrow> 'p \<Rightarrow> string \<Rightarrow> 'p ldirs \<Rightarrow> lpc \<times> 'p ldirs" where
  "lockspace_init flt rem p t d =
     (case flt of Some e \<Rightarrow> (LEnded (Some e), cleaned rem t d) | None \<Rightarrow> (LRename t, d(t \<mapsto> Initialised p)))"

text \<open>Another host was quicker when \<open>os.Rename\<close> finds the lock directory there: it looks first whether the
  new name is a directory, and then makes the system call, which replaces a directory only if that is empty.\<close>

definition ld_look :: "gerr option \<Rightarrow> remains \<Rightarrow> string \<Rightarrow> 'p ldirs \<Rightarrow> lpc \<times> 'p ldirs" where
  "ld_look flt rem t d =
     (if flt = None \<and> d lock_name \<noteq> None then (LEnded None, cleaned rem t d) else (LMove t, d))"

definition ld_rename :: "gerr option \<Rightarrow> remains \<Rightarrow> string \<Rightarrow> 'p ldirs \<Rightarrow> lpc \<times> 'p ldirs" where
  "ld_rename flt rem t d =
     (let err = (case flt of Some e \<Rightarrow> Some e
                 | None \<Rightarrow> if d lock_name = None \<or> d lock_name = Some EmptyDir then None else Some Exist) in
      case err of
        None \<Rightarrow> (LEnded None, (d(t := None))(lock_name := d t))
      | Some e \<Rightarrow> if e = Exist then (LEnded None, cleaned rem t d) else (LEnded (Some e), d))"

fun ld_call :: "gerr option \<Rightarrow> remains \<Rightarrow> string \<Rightarrow> 'p \<Rightarrow> lpc \<Rightarrow> 'p ldirs \<Rightarrow> lpc \<times> 'p ldirs" where
  "ld_call flt rem tmp p LGroup d = (ld_group flt, d)"
| "ld_call flt rem tmp p LStat d = (ld_stat flt d, d)"
| "ld_call flt rem tmp p LMkdir d = ld_mkdir flt tmp d"
| "ld_call flt rem tmp p (LChmod t) d = ld_attr flt rem (LChown t) t d"
| "ld_call flt rem tmp p (LChown t) d = ld_attr flt rem (LOpen t) t d"
| "ld_call flt rem tmp p (LOpen t) d = lockspace_open flt rem t d"
| "ld_call flt rem tmp p (LInit t) d = lockspace_init flt rem p t d"
| "ld_call flt rem tmp p (LRename t) d = ld_look flt rem t d"
| "ld_call flt rem tmp p (LMove t) d = ld_rename flt rem t d"
| "ld_call flt rem tmp p (LEnded e) d = (LEnded e, d)"

text \<open>The function run without interference: its at most nine calls with what happens to each.\<close>

fun ld_calls :: "(gerr option \<times> remains) list \<Rightarrow> string \<Rightarrow> 'p \<Rightarrow> lpc \<Rightarrow> 'p ldirs \<Rightarrow> lpc \<times> 'p ldirs" where
  "ld_calls [] tmp p pc d = (pc, d)"
| "ld_calls ((flt, rem) # fs) tmp p pc d = (case ld_call flt rem tmp p pc d of (pc', d') \<Rightarrow> ld_calls fs tmp p pc' d')"

definition lm_init_lockdir ::
  "(gerr option \<times> remains) list \<Rightarrow> string \<Rightarrow> 'p \<Rightarrow> 'p ldirs \<Rightarrow> (gerr option \<times> 'p ldirs) option" where
  "lm_init_lockdir fs tmp p d = (case ld_calls fs tmp p LGroup d of (LEnded e, d') \<Rightarrow> Some (e, d') | _ \<Rightarrow> None)"

section \<open>Hosts\<close>

text \<open>A host draws a temporary name that is not in use; that the target of \<open>rename\<close> exists is not one
  of its failures but follows from the directories.\<close>

record 'p ld_state =
  ld_dirs :: "'p ldirs"
  ld_pc :: "'p \<Rightarrow> lpc"

inductive ld_step :: "'p ld_state \<Rightarrow> 'p ld_state \<Rightarrow> bool" where
  call: "ld_call flt rem tmp p (ld_pc s p) (ld_dirs s) = (pc', d') \<Longrightarrow> (\<forall>t. ld_pc s p = LMove t \<longrightarrow> flt \<noteq> Some Exist) \<Longrightarrow>
     tmp \<noteq> lock_name \<Longrightarrow>
     ld_dirs s tmp = None \<Longrightarrow> ld_step s \<lparr>ld_dirs = d', ld_pc = (ld_pc s)(p := pc')\<rparr>"

inductive ld_reach :: "'p ld_state \<Rightarrow> 'p ld_state \<Rightarrow> bool" where
  refl: "ld_reach s s"
| step: "ld_reach s t \<Longrightarrow> ld_step t u \<Longrightarrow> ld_reach s u"

definition ld_initial :: "'p ld_state \<Rightarrow> bool" where
  "ld_initial s \<longleftrightarrow> (\<forall>p. ld_pc s p = LGroup) \<and> (case ld_dirs s lock_name of None \<Rightarrow> True | Some x \<Rightarrow> \<exists>q. x = Initialised q)"

section \<open>The invariant\<close>

fun ltmp :: "lpc \<Rightarrow> string option" where
  "ltmp (LChmod t) = Some t"
| "ltmp (LChown t) = Some t"
| "ltmp (LOpen t) = Some t"
| "ltmp (LInit t) = Some t"
| "ltmp (LRename t) = Some t"
| "ltmp (LMove t) = Some t"
| "ltmp _ = None"

fun lholds :: "'p \<Rightarrow> lpc \<Rightarrow> 'p ldir" where
  "lholds p (LInit t) = FileCreated"
| "lholds p (LRename t) = Initialised p"
| "lholds p (LMove t) = Initialised p"
| "lholds p _ = EmptyDir"

definition lock_ready :: "'p ldirs \<Rightarrow> bool" where
  "lock_ready d \<longleftrightarrow> (\<exists>q. d lock_name = Some (Initialised q))"

definition own_tmp :: "'p \<Rightarrow> lpc \<Rightarrow> 'p ldirs \<Rightarrow> bool" where
  "own_tmp p pc d \<longleftrightarrow> (\<forall>t. ltmp pc = Some t \<longrightarrow> t \<noteq> lock_name \<and> d t = Some (lholds p pc))"

definition ld_ok :: "'p ld_state \<Rightarrow> bool" where
  "ld_ok s \<longleftrightarrow> (ld_dirs s lock_name = None \<or> lock_ready (ld_dirs s)) \<and>
     (\<forall>p. own_tmp p (ld_pc s p) (ld_dirs s)) \<and>
     (\<forall>p q t. ltmp (ld_pc s p) = Some t \<and> ltmp (ld_pc s q) = Some t \<longrightarrow> p = q) \<and>
     (\<forall>p. ld_pc s p = LEnded None \<longrightarrow> lock_ready (ld_dirs s))"

text \<open>What one call does to the lock directory, to the directory of its host and to those of the
  others.\<close>

lemma ld_call_frame:
  assumes "ld_call flt rem tmp p pc d = (pc', d')" "\<forall>t. pc = LMove t \<longrightarrow> flt \<noteq> Some Exist" "tmp \<noteq> lock_name" "d tmp = None" "own_tmp p pc d"
    and "d lock_name = None \<or> lock_ready d" "pc = LEnded None \<longrightarrow> lock_ready d"
  shows "(d' lock_name = d lock_name \<or> d lock_name = None \<and> lock_ready d') \<and> (pc' = LEnded None \<longrightarrow> lock_ready d') \<and>
    own_tmp p pc' d' \<and> (\<forall>t. ltmp pc' = Some t \<longrightarrow> ltmp pc = Some t \<or> d t = None) \<and>
    (\<forall>t. t \<noteq> lock_name \<and> d t \<noteq> None \<and> ltmp pc \<noteq> Some t \<longrightarrow> d' t = d t)"
  using assms
  by (cases pc; cases rem)
     (auto simp: ld_group_def ld_stat_def ld_mkdir_def ld_attr_def lockspace_open_def lockspace_init_def ld_look_def ld_rename_def cleaned_def
       own_tmp_def lock_ready_def Let_def split: option.splits if_splits)

lemma ld_ok_step:
  assumes "ld_step s s'" "ld_ok s"
  shows "ld_ok s' \<and> (ld_dirs s' lock_name = ld_dirs s lock_name \<or> ld_dirs s lock_name = None)"
  using assms(1)
proof cases
  case (call flt rem tmp p pc' d')
  note ok = assms(2)[unfolded ld_ok_def]
  have own: "own_tmp p (ld_pc s p) (ld_dirs s)" and lock: "ld_dirs s lock_name = None \<or> lock_ready (ld_dirs s)"
    and ended: "\<And>q. ld_pc s q = LEnded None \<longrightarrow> lock_ready (ld_dirs s)"
    and alone: "\<And>q q' t. ltmp (ld_pc s q) = Some t \<Longrightarrow> ltmp (ld_pc s q') = Some t \<Longrightarrow> q = q'"
    using ok by blast+
  note f = ld_call_frame[OF call(2-5) own lock ended[of p]]
  note lock' = f[THEN conjunct1] and end' = f[THEN conjunct2, THEN conjunct1]
    and own' = f[THEN conjunct2, THEN conjunct2, THEN conjunct1]
    and new = f[THEN conjunct2, THEN conjunct2, THEN conjunct2, THEN conjunct1, rule_format]
    and others = f[THEN conjunct2, THEN conjunct2, THEN conjunct2, THEN conjunct2, rule_format]
  have ready: "lock_ready d'" if "lock_ready (ld_dirs s)" using that lock' by (auto simp: lock_ready_def)
  have kept: "own_tmp q (ld_pc s q) d'" if "q \<noteq> p" for q
    unfolding own_tmp_def
  proof (intro allI impI)
    fix t assume t: "ltmp (ld_pc s q) = Some t"
    then have "t \<noteq> lock_name \<and> ld_dirs s t = Some (lholds q (ld_pc s q))" using ok by (auto simp: own_tmp_def)
    moreover have "ltmp (ld_pc s p) \<noteq> Some t" using alone[OF t] that by blast
    ultimately show "t \<noteq> lock_name \<and> d' t = Some (lholds q (ld_pc s q))" using others[where t = t] by simp
  qed
  have apart: "ltmp pc' \<noteq> Some t" if "ltmp (ld_pc s q) = Some t" "q \<noteq> p" for q t
  proof
    assume "ltmp pc' = Some t"
    from new[OF this] alone[OF that(1)] that ok show False by (auto simp: own_tmp_def)
  qed
  have "ld_ok s'"
    unfolding ld_ok_def call(1) ld_state.simps
  proof (intro conjI allI impI)
    show "d' lock_name = None \<or> lock_ready d'" using lock lock' ready by auto
    show "own_tmp q (((ld_pc s)(p := pc')) q) d'" for q using own' kept by simp
    show "q = q'" if "ltmp (((ld_pc s)(p := pc')) q) = Some t \<and> ltmp (((ld_pc s)(p := pc')) q') = Some t" for q q' t
      using that alone[of q t q'] apart[of q t] apart[of q' t] by (auto split: if_splits)
    show "lock_ready d'" if "((ld_pc s)(p := pc')) q = LEnded None" for q
      using that end' ended ready by (auto split: if_splits)
  qed
  with lock' show ?thesis by (auto simp: call(1))
qed

lemma ld_ok_reach:
  "ld_reach s s' \<Longrightarrow> ld_ok s \<Longrightarrow> ld_ok s' \<and> (ld_dirs s' lock_name = ld_dirs s lock_name \<or> ld_dirs s lock_name = None)"
proof (induction rule: ld_reach.induct)
  case (step s t u)
  then show ?case using ld_ok_step[OF step(2)] by auto
qed simp

lemma ld_ok_initial: "ld_initial s \<Longrightarrow> ld_ok s"
  by (auto simp: ld_initial_def ld_ok_def own_tmp_def lock_ready_def split: option.splits)

text \<open>C27: the lock directory is initialised once. However the start-ups of any number of hosts
  interleave and fail, a host for which \<open>lm_init_lockdir\<close> succeeded finds the lock directory with an
  initialised lockspace, and once the directory is there no later step of any host replaces it.\<close>

theorem lockspace_once:
  assumes "ld_initial s0" "ld_reach s0 s" "ld_reach s s'"
  shows "(ld_pc s p = LEnded None \<longrightarrow> lock_ready (ld_dirs s)) \<and>
    (ld_dirs s lock_name \<noteq> None \<longrightarrow> lock_ready (ld_dirs s) \<and> ld_dirs s' lock_name = ld_dirs s lock_name)"
proof -
  from ld_ok_reach[OF assms(2) ld_ok_initial[OF assms(1)]] have "ld_ok s" ..
  with ld_ok_reach[OF assms(3)] show ?thesis by (auto simp: ld_ok_def)
qed

section \<open>A host alone\<close>

text \<open>The function always comes to an end, and without failures the directory is ready then.\<close>

lemma ld_calls_ended [simp]: "ld_calls fs tmp p (LEnded e) d = (LEnded e, d)"
  by (induction fs) auto

lemma lm_init_lockdir_ends:
  assumes "length fs = 9"
  shows "lm_init_lockdir fs tmp p d \<noteq> None"
proof -
  obtain f1 r1 f2 r2 f3 r3 f4 r4 f5 r5 f6 r6 f7 r7 f8 r8 f9 r9 where
    fs: "fs = [(f1, r1), (f2, r2), (f3, r3), (f4, r4), (f5, r5), (f6, r6), (f7, r7), (f8, r8), (f9, r9)]"
    using assms by (auto simp: length_Suc_conv numeral_eq_Suc)
  show ?thesis unfolding fs lm_init_lockdir_def
    by (auto simp: ld_group_def ld_stat_def ld_mkdir_def ld_attr_def lockspace_open_def lockspace_init_def ld_look_def ld_rename_def Let_def
        split: option.splits prod.splits if_splits lpc.splits)
qed

lemma lm_init_lockdir_ready:
  assumes "d lock_name = None \<or> lock_ready d" "tmp \<noteq> lock_name"
  shows "\<exists>d'. lm_init_lockdir (replicate 9 (None, Removed)) tmp p d = Some (None, d') \<and> lock_ready d'"
  using assms
  by (auto simp: lm_init_lockdir_def numeral_eq_Suc ld_group_def ld_stat_def ld_mkdir_def ld_attr_def lockspace_open_def
      lockspace_init_def ld_look_def ld_rename_def lock_ready_def Let_def)

text \<open>Host \<open>True\<close> prepares the directory alone.\<close>

lemma reach_call:
  assumes "ld_reach s0 \<lparr>ld_dirs = d, ld_pc = f\<rparr>" "ld_call None Removed tmp p (f p) d = (pc', d')" "tmp \<noteq> lock_name" "d tmp = None"
  shows "ld_reach s0 \<lparr>ld_dirs = d', ld_pc = f(p := pc')\<rparr>"
  using ld_reach.step[OF assms(1) ld_step.call[of None Removed tmp p "\<lparr>ld_dirs = d, ld_pc = f\<rparr>" pc' d']] assms(2-4) by simp

theorem lockspace_once_witness:
  "\<exists>s :: bool ld_state. ld_reach \<lparr>ld_dirs = Map.empty, ld_pc = (\<lambda>p. LGroup)\<rparr> s \<and> ld_pc s True = LEnded None \<and>
     lock_ready (ld_dirs s)"
proof -
  let ?s0 = "\<lparr>ld_dirs = Map.empty, ld_pc = (\<lambda>p. LGroup)\<rparr> :: bool ld_state" and ?t = "''lock-tmp1''"
  note call_defs = ld_group_def ld_stat_def ld_mkdir_def ld_attr_def lockspace_open_def lockspace_init_def ld_look_def ld_rename_def
  have "ld_reach ?s0 \<lparr>ld_dirs = Map.empty, ld_pc = (\<lambda>p. LGroup)\<rparr>" by (rule ld_reach.refl)
  from reach_call[OF this, of ?t True LStat] have "ld_reach ?s0 \<lparr>ld_dirs = Map.empty, ld_pc = (\<lambda>p. LGroup)(True := LStat)\<rparr>"
    by (simp add: call_defs)
  from reach_call[OF this, of ?t True LMkdir] have "ld_reach ?s0 \<lparr>ld_dirs = Map.empty, ld_pc = (\<lambda>p. LGroup)(True := LMkdir)\<rparr>"
    by (simp add: call_defs)
  from reach_call[OF this, of ?t True "LChmod ?t"]
  have "ld_reach ?s0 \<lparr>ld_dirs = [?t \<mapsto> EmptyDir], ld_pc = (\<lambda>p. LGroup)(True := LChmod ?t)\<rparr>" by (simp add: call_defs)
  from reach_call[OF this, of "''x''" True "LChown ?t"]
  have "ld_reach ?s0 \<lparr>ld_dirs = [?t \<mapsto> EmptyDir], ld_pc = (\<lambda>p. LGroup)(True := LChown ?t)\<rparr>" by (simp add: call_defs)
  from reach_call[OF this, of "''x''" True "LOpen ?t"]
  have "ld_reach ?s0 \<lparr>ld_dirs = [?t \<mapsto> EmptyDir], ld_pc = (\<lambda>p. LGroup)(True := LOpen ?t)\<rparr>" by (simp add: call_defs)
  from reach_call[OF this, of "''x''" True "LInit ?t"]
  have "ld_reach ?s0 \<lparr>ld_dirs = [?t \<mapsto> FileCreated], ld_pc = (\<lambda>p. LGroup)(True := LInit ?t)\<rparr>" by (simp add: call_defs)
  from reach_call[OF this, of "''x''" True "LRename ?t"]
  have "ld_reach ?s0 \<lparr>ld_dirs = [?t \<mapsto> Initialised True], ld_pc = (\<lambda>p. LGroup)(True := LRename ?t)\<rparr>" by (simp add: call_defs)
  from reach_call[OF this, of "''x''" True "LMove ?t"]
  have "ld_reach ?s0 \<lparr>ld_dirs = [?t \<mapsto> Initialised True], ld_pc = (\<lambda>p. LGroup)(True := LMove ?t)\<rparr>" by (simp add: call_defs)
  from reach_call[OF this, of "''x''" True "LEnded None"]
  have r: "ld_reach ?s0 \<lparr>ld_dirs = [lock_name \<mapsto> Initialised True], ld_pc = (\<lambda>p. LGroup)(True := LEnded None)\<rparr>"
    by (simp add: call_defs)
  have "ld_initial ?s0" by (simp add: ld_initial_def)
  from lockspace_once[OF this r ld_reach.refl, of True] r show ?thesis by (intro exI[of _ "\<lparr>ld_dirs = [lock_name \<mapsto> Initialised True], ld_pc = (\<lambda>p. LGroup)(True := LEnded None)\<rparr>"]) simp
qed

end
