(* ===== verification/Serf_Conn.thy ===== *)
theory Serf_Conn
  imports Serfcomm
begin

text \<open>
  The connection of \<open>serfcomm.go\<close>: \<open>Connect\<close>, \<open>Shutdown\<close> and the receiving goroutine, which connects
  again when the stream of events ends. The RPC client is a third-party package, its calls are
  parameters over a state of their own; clients and streams are numbers. \<open>serf_up\<close> of the sending side
  is \<open>is_connected\<close> here.
\<close>

section \<open>The connection\<close>

record SerfConn =
  sc_c :: "nat option"
  sc_stream :: nat

record 'r rpc_env =
  rc_New :: "'r \<Rightarrow> nat result \<times> 'r"
  rc_Stream :: "nat \<Rightarrow> 'r \<Rightarrow> nat \<times> gerr option \<times> 'r"
  rc_Stop :: "nat \<Rightarrow> nat \<Rightarrow> 'r \<Rightarrow> gerr option \<times> 'r"
  rc_Close :: "nat \<Rightarrow> 'r \<Rightarrow> gerr option \<times> 'r"

definition init_serf :: SerfConn where
  "init_serf = \<lparr>sc_c = None, sc_stream = 0\<rparr>"

definition is_connected :: "SerfConn \<Rightarrow> bool" where
  "is_connected s \<longleftrightarrow> sc_c s \<noteq> None"

definition serf_Connect :: "'r rpc_env \<Rightarrow> SerfConn \<Rightarrow> 'r \<Rightarrow> gerr option \<times> SerfConn \<times> 'r" where
  "serf_Connect rc s r =
     (case rc_New rc r of
        (Inl e, r1) \<Rightarrow> (Some e, s\<lparr>sc_c := None\<rparr>, r1)
      | (Inr c, r1) \<Rightarrow>
          (case rc_Stream rc c r1 of
             (st, Some e, r2) \<Rightarrow> (Some e, \<lparr>sc_c = None, sc_stream = st\<rparr>, snd (rc_Close rc c r2))
           | (st, None, r2) \<Rightarrow> (None, \<lparr>sc_c = Some c, sc_stream = st\<rparr>, r2)))"

definition stop_close :: "'r rpc_env \<Rightarrow> nat \<Rightarrow> nat \<Rightarrow> 'r \<Rightarrow> 'r" where
  "stop_close rc c st r = snd (rc_Close rc c (snd (rc_Stop rc c st r)))"

text \<open>The pointer is kept.\<close>

definition serf_Shutdown :: "'r rpc_env \<Rightarrow> SerfConn \<Rightarrow> 'r \<Rightarrow> SerfConn \<times> 'r" where
  "serf_Shutdown rc s r =
     (case sc_c s of None \<Rightarrow> (s, r) | Some c \<Rightarrow> (s, stop_close rc c (sc_stream s) r))"

text \<open>What the receiving goroutine does when the channel of events is closed, and one attempt to
  connect again.\<close>

datatype recv_loop = NotStarted | Receiving | Reconnecting

definition stream_ended :: "'r rpc_env \<Rightarrow> SerfConn \<Rightarrow> 'r \<Rightarrow> (SerfConn \<times> 'r) result" where
  "stream_ended rc s r =
     (case sc_c s of
        None \<Rightarrow> Inl (Panic ''nil client'')
      | Some c \<Rightarrow> Inr (s\<lparr>sc_c := None\<rparr>, stop_close rc c (sc_stream s) r))"

definition retry :: "'r rpc_env \<Rightarrow> SerfConn \<Rightarrow> 'r \<Rightarrow> recv_loop \<times> SerfConn \<times> 'r" where
  "retry rc s r = (case serf_Connect rc s r of (e, s', r') \<Rightarrow> (if e = None then Receiving else Reconnecting, s', r'))"

section \<open>The goroutine and the program\<close>

record 'r serf_sys =
  sy_loop :: recv_loop
  sy_conn :: SerfConn
  sy_rpc :: 'r

text \<open>The program connects once and only then starts the goroutine; it may shut down at any point.
  A panic has no successor.\<close>

inductive serf_step :: "'r rpc_env \<Rightarrow> 'r serf_sys \<Rightarrow> 'r serf_sys \<Rightarrow> bool" for rc where
  started: "serf_Connect rc s r = (None, s', r') \<Longrightarrow> serf_step rc \<lparr>sy_loop = NotStarted, sy_conn = s, sy_rpc = r\<rparr>
     \<lparr>sy_loop = Receiving, sy_conn = s', sy_rpc = r'\<rparr>"
| ended: "stream_ended rc s r = Inr (s', r') \<Longrightarrow> serf_step rc \<lparr>sy_loop = Receiving, sy_conn = s, sy_rpc = r\<rparr>
     \<lparr>sy_loop = Reconnecting, sy_conn = s', sy_rpc = r'\<rparr>"
| retried: "retry rc s r = (l, s', r') \<Longrightarrow> serf_step rc \<lparr>sy_loop = Reconnecting, sy_conn = s, sy_rpc = r\<rparr>
     \<lparr>sy_loop = l, sy_conn = s', sy_rpc = r'\<rparr>"
| shut: "serf_Shutdown rc s r = (s', r') \<Longrightarrow> l \<noteq> NotStarted \<Longrightarrow> serf_step rc \<lparr>sy_loop = l, sy_conn = s, sy_rpc = r\<rparr>
     \<lparr>sy_loop = l, sy_conn = s', sy_rpc = r'\<rparr>"

inductive serf_reach :: "'r rpc_env \<Rightarrow> 'r serf_sys \<Rightarrow> 'r serf_sys \<Rightarrow> bool" for rc where
  refl: "serf_reach rc x x"
| step: "serf_reach rc x y \<Longrightarrow> serf_step rc y z \<Longrightarrow> serf_reach rc x z"

text \<open>What the client package keeps open: a new client is opened, closing it closes that one, whatever
  it returns, and the other calls open none.\<close>

definition rpc_laws :: "'r rpc_env \<Rightarrow> ('r \<Rightarrow> nat set) \<Rightarrow> bool" where
  "rpc_laws rc opened \<longleftrightarrow>
     (\<forall>r x r'. rc_New rc r = (x, r') \<longrightarrow> opened r' = (case x of Inl e \<Rightarrow> opened r | Inr c \<Rightarrow> insert c (opened r))) \<and>
     (\<forall>c r st e r'. rc_Stream rc c r = (st, e, r') \<longrightarrow> opened r' = opened r) \<and>
     (\<forall>c st r. opened (snd (rc_Stop rc c st r)) = opened r) \<and>
     (\<forall>c r. opened (snd (rc_Close rc c r)) = opened r - {c})"

definition opened_ok :: "('r \<Rightarrow> nat set) \<Rightarrow> SerfConn \<Rightarrow> 'r \<Rightarrow> bool" where
  "opened_ok opened s r \<longleftrightarrow> opened r \<subseteq> set_option (sc_c s)"

definition serf_ok :: "('r \<Rightarrow> nat set) \<Rightarrow> 'r serf_sys \<Rightarrow> bool" where
  "serf_ok opened x \<longleftrightarrow> opened_ok opened (sy_conn x) (sy_rpc x) \<and> (sc_c (sy_conn x) \<noteq> None \<longleftrightarrow> sy_loop x = Receiving)"

lemma stop_close_opened: "rpc_laws rc opened \<Longrightarrow> opened (stop_close rc c st r) = opened r - {c}"
  by (simp add: rpc_laws_def stop_close_def)

lemma serf_Connect_opened:
  assumes "rpc_laws rc opened" "serf_Connect rc s r = (e, s', r')" "opened r = {}"
  shows "opened_ok opened s' r' \<and> (sc_c s' \<noteq> None \<longleftrightarrow> e = None)"
proof (cases "rc_New rc r")
  case (Pair x r1)
  have o1: "opened r1 = (case x of Inl e \<Rightarrow> {} | Inr c \<Rightarrow> {c})"
    using assms(1,3) Pair by (simp add: rpc_laws_def split: sum.split)
  show ?thesis
  proof (cases x)
    case (Inl e1)
    with assms(2) Pair o1 show ?thesis by (auto simp: serf_Connect_def opened_ok_def)
  next
    case (Inr c)
    obtain st e2 r2 where st: "rc_Stream rc c r1 = (st, e2, r2)" by (metis prod_cases3)
    with assms(1) o1 Inr have "opened r2 = {c}" "opened (snd (rc_Close rc c r2)) = {}" by (auto simp: rpc_laws_def)
    with assms(2) Pair Inr st show ?thesis by (auto simp: serf_Connect_def opened_ok_def split: option.splits)
  qed
qed

lemma serf_Shutdown_opened:
  assumes "rpc_laws rc opened" "opened_ok opened s r" "serf_Shutdown rc s r = (s', r')"
  shows "opened r' = {} \<and> s' = s"
  using assms by (auto simp: serf_Shutdown_def opened_ok_def stop_close_opened split: option.splits)

lemma serf_ok_step:
  assumes "serf_step rc x y" "rpc_laws rc opened" "serf_ok opened x"
  shows "serf_ok opened y"
  using assms(1)
proof cases
  case (started s r s' r')
  with assms(3) have "opened r = {}" by (auto simp: serf_ok_def opened_ok_def)
  from serf_Connect_opened[OF assms(2) started(3) this] show ?thesis by (simp add: started serf_ok_def)
next
  case (ended s r s' r')
  with assms(2,3) show ?thesis
    by (auto simp: serf_ok_def opened_ok_def stream_ended_def stop_close_opened split: option.splits)
next
  case (retried s r l s' r')
  with assms(3) have n: "opened r = {}" by (auto simp: serf_ok_def opened_ok_def)
  obtain e where c: "serf_Connect rc s r = (e, s', r')" "l = (if e = None then Receiving else Reconnecting)"
    using retried(3) by (auto simp: retry_def split: prod.splits)
  from serf_Connect_opened[OF assms(2) c(1) n] show ?thesis by (simp add: retried c(2) serf_ok_def)
next
  case (shut s r s' r' l)
  with assms(3) have "opened_ok opened s r" by (simp add: serf_ok_def)
  from serf_Shutdown_opened[OF assms(2) this shut(3)] assms(3) show ?thesis by (simp add: shut serf_ok_def opened_ok_def)
qed

lemma serf_ok_reach: "serf_reach rc x y \<Longrightarrow> rpc_laws rc opened \<Longrightarrow> serf_ok opened x \<Longrightarrow> serf_ok opened y"
  by (induction rule: serf_reach.induct) (auto intro: serf_ok_step)

text \<open>C29: the connection to the gossip agent is neither leaked nor used after it is gone. However often
  the stream ends, attempts to connect fail and the program shuts down, at most one client is open, the
  one that is kept; the goroutine, when its stream ends, always finds a client and never follows a nil
  pointer.\<close>

theorem one_client_open:
  assumes "rpc_laws rc opened" "opened r = {}"
    and "serf_reach rc \<lparr>sy_loop = NotStarted, sy_conn = init_serf, sy_rpc = r\<rparr> y"
  shows "opened (sy_rpc y) \<subseteq> set_option (sc_c (sy_conn y)) \<and>
    (sy_loop y = Receiving \<longrightarrow> is_connected (sy_conn y) \<and> (\<exists>z. stream_ended rc (sy_conn y) (sy_rpc y) = Inr z)) \<and>
    (sy_loop y = Reconnecting \<longrightarrow> \<not> is_connected (sy_conn y) \<and> opened (sy_rpc y) = {})"
proof -
  have "serf_ok opened y"
    using serf_ok_reach[OF assms(3,1)] assms(2) by (simp add: serf_ok_def opened_ok_def init_serf_def)
  then show ?thesis by (auto simp: serf_ok_def opened_ok_def is_connected_def stream_ended_def split: option.split)
qed

text \<open>A client package that numbers its clients and keeps those that are open.\<close>

definition sample_rpc :: "(nat \<times> nat set) rpc_env" where
  "sample_rpc = \<lparr>rc_New = (\<lambda>(n, cs). (Inr n, (n + 1, insert n cs))), rc_Stream = (\<lambda>c r. (7, None, r)),
     rc_Stop = (\<lambda>c st r. (None, r)), rc_Close = (\<lambda>c (n, cs). (None, (n, cs - {c})))\<rparr>"

lemma sample_rpc_laws: "rpc_laws sample_rpc snd"
  by (auto simp: rpc_laws_def sample_rpc_def)

theorem one_client_open_witness:
  "\<exists>y. serf_reach sample_rpc \<lparr>sy_loop = NotStarted, sy_conn = init_serf, sy_rpc = (0, {})\<rparr> y \<and>
     sy_loop y = Receiving \<and> snd (sy_rpc y) = {1} \<and> is_connected (sy_conn y)"
proof -
  let ?x = "\<lparr>sy_loop = NotStarted, sy_conn = init_serf, sy_rpc = (0, {})\<rparr>"
  let ?y = "\<lparr>sy_loop = Receiving, sy_conn = \<lparr>sc_c = Some 1, sc_stream = 7\<rparr>, sy_rpc = (2, {1})\<rparr>"
  have "serf_step sample_rpc ?x \<lparr>sy_loop = Receiving, sy_conn = \<lparr>sc_c = Some 0, sc_stream = 7\<rparr>, sy_rpc = (1, {0})\<rparr>"
    by (rule serf_step.started) (simp add: serf_Connect_def sample_rpc_def)
  moreover have "serf_step sample_rpc \<lparr>sy_loop = Receiving, sy_conn = \<lparr>sc_c = Some 0, sc_stream = 7\<rparr>, sy_rpc = (1, {0})\<rparr>
      \<lparr>sy_loop = Reconnecting, sy_conn = \<lparr>sc_c = None, sc_stream = 7\<rparr>, sy_rpc = (1, {})\<rparr>"
    by (rule serf_step.ended) (simp add: stream_ended_def stop_close_def sample_rpc_def)
  moreover have "serf_step sample_rpc \<lparr>sy_loop = Reconnecting, sy_conn = \<lparr>sc_c = None, sc_stream = 7\<rparr>, sy_rpc = (1, {})\<rparr> ?y"
    by (rule serf_step.retried) (simp add: retry_def serf_Connect_def sample_rpc_def)
  ultimately have r: "serf_reach sample_rpc ?x ?y"
    by (meson serf_reach.refl serf_reach.step)
  from one_client_open[OF sample_rpc_laws _ r] r show ?thesis by (intro exI[of _ ?y]) simp
qed

end
