(* ===== verification/Daemon.thy ===== *)
theory Daemon
  imports Hypervisor_Props Lockman_Props Serf_Conn
begin

text \<open>
  The daemon \<open>virtxd\<close> (\<open>cmd/virtxd/main.go\<close>) and the functions it starts and stops: the order in which
  the packages come up, what ends the program, and the deferred calls that take them down again. libvirt,
  sanlock and the RPC client have a state each. The goroutines that run meanwhile change of these
  states only what connecting again changes: \<open>hypervisor.Connect\<close> after an error of libvirt, and the
  steps of the receiving goroutine of \<open>serfcomm\<close>.
\<close>

section \<open>Waiting for the first round\<close>

text \<open>The ticks before the timeout, each with what \<open>get_system_info_loop_done\<close> says.\<close>

fun Wait_system_info :: "bool list \<Rightarrow> gerr option" where
  "Wait_system_info [] = Some (Msg ''timeout waiting for system_info'')"
| "Wait_system_info (loop_done # ticks) = (if loop_done then None else Wait_system_info ticks)"

section \<open>The service\<close>

text \<open>The HTTP server belongs to the standard library; these are the errors its calls return.\<close>

record svc_env =
  sv_listen :: "gerr option"
  sv_serve :: "gerr option"
  sv_shutdown :: "gerr option"
  sv_close :: "gerr option"
  sv_signal :: bool  \<comment> \<open>an interrupt comes first\<close>

text \<open>What the goroutine of \<open>virtx.Start_listening\<close> sends into the channel it returns; nothing when the
  server was closed.\<close>

definition server_closed :: gerr where
  "server_closed = OsErr ''http: Server closed''"

definition Start_listening :: "svc_env \<Rightarrow> gerr option" where
  "Start_listening sv =
     (case sv_listen sv of
        Some e \<Rightarrow> Some e
      | None \<Rightarrow> (case sv_serve sv of Some e \<Rightarrow> if e = server_closed then None else Some e | None \<Rightarrow> None))"

section \<open>The program\<close>

datatype dm_exit = ExitFatal gerr | ExitPanic | ExitReturned

record ('l, 's, 'r) dm_state =
  dm_hv :: Hypervisor
  dm_l :: 'l
  dm_lockid :: u16
  dm_s :: 's
  dm_serf :: SerfConn
  dm_r :: 'r
  dm_serving :: bool

record ('l, 's, 'r) dm_env =
  de_cn :: "'l conn_env"
  de_reconnects :: "nat \<times> nat"  \<comment> \<open>while waiting, while serving\<close>
  de_ticks :: "bool list"
  de_sanlock :: "'s sanlock"
  de_md5 :: "byte list \<Rightarrow> byte list"
  de_lockdir :: "gerr option"
  de_cached :: "u16 result"
  de_save :: "u16 \<Rightarrow> gerr option"
  de_uuid :: string
  de_rc :: "'r rpc_env"
  de_gossip :: "SerfConn \<Rightarrow> 'r \<Rightarrow> SerfConn \<times> 'r"  \<comment> \<open>the receiving goroutine\<close>
  de_svc :: svc_env

definition dm_start :: "'l \<Rightarrow> 's \<Rightarrow> 'r \<Rightarrow> ('l, 's, 'r) dm_state" where
  "dm_start l s r = \<lparr>dm_hv = init_hypervisor, dm_l = l, dm_lockid = 0, dm_s = s, dm_serf = init_serf, dm_r = r,
     dm_serving = False\<rparr>"

definition reconnected :: "('l, 's, 'r) dm_env \<Rightarrow> nat \<Rightarrow> ('l, 's, 'r) dm_state \<Rightarrow> ('l, 's, 'r) dm_state" where
  "reconnected env n st = (case ((conn_perform (de_cn env) DoConnect) ^^ n) (dm_hv st, dm_l st) of
     (hv, l) \<Rightarrow> st\<lparr>dm_hv := hv, dm_l := l\<rparr>)"

text \<open>Up to the point where the requests are served; the left is the message of \<open>logger.Fatal\<close>, which
  exits without the deferred calls.\<close>

definition connect_hv :: "('l, 's, 'r) dm_env \<Rightarrow> ('l, 's, 'r) dm_state \<Rightarrow> gerr option \<times> ('l, 's, 'r) dm_state" where
  "connect_hv env st = (case Connect (de_cn env) (dm_hv st) (dm_l st) of (e, hv, l) \<Rightarrow> (e, st\<lparr>dm_hv := hv, dm_l := l\<rparr>))"

definition init_lock :: "('l, 's, 'r) dm_env \<Rightarrow> ('l, 's, 'r) dm_state \<Rightarrow> gerr option \<times> ('l, 's, 'r) dm_state" where
  "init_lock env st =
     (case Init (de_sanlock env) (de_md5 env) (de_lockdir env) (de_cached env) (de_save env) (de_uuid env) (dm_s st) of
        (h, e, s) \<Rightarrow> (e, st\<lparr>dm_lockid := h, dm_s := s\<rparr>))"

definition connect_serf :: "('l, 's, 'r) dm_env \<Rightarrow> ('l, 's, 'r) dm_state \<Rightarrow> gerr option \<times> ('l, 's, 'r) dm_state" where
  "connect_serf env st = (case serf_Connect (de_rc env) (dm_serf st) (dm_r st) of (e, c, r) \<Rightarrow> (e, st\<lparr>dm_serf := c, dm_r := r\<rparr>))"

definition bring_up :: "('l, 's, 'r) dm_env \<Rightarrow> ('l, 's, 'r) dm_state \<Rightarrow> gerr option \<times> ('l, 's, 'r) dm_state" where
  "bring_up env st =
     (case connect_hv env st of
        (Some e, st) \<Rightarrow> (Some e, st)
      | (None, st) \<Rightarrow>
          (let st = reconnected env (fst (de_reconnects env)) st in
           case Wait_system_info (de_ticks env) of
             Some e \<Rightarrow> (Some e, st)
           | None \<Rightarrow>
               (case init_lock env st of
                  (Some e, st) \<Rightarrow> (Some e, st)
                | (None, st) \<Rightarrow>
                    (case connect_serf env st of
                       (Some e, st) \<Rightarrow> (Some e, st)
                     | (None, st) \<Rightarrow> (None, st\<lparr>dm_serving := True\<rparr>)))))"

definition serving :: "('l, 's, 'r) dm_env \<Rightarrow> ('l, 's, 'r) dm_state \<Rightarrow> ('l, 's, 'r) dm_state" where
  "serving env st =
     (let st = reconnected env (snd (de_reconnects env)) st in
      case de_gossip env (dm_serf st) (dm_r st) of (c, r) \<Rightarrow> st\<lparr>dm_serf := c, dm_r := r\<rparr>)"

text \<open>The deferred calls, last one first. The one for the service calls \<open>Error\<close> of what \<open>Close\<close> returns,
  which panics when that is nil; a panic still runs the other deferred calls.\<close>

definition stop_service :: "svc_env \<Rightarrow> dm_exit" where
  "stop_service sv =
     (case sv_shutdown sv of
        None \<Rightarrow> ExitReturned
      | Some _ \<Rightarrow> (case sv_close sv of Some e \<Rightarrow> ExitFatal e | None \<Rightarrow> ExitPanic))"

definition take_down :: "('l, 's, 'r) dm_env \<Rightarrow> ('l, 's, 'r) dm_state \<Rightarrow> dm_exit \<times> ('l, 's, 'r) dm_state" where
  "take_down env st =
     (let ex = stop_service (de_svc env) in
      case ex of
        ExitFatal e \<Rightarrow> (ex, st)
      | _ \<Rightarrow>
          (case serf_Shutdown (de_rc env) (dm_serf st) (dm_r st) of
             (c, r) \<Rightarrow>
               (case Shutdown (de_cn env) (dm_hv st) (dm_l st) of
                  Inl e \<Rightarrow> (ExitPanic, st\<lparr>dm_serf := c, dm_r := r\<rparr>)
                | Inr (hv, l) \<Rightarrow> (ex, st\<lparr>dm_serf := c, dm_r := r, dm_hv := hv, dm_l := l, dm_serving := False\<rparr>))))"

text \<open>What the program waits for; the error of the service is logged, with a call of its method.\<close>

definition waited :: "svc_env \<Rightarrow> dm_exit" where
  "waited sv = (if sv_signal sv then ExitReturned else case Start_listening sv of Some e \<Rightarrow> ExitReturned | None \<Rightarrow> ExitPanic)"

definition virtxd_main :: "('l, 's, 'r) dm_env \<Rightarrow> ('l, 's, 'r) dm_state \<Rightarrow> dm_exit \<times> ('l, 's, 'r) dm_state" where
  "virtxd_main env st =
     (case bring_up env st of
        (Some e, st) \<Rightarrow> (ExitFatal e, st)
      | (None, st) \<Rightarrow>
          (case take_down env (serving env st) of
             (ex, st) \<Rightarrow> (if ex = ExitReturned then waited (de_svc env) else ex, st)))"

section \<open>Properties\<close>

text \<open>The laws of the two connections, and a goroutine that only takes steps of its own.\<close>

definition daemon_laws :: "('l, 's, 'r) dm_env \<Rightarrow> ('l \<Rightarrow> int set) \<Rightarrow> ('r \<Rightarrow> nat set) \<Rightarrow> bool" where
  "daemon_laws env registered opened \<longleftrightarrow>
     callback_laws (de_cn env) registered \<and> rpc_laws (de_rc env) opened \<and>
     (\<forall>c r c' r'. de_gossip env c r = (c', r') \<longrightarrow>
        (\<exists>l. serf_reach (de_rc env) \<lparr>sy_loop = Receiving, sy_conn = c, sy_rpc = r\<rparr> \<lparr>sy_loop = l, sy_conn = c', sy_rpc = r'\<rparr>))"

text \<open>The invariant of the connection to libvirt, which is never nil once it was made.\<close>

definition hv_good :: "('l, 's, 'r) dm_env \<Rightarrow> ('l \<Rightarrow> int set) \<Rightarrow> ('l, 's, 'r) dm_state \<Rightarrow> bool" where
  "hv_good env registered st \<longleftrightarrow> one_callback (de_cn env) registered (dm_hv st, dm_l st) \<and> hv_conn (dm_hv st) \<noteq> None"

lemma Connect_conn: "Connect cn hv l = (e, hv', l') \<Longrightarrow> hv_conn hv \<noteq> None \<or> e = None \<Longrightarrow> hv_conn hv' \<noteq> None"
  by (auto simp: Connect_def start_listening_def split: option.splits prod.splits)

lemma reconnects_good:
  "one_callback cn registered (hv, l) \<and> hv_conn hv \<noteq> None \<Longrightarrow>
   case (conn_perform cn DoConnect ^^ n) (hv, l) of (hv', l') \<Rightarrow> one_callback cn registered (hv', l') \<and> hv_conn hv' \<noteq> None"
proof (induction n)
  case (Suc n)
  then obtain hv1 l1 where s: "(conn_perform cn DoConnect ^^ n) (hv, l) = (hv1, l1)" "one_callback cn registered (hv1, l1)"
    "hv_conn hv1 \<noteq> None" by fastforce
  obtain e hv2 l2 where c: "Connect cn hv1 l1 = (e, hv2, l2)" by (metis prod_cases3)
  with Connect_one_callback[OF s(2)] Connect_conn[OF c] s show ?case by simp
qed simp

lemma reconnected_good: "hv_good env registered st \<Longrightarrow> hv_good env registered (reconnected env n st)"
  using reconnects_good[of "de_cn env" registered "dm_hv st" "dm_l st" n]
  by (auto simp: hv_good_def reconnected_def split: prod.splits)

lemma reconnected_rest [simp]:
  "dm_serf (reconnected env n st) = dm_serf st" "dm_r (reconnected env n st) = dm_r st"
  "dm_lockid (reconnected env n st) = dm_lockid st" "dm_serving (reconnected env n st) = dm_serving st"
  by (simp_all add: reconnected_def split: prod.split)

lemma connect_hv_good:
  assumes "connect_hv env (dm_start l s r) = (None, st)" "callback_laws (de_cn env) registered" "registered l = {}"
  shows "hv_good env registered st \<and> dm_serf st = init_serf \<and> dm_r st = r \<and> dm_serving st = False"
proof -
  obtain hv l' where c: "Connect (de_cn env) init_hypervisor l = (None, hv, l')"
    "st = (dm_start l s r)\<lparr>dm_hv := hv, dm_l := l'\<rparr>"
    using assms(1) by (auto simp: connect_hv_def dm_start_def split: prod.splits)
  have "one_callback (de_cn env) registered (init_hypervisor, l)"
    using assms(2,3) by (simp add: one_callback_def init_hypervisor_def)
  from Connect_one_callback[OF this] Connect_conn[OF c(1)] c show ?thesis by (simp add: hv_good_def dm_start_def)
qed

lemma init_lock_member:
  assumes "init_lock env st = (None, st')"
  shows "in_lockspace (de_sanlock env) (dm_lockid st') \<and> dm_hv st' = dm_hv st \<and> dm_l st' = dm_l st \<and>
    dm_serf st' = dm_serf st \<and> dm_r st' = dm_r st \<and> dm_serving st' = dm_serving st"
  using assms Init_joined by (auto simp: init_lock_def split: prod.splits)

definition serves_well :: "('l, 's, 'r) dm_env \<Rightarrow> ('l \<Rightarrow> int set) \<Rightarrow> ('r \<Rightarrow> nat set) \<Rightarrow> ('l, 's, 'r) dm_state \<Rightarrow> bool" where
  "serves_well env registered opened st \<longleftrightarrow> hv_good env registered st \<and> in_lockspace (de_sanlock env) (dm_lockid st) \<and>
     opened_ok opened (dm_serf st) (dm_r st) \<and> dm_serving st"

lemma bring_up_serves:
  assumes "bring_up env (dm_start l s r) = (None, st)" "daemon_laws env registered opened" "registered l = {}" "opened r = {}"
  shows "serves_well env registered opened st \<and> is_connected (dm_serf st)"
proof -
  have laws: "callback_laws (de_cn env) registered" "rpc_laws (de_rc env) opened" using assms(2) by (simp_all add: daemon_laws_def)
  obtain st1 st3 st4 where b: "connect_hv env (dm_start l s r) = (None, st1)"
    "init_lock env (reconnected env (fst (de_reconnects env)) st1) = (None, st3)" "connect_serf env st3 = (None, st4)"
    "st = st4\<lparr>dm_serving := True\<rparr>"
    using assms(1) by (auto simp: bring_up_def Let_def split: prod.splits option.splits)
  note h1 = connect_hv_good[OF b(1) laws(1) assms(3)]
  then have h2: "hv_good env registered (reconnected env (fst (de_reconnects env)) st1)" using reconnected_good by blast
  note h3 = init_lock_member[OF b(2)]
  obtain c r' where c: "serf_Connect (de_rc env) (dm_serf st3) (dm_r st3) = (None, c, r')" "st4 = st3\<lparr>dm_serf := c, dm_r := r'\<rparr>"
    using b(3) by (auto simp: connect_serf_def split: prod.splits)
  have "opened (dm_r st3) = {}" using h1 h3 assms(4) by simp
  from serf_Connect_opened[OF laws(2) c(1) this] h2 h3 show ?thesis
    by (simp add: b(4) c(2) serves_well_def hv_good_def is_connected_def)
qed

lemma serving_serves:
  assumes "serves_well env registered opened st" "is_connected (dm_serf st)" "daemon_laws env registered opened"
  shows "serves_well env registered opened (serving env st)"
proof -
  let ?st = "reconnected env (snd (de_reconnects env)) st"
  obtain c r where g: "de_gossip env (dm_serf st) (dm_r st) = (c, r)" by fastforce
  obtain lp where "serf_reach (de_rc env) \<lparr>sy_loop = Receiving, sy_conn = dm_serf st, sy_rpc = dm_r st\<rparr>
      \<lparr>sy_loop = lp, sy_conn = c, sy_rpc = r\<rparr>" "rpc_laws (de_rc env) opened"
    using assms(3) g unfolding daemon_laws_def by metis
  from serf_ok_reach[OF this] assms(1,2) have "opened_ok opened c r"
    by (auto simp: serf_ok_def serves_well_def is_connected_def)
  with assms(1) g reconnected_good[of env registered st] show ?thesis
    by (simp add: serving_def serves_well_def hv_good_def Let_def)
qed

lemma take_down_clean:
  assumes "serves_well env registered opened st" "daemon_laws env registered opened" "take_down env st = (ex, st')"
  shows "ex = stop_service (de_svc env) \<and>
    ((\<forall>e. ex \<noteq> ExitFatal e) \<longrightarrow> registered (dm_l st') = {} \<and> hv_conn (dm_hv st') = None \<and> opened (dm_r st') = {})"
proof -
  have good: "one_callback (de_cn env) registered (dm_hv st, dm_l st)" "hv_conn (dm_hv st) \<noteq> None"
    "opened_ok opened (dm_serf st) (dm_r st)" "rpc_laws (de_rc env) opened"
    using assms(1,2) by (simp_all add: serves_well_def hv_good_def daemon_laws_def)
  obtain hv1 l1 where sl: "stop_listening (de_cn env) (dm_hv st) (dm_l st) = (hv1, l1)" by fastforce
  then have "hv_conn hv1 \<noteq> None" using good(2) by (auto simp: stop_listening_def split: if_splits)
  with sl obtain hv l where sd: "Shutdown (de_cn env) (dm_hv st) (dm_l st) = Inr (hv, l)" "hv_conn hv = None" "hv_lifecycle_id hv < 0"
    by (auto simp: Shutdown_def)
  from Shutdown_one_callback[OF good(1) sd(1)] sd(3) have l: "registered l = {}" by (simp add: one_callback_def)
  obtain c r where s: "serf_Shutdown (de_rc env) (dm_serf st) (dm_r st) = (c, r)" by fastforce
  from serf_Shutdown_opened[OF good(4,3) s] have "opened r = {}" by simp
  have t: "ex = stop_service (de_svc env) \<and> ((\<forall>e. ex \<noteq> ExitFatal e) \<longrightarrow> dm_l st' = l \<and> dm_hv st' = hv \<and> dm_r st' = r)"
  proof (cases "stop_service (de_svc env)")
    case (ExitFatal e)
    with assms(3) have "ex = ExitFatal e" by (simp add: take_down_def Let_def)
    with ExitFatal show ?thesis by simp
  next
    case ExitPanic
    with assms(3) sd s show ?thesis by (auto simp: take_down_def Let_def)
  next
    case ExitReturned
    with assms(3) sd s show ?thesis by (auto simp: take_down_def Let_def)
  qed
  with l \<open>opened r = {}\<close> sd(2) show ?thesis by auto
qed


text \<open>The program panics exactly when the server does not stop in time but can be closed.\<close>

lemma panics_when_closed:
  assumes "daemon_laws env registered opened" "registered l = {}" "opened r = {}"
    and "bring_up env (dm_start l s r) = (None, st1)" "waited (de_svc env) = ExitReturned"
  shows "fst (virtxd_main env (dm_start l s r)) = ExitPanic \<longleftrightarrow>
    sv_shutdown (de_svc env) \<noteq> None \<and> sv_close (de_svc env) = None"
proof -
  note up = bring_up_serves[OF assms(4,1-3)]
  obtain ex st where t: "take_down env (serving env st1) = (ex, st)" by fastforce
  from take_down_clean[OF serving_serves[OF _ _ assms(1)] assms(1) t] up t assms(4,5) show ?thesis
    by (auto simp: virtxd_main_def stop_service_def split: option.splits)
qed

section \<open>Witness\<close>

definition sample_dm :: "(int set, nat, nat \<times> nat set) dm_env" where
  "sample_dm = \<lparr>de_cn = sample_cn, de_reconnects = (0, 1), de_ticks = [False, True], de_sanlock = busy_once,
     de_md5 = zero_md5, de_lockdir = None, de_cached = Inr 5, de_save = (\<lambda>h. None), de_uuid = ''A'',
     de_rc = sample_rpc, de_gossip = (\<lambda>c r. (c, r)),
     de_svc = \<lparr>sv_listen = None, sv_serve = None, sv_shutdown = Some (OsErr ''deadline exceeded''), sv_close = None,
       sv_signal = True\<rparr>\<rparr>"

lemma sample_dm_laws: "daemon_laws sample_dm id snd"
  using sample_rpc_laws serf_reach.refl
  by (auto simp: daemon_laws_def sample_dm_def callback_laws_def sample_cn_def)

lemma sample_dm_up: "fst (bring_up sample_dm (dm_start {} 1 (0, {}))) = None"
proof -
  have "join_loop busy_once zero_md5 ''A'' (\<lambda>h. None) (Suc 9) 5 None 1 = (5, None, None, 2)"
    by (simp only: join_loop.simps busy_once_join) simp
  moreover have "inq_loop busy_once (Suc 9) None 2 = (None, 2)"
    by (simp only: inq_loop.simps busy_once_inq) simp
  ultimately have "Init busy_once zero_md5 None (Inr 5) (\<lambda>h. None) ''A'' 1 = (5, None, 2)"
    by (simp add: Init_def finish_init_def busy_once_inq del: join_loop.simps inq_loop.simps)
  then show ?thesis
    by (simp add: bring_up_def sample_dm_def connect_hv_def init_lock_def connect_serf_def dm_start_def Let_def
        reconnected_def Connect_def start_listening_def init_hypervisor_def sample_cn_def serf_Connect_def sample_rpc_def)
qed


end
