(* ===== verification/Storage_History.thy ===== *)
theory Storage_History
  imports Storage_Props
begin

text \<open>
  Every history of the storage of a cluster. The hosts share one lock directory; on any of them the
  storage of a machine is created, updated, deleted or, when something fails, rolled back. Which
  definition each machine has is kept beside the leases, and which machines were updated in a way that
  changes the device or the management mode of a disk that stays. The invariant says that every other
  machine owns the leases of all its managed disks, so that no two of them have one disk.
\<close>

section \<open>What creating leaves of the disks\<close>

definition disk_key :: "Disk \<Rightarrow> string \<times> DiskDevice \<times> DiskManMode" where
  "disk_key d = (disk_path d, disk_device d, disk_man d)"

lemma create_loop_keys: "map disk_key (fst (create_loop env old u i ds created w)) = map disk_key ds"
proof (induction ds arbitrary: i created w)
  case (Cons d ds)
  have key: "Detect env d w1 = (d', e) \<Longrightarrow> disk_key d' = disk_key d" for w1 d' e
    using Detect_same[of env d w1 d' e] by (simp add: disk_key_def)
  have "map disk_key ds1 = map disk_key ds" if "create_loop env old u j ds c w1 = (ds1, r)" for j c w1 ds1 r
    using Cons.IH[of j c w1] that by simp
  then show ?case by (auto simp: Let_def key split: prod.splits option.splits)
qed simp

text \<open>Two definitions with the same disks, as far as leases are concerned. A definition read back from its
  domain is such (\<open>kept_disks\<close>).\<close>

definition same_keys :: "Vmdef \<Rightarrow> Vmdef \<Rightarrow> bool" where
  "same_keys v v' \<longleftrightarrow> map disk_key (Disks v) = map disk_key (Disks v')"

lemma storage_Create_keys:
  assumes "storage_Create env vm old u w = (vm', r)"
  shows "same_keys vm' vm"
proof -
  obtain ds where "create_loop env old u 0 (Disks vm) [] w = (ds, r)" "vm' = set_disks ds vm"
    using assms by (auto simp: storage_Create_def split: prod.splits)
  moreover have "map disk_key ds = map disk_key (Disks vm)"
    using create_loop_keys[of env old u 0 "Disks vm" "[]" w] calculation(1) by simp
  ultimately show ?thesis by (cases ds) (simp_all add: same_keys_def set_disks_def Disks_def)
qed

section \<open>The invariant\<close>

text \<open>A managed disk is known by the name of its lease and its path.\<close>

definition managed_keys :: "(byte list \<Rightarrow> byte list) \<Rightarrow> Vmdef \<Rightarrow> (string \<times> string) set" where
  "managed_keys md5 v = {(Get_resource_name md5 (disk_device a) (disk_path a), disk_path a) |a. a \<in> set (Disks v) \<and> storage_is_managed_disk a}"

definition holds_leases :: "(byte list \<Rightarrow> byte list) \<Rightarrow> (string \<Rightarrow> string option) \<Rightarrow> string \<Rightarrow> Vmdef \<Rightarrow> bool" where
  "holds_leases md5 own u v \<longleftrightarrow> (\<forall>(n, p) \<in> managed_keys md5 v. own n = Some u) \<and>
     (\<forall>n p q. (n, p) \<in> managed_keys md5 v \<and> (n, q) \<in> managed_keys md5 v \<longrightarrow> p = q)"

definition leases_held :: "(byte list \<Rightarrow> byte list) \<Rightarrow> (string \<Rightarrow> string option) \<Rightarrow> (string \<rightharpoonup> Vmdef) \<Rightarrow> bool" where
  "leases_held md5 own defs \<longleftrightarrow> (\<forall>u v. defs u = Some v \<longrightarrow> holds_leases md5 own u v)"

text \<open>Whether a definition gives the disks whose paths are in the old one the same device and management
  mode. The code does not look at this, and an update for which it is false may leave a machine without
  a lease that its new definition needs (theorem \<open>update_skips_lease\<close>).\<close>

definition same_disks :: "Vmdef \<Rightarrow> Vmdef \<Rightarrow> bool" where
  "same_disks v old \<longleftrightarrow> (\<forall>a\<in>set (Disks v). \<forall>b\<in>set (Disks old). disk_path a = disk_path b \<longrightarrow>
     disk_device a = disk_device b \<and> disk_man a = disk_man b)"

definition lease_names_ok :: "(string \<Rightarrow> bool) \<Rightarrow> (byte list \<Rightarrow> byte list) \<Rightarrow> Vmdef \<Rightarrow> bool" where
  "lease_names_ok valid md5 v \<longleftrightarrow> (\<forall>n p. (n, p) \<in> managed_keys md5 v \<longrightarrow> valid n)"

lemma managed_keys_eq:
  assumes "same_keys v v'"
  shows "managed_keys md5 v = managed_keys md5 v'"
proof -
  have "managed_keys md5 v = (\<lambda>(p, dev, man). (Get_resource_name md5 dev p, p)) `
      {k \<in> set (map disk_key (Disks v)). snd (snd k) \<noteq> DISK_MAN_UNMANAGED}" for v
    by (force simp: managed_keys_def disk_key_def storage_is_managed_disk_def)
  then show ?thesis by (simp only: assms[unfolded same_keys_def])
qed

lemma Has_path_key: "same_keys v v' \<Longrightarrow> Has_path v p \<longleftrightarrow> Has_path v' p"
proof -
  assume "same_keys v v'"
  then have "map fst (map disk_key (Disks v)) = map fst (map disk_key (Disks v'))" by (simp only: same_keys_def)
  then have "map disk_path (Disks v) = map disk_path (Disks v')" by (simp add: disk_key_def comp_def)
  then show ?thesis unfolding Has_path_iff by (metis list.set_map)
qed

lemma wanted_keys:
  "n \<in> set (wanted env other (Disks v)) \<longleftrightarrow>
     (\<exists>p. (n, p) \<in> managed_keys (se_md5 env) v \<and> \<not> (case other of None \<Rightarrow> False | Some old \<Rightarrow> Has_path old p))"
  unfolding set_wanted in_def_def managed_keys_def resource_name_of_def by (cases other) (simp, blast, simp, blast)

lemma lease_names_wanted: "lease_names_ok valid (se_md5 env) v \<Longrightarrow> list_all valid (wanted env other (Disks v))"
  using wanted_keys[of _ env other v] by (simp only: list_all_iff lease_names_ok_def) blast

text \<open>Names taken in one go are those of different disks.\<close>

lemma wanted_distinct:
  assumes "distinct (wanted env other (Disks v))" "(n, p) \<in> managed_keys (se_md5 env) v" "(n, q) \<in> managed_keys (se_md5 env) v"
    and "\<not> (case other of None \<Rightarrow> False | Some old \<Rightarrow> Has_path old p)" "\<not> (case other of None \<Rightarrow> False | Some old \<Rightarrow> Has_path old q)"
  shows "p = q"
proof -
  have inj: "inj_on (resource_name_of env) (set (filter (\<lambda>d. \<not> in_def other d \<and> storage_is_managed_disk d) (Disks v)))"
    using assms(1) by (simp add: wanted_def distinct_map)
  from assms(2,3) obtain a b where "a \<in> set (Disks v)" "storage_is_managed_disk a" "resource_name_of env a = n" "disk_path a = p"
    "b \<in> set (Disks v)" "storage_is_managed_disk b" "resource_name_of env b = n" "disk_path b = q"
    by (auto simp: managed_keys_def resource_name_of_def)
  with inj_onD[OF inj, of a b] assms(4,5) show ?thesis by (auto simp: in_def_def split: option.splits)
qed

text \<open>A managed disk of the new definition whose path is in the old one is the same managed disk there.\<close>

lemma same_disks_key:
  assumes "same_disks v old" "(n, p) \<in> managed_keys md5 v" "Has_path old p"
  shows "(n, p) \<in> managed_keys md5 old"
proof -
  obtain a b where a: "a \<in> set (Disks v)" "storage_is_managed_disk a" "Get_resource_name md5 (disk_device a) (disk_path a) = n" "disk_path a = p"
    and b: "b \<in> set (Disks old)" "disk_path b = p" using assms(2,3) by (auto simp: managed_keys_def Has_path_iff)
  with assms(1) have k: "disk_device a = disk_device b" "disk_man a = disk_man b" unfolding same_disks_def by simp_all
  have "storage_is_managed_disk b" using a(2) k(2) by (simp add: storage_is_managed_disk_def)
  moreover have "Get_resource_name md5 (disk_device b) (disk_path b) = n" using a(3,4) b(2) k(1) by simp
  ultimately show ?thesis using b by (auto simp: managed_keys_def)
qed

section \<open>Every operation keeps the invariant\<close>

context storage_rollback
begin

text \<open>Leases that nobody had may be taken, or kept by a rollback that fails.\<close>

lemma take_free_held:
  assumes "leases_held (se_md5 env) own defs" "\<forall>r\<in>set ns. own r = None"
  shows "leases_held (se_md5 env) (take_leases ns u own) defs"
  using assms by (fastforce simp: leases_held_def holds_leases_def take_leases_def)

lemma Create_keeps:
  assumes "storage_Create env vm old u w = (vm', created, e, w')" "lease_names_ok valid_name (se_md5 env) vm"
    and "leases_held (se_md5 env) (owner w) defs"
  shows "leases_held (se_md5 env) (owner w') defs"
proof -
  from Create_effect[OF assms(1) lease_names_wanted[OF assms(2)]]
  have "\<forall>r\<in>set (map snd created). owner w r = None" "owner w' = take_leases (map snd created) u (owner w)" by metis+
  with take_free_held[OF assms(3)] show ?thesis by simp
qed

lemma Rollback_keeps:
  assumes "storage_Create env vm old u w = (vm', created, e, w')" "lease_names_ok valid_name (se_md5 env) vm"
    and "owner w2 = owner w'" "leases_held (se_md5 env) (owner w) defs"
  shows "leases_held (se_md5 env) (owner (Rollback env created u w2)) defs"
proof -
  note c = assms(1) lease_names_wanted[OF assms(2)]
  from Create_effect[OF c] have "\<forall>r\<in>set (map snd created). owner w r = None" by metis
  then have "\<forall>r\<in>set (filter (\<lambda>r. \<not> releases r) (map snd created)). owner w r = None" by auto
  from take_free_held[OF assms(4) this] show ?thesis by (simp only: Create_rolled_back[OF c assms(3)])
qed

text \<open>What was held before creating is still held, and the new definition is held too.\<close>

lemma Create_holds:
  assumes c: "storage_Create env vm old u w = (vm', created, None, w')"
    and valid: "lease_names_ok valid_name (se_md5 env) vm" and held: "leases_held (se_md5 env) (owner w) defs"
    and old: "old = defs u" "\<And>ov. old = Some ov \<Longrightarrow> same_disks vm ov"
  shows "leases_held (se_md5 env) (owner w') defs" "holds_leases (se_md5 env) (owner w') u vm'"
    "old = Some ov \<Longrightarrow> (n, p) \<in> managed_keys (se_md5 env) vm' \<Longrightarrow> (n, q) \<in> managed_keys (se_md5 env) ov \<Longrightarrow> p = q"
proof -
  let ?W = "wanted env old (Disks vm)"
  obtain rest where new: "?W = map snd created @ rest" "rest = []" "distinct (map snd created)"
    "\<forall>r\<in>set (map snd created). owner w r = None" "owner w' = take_leases (map snd created) u (owner w)"
    using Create_effect[OF c lease_names_wanted[OF valid]] by metis
  then have W: "distinct ?W" "\<And>n. n \<in> set ?W \<Longrightarrow> owner w n = None" "owner w' = take_leases ?W u (owner w)" by (simp_all, auto)
  have keys: "managed_keys (se_md5 env) vm' = managed_keys (se_md5 env) vm" by (rule managed_keys_eq[OF storage_Create_keys[OF c]])
  have oldheld: "holds_leases (se_md5 env) (owner w) u ov" if "old = Some ov" for ov
    using held that old(1) by (simp add: leases_held_def)
  show "leases_held (se_md5 env) (owner w') defs"
    using held W(2) by (fastforce simp: leases_held_def holds_leases_def W(3) take_leases_def)
  have third: "p = q" if "old = Some ov" "(n, p) \<in> managed_keys (se_md5 env) vm" "(n, q) \<in> managed_keys (se_md5 env) ov" for ov n p q
  proof (cases "Has_path ov p")
    case True
    from same_disks_key[OF old(2)[OF that(1)] that(2) True] oldheld[OF that(1)] that(3) show ?thesis
      unfolding holds_leases_def by blast
  next
    case False
    then have "n \<in> set ?W" using that(1,2) by (auto simp: wanted_keys)
    moreover have "owner w n = Some u" using oldheld[OF that(1)] that(3) by (auto simp: holds_leases_def)
    ultimately show ?thesis using W(2) by force
  qed
  then show "old = Some ov \<Longrightarrow> (n, p) \<in> managed_keys (se_md5 env) vm' \<Longrightarrow> (n, q) \<in> managed_keys (se_md5 env) ov \<Longrightarrow> p = q"
    by (simp add: keys)
  have inold: "(n, p) \<in> managed_keys (se_md5 env) ov" if "old = Some ov" "(n, p) \<in> managed_keys (se_md5 env) vm" "Has_path ov p" for ov n p
    using same_disks_key[OF old(2)[OF that(1)] that(2,3)] .
  have own: "owner w' n = Some u" if m: "(n, p) \<in> managed_keys (se_md5 env) vm" for n p
  proof (cases "n \<in> set ?W")
    case True
    then show ?thesis by (simp add: W(3) take_leases_def)
  next
    case False
    then obtain ov where ov: "old = Some ov" "Has_path ov p" using m by (cases old) (auto simp: wanted_keys)
    from inold[OF ov(1) m ov(2)] oldheld[OF ov(1)] False show ?thesis
      by (auto simp: W(3) take_leases_def holds_leases_def)
  qed
  have one: "p = q" if "(n, p) \<in> managed_keys (se_md5 env) vm" "(n, q) \<in> managed_keys (se_md5 env) vm" for n p q
  proof (cases old)
    case None
    with wanted_distinct[OF W(1) that] show ?thesis by simp
  next
    case (Some ov)
    show ?thesis
    proof (cases "Has_path ov p \<or> Has_path ov q")
      case True
      with inold[OF Some that(1)] inold[OF Some that(2)] third[OF Some that(1)] third[OF Some that(2)] show ?thesis by blast
    next
      case False
      with wanted_distinct[OF W(1) that] Some show ?thesis by simp
    qed
  qed
  show "holds_leases (se_md5 env) (owner w') u vm'"
    using own one by (auto simp: holds_leases_def keys)
qed

lemma Delete_others:
  assumes "storage_Delete env vm new u del w = (e, w')" "lease_names_ok valid_name (se_md5 env) vm"
  shows "owner w' r = owner w r \<or> r \<in> set (wanted env new (Disks vm)) \<and> owner w r = Some u \<and> owner w' r = None"
  using delete_loop_owner[OF assms(1)[unfolded storage_Delete_def] lease_names_wanted[OF assms(2)]] by blast

lemma leases_held_upd:
  "leases_held (se_md5 env) own (defs(u \<mapsto> v)) \<longleftrightarrow> holds_leases (se_md5 env) own u v \<and> (\<forall>u' v'. u' \<noteq> u \<and> defs u' = Some v' \<longrightarrow> holds_leases (se_md5 env) own u' v')"
  "leases_held (se_md5 env) own (defs(u := None)) \<longleftrightarrow> (\<forall>u' v'. u' \<noteq> u \<and> defs u' = Some v' \<longrightarrow> holds_leases (se_md5 env) own u' v')"
  by (auto simp: leases_held_def)

lemma Delete_keeps_others:
  assumes "storage_Delete env vm new u del w = (e, w')" "lease_names_ok valid_name (se_md5 env) vm" "leases_held (se_md5 env) (owner w) defs"
    and "u' \<noteq> u" "defs u' = Some v'"
  shows "holds_leases (se_md5 env) (owner w') u' v'"
proof -
  have h: "holds_leases (se_md5 env) (owner w) u' v'" using assms(3,5) by (simp add: leases_held_def)
  have "owner w' n = Some u'" if "owner w n = Some u'" for n
    using Delete_others[OF assms(1,2), of n] that assms(4) by auto
  with h show ?thesis by (auto simp: holds_leases_def)
qed

lemma created_held:
  assumes "storage_Create env vm None u w = (vm', created, None, w')" "lease_names_ok valid_name (se_md5 env) vm"
    and "leases_held (se_md5 env) (owner w) defs" "defs u = None"
  shows "leases_held (se_md5 env) (owner w') (defs(u \<mapsto> vm'))"
  using Create_holds(1,2)[OF assms(1,2,3)] assms(4) by (auto simp: leases_held_upd) (auto simp: leases_held_def)

lemma deleted_held:
  assumes "storage_Delete env vm None u del w = (e, w')" "lease_names_ok valid_name (se_md5 env) vm" "leases_held (se_md5 env) (owner w) defs"
  shows "leases_held (se_md5 env) (owner w') (defs(u := None))"
  using Delete_keeps_others[OF assms] by (auto simp: leases_held_upd)

text \<open>Of an update one does not know more, the other machines.\<close>

lemma updated_others:
  assumes "storage_Create env vm (Some old) u w = (vm', created, None, w1)" "lease_names_ok valid_name (se_md5 env) vm"
    and "leases_held (se_md5 env) (owner w) defs" "owner w2 = owner w1"
    and "storage_Delete env old (Some vm') u del w2 = (e, w')" "lease_names_ok valid_name (se_md5 env) old"
  shows "leases_held (se_md5 env) (owner w') (defs(u := None))"
proof -
  have "leases_held (se_md5 env) (owner w2) defs" using Create_keeps[OF assms(1-3)] assms(4) by simp
  from Delete_keeps_others[OF assms(5,6) this] show ?thesis by (auto simp: leases_held_upd)
qed

lemma updated_held:
  assumes c: "storage_Create env vm (Some old) u w = (vm', created, None, w1)" "lease_names_ok valid_name (se_md5 env) vm"
    and held: "leases_held (se_md5 env) (owner w) defs" "defs u = Some old" "same_disks vm old"
    and between: "owner w2 = owner w1"
    and del: "storage_Delete env old (Some vm') u del w2 = (e, w')" "lease_names_ok valid_name (se_md5 env) old"
  shows "leases_held (se_md5 env) (owner w') (defs(u \<mapsto> vm'))"
proof -
  note h = Create_holds[OF c held(1), of, simplified held(2)]
  have h1: "leases_held (se_md5 env) (owner w2) defs" and h2: "holds_leases (se_md5 env) (owner w2) u vm'"
    using h(1,2) held(3) between by auto
  have kept: "owner w' n = Some u" if "(n, p) \<in> managed_keys (se_md5 env) vm'" for n p
  proof -
    have "n \<notin> set (wanted env (Some vm') (Disks old))"
    proof
      assume "n \<in> set (wanted env (Some vm') (Disks old))"
      then obtain q where q: "(n, q) \<in> managed_keys (se_md5 env) old" "\<not> Has_path vm' q" by (auto simp: wanted_keys)
      then have "p = q" using h(3) held(3) that by auto
      with q(2) that show False by (auto simp: managed_keys_def Has_path_iff)
    qed
    with Delete_others[OF del, of n] h2 that show ?thesis by (auto simp: holds_leases_def)
  qed
  from h2 kept have "holds_leases (se_md5 env) (owner w') u vm'" by (auto simp: holds_leases_def)
  with Delete_keeps_others[OF del h1] show ?thesis by (auto simp: leases_held_upd)
qed

end
section \<open>Histories\<close>

text \<open>A world is the lock directory and what else there is; the other part may change at any time, as
  libvirt does when a domain is defined. Each step may meet failures of its own, \<open>x\<close>. The set has the
  machines that an update changed in the way described above.\<close>

type_synonym 'l cluster_storage = "(lockdir \<times> 'l) \<times> (string \<rightharpoonup> Vmdef) \<times> string set"

abbreviation host_storage :: "lock_world \<Rightarrow> (lockdir \<times> 'l) storage_env" where
  "host_storage x \<equiv> beside (lock_env x)"

inductive storage_step :: "(byte list \<Rightarrow> byte list) \<Rightarrow> 'l cluster_storage \<Rightarrow> 'l cluster_storage \<Rightarrow> bool" for md5 where
  created: "lw_md5 x = md5 \<Longrightarrow> lease_names_ok lease_name md5 vm \<Longrightarrow> defs u = None \<Longrightarrow>
     storage_Create (host_storage x) vm None u w = (vm', created, None, w1) \<Longrightarrow> fst w' = fst w1 \<Longrightarrow>
     storage_step md5 (w, defs, mixed) (w', defs(u \<mapsto> vm'), mixed - {u})"
| updated: "lw_md5 x = md5 \<Longrightarrow> lease_names_ok lease_name md5 vm \<Longrightarrow> defs u = Some v \<Longrightarrow> same_keys old v \<Longrightarrow>
     storage_Create (host_storage x) vm (Some old) u w = (vm', created, None, w1) \<Longrightarrow> fst w2 = fst w1 \<Longrightarrow>
     storage_Delete (host_storage x) old (Some vm') u del w2 = (e, w') \<Longrightarrow>
     storage_step md5 (w, defs, mixed) (w', defs(u \<mapsto> vm'), if same_disks vm old then mixed else insert u mixed)"
| gave_up: "lw_md5 x = md5 \<Longrightarrow> lease_names_ok lease_name md5 vm \<Longrightarrow>
     storage_Create (host_storage x) vm old u w = (vm', created, e, w1) \<Longrightarrow> fst w2 = fst w1 \<Longrightarrow>
     storage_step md5 (w, defs, mixed) (Rollback (host_storage x) created u w2, defs, mixed)"
| deleted: "lw_md5 x = md5 \<Longrightarrow> defs u = Some v \<Longrightarrow> same_keys vm v \<Longrightarrow> fst w1 = fst w \<Longrightarrow>
     storage_Delete (host_storage x) vm None u del w1 = (e, w') \<Longrightarrow>
     storage_step md5 (w, defs, mixed) (w', defs(u := None), mixed)"
| elsewhere: "fst w' = fst w \<Longrightarrow> storage_step md5 (w, defs, mixed) (w', defs, mixed)"

inductive storage_reach :: "(byte list \<Rightarrow> byte list) \<Rightarrow> 'l cluster_storage \<Rightarrow> 'l cluster_storage \<Rightarrow> bool" for md5 where
  refl: "storage_reach md5 s s"
| step: "storage_reach md5 s t \<Longrightarrow> storage_step md5 t v \<Longrightarrow> storage_reach md5 s v"

definition storage_ok :: "(byte list \<Rightarrow> byte list) \<Rightarrow> 'l cluster_storage \<Rightarrow> bool" where
  "storage_ok md5 s \<longleftrightarrow> (case s of (w, defs, mixed) \<Rightarrow>
     leases_held md5 (lease_owner (fst w)) (defs |` (- mixed)) \<and>
     (\<forall>u v. defs u = Some v \<longrightarrow> lease_names_ok lease_name md5 v))"

lemma host_md5 [simp]: "se_md5 (host_storage x) = lw_md5 x"
  by (simp add: beside_def lock_env_def)

lemma lease_names_keys: "same_keys v v' \<Longrightarrow> lease_names_ok valid md5 v \<longleftrightarrow> lease_names_ok valid md5 v'"
  by (simp add: lease_names_ok_def managed_keys_eq[of v v'])

lemma leases_held_keys: "defs u = Some v \<Longrightarrow> same_keys old v \<Longrightarrow> leases_held md5 own defs \<Longrightarrow> leases_held md5 own (defs(u \<mapsto> old))"
  by (auto simp: leases_held_def holds_leases_def managed_keys_eq[of old v])

lemma lease_names_created:
  "storage_Create env vm old u w = (vm', r) \<Longrightarrow> lease_names_ok valid md5 vm \<Longrightarrow> lease_names_ok valid md5 vm'"
  by (simp add: lease_names_ok_def managed_keys_eq[OF storage_Create_keys])

text \<open>The definitions of the machines that are not in the set.\<close>

lemma leases_held_le: "leases_held md5 own defs \<Longrightarrow> defs' \<subseteq>\<^sub>m defs \<Longrightarrow> leases_held md5 own defs'"
  unfolding leases_held_def map_le_def by (metis domI)

lemma restrict_created: "(defs(u \<mapsto> v)) |` (- (mixed - {u})) = (defs |` (- mixed))(u \<mapsto> v)"
  by (auto simp: restrict_map_def fun_eq_iff)

lemma restrict_updated:
  "u \<notin> mixed \<Longrightarrow> (defs(u \<mapsto> v)) |` (- mixed) = (defs |` (- mixed))(u \<mapsto> v)"
  "u \<in> mixed \<Longrightarrow> (defs(u \<mapsto> v)) |` (- mixed) \<subseteq>\<^sub>m (defs |` (- mixed))(u := None)"
  "(defs(u \<mapsto> v)) |` (- insert u mixed) \<subseteq>\<^sub>m (defs |` (- mixed))(u := None)"
  "(defs(u := None)) |` (- mixed) = (defs |` (- mixed))(u := None)"
  by (auto simp: restrict_map_def map_le_def fun_eq_iff)

lemma storage_ok_step:
  assumes "storage_step md5 s s'" "storage_ok md5 s"
  shows "storage_ok md5 s'"
  using assms(1)
proof cases
  case (created x vm defs u w vm' cr w1 w' mixed)
  have "leases_held (lw_md5 x) (lease_owner (fst w)) (defs |` (- mixed))" "(defs |` (- mixed)) u = None"
    using assms(2) created by (simp_all add: storage_ok_def restrict_map_def)
  from beside_rollback.created_held[OF created(6), unfolded host_md5, OF _ this] created(3,4)
  have "leases_held md5 (lease_owner (fst w1)) ((defs(u \<mapsto> vm')) |` (- (mixed - {u})))" by (simp only: restrict_created)
  with assms(2) lease_names_created[OF created(6,4)] show ?thesis by (simp add: created storage_ok_def)
next
  case (updated x vm defs u v old w vm' cr w1 w2 del e w' mixed)
  let ?D = "defs |` (- mixed)" and ?own = "lease_owner (fst w')"
  have held: "leases_held (lw_md5 x) (lease_owner (fst w)) ?D" and names: "lease_names_ok lease_name (lw_md5 x) old"
    using assms(2) updated(1,2,3,5) by (auto simp: storage_ok_def lease_names_keys[OF updated(6)])
  have vm: "lease_names_ok lease_name (lw_md5 x) vm" using updated(3,4) by simp
  have others: "leases_held (lw_md5 x) ?own (?D(u := None))"
    using beside_rollback.updated_others[OF updated(7), unfolded host_md5, OF vm held _ updated(9) names] updated(8) by simp
  have "leases_held (lw_md5 x) ?own (?D(u \<mapsto> vm'))" if "u \<notin> mixed" "same_disks vm old"
  proof -
    have "?D u = Some v" using that(1) updated(5) by (simp add: restrict_map_def)
    from leases_held_keys[where defs = ?D, OF this updated(6) held]
    have ok: "leases_held (lw_md5 x) (lease_owner (fst w)) (?D(u \<mapsto> old))" .
    have "leases_held (lw_md5 x) ?own ((?D(u \<mapsto> old))(u \<mapsto> vm'))"
      by (rule beside_rollback.updated_held[OF updated(7), unfolded host_md5, OF vm ok _ that(2) _ updated(9) names])
        (simp_all add: updated(8))
    then show ?thesis by simp
  qed
  then have "leases_held (lw_md5 x) ?own ((defs(u \<mapsto> vm')) |` (- mixed))" if "same_disks vm old"
    using leases_held_le[OF others restrict_updated(2)] restrict_updated(1) that by metis
  moreover have "leases_held (lw_md5 x) ?own ((defs(u \<mapsto> vm')) |` (- insert u mixed))"
    by (rule leases_held_le[OF others restrict_updated(3)])
  ultimately have "leases_held (lw_md5 x) ?own ((defs(u \<mapsto> vm')) |` (- (if same_disks vm old then mixed else insert u mixed)))"
    by (cases "same_disks vm old") simp_all
  with assms(2) lease_names_created[OF updated(7,4)] show ?thesis by (simp add: updated(1,2,3) storage_ok_def)
next
  case (gave_up x vm old u w vm' cr e w1 w2 defs mixed)
  have "leases_held (lw_md5 x) (lease_owner (fst w)) (defs |` (- mixed))" "lease_owner (fst w2) = lease_owner (fst w1)"
    using assms(2) gave_up(1,3,6) by (simp_all add: storage_ok_def)
  from beside_rollback.Rollback_keeps[OF gave_up(5), unfolded host_md5, OF _ this(2,1)] gave_up(3,4) assms(2) show ?thesis
    by (simp add: gave_up(1,2) storage_ok_def)
next
  case (deleted x defs u v vm w1 w del e w' mixed)
  have ok: "leases_held (lw_md5 x) (lease_owner (fst w1)) (defs |` (- mixed))" "lease_names_ok lease_name (lw_md5 x) vm"
    using assms(2) deleted(1-4,6) by (auto simp: storage_ok_def lease_names_keys[OF deleted(5)])
  have "leases_held (lw_md5 x) (lease_owner (fst w')) ((defs |` (- mixed))(u := None))"
    by (rule beside_rollback.deleted_held[OF deleted(7), unfolded host_md5, OF ok(2,1)])
  then have "leases_held (lw_md5 x) (lease_owner (fst w')) ((defs(u := None)) |` (- mixed))" by (simp only: restrict_updated(4))
  with assms(2) show ?thesis by (simp add: deleted(1,2,3) storage_ok_def split: if_splits)
next
  case (elsewhere w' w defs mixed)
  with assms(2) show ?thesis by (simp add: storage_ok_def)
qed

lemma storage_ok_reach: "storage_reach md5 s t \<Longrightarrow> storage_ok md5 s \<Longrightarrow> storage_ok md5 t"
  by (induction rule: storage_reach.induct) (auto intro: storage_ok_step)


text \<open>The machine of the other witnesses, created on a host.\<close>

lemma sample_created:
  "\<exists>d. storage_Create (host_storage sample_world) (sample_vmdef 2 2) None ''v'' (Map.empty, ()) =
     (sample_vmdef 2 2, [(0, resource_name_of (lock_env sample_world) sample_disk)], None, d, ())"
  using sample_create_beside[OF HOL.refl, of Map.empty None "''v''" "()"] by (simp add: in_def_def)

lemma sample_names_ok: "lease_names_ok lease_name (lw_md5 sample_world) (sample_vmdef 2 2)"
  using sample_name by (auto simp: lease_names_ok_def managed_keys_def sample_Disks resource_name_of_def lock_env_def)


text \<open>That an update may turn an unmanaged disk into a managed one breaks this: the disk has no lease then,
  and another machine can take it. Two machines end up with one managed disk.\<close>

definition unmanaged_vmdef :: Vmdef where
  "unmanaged_vmdef = (sample_vmdef 2 2)\<lparr>vm_osdisk := sample_disk\<lparr>disk_man := DISK_MAN_UNMANAGED\<rparr>\<rparr>"

definition image_world :: lock_world where
  "image_world = sample_world\<lparr>lw_map := (\<lambda>p. Inr [\<lparr>qm_Length = 10485760, qm_Zero = False, qm_Compressed = False\<rparr>])\<rparr>"

lemma image_md5: "lw_md5 image_world = lw_md5 sample_world"
  by (simp add: image_world_def)

lemma unmanaged_Disks: "Disks unmanaged_vmdef = [sample_disk\<lparr>disk_man := DISK_MAN_UNMANAGED\<rparr>]"
  by (simp add: Disks_def unmanaged_vmdef_def sample_vmdef_def)

lemma unmanaged_created:
  "\<exists>vm'. storage_Create (host_storage image_world) unmanaged_vmdef None u w = (vm', [], None, w) \<and> same_keys vm' unmanaged_vmdef"
proof -
  let ?d = "sample_disk\<lparr>disk_man := DISK_MAN_UNMANAGED\<rparr>"
  have u: "\<not> storage_is_managed_disk ?d" by (simp add: storage_is_managed_disk_def)
  have drv: "Validate_disk_path (disk_path ?d) = ''qcow2''" by code_simp
  have "\<exists>d'. Detect (host_storage image_world) ?d w = (d', None)"
    using drv by (simp add: Detect_def storage_ops_map_def vdisk_detect_def vdisk_detect_qcow2_prov_def beside_def lock_env_def
        image_world_def Let_def sample_disk_def)
  then obtain d' where "Detect (host_storage image_world) ?d w = (d', None)" ..
  then have c: "storage_Create (host_storage image_world) unmanaged_vmdef None u w = (set_disks [d'] unmanaged_vmdef, [], None, w)"
    by (simp add: storage_Create_def unmanaged_Disks u Let_def)
  with storage_Create_keys[OF c] show ?thesis by blast
qed

theorem exclusive_not_after_retagging:
  "\<exists>w v v' mixed. storage_reach (lw_md5 sample_world) ((Map.empty, ()), Map.empty, {}) (w, [''v'' \<mapsto> v, ''x'' \<mapsto> v'], mixed) \<and>
     sample_disk \<in> set (Disks v) \<and> sample_disk \<in> set (Disks v') \<and> storage_is_managed_disk sample_disk \<and> ''x'' \<in> mixed"
proof -
  let ?md5 = "lw_md5 sample_world" and ?v = "sample_vmdef 2 2"
  obtain d where c: "storage_Create (host_storage sample_world) ?v None ''v'' (Map.empty, ()) =
     (?v, [(0, resource_name_of (lock_env sample_world) sample_disk)], None, d, ())"
    using sample_created by blast
  have 1: "storage_step ?md5 ((Map.empty, ()), Map.empty, {}) ((d, ()), [''v'' \<mapsto> ?v], {})"
    using storage_step.created[OF HOL.refl sample_names_ok _ c HOL.refl, of Map.empty "{}"] by simp
  obtain vm' where c2: "storage_Create (host_storage image_world) unmanaged_vmdef None ''x'' (d, ()) = (vm', [], None, (d, ()))"
    and k: "same_keys vm' unmanaged_vmdef" using unmanaged_created by blast
  have n: "lease_names_ok lease_name ?md5 unmanaged_vmdef"
    by (simp add: lease_names_ok_def managed_keys_def unmanaged_Disks storage_is_managed_disk_def)
  have 2: "storage_step ?md5 ((d, ()), [''v'' \<mapsto> ?v], {}) ((d, ()), [''v'' \<mapsto> ?v, ''x'' \<mapsto> vm'], {})"
    using storage_step.created[OF image_md5 n _ c2 HOL.refl, of "[''v'' \<mapsto> ?v]" "{}"] by simp
  have c3: "storage_Create (host_storage sample_world) ?v (Some unmanaged_vmdef) ''x'' (d, ()) = (?v, [], None, (d, ()))"
    by (simp add: storage_Create_def sample_Disks unmanaged_Disks Has_path_iff set_disks_def) (simp add: sample_vmdef_def)
  have d3: "storage_Delete (host_storage sample_world) unmanaged_vmdef (Some ?v) ''x'' False (d, ()) = (None, (d, ()))"
    by (simp add: storage_Delete_def sample_Disks unmanaged_Disks Has_path_iff)
  have "\<not> same_disks ?v unmanaged_vmdef"
    by (simp add: same_disks_def sample_Disks unmanaged_Disks) (simp add: sample_disk_def)
  then have 3: "storage_step ?md5 ((d, ()), [''v'' \<mapsto> ?v, ''x'' \<mapsto> vm'], {}) ((d, ()), [''v'' \<mapsto> ?v, ''x'' \<mapsto> ?v], {''x''})"
    using storage_step.updated[OF HOL.refl sample_names_ok _ _ c3 HOL.refl d3, of "[''v'' \<mapsto> ?v, ''x'' \<mapsto> vm']" vm' "{}"] k
    by (simp add: same_keys_def)
  from storage_reach.step[OF storage_reach.step[OF storage_reach.step[OF storage_reach.refl 1] 2] 3]
  have "storage_reach ?md5 ((Map.empty, ()), Map.empty, {}) ((d, ()), [''v'' \<mapsto> ?v, ''x'' \<mapsto> ?v], {''x''})" .
  moreover have "sample_disk \<in> set (Disks ?v)" by (simp add: sample_Disks)
  ultimately show ?thesis using sample_managed by blast
qed

end
