(* ===== verification/Virtx_History.thy ===== *)
theory Virtx_History
  imports Virtx_Props Storage_History Vmdef_Xml_Props
begin

text \<open>
  The handlers that create, update and delete machines are steps of the history of the cluster's
  storage, so that \<open>disks_exclusive\<close> is about what requests can do.
\<close>

section \<open>What the handlers read back\<close>

text \<open>A definition that was put into a domain and is read back has the same disks.\<close>

lemma found_again_disks: "found_again vm vm' \<Longrightarrow> same_keys vm' vm"
  by (simp add: same_keys_def found_again_def Disks_def disk_key_def comp_def)

text \<open>What the registry holds of a machine and what libvirt shows of it are its definition.\<close>

definition knows :: "'w srv_env \<Rightarrow> 'w server \<Rightarrow> (string \<rightharpoonup> Vmdef) \<Rightarrow> string \<Rightarrow> bool" where
  "knows sv ss defs u \<longleftrightarrow>
     (\<forall>xml old. (\<exists>host. Load (sv_load sv (ss_fs ss)) host u (ss_fs ss) = Inr xml) \<or> Dumpxml (sv_he sv) u (ss_world ss) = Inr xml \<longrightarrow>
        sv_From_xml sv xml = Inr old \<longrightarrow> (\<exists>v. defs u = Some v \<and> same_keys old v))"

definition undefine_apart :: "(lockdir \<times> 'l) srv_env \<Rightarrow> bool" where
  "undefine_apart sv \<longleftrightarrow> (\<forall>d fl w. fst (snd (lv_UndefineFlags (he_lv (sv_he sv)) d fl w)) = fst w)"

section \<open>The handlers as steps\<close>

text \<open>A handler that gives back what it took.\<close>

lemma rolled_back_step:
  fixes sv :: "(lockdir \<times> 'l) srv_env"
  assumes "sv_storage sv = host_storage x" "lease_names_ok lease_name (lw_md5 x) vmdef"
    and "storage_Create (sv_storage sv) vmdef old uuid (ss_world ss) = (vmdef1, created, e, w1)"
    and "fst (ss_world ss1) = fst w1"
  shows "storage_step (lw_md5 x) (ss_world ss, defs, mixed) (ss_world (rolled_back sv created uuid ss1), defs, mixed)"
  using storage_step.gave_up[OF HOL.refl assms(2) assms(3)[unfolded assms(1)] assms(4)] assms(1)
  by (simp add: rolled_back_def)

lemma create_vm_step:
  fixes sv :: "(lockdir \<times> 'l) srv_env"
  assumes st: "sv_storage sv = host_storage x" and apart: "libvirt_apart sv"
    and names: "lease_names_ok lease_name (lw_md5 x) vmdef" and fresh: "defs uuid = None"
    and run: "create_vm sv vmdef uuid ss = (Answer a, ss')"
  shows "\<exists>defs' mixed'. storage_step (lw_md5 x) (ss_world ss, defs, mixed) (ss_world ss', defs', mixed') \<and>
    (if rs_Status a < 300 then \<exists>v. defs' = defs(uuid \<mapsto> v) \<and> same_keys v vmdef else defs' = defs)"
proof -
  obtain vmdef1 created e w1 where c: "storage_Create (sv_storage sv) vmdef None uuid (ss_world ss) = (vmdef1, created, e, w1)"
    by (metis prod_cases4)
  from apart c run show ?thesis
  proof (cases rule: create_vm_cases)
    case (gave_up ss1)
    with rolled_back_step[OF st names c gave_up(2), of defs] show ?thesis by auto
  next
    case defined
    with storage_step.created[where defs = defs and u = uuid, OF HOL.refl names fresh c[unfolded st defined(1)] defined(2)]
      storage_Create_keys[OF c] show ?thesis by auto
  qed
qed

lemma update_vm_step:
  fixes sv :: "(lockdir \<times> 'l) srv_env"
  assumes st: "sv_storage sv = host_storage x" and apart: "libvirt_apart sv"
    and names: "lease_names_ok lease_name (lw_md5 x) vmdef" and old: "defs uuid = Some v0" "same_keys old v0"
    and run: "update_vm_storage sv vmdef old del uuid ss = (Answer a, ss')"
  shows "\<exists>defs' mixed'. storage_step (lw_md5 x) (ss_world ss, defs, mixed) (ss_world ss', defs', mixed') \<and>
    (if rs_Status a < 300 then \<exists>v. defs' = defs(uuid \<mapsto> v) \<and> same_keys v vmdef else defs' = defs)"
proof -
  obtain vmdef1 created e w1
    where c: "storage_Create (sv_storage sv) vmdef (Some old) uuid (ss_world ss) = (vmdef1, created, e, w1)"
    by (metis prod_cases4)
  from apart c run show ?thesis
  proof (cases rule: update_vm_cases)
    case (gave_up ss1)
    with rolled_back_step[OF st names c gave_up(2), of defs] show ?thesis by auto
  next
    case (defined ss2)
    obtain e3 w3 where d: "storage_Delete (sv_storage sv) old (Some vmdef1) uuid del (ss_world ss2) = (e3, w3)" by (metis surj_pair)
    with defined(3) have "ss_world ss' = w3" "rs_Status a < 300"
      using finish_status[OF defined(3)] by (auto simp: finish_storage_def respond_def split: option.splits)
    with storage_step.updated[where defs = defs and u = uuid, OF HOL.refl names old c[unfolded st defined(1)] defined(2) d[unfolded st]]
      storage_Create_keys[OF c] show ?thesis by auto
  qed
qed

lemma delete_vm_step:
  fixes sv :: "(lockdir \<times> 'l) srv_env"
  assumes st: "sv_storage sv = host_storage x" and apart: "undefine_apart sv"
    and old: "defs uuid = Some v0" "same_keys vm v0"
    and run: "(case Delete_domain (sv_he sv) uuid (ss_world ss) (ss_fs ss) of
              (Some e, w, s) \<Rightarrow> refuse ''Failed to delete VM'' 424 (ss\<lparr>ss_world := w, ss_fs := s\<rparr>)
            | (None, w, s) \<Rightarrow> finish_storage (storage_Delete (sv_storage sv) vm None uuid del w)
                  (ss\<lparr>ss_world := w, ss_fs := s\<rparr>)) = (Answer a, ss')"
  shows "\<exists>defs' mixed'. storage_step (lw_md5 x) (ss_world ss, defs, mixed) (ss_world ss', defs', mixed') \<and>
    defs' = (if rs_Status a < 300 then defs(uuid := None) else defs)"
proof -
  obtain e w s where d: "Delete_domain (sv_he sv) uuid (ss_world ss) (ss_fs ss) = (e, w, s)" by (metis prod_cases3)
  have undef: "fst w1 = fst (ss_world ss)" if "lv_UndefineFlags (he_lv (sv_he sv)) dm fl (ss_world ss) = (e1, w1)" for dm fl e1 w1
    using apart that unfolding undefine_apart_def by (metis fst_conv snd_conv)
  have same: "fst w = fst (ss_world ss)"
    using d by (auto simp: Delete_domain_def split: sum.splits option.splits if_splits prod.splits dest: undef)
  show ?thesis
  proof (cases e)
    case (Some e')
    with run have "ss_world ss' = w \<and> rs_Status a = 424" by (auto simp: d refuse_def)
    with storage_step.elsewhere[OF same, of "lw_md5 x" defs] show ?thesis by auto
  next
    case None
    obtain e3 w3 where del: "storage_Delete (sv_storage sv) vm None uuid del w = (e3, w3)" by (metis surj_pair)
    have f: "finish_storage (e3, w3) (ss\<lparr>ss_world := w, ss_fs := s\<rparr>) = (Answer a, ss')" using run None by (simp add: d del)
    then have "ss_world ss' = w3" "rs_Status a < 300"
      using finish_status[OF f] by (auto simp: finish_storage_def respond_def split: option.splits)
    with storage_step.deleted[where defs = defs and u = uuid, OF HOL.refl old same del[unfolded st]] show ?thesis by auto
  qed
qed
section \<open>Requests\<close>

lemma ends_work: "D h \<Longrightarrow> ends ss D h"
  by (simp add: ends_def)

lemma ends_with_some:
  assumes "\<And>vr v. Decode_request_body (Some d) r = Inr (vr, Some v) \<Longrightarrow> ends ss D (k vr (Some v))"
  shows "ends ss D (with_body (Some d) r ss k)"
proof (rule ends_with_body)
  fix vr o' assume dec: "Decode_request_body (Some d) r = Inr (vr, o')"
  then obtain v where "o' = Some v" by (auto simp: Decode_request_body_def rbind_def split: sum.splits)
  with assms dec show "ends ss D (k vr o')" by simp
qed

text \<open>The definition that a request asks for, and what is asked of it: names of leases are names.\<close>

definition requested :: "'w srv_env \<Rightarrow> HttpRequest \<Rightarrow> handler \<Rightarrow> Vmdef \<Rightarrow> bool" where
  "requested sv r h v \<longleftrightarrow>
     (\<exists>vr opts. h = VmCreate \<and> Decode_request_body (Some (js_get_create (sv_json sv))) r = Inr (vr, Some opts) \<and> v = co_Vmdef opts) \<or>
     (\<exists>vr opts. h = VmUpdate \<and> Decode_request_body (Some (js_get_update (sv_json sv))) r = Inr (vr, Some opts) \<and> v = uo_Vmdef opts)"

definition request_ok :: "'w srv_env \<Rightarrow> HttpRequest \<Rightarrow> handler \<Rightarrow> bool" where
  "request_ok sv r h \<longleftrightarrow> (\<forall>v. requested sv r h v \<longrightarrow> lease_names_ok lease_name (se_md5 (sv_storage sv)) v)"

text \<open>What a successful answer means for the definitions.\<close>

definition defs_after :: "'w srv_env \<Rightarrow> HttpRequest \<Rightarrow> handler \<Rightarrow> string \<Rightarrow> string \<Rightarrow> (string \<rightharpoonup> Vmdef) \<Rightarrow> (string \<rightharpoonup> Vmdef) \<Rightarrow> bool" where
  "defs_after sv r h u uuid defs defs' \<longleftrightarrow>
     (if h = VmDelete then defs' = defs(u := None)
      else \<exists>v v'. requested sv r h v' \<and> same_keys v v' \<and> defs' = defs((if h = VmCreate then uuid else u) \<mapsto> v))"

lemma defs_after_create: "requested sv r VmCreate v' \<Longrightarrow> same_keys v v' \<Longrightarrow> defs_after sv r VmCreate u uuid defs (defs(uuid \<mapsto> v))"
  and defs_after_update: "requested sv r VmUpdate v' \<Longrightarrow> same_keys v v' \<Longrightarrow> defs_after sv r VmUpdate u uuid defs (defs(u \<mapsto> v))"
  by (auto simp: defs_after_def)

text \<open>Once the work has begun, the answer comes from this host.\<close>

lemma answers:
  "refuse m c ss = (p, ss') \<Longrightarrow> \<exists>a. p = Answer a" "respond st b ss = (p, ss') \<Longrightarrow> \<exists>a. p = Answer a"
  "finish_storage res ss = (p, ss') \<Longrightarrow> \<exists>a. p = Answer a"
  by (auto simp: refuse_def respond_def finish_storage_def split: prod.splits option.splits)

lemma create_vm_answers: "create_vm sv v u ss = (p, ss') \<Longrightarrow> \<exists>a. p = Answer a"
  by (auto simp: create_vm_def Let_def split: prod.splits option.splits sum.splits dest: answers)

lemma update_vm_answers: "update_vm_storage sv v old d u ss = (p, ss') \<Longrightarrow> \<exists>a. p = Answer a"
  by (auto simp: update_vm_storage_def Let_def split: prod.splits option.splits sum.splits dest: answers)

lemma create_request:
  fixes sv :: "(lockdir \<times> 'l) srv_env"
  assumes "sv_storage sv = host_storage x" "libvirt_apart sv" "request_ok sv r VmCreate" "defs (sv_uuid sv (ss_world ss)) = None"
    and run: "vm_create sv r ss = (p, ss')"
  shows "error_answer ss (p, ss') \<or> (\<exists>a defs' mixed'. p = Answer a \<and> storage_step (lw_md5 x) (ss_world ss, defs, mixed) (ss_world ss', defs', mixed') \<and>
    (if rs_Status a < 300 then defs_after sv r VmCreate u (sv_uuid sv (ss_world ss)) defs defs' else defs' = defs))"
proof -
  let ?dec = "Decode_request_body (Some (js_get_create (sv_json sv))) r"
  have "ends ss (\<lambda>h. \<exists>vr opts. ?dec = Inr (vr, Some opts) \<and> h = create_vm sv (co_Vmdef opts) (sv_uuid sv (ss_world ss)) ss) (vm_create sv r ss)"
    unfolding vm_create_def Let_def by (rule ends_with_some) (auto intro!: ending intro: ends_work)
  then consider "error_answer ss (p, ss')"
    | vr opts where "?dec = Inr (vr, Some opts)" "create_vm sv (co_Vmdef opts) (sv_uuid sv (ss_world ss)) ss = (p, ss')"
    by (auto simp: ends_def run)
  then show ?thesis
  proof cases
    case 2
    then have q: "requested sv r VmCreate (co_Vmdef opts)" by (auto simp: requested_def)
    then have names: "lease_names_ok lease_name (lw_md5 x) (co_Vmdef opts)" using assms(3) by (simp add: request_ok_def assms(1))
    obtain a where a: "p = Answer a" using create_vm_answers[OF 2(2)] by blast
    from create_vm_step[where defs = defs and mixed = mixed, OF assms(1,2) names assms(4) 2(2)[unfolded a]]
    obtain defs' mixed' where "storage_step (lw_md5 x) (ss_world ss, defs, mixed) (ss_world ss', defs', mixed')"
      "if rs_Status a < 300 then \<exists>v. defs' = defs(sv_uuid sv (ss_world ss) \<mapsto> v) \<and> same_keys v (co_Vmdef opts) else defs' = defs" by blast
    with q a show ?thesis
      by (intro disjI2 exI[of _ a] exI[of _ defs'] exI[of _ mixed']) (auto intro: defs_after_create defs_after_update)
  qed simp
qed

lemma update_request:
  fixes sv :: "(lockdir \<times> 'l) srv_env"
  assumes "sv_storage sv = host_storage x" "libvirt_apart sv" "request_ok sv r VmUpdate" "knows sv ss defs u"
    and run: "vm_update sv u r ss = (p, ss')"
  shows "error_answer ss (p, ss') \<or> (\<exists>a defs' mixed'. p = Answer a \<and> storage_step (lw_md5 x) (ss_world ss, defs, mixed) (ss_world ss', defs', mixed') \<and>
    (if rs_Status a < 300 then defs_after sv r VmUpdate u uuid defs defs' else defs' = defs))"
proof -
  let ?dec = "Decode_request_body (Some (js_get_update (sv_json sv))) r"
  let ?work = "\<lambda>h. \<exists>vr opts host xml old. ?dec = Inr (vr, Some opts) \<and> Load (sv_load sv (ss_fs ss)) host u (ss_fs ss) = Inr xml \<and>
      sv_From_xml sv xml = Inr old \<and> h = update_vm_storage sv (uo_Vmdef opts) old (uo_Deletestorage opts) u ss"
  have "ends ss ?work (vm_update sv u r ss)"
    unfolding vm_update_def Let_def by (rule ends_with_some, intro ending) ((rule ends_work, blast) | simp)+
  then consider "error_answer ss (p, ss')" | "?work (p, ss')" unfolding ends_def run by blast
  then show ?thesis
  proof cases
    case 2
    then obtain vr opts host xml old where w: "?dec = Inr (vr, Some opts)" "Load (sv_load sv (ss_fs ss)) host u (ss_fs ss) = Inr xml"
      "sv_From_xml sv xml = Inr old" "update_vm_storage sv (uo_Vmdef opts) old (uo_Deletestorage opts) u ss = (p, ss')" by metis
    have q: "requested sv r VmUpdate (uo_Vmdef opts)" using w(1) by (auto simp: requested_def)
    obtain v0 where v0: "defs u = Some v0" "same_keys old v0" using assms(4) w(2,3) unfolding knows_def by blast
    have ok: "lease_names_ok lease_name (lw_md5 x) (uo_Vmdef opts)"
      using assms(3) q by (simp add: request_ok_def assms(1))
    obtain a where a: "p = Answer a" using update_vm_answers[OF w(4)] by blast
    from update_vm_step[where defs = defs and mixed = mixed, OF assms(1,2) ok v0 w(4)[unfolded a]]
    obtain defs' mixed' where "storage_step (lw_md5 x) (ss_world ss, defs, mixed) (ss_world ss', defs', mixed')"
      "if rs_Status a < 300 then \<exists>v. defs' = defs(u \<mapsto> v) \<and> same_keys v (uo_Vmdef opts) else defs' = defs" by blast
    with q a show ?thesis
      by (intro disjI2 exI[of _ a] exI[of _ defs'] exI[of _ mixed']) (auto intro: defs_after_create defs_after_update)
  qed simp
qed

lemma delete_request:
  fixes sv :: "(lockdir \<times> 'l) srv_env"
  assumes "sv_storage sv = host_storage x" "undefine_apart sv" "knows sv ss defs u" and run: "vm_delete sv u r ss = (p, ss')"
  shows "error_answer ss (p, ss') \<or> (\<exists>a defs' mixed'. p = Answer a \<and> storage_step (lw_md5 x) (ss_world ss, defs, mixed) (ss_world ss', defs', mixed') \<and>
    (if rs_Status a < 300 then defs_after sv r VmDelete u uuid defs defs' else defs' = defs))"
proof -
  let ?run = "\<lambda>vm del. case Delete_domain (sv_he sv) u (ss_world ss) (ss_fs ss) of
              (Some e, w, s) \<Rightarrow> refuse ''Failed to delete VM'' 424 (ss\<lparr>ss_world := w, ss_fs := s\<rparr>)
            | (None, w, s) \<Rightarrow> finish_storage (storage_Delete (sv_storage sv) vm None u del w) (ss\<lparr>ss_world := w, ss_fs := s\<rparr>)"
  let ?work = "\<lambda>h. \<exists>xml vm del. Dumpxml (sv_he sv) u (ss_world ss) = Inr xml \<and> sv_From_xml sv xml = Inr vm \<and> h = ?run vm del"
  have "ends ss ?work (vm_delete sv u r ss)"
    unfolding vm_delete_def Let_def
    by (rule ends_with_some, rule ends_with_uuid, rule ends_with_vm, rule ends_or_proxy, rule ends_if)
       (auto intro!: ends_refuse ends_or_fail intro: ends_work)
  then consider "error_answer ss (p, ss')" | "?work (p, ss')" unfolding ends_def run by blast
  then show ?thesis
  proof cases
    case 2
    then obtain xml vm del where w: "Dumpxml (sv_he sv) u (ss_world ss) = Inr xml" "sv_From_xml sv xml = Inr vm" "(p, ss') = ?run vm del"
      by (elim exE conjE) (rule that)
    obtain v0 where v0: "defs u = Some v0" "same_keys vm v0" using assms(3) w(1,2) unfolding knows_def by blast
    have "\<exists>a. p = Answer a" using w(3)[symmetric] by (auto split: prod.splits option.splits dest: answers)
    then obtain a where a: "p = Answer a" ..
    obtain defs' mixed' where d: "storage_step (lw_md5 x) (ss_world ss, defs, mixed) (ss_world ss', defs', mixed')"
      "defs' = (if rs_Status a < 300 then defs(u := None) else defs)"
      using delete_vm_step[where defs = defs and mixed = mixed, OF assms(1,2) v0 w(3)[symmetric, unfolded a]] by metis
    then show ?thesis using a by (intro disjI2 exI[of _ a] exI[of _ defs'] exI[of _ mixed']) (simp add: defs_after_def)
  qed simp
qed

section \<open>Witness\<close>

text \<open>A host whose libvirt takes every definition.\<close>

definition accepting_sv :: "(lockdir \<times> unit) srv_env" where
  "accepting_sv = (idle_sv (host_storage sample_world) ''A'')\<lparr>sv_he := (idle_he (host_storage sample_world) ''A'')
     \<lparr>he_lv := idle_lv\<lparr>lv_DomainDefineXML := (\<lambda>c x w. (Inr \<lparr>ld_conn = c, ld_uuid = ''v''\<rparr>, w))\<rparr>\<rparr>\<rparr>"

lemma accepting_simps [simp]:
  "sv_json accepting_sv = sample_json" "sv_machine accepting_sv = ''A''" "sv_storage accepting_sv = host_storage sample_world"
  "sv_uuid accepting_sv w = ''v''"
  by (simp_all add: accepting_sv_def idle_sv_def idle_he_def)

lemma accepting_apart: "libvirt_apart accepting_sv" "undefine_apart accepting_sv"
  by (simp_all add: libvirt_apart_def undefine_apart_def accepting_sv_def idle_lv_def)

lemma accepting_define: "\<exists>ss'. define_vm accepting_sv xml u ss = (None, ss')"
  by (auto simp: define_vm_def Define_domain_def accepting_sv_def idle_lv_def idle_he_def split: prod.split)

lemma accepting_To_xml: "sv_To_xml accepting_sv (sample_vmdef 2 2) u = Inr ''<domain/>''"
proof -
  have v: "vmdef_valid (sample_vmdef 2 2)" by (rule sample_vmdef_valid) (simp_all add: word_sle_eq)
  obtain features where "domain_features ''x86_64'' = Some features" by (simp add: domain_features_def)
  from to_domain_valid[where marshal = "\<lambda>m. Inr ''<vm/>''", OF v this HOL.refl, of "se_md5 (host_storage sample_world)" u]
  obtain d where "to_domain (se_md5 (host_storage sample_world)) ''x86_64'' (\<lambda>m. Inr ''<vm/>'') (sample_vmdef 2 2) u = Inr d" by blast
  then show ?thesis by (simp add: sv_To_xml_def To_xml_def rbind_def) (simp add: accepting_sv_def idle_sv_def rbind_def)
qed


end
