(* ===== verification/Spec2Isabelle.thy ===== *)
theory Spec2Isabelle
  imports Model Sbinary_Props Search Serfcomm Vmreg Cloudinit_Props Hypervisor_Props Vmdef_Xml_Props Client_Props Lockdir Daemon Virtx_History
begin

text \<open>
  VirtX, a cluster manager for virtual machines: a verification library for its Go sources.

  \<^bold>\<open>The program.\<close> Every host of a cluster runs the daemon \<open>virtxd\<close>. It talks to the local libvirt
  (\<open>pkg/hypervisor\<close>), keeps an inventory of all hosts and machines (\<open>pkg/inventory\<close>) that it fills
  from the gossip of the other hosts (\<open>pkg/serfcomm\<close>, messages in the format of
  \<open>pkg/encoding/sbinary\<close>), and serves a REST interface (\<open>pkg/virtx\<close>, \<open>pkg/httpx\<close>, data model
  \<open>pkg/model\<close>). Disks lie on shared storage; a machine that uses one holds its lease
  (\<open>pkg/lockman\<close>, on sanlock), so that no two hosts run machines on the same disk. Definitions are
  translated to and from libvirt domains by \<open>pkg/vmdef\<close> and filed in the registry directory by
  \<open>pkg/vmreg\<close>; \<open>pkg/storage\<close> and \<open>pkg/cloudinit\<close> make and remove disks under their leases.

  \<^bold>\<open>Theories.\<close>
  \<^item> \<open>Prelude\<close>: errors (\<open>gerr\<close>), results, strings, decimal numbers, byte order, and the locales for
    machines that keep an invariant or a measure. \<open>Paths\<close>, \<open>Files\<close>, \<open>Scan\<close>: what the sources use
    of \<open>path/filepath\<close>, \<open>os\<close> and \<open>fmt.Sscanf\<close>.
  \<^item> \<open>Model\<close>: the enumerations, structs and operation tables of \<open>pkg/model\<close>; printers and parsers
    meet the contract \<open>enum_codec\<close>.
  \<^item> \<open>Sbinary\<close>, \<open>Sbinary_Props\<close>: \<open>Encode\<close> and \<open>Decode\<close> with offsets and errors; a reference encoding,
    the round trip, and the rejection of every proper prefix.
  \<^item> \<open>Inventory\<close>, \<open>Search\<close>: the two maps of hosts and machines and the two searches; consistency and
    monotonicity over all sequences of operations, and what is found.
  \<^item> \<open>Serfcomm\<close>: sending and receiving of hosts, machines and events; a round on another host
    refines the direct update, and no bytes break the inventory.
  \<^item> \<open>Vmreg\<close>: the registry on a file system with failing calls; atomic replacement and the
    refinement to a map from hosts and machines to definitions.
  \<^item> \<open>Lockman\<close>, \<open>Lockman_Props\<close>, \<open>Lockman_Create\<close>: joining the lockspace, the owner block of a lease
    (with \<open>cmd/virtx-check-lvb\<close>), the names of leases, and the protocol by which concurrent
    processes create and delete leases, as an interleaving of their system calls.
  \<^item> \<open>Lease_Store\<close>: the contract of leases as a locale, interpreted on the lock directory; its
    clients are \<open>Storage\<close>, \<open>Storage_Props\<close> (creating, updating, rolling back and deleting the disks of
    a machine) and \<open>Cloudinit\<close>, \<open>Cloudinit_Props\<close> (the seed image).
  \<^item> \<open>Vmdef\<close>, \<open>Vmdef_Xml\<close>, \<open>Vmdef_Xml_Props\<close>: validation of definitions and both directions of the
    translation; a valid definition is found again in its domain, and no device is named twice.
  \<^item> \<open>Oplog\<close>, \<open>Domain\<close>, \<open>Domain_Props\<close>: the operations on domains, the log of operations kept in
    the metadata of a domain (a map from operations to entries), and the registry.
  \<^item> \<open>Systeminfo\<close>, \<open>Systeminfo_Props\<close>, \<open>Hypervisor\<close>, \<open>Hypervisor_Props\<close>: counters and resources of
    host and machines, the removal of ghosts, connecting to libvirt and the lifecycle callback.
  \<^item> \<open>Httpx\<close>, \<open>Virtx\<close>, \<open>Virtx_Props\<close>, \<open>Cluster\<close>: bodies, requests and answers; the routes and every
    handler; what a refused request leaves behind, and that a host forwards to the owner, once.
  \<^item> \<open>Client\<close>, \<open>Client_Props\<close>: commands and flags of \<open>cmd/virtx\<close>, the requests, what \<open>main\<close> does with
    the answer; every command reaches the handler of its name.
  \<^item> \<open>Json\<close>, \<open>Json_Props\<close>, \<open>Json_Model\<close>: what the sources use of \<open>encoding/json\<close>, from the bytes of a text to
    the fields of a struct; the names and types of the structs of \<open>pkg/model\<close> with the generated
    \<open>UnmarshalJSON\<close>; what is encoded is decoded again, and no body gives an enumeration a value it
    does not have. The handlers take the decoders and encoders as the record \<open>json\<close>, whose value for
    these structs is \<open>model_json\<close>.
  \<^item> \<open>Lockdir\<close>, \<open>Serf_Conn\<close>, \<open>Daemon\<close>: creating the lockspace by concurrent hosts, the one connection
    to serf, and \<open>cmd/virtxd\<close> bringing the packages up and down.
  \<^item> \<open>Storage_History\<close>, \<open>Virtx_History\<close>: the requests of all hosts on the shared storage as a step
    relation; no two machines ever hold a disk of their definitions together, and the handlers only
    take such steps.

  \<^bold>\<open>Interfaces.\<close> Each contract one part relies on is a locale with an interpretation on the model:
  \<open>enum_codec\<close> (printers and parsers), \<open>invariant_system\<close> and \<open>monotone_system\<close> (operations under the
  lock of a package), \<open>wire_codec\<close> (gossip messages), \<open>lease_store\<close> with its clients \<open>storage_client\<close> and
  \<open>storage_rollback\<close> (leases and the calls on storage), and \<open>consuming\<close> (the scanner of JSON values).

  \<^bold>\<open>Correspondence.\<close> A Go function is a definition of the same name; where two packages use one
  name the package comes first (\<open>storage_Create\<close>). A struct is a record, an \<open>int16\<close> enumeration is a
  \<open>16 word\<close> with abbreviations for its constants, since JSON and the wire can carry any value; a map
  is a partial function; what a call changes through a pointer or in a package variable is passed
  in and returned; an \<open>error\<close> is \<open>gerr option\<close> or the left of a sum, and a run-time panic is the error
  \<open>Panic\<close>. Strings are lists of bytes. Logging is left out.

  \<^bold>\<open>Bounds and fuel.\<close> Loops are structural or have a measure. The retry of \<open>lm_init_lockdir\<close> ends after
  at most eight calls; a JSON text may be nested 10000 levels deep, the limit of the package, and every
  turn of the loops of its scanner takes at least one byte; forwarding is a \<open>partial_function\<close> that is
  shown to end at the second host. The retries of \<open>lockman.Init\<close> count down from the limits of the
  code; a read or write that is repeated takes what happens to it before it completes as a list.

  \<^bold>\<open>Parameters.\<close> Code outside \<open>src/\<close> is a parameter: libvirt (the record \<open>libvirt\<close> over a state of the
  world), sanlock, the serf client, \<open>qemu-img\<close> and \<open>xorrisofs\<close>, MD5, \<open>encoding/xml\<close>, the
  clock, the text of a floating-point number, and each failure of a system call. What is assumed of one is a named
  definition in the statement (\<open>metadata_kept\<close>, \<open>calls_keep\<close>, \<open>migration_moves\<close>, \<open>callback_laws\<close>,
  \<open>rpc_laws\<close>, \<open>daemon_laws\<close>, \<open>libvirt_apart\<close>, \<open>undefine_apart\<close>, \<open>arg_storable\<close>) with a witness.

  \<^bold>\<open>Not modelled.\<close> The tables the client prints; the parsing of flags inside cobra; white space outside
  ASCII; the percent encoding and the redirects of the request multiplexer; goroutines and timers
  beyond the steps given for them; logging, time stamps and the name of the machine
  (\<open>pkg/logger\<close>, \<open>pkg/ts\<close>, \<open>pkg/machine\<close>), which only call the system; the generated accessors of
  \<open>pkg/model\<close>, which nothing calls; tests.
\<close>

end
